(* ===== verification/Envbank_Prelude.thy ===== *)
theory Envbank_Prelude
  imports Main "HOL-Library.State_Monad" "HOL-Library.Char_ord" "HOL-Library.List_Lexorder"
begin

text \<open>
  Shared vocabulary of the development: Go's \<^verbatim>\<open>int64\<close> arithmetic written out on \<open>int\<close>, keyed
  lookup and update in tables held as lists of rows, and the collections of rules
  (\<open>table_simps\<close>, \<open>wp_rules\<close>, \<open>wp_iota\<close>, \<open>run_rules\<close>) that the component proofs are
  driven by. A Go \<^verbatim>\<open>string\<close> and a Go \<^verbatim>\<open>[]byte\<close> are both a \<open>string\<close>, that is a list of
  8-bit characters: Go's \<^verbatim>\<open>len\<close> and indexing count bytes, as \<open>length\<close> and \<open>nth\<close> do here.
\<close>

named_theorems table_simps \<open>how row selectors see table updates\<close>
named_theorems wp_rules \<open>backward rules of the weakest-precondition calculus\<close>
named_theorems wp_iota \<open>backward rules for branches whose outcome is known\<close>
named_theorems run_rules \<open>effects of the service's subprograms on a running transaction\<close>

type_synonym bytes = string

section \<open>Signed 64-bit arithmetic\<close>

definition max_i64 :: int where
  "max_i64 = 2 ^ 63 - 1"

definition min_i64 :: int where
  "min_i64 = - (2 ^ 63)"

text \<open>The two's complement wrap-around of a Go \<^verbatim>\<open>int64\<close> result.\<close>

definition i64 :: "int \<Rightarrow> int" where
  "i64 x = (x + 2 ^ 63) mod 2 ^ 64 - 2 ^ 63"

lemma i64_id: "min_i64 \<le> x \<Longrightarrow> x \<le> max_i64 \<Longrightarrow> i64 x = x"
  by (simp add: i64_def min_i64_def max_i64_def)

lemma i64_range: "min_i64 \<le> i64 x \<and> i64 x \<le> max_i64"
proof -
  have "0 \<le> (x + 2 ^ 63) mod (2 ^ 64 :: int)" and "(x + 2 ^ 63) mod (2 ^ 64 :: int) < 2 ^ 64"
    by simp_all
  then show ?thesis by (simp add: i64_def min_i64_def max_i64_def)
qed

lemma i64_1 [simp]: "i64 1 = 1"
  by (simp add: i64_def)

lemma i64_max_wraps: "i64 (max_i64 + 1) = min_i64"
  by (simp add: i64_def max_i64_def min_i64_def)

section \<open>Tables as lists of rows\<close>

text \<open>
  \<open>lookup_by p rows\<close> is the row a query for a primary key returns; \<open>update_where p f rows\<close>
  and \<open>delete_where p rows\<close> are SQL's UPDATE and DELETE with their row counts.
\<close>

definition update_where :: "('r \<Rightarrow> bool) \<Rightarrow> ('r \<Rightarrow> 'r) \<Rightarrow> 'r list \<Rightarrow> 'r list" where
  "update_where p f rows = map (\<lambda>r. if p r then f r else r) rows"

definition delete_where :: "('r \<Rightarrow> bool) \<Rightarrow> 'r list \<Rightarrow> 'r list" where
  "delete_where p rows = filter (\<lambda>r. \<not> p r) rows"

definition count_where :: "('r \<Rightarrow> bool) \<Rightarrow> 'r list \<Rightarrow> nat" where
  "count_where p rows = length (filter p rows)"

lemma find_None_update_where [table_simps]:
  "(\<And>r. q (f r) = q r) \<Longrightarrow> find q (update_where p f rows) = map_option (\<lambda>r. if p r then f r else r) (find q rows)"
  by (induction rows) (auto simp: update_where_def)

lemma set_update_where [table_simps]:
  "r \<in> set (update_where p f rows) \<longleftrightarrow>
    (\<exists>r0 \<in> set rows. r = (if p r0 then f r0 else r0))"
  by (auto simp: update_where_def)

lemma ball_update_where [table_simps]:
  "(\<forall>r\<in>set (update_where p f rows). P r) \<longleftrightarrow> (\<forall>r\<in>set rows. P (if p r then f r else r))"
  by (auto simp: update_where_def)

lemma set_delete_where [table_simps]:
  "r \<in> set (delete_where p rows) \<longleftrightarrow> r \<in> set rows \<and> \<not> p r"
  by (auto simp: delete_where_def)

lemma map_update_where [table_simps]:
  "(\<And>r. g (f r) = g r) \<Longrightarrow> map g (update_where p f rows) = map g rows"
  by (induction rows) (auto simp: update_where_def)

lemma image_update_where [table_simps]:
  "(\<And>r. g (f r) = g r) \<Longrightarrow> g ` set (update_where p f rows) = g ` set rows"
  using map_update_where [of g f p rows] by (metis set_map)

lemma map_if_filter_delete_where [table_simps]:
  "distinct (map g rows) \<Longrightarrow> distinct (map g (delete_where p rows))"
  by (simp add: delete_where_def distinct_map_filter)

lemma count_where_update_eq:
  "(\<And>r. p r \<Longrightarrow> q (f r) = q r) \<Longrightarrow> count_where q (update_where p f rows) = count_where q rows"
  by (induction rows) (auto simp: count_where_def update_where_def)

lemma count_where_append [simp]:
  "count_where p (xs @ ys) = count_where p xs + count_where p ys"
  by (simp add: count_where_def)

lemma count_where_Nil [simp]: "count_where p [] = 0"
  by (simp add: count_where_def)

lemma count_where_Cons [simp]:
  "count_where p (x # xs) = (if p x then Suc (count_where p xs) else count_where p xs)"
  by (simp add: count_where_def)

lemma count_where_pos: "0 < count_where p xs \<longleftrightarrow> (\<exists>x \<in> set xs. p x)"
  by (induction xs) auto

lemma count_where_delete_le: "count_where q (delete_where p rows) \<le> count_where q rows"
  by (induction rows) (auto simp: delete_where_def)

lemma count_where_zero: "count_where p xs = 0 \<longleftrightarrow> (\<forall>x\<in>set xs. \<not> p x)"
  by (induction xs) auto

text \<open>An update that takes rows out of the class \<open>q\<close>.\<close>

lemma count_where_update_out:
  "(\<And>r. p r \<Longrightarrow> q r) \<Longrightarrow> (\<And>r. p r \<Longrightarrow> \<not> q (f r)) \<Longrightarrow>
    count_where q (update_where p f rows) + count_where p rows = count_where q rows"
  by (induction rows) (auto simp: update_where_def)

lemma find_SomeD: "find p xs = Some x \<Longrightarrow> x \<in> set xs \<and> p x"
  by (auto simp: find_Some_iff)

lemma find_distinct_key:
  "distinct (map k rows) \<Longrightarrow> r \<in> set rows \<Longrightarrow> find (\<lambda>r'. k r' = k r) rows = Some r"
  by (induction rows) (auto simp: image_iff)

lemma distinct_key_eq:
  "distinct (map k rows) \<Longrightarrow> a \<in> set rows \<Longrightarrow> b \<in> set rows \<Longrightarrow> k a = k b \<Longrightarrow> a = b"
  by (simp add: distinct_map inj_on_def)

text \<open>With a unique key, a statement on one key changes one row or none.\<close>

lemma count_where_unique_key:
  "distinct (map k rows) \<Longrightarrow> (\<And>r. p r \<Longrightarrow> k r = x) \<Longrightarrow> count_where p rows \<le> 1"
proof (induction rows)
  case (Cons r rows)
  have "count_where p rows = 0" if "p r"
    using Cons.prems that by (fastforce simp: count_where_zero image_iff)
  with Cons show ?case by auto
qed simp

lemma update_where_none: "count_where p rows = 0 \<Longrightarrow> update_where p f rows = rows"
  by (auto simp: count_where_zero update_where_def intro: map_idI)

lemma update_where_unchanged:
  assumes "distinct (map k rows)" "\<And>r. p r \<Longrightarrow> k r = x" "count_where p rows \<noteq> 1"
  shows "update_where p f rows = rows"
  using count_where_unique_key [of k rows p x, OF assms(1,2)] assms(3) by (intro update_where_none) simp

end
