(* ===== verification/Go_Text.thy ===== *)
theory Go_Text
  imports Envbank_Prelude
begin

text \<open>
  The string functions of Go's standard library that the sources call, on byte lists:
  \<^verbatim>\<open>strings.TrimSpace\<close>, \<^verbatim>\<open>strings.Trim\<close>, \<^verbatim>\<open>strings.Split\<close>, \<^verbatim>\<open>strings.HasPrefix\<close>,
  \<^verbatim>\<open>unicode.IsControl\<close> through \<^verbatim>\<open>strings.IndexFunc\<close>, \<^verbatim>\<open>strconv.Atoi\<close>, \<^verbatim>\<open>sort.Strings\<close> and the
  anchored character-class patterns of the sources' regular expressions.
\<close>

section \<open>Prefixes, splitting, joining\<close>

definition has_prefix :: "string \<Rightarrow> string \<Rightarrow> bool" where
  "has_prefix p s \<longleftrightarrow> take (length p) s = p"

definition has_suffix :: "string \<Rightarrow> string \<Rightarrow> bool" where
  "has_suffix p s \<longleftrightarrow> has_prefix (rev p) (rev s)"

lemma has_prefix_append [simp]: "has_prefix p (p @ s)"
  by (simp add: has_prefix_def)

lemma has_prefix_iff: "has_prefix p s \<longleftrightarrow> (\<exists>t. s = p @ t)"
  by (metis append_eq_conv_conj append_take_drop_id has_prefix_def)

text \<open>\<^verbatim>\<open>strings.Split(s, sep)\<close> for a one-byte separator: never an empty result.\<close>

fun split_on :: "char \<Rightarrow> string \<Rightarrow> string list" where
  "split_on c [] = [[]]"
| "split_on c (x # xs) =
     (if x = c then [] # split_on c xs
      else case split_on c xs of [] \<Rightarrow> [[x]] | p # ps \<Rightarrow> (x # p) # ps)"

fun join_with :: "string \<Rightarrow> string list \<Rightarrow> string" where
  "join_with sep [] = []"
| "join_with sep [x] = x"
| "join_with sep (x # y # ys) = x @ sep @ join_with sep (y # ys)"

lemma split_on_nonempty [simp]: "split_on c s \<noteq> []"
  by (cases s) (auto split: list.splits)

lemma join_split [simp]: "join_with [c] (split_on c s) = s"
proof (induction c s rule: split_on.induct)
  case (1 c)
  show ?case by simp
next
  case (2 c x xs)
  then show ?case
    by (cases "split_on c xs"; cases "tl (split_on c xs)") (auto split: list.splits)
qed

lemma split_no_sep: "c \<notin> set s \<Longrightarrow> split_on c s = [s]"
  by (induction s) auto

lemma split_append_sep: "c \<notin> set s \<Longrightarrow> split_on c (s @ c # t) = s # split_on c t"
  by (induction s) auto

lemma split_join:
  "ps \<noteq> [] \<Longrightarrow> \<forall>p \<in> set ps. c \<notin> set p \<Longrightarrow> split_on c (join_with [c] ps) = ps"
proof (induction ps rule: induct_list012)
  case (3 x y zs)
  then show ?case by (simp add: split_append_sep)
qed (simp_all add: split_no_sep)

text \<open>\<^verbatim>\<open>strings.Trim(s, cutset)\<close> for a one-byte cutset.\<close>

definition trim_char :: "char \<Rightarrow> string \<Rightarrow> string" where
  "trim_char c s = rev (dropWhile ((=) c) (rev (dropWhile ((=) c) s)))"

section \<open>White space and control characters in UTF-8 text\<close>

text \<open>The UTF-8 encodings of the code points \<^verbatim>\<open>unicode.IsSpace\<close> accepts.\<close>

definition space_codes :: "string list" where
  "space_codes = map (map char_of)
     ([[9], [10], [11], [12], [13], [32], [194, 133], [194, 160], [225, 154, 128],
       [226, 128, 168], [226, 128, 169], [226, 128, 175], [226, 129, 159], [227, 128, 128],
       [226, 128, 128], [226, 128, 129], [226, 128, 130], [226, 128, 131], [226, 128, 132],
       [226, 128, 133], [226, 128, 134], [226, 128, 135], [226, 128, 136], [226, 128, 137],
       [226, 128, 138]] :: nat list list)"

function trim_codes :: "string list \<Rightarrow> string \<Rightarrow> string" where
  "trim_codes cs s =
     (case find (\<lambda>w. w \<noteq> [] \<and> has_prefix w s) cs of
        None \<Rightarrow> s
      | Some w \<Rightarrow> trim_codes cs (drop (length w) s))"
  by pat_completeness auto
termination
proof (relation "measure (\<lambda>(cs, s). length s)", simp)
  fix cs :: "string list" and s w :: string
  assume "find (\<lambda>w. w \<noteq> [] \<and> has_prefix w s) cs = Some w"
  then have "w \<noteq> []" "has_prefix w s" by (auto dest: find_SomeD)
  then show "((cs, drop (length w) s), cs, s) \<in> measure (\<lambda>(cs, s). length s)"
    by (auto simp: has_prefix_iff)
qed

declare trim_codes.simps [simp del]

lemma trim_codes_suffix: "\<exists>t. s = t @ trim_codes cs s"
proof (induction cs s rule: trim_codes.induct)
  case (1 cs s)
  show ?case
  proof (cases "find (\<lambda>w. w \<noteq> [] \<and> has_prefix w s) cs")
    case None
    then show ?thesis by (simp add: trim_codes.simps [of cs s])
  next
    case (Some w)
    from 1 [OF Some] obtain t where t: "drop (length w) s = t @ trim_codes cs (drop (length w) s)"
      by blast
    have "s = take (length w) s @ t @ trim_codes cs (drop (length w) s)"
      by (metis t append_take_drop_id)
    with Some show ?thesis
      by (simp add: trim_codes.simps [of cs s]) (metis append_assoc)
  qed
qed

definition trim_space :: "string \<Rightarrow> string" where
  "trim_space s = rev (trim_codes (map rev space_codes) (rev (trim_codes space_codes s)))"

lemma length_trim_codes: "length (trim_codes cs s) \<le> length s"
  by (metis le_add2 length_append trim_codes_suffix)

lemma length_trim_space: "length (trim_space s) \<le> length s"
  by (metis length_rev length_trim_codes order_trans trim_space_def)

text \<open>
  Some code point of the text is a control character: a byte below 32, byte 127, or the pair
  C2 80 .. C2 9F. These byte patterns occur in UTF-8 text exactly as those code points.
\<close>

fun has_control :: "string \<Rightarrow> bool" where
  "has_control [] = False"
| "has_control (c # cs) =
     ((of_char c :: nat) < 32 \<or> (of_char c :: nat) = 127 \<or>
      (of_char c :: nat) = 194 \<and>
        (case cs of [] \<Rightarrow> False | d # _ \<Rightarrow> 128 \<le> (of_char d :: nat) \<and> (of_char d :: nat) < 160) \<or>
      has_control cs)"

section \<open>Decimal numbers\<close>

definition digit_val :: "char \<Rightarrow> nat option" where
  "digit_val c =
     (let n = of_char c :: nat in if 48 \<le> n \<and> n \<le> 57 then Some (n - 48) else None)"

definition digit_char :: "nat \<Rightarrow> char" where
  "digit_char n = char_of (48 + n)"

lemma digit_val_char [simp]: "n < 10 \<Longrightarrow> digit_val (digit_char n) = Some n"
  by (simp add: digit_val_def digit_char_def)

fun digits_val :: "nat \<Rightarrow> string \<Rightarrow> nat option" where
  "digits_val acc [] = Some acc"
| "digits_val acc (c # cs) =
     (case digit_val c of None \<Rightarrow> None | Some d \<Rightarrow> digits_val (10 * acc + d) cs)"

text \<open>\<^verbatim>\<open>strconv.Atoi\<close> on a 64-bit platform.\<close>

definition atoi :: "string \<Rightarrow> int option" where
  "atoi s =
     (let (neg, ds) = (case s of [] \<Rightarrow> (False, [])
                       | c # cs \<Rightarrow> if c = CHR ''-'' then (True, cs)
                                  else if c = CHR ''+'' then (False, cs) else (False, s))
      in if ds = [] then None
         else case digits_val 0 ds of
           None \<Rightarrow> None
         | Some n \<Rightarrow>
             (let v = (if neg then - int n else int n)
              in if min_i64 \<le> v \<and> v \<le> max_i64 then Some v else None))"

section \<open>Character-class patterns\<close>

definition is_lower :: "char \<Rightarrow> bool" where
  "is_lower c \<longleftrightarrow> CHR ''a'' \<le> c \<and> c \<le> CHR ''z''"

definition is_upper :: "char \<Rightarrow> bool" where
  "is_upper c \<longleftrightarrow> CHR ''A'' \<le> c \<and> c \<le> CHR ''Z''"

definition is_digit :: "char \<Rightarrow> bool" where
  "is_digit c \<longleftrightarrow> CHR ''0'' \<le> c \<and> c \<le> CHR ''9''"

text \<open>\<^verbatim>\<open>^[0-9a-f]{64}$\<close>, the pattern of every digest of the sources.\<close>

definition digest_pattern :: "string \<Rightarrow> bool" where
  "digest_pattern s \<longleftrightarrow>
     length s = 64 \<and> list_all (\<lambda>c. is_digit c \<or> CHR ''a'' \<le> c \<and> c \<le> CHR ''f'') s"

text \<open>\<^verbatim>\<open>^[A-Za-z0-9_.:-]+$\<close>\<close>

definition safe_code :: "string \<Rightarrow> bool" where
  "safe_code s \<longleftrightarrow> s \<noteq> [] \<and>
     list_all (\<lambda>c. is_lower c \<or> is_upper c \<or> is_digit c \<or> c \<in> set ''_.:-'') s"

section \<open>Sorting\<close>

text \<open>\<^verbatim>\<open>sort.Strings\<close>: ascending byte order.\<close>

fun less_string :: "string \<Rightarrow> string \<Rightarrow> bool" where
  "less_string _ [] = False"
| "less_string [] (_ # _) = True"
| "less_string (a # s) (b # t) =
     ((of_char a :: nat) < of_char b \<or> a = b \<and> less_string s t)"

fun insert_string :: "string \<Rightarrow> string list \<Rightarrow> string list" where
  "insert_string x [] = [x]"
| "insert_string x (y # ys) = (if less_string y x then y # insert_string x ys else x # y # ys)"

definition sort_strings :: "string list \<Rightarrow> string list" where
  "sort_strings xs = foldr insert_string xs []"

lemma set_insert_string [simp]: "set (insert_string x ys) = insert x (set ys)"
  by (induction ys) auto

lemma set_sort_strings [simp]: "set (sort_strings xs) = set xs"
  by (induction xs) (simp_all add: sort_strings_def)

lemma distinct_insert_string [simp]: "distinct (insert_string x ys) \<longleftrightarrow> distinct (x # ys)"
  by (induction ys) auto

lemma distinct_sort_strings [simp]: "distinct (sort_strings xs) \<longleftrightarrow> distinct xs"
proof (induction xs)
  case (Cons x xs)
  have "sort_strings (x # xs) = insert_string x (sort_strings xs)" by (simp add: sort_strings_def)
  with Cons show ?case by simp
qed (simp add: sort_strings_def)

end
