(* ===== verification/Go_Base64.thy ===== *)
theory Go_Base64
  imports Go_Text
begin

text \<open>
  \<^verbatim>\<open>base64.RawURLEncoding\<close>, the unpadded URL alphabet the sources use everywhere
  (\<^verbatim>\<open>secure.encode\<close>, \<^verbatim>\<open>secure.decode\<close>, request nonces, page cursors). Go's decoder is not
  strict: it skips carriage returns and line feeds and ignores the unused low bits of the last
  sextet, which is why the sources re-encode and compare where they need a canonical text.
\<close>

definition b64_char :: "nat \<Rightarrow> char" where
  "b64_char n =
     char_of (if n < 26 then n + 65 else if n < 52 then n + 71 else if n < 62 then n - 4
              else if n = 62 then 45 else 95)"

definition b64_val :: "char \<Rightarrow> nat option" where
  "b64_val c =
     (let n = of_char c :: nat in
      if 65 \<le> n \<and> n \<le> 90 then Some (n - 65)
      else if 97 \<le> n \<and> n \<le> 122 then Some (n - 71)
      else if 48 \<le> n \<and> n \<le> 57 then Some (n + 4)
      else if n = 45 then Some 62
      else if n = 95 then Some 63
      else None)"

fun to_sextets :: "nat list \<Rightarrow> nat list" where
  "to_sextets [] = []"
| "to_sextets [a] = [a div 4, (a mod 4) * 16]"
| "to_sextets [a, b] = [a div 4, (a mod 4) * 16 + b div 16, (b mod 16) * 4]"
| "to_sextets (a # b # c # r) =
     a div 4 # ((a mod 4) * 16 + b div 16) # ((b mod 16) * 4 + c div 64) # (c mod 64) # to_sextets r"

fun from_sextets :: "nat list \<Rightarrow> nat list option" where
  "from_sextets [] = Some []"
| "from_sextets [x] = None"
| "from_sextets [x, y] = Some [x * 4 + y div 16]"
| "from_sextets [x, y, z] = Some [x * 4 + y div 16, (y mod 16) * 16 + z div 4]"
| "from_sextets (x # y # z # w # r) =
     map_option (\<lambda>t. (x * 4 + y div 16) # ((y mod 16) * 16 + z div 4) # ((z mod 4) * 64 + w) # t)
       (from_sextets r)"

fun sextet_vals :: "string \<Rightarrow> nat list option" where
  "sextet_vals [] = Some []"
| "sextet_vals (c # cs) =
     (case b64_val c of None \<Rightarrow> None | Some v \<Rightarrow> map_option ((#) v) (sextet_vals cs))"

definition b64_encode :: "bytes \<Rightarrow> string" where
  "b64_encode bs = map b64_char (to_sextets (map of_char bs))"

definition b64_decode :: "string \<Rightarrow> bytes option" where
  "b64_decode s =
     (case sextet_vals (filter (\<lambda>c. c \<noteq> CHR 0x0A \<and> c \<noteq> CHR 0x0D) s) of
        None \<Rightarrow> None
      | Some vs \<Rightarrow> map_option (map char_of) (from_sextets vs))"

section \<open>Encoding then decoding\<close>

lemma b64_val_char [simp]: "n < 64 \<Longrightarrow> b64_val (b64_char n) = Some n"
  by (auto simp: b64_val_def b64_char_def Let_def)

lemma b64_val_newline: "b64_val (CHR 0x0A) = None" "b64_val (CHR 0x0D) = None"
  by (simp_all add: b64_val_def)

lemma b64_char_not_newline: "n < 64 \<Longrightarrow> b64_char n \<noteq> CHR 0x0A \<and> b64_char n \<noteq> CHR 0x0D"
  by (metis b64_val_char b64_val_newline option.distinct(1))

lemma to_sextets_bound: "\<forall>x \<in> set bs. x < 256 \<Longrightarrow> \<forall>v \<in> set (to_sextets bs). v < 64"
  by (induction bs rule: to_sextets.induct) auto

lemma from_to_sextets: "\<forall>x \<in> set bs. x < 256 \<Longrightarrow> from_sextets (to_sextets bs) = Some bs"
  by (induction bs rule: to_sextets.induct) auto

lemma sextet_vals_chars: "\<forall>v \<in> set vs. v < 64 \<Longrightarrow> sextet_vals (map b64_char vs) = Some vs"
  by (induction vs) auto

lemma of_char_bytes: "\<forall>x \<in> set (map (of_char :: char \<Rightarrow> nat) bs). x < 256"
  by auto

lemma b64_decode_encode [simp]: "b64_decode (b64_encode bs) = Some bs"
proof -
  let ?v = "to_sextets (map of_char bs)"
  have b: "\<forall>v \<in> set ?v. v < 64"
    using of_char_bytes by (rule to_sextets_bound)
  have "filter (\<lambda>c. c \<noteq> CHR 0x0A \<and> c \<noteq> CHR 0x0D) (map b64_char ?v) = map b64_char ?v"
    using b b64_char_not_newline by (auto simp: filter_id_conv)
  then show ?thesis
    using sextet_vals_chars [OF b] from_to_sextets [OF of_char_bytes, of bs]
    by (simp add: b64_decode_def b64_encode_def comp_def)
qed

lemma b64_encode_inject: "b64_encode a = b64_encode b \<longleftrightarrow> a = b"
  by (metis b64_decode_encode option.inject)

text \<open>The test the sources use for canonical encodings of a given length.\<close>

definition canonical_b64 :: "nat \<Rightarrow> string \<Rightarrow> bool" where
  "canonical_b64 n s \<longleftrightarrow>
     (case b64_decode s of None \<Rightarrow> False | Some raw \<Rightarrow> length raw = n \<and> b64_encode raw = s)"

lemma canonical_b64_iff: "canonical_b64 n s \<longleftrightarrow> (\<exists>raw. length raw = n \<and> s = b64_encode raw)"
  by (auto simp: canonical_b64_def split: option.splits)

end
