(* ===== verification/Go_Time.thy ===== *)
theory Go_Time
  imports Go_Text
begin

text \<open>
  Go's \<^verbatim>\<open>time\<close> package as the sources use it. An instant (\<^verbatim>\<open>time.Time\<close>) is an \<open>int\<close>, the
  number of nanoseconds since the Unix epoch. \<^verbatim>\<open>t.UTC().Format(time.RFC3339)\<close> drops the
  fraction: \<open>to_secs t\<close> is the second it denotes, \<open>format_rfc3339\<close> its text for the years
  0 to 9999. Columns that only ever hold texts the service formatted itself are modelled by
  that second: on such texts string order and string equality are those of the seconds.
  \<open>parse_canonical\<close> is the test \<^verbatim>\<open>t, err := time.Parse(time.RFC3339, s); err == nil &&
  t.UTC().Format(time.RFC3339) == s\<close> that the sources apply to timestamps from outside.
\<close>

definition second :: int where
  "second = 1000000000"

definition minute :: int where
  "minute = 60 * second"

definition hour :: int where
  "hour = 60 * minute"

definition to_secs :: "int \<Rightarrow> int" where
  "to_secs t = t div second"

lemmas duration_defs = second_def minute_def hour_def

lemma to_secs_mono: "a \<le> b \<Longrightarrow> to_secs a \<le> to_secs b"
  by (simp add: to_secs_def second_def zdiv_mono1)

lemma to_secs_less: "to_secs a < to_secs b \<Longrightarrow> a < b"
  by (meson leD leI to_secs_mono)

section \<open>Durations\<close>

text \<open>
  \<^verbatim>\<open>t.Sub(u)\<close> returns a 64-bit \<^verbatim>\<open>Duration\<close> and saturates where the difference does not
  fit; \<^verbatim>\<open>-d\<close> on a \<^verbatim>\<open>Duration\<close> wraps.
\<close>

definition time_sub :: "int \<Rightarrow> int \<Rightarrow> int" where
  "time_sub t u =
     (let d = t - u in if d < min_i64 then min_i64 else if max_i64 < d then max_i64 else d)"

definition neg_duration :: "int \<Rightarrow> int" where
  "neg_duration d = i64 (- d)"

lemma neg_duration_min: "neg_duration min_i64 = min_i64"
  by (simp add: neg_duration_def i64_def min_i64_def)

lemma neg_duration_id: "min_i64 < d \<Longrightarrow> d \<le> max_i64 \<Longrightarrow> neg_duration d = - d"
  by (simp add: neg_duration_def i64_def min_i64_def max_i64_def)

section \<open>The calendar\<close>

definition leap_year :: "int \<Rightarrow> bool" where
  "leap_year y \<longleftrightarrow> y mod 4 = 0 \<and> (y mod 100 \<noteq> 0 \<or> y mod 400 = 0)"

definition days_in_month :: "int \<Rightarrow> int \<Rightarrow> int" where
  "days_in_month y m =
     (if m = 2 then (if leap_year y then 29 else 28)
      else if m = 4 \<or> m = 6 \<or> m = 9 \<or> m = 11 then 30 else 31)"

text \<open>Days from 1 January of year 0 to 1 January of year \<open>y\<close>, and into the year.\<close>

definition days_before_year :: "int \<Rightarrow> int" where
  "days_before_year y = 365 * y + (y + 3) div 4 - (y + 99) div 100 + (y + 399) div 400"

definition days_before_month :: "int \<Rightarrow> int \<Rightarrow> int" where
  "days_before_month y m =
     ([0, 31, 59, 90, 120, 151, 181, 212, 243, 273, 304, 334] ! nat (m - 1)) +
     (if 2 < m \<and> leap_year y then 1 else 0)"

definition epoch_days :: int where
  "epoch_days = 719528"

definition civil_secs :: "int \<Rightarrow> int \<Rightarrow> int \<Rightarrow> int \<Rightarrow> int \<Rightarrow> int \<Rightarrow> int" where
  "civil_secs y mo d h mi s =
     (days_before_year y + days_before_month y mo + (d - 1) - epoch_days) * 86400 +
     h * 3600 + mi * 60 + s"

lemma days_before_epoch: "civil_secs 1970 1 1 0 0 0 = 0"
  by code_simp

section \<open>Canonical RFC 3339 text\<close>

definition num2 :: "string \<Rightarrow> nat \<Rightarrow> int option" where
  "num2 s i = map_option int (digits_val 0 (take 2 (drop i s)))"

definition num4 :: "string \<Rightarrow> nat \<Rightarrow> int option" where
  "num4 s i = map_option int (digits_val 0 (take 4 (drop i s)))"

definition parse_canonical :: "string \<Rightarrow> int option" where
  "parse_canonical v =
     (if length v = 20 \<and> v ! 4 = CHR ''-'' \<and> v ! 7 = CHR ''-'' \<and> v ! 10 = CHR ''T'' \<and>
         v ! 13 = CHR '':'' \<and> v ! 16 = CHR '':'' \<and> v ! 19 = CHR ''Z'' then
        (case (num4 v 0, num2 v 5, num2 v 8, num2 v 11, num2 v 14, num2 v 17) of
           (Some y, Some mo, Some d, Some h, Some mi, Some s) \<Rightarrow>
             (if 1 \<le> mo \<and> mo \<le> 12 \<and> 1 \<le> d \<and> d \<le> days_in_month y mo \<and>
                 h < 24 \<and> mi < 60 \<and> s < 60
              then Some (civil_secs y mo d h mi s) else None)
         | _ \<Rightarrow> None)
      else None)"

text \<open>The year that day \<open>n\<close> (counted from 1 January of year 0) falls in, and its month.\<close>

definition year_of :: "int \<Rightarrow> int" where
  "year_of n =
     (let y = n * 400 div 146097 in
      if n < days_before_year y then y - 1
      else if days_before_year (y + 1) \<le> n then y + 1 else y)"

definition month_of :: "int \<Rightarrow> int \<Rightarrow> int" where
  "month_of y k =
     (case find (\<lambda>m. days_before_month y m \<le> k) [12, 11, 10, 9, 8, 7, 6, 5, 4, 3, 2] of
        Some m \<Rightarrow> m | None \<Rightarrow> 1)"

definition show2 :: "int \<Rightarrow> string" where
  "show2 n = [digit_char (nat (n div 10)), digit_char (nat (n mod 10))]"

definition show4 :: "int \<Rightarrow> string" where
  "show4 n = show2 (n div 100) @ show2 (n mod 100)"

definition format_rfc3339 :: "int \<Rightarrow> string" where
  "format_rfc3339 t =
     (let n = t div 86400 + epoch_days; r = t mod 86400;
          y = year_of n; mo = month_of y (n - days_before_year y);
          d = n - days_before_year y - days_before_month y mo + 1
      in show4 y @ ''-'' @ show2 mo @ ''-'' @ show2 d @ ''T'' @
         show2 (r div 3600) @ '':'' @ show2 (r mod 3600 div 60) @ '':'' @ show2 (r mod 60) @ ''Z'')"

text \<open>The instants whose year has four digits: 0000-01-01 to 9999-12-31.\<close>

definition four_digit_year :: "int \<Rightarrow> bool" where
  "four_digit_year t \<longleftrightarrow> - epoch_days * 86400 \<le> t \<and> t < (days_before_year 10000 - epoch_days) * 86400"

lemma div_Suc_const:
  fixes y k j :: int
  assumes "0 < k" and j: "j = k - 1"
  shows "(y + 1 + j) div k = (y + j) div k + (if y mod k = 0 then 1 else 0)"
proof -
  have m: "0 \<le> y mod k" "y mod k < k" using assms by simp_all
  have "(y + j) div k = y div k + (y mod k + j) div k"
    using assms div_add1_eq [of y j k]
    by (simp only: div_pos_pos_trivial [of "k - 1" k] mod_pos_pos_trivial [of "k - 1" k])
  moreover have "(y mod k + j) div k = (if y mod k = 0 then 0 else 1)"
  proof (cases "y mod k = 0")
    case True
    then show ?thesis using assms by (simp add: div_pos_pos_trivial)
  next
    case False
    with m have "0 \<le> y mod k - 1" "y mod k - 1 < k" by linarith+
    then have "(y mod k + j) div k = 1"
      using j by (intro int_div_pos_eq [of _ _ _ "y mod k - 1"]) simp_all
    with False show ?thesis by simp
  qed
  moreover have "(y + 1 + j) div k = y div k + 1"
    using assms div_add_self2 [of k y] by simp
  ultimately show ?thesis by simp
qed

lemma leap_year_count:
  "(if leap_year y then 366 else 365 :: int) =
     365 + (if y mod 4 = 0 then 1 else 0) - (if y mod 100 = 0 then 1 else 0) +
     (if y mod 400 = 0 then 1 else 0)"
proof -
  have "y mod 400 = 0 \<longrightarrow> y mod 100 = 0" and "y mod 100 = 0 \<longrightarrow> y mod 4 = 0"
    unfolding mod_eq_0_iff_dvd by (auto intro: dvd_trans [of _ 100] dvd_trans [of _ 400])
  then show ?thesis
    unfolding leap_year_def
    by (cases "y mod 4 = 0"; cases "y mod 100 = 0"; cases "y mod 400 = 0"; simp only: simp_thms if_True if_False; simp only: arith_simps)
qed

lemma days_before_year_Suc:
  "days_before_year (y + 1) = days_before_year y + (if leap_year y then 366 else 365)"
proof -
  have "(y + 1 + 3) div 4 = (y + 3) div 4 + (if y mod 4 = 0 then 1 else 0)"
    and "(y + 1 + 99) div 100 = (y + 99) div 100 + (if y mod 100 = 0 then 1 else 0)"
    and "(y + 1 + 399) div 400 = (y + 399) div 400 + (if y mod 400 = 0 then 1 else 0)"
    by (rule div_Suc_const; simp)+
  moreover have "\<And>a b c a' b' c' p q r :: int. a' = a + p \<Longrightarrow> b' = b + q \<Longrightarrow> c' = c + r \<Longrightarrow>
      365 * (y + 1) + a' - b' + c' = 365 * y + a - b + c + (365 + p - q + r)"
    by simp
  ultimately show ?thesis
    unfolding days_before_year_def leap_year_count by blast
qed

lemma days_before_year_mono: "a \<le> b \<Longrightarrow> days_before_year a \<le> days_before_year b"
proof (induction b rule: int_ge_induct)
  case base
  show ?case by simp
next
  case (step i)
  then show ?case by (simp add: days_before_year_Suc)
qed

lemma days_before_year_bounds_aux:
  fixes y a b c :: int
  assumes "y \<le> 4 * a" "4 * a \<le> y + 3" "y \<le> 100 * b" "100 * b \<le> y + 99"
    "y \<le> 400 * c" "400 * c \<le> y + 399"
  shows "146097 * y - 396 \<le> 400 * (365 * y + a - b + c) \<and>
    400 * (365 * y + a - b + c) \<le> 146097 * y + 699"
  using assms by (simp add: algebra_simps)

lemma ceil_div_bounds:
  fixes y k :: int
  assumes "0 < k"
  shows "y \<le> k * ((y + (k - 1)) div k)" "k * ((y + (k - 1)) div k) \<le> y + (k - 1)"
proof -
  have "k * ((y + (k - 1)) div k) = y + (k - 1) - (y + (k - 1)) mod k"
    by (simp only: minus_mod_eq_mult_div)
  moreover have "0 \<le> (y + (k - 1)) mod k" "(y + (k - 1)) mod k < k"
    using assms by simp_all
  ultimately show "y \<le> k * ((y + (k - 1)) div k)" "k * ((y + (k - 1)) div k) \<le> y + (k - 1)"
    by linarith+
qed

lemma days_before_year_bounds:
  "146097 * y - 396 \<le> 400 * days_before_year y \<and> 400 * days_before_year y \<le> 146097 * y + 699"
  unfolding days_before_year_def
  using ceil_div_bounds [of 4 y] ceil_div_bounds [of 100 y] ceil_div_bounds [of 400 y]
  by (intro days_before_year_bounds_aux) simp_all

lemma year_guess_aux:
  fixes n y p q :: int
  assumes "146097 * y \<le> 400 * n" "400 * n < 146097 * y + 146097"
    "400 * p \<le> 146097 * (y - 1) + 699" "146097 * (y + 2) - 396 \<le> 400 * q"
  shows "p \<le> n \<and> n < q"
  using assms by (simp add: algebra_simps)

lemma year_of_bounds: "days_before_year (year_of n) \<le> n" "n < days_before_year (year_of n + 1)"
proof -
  define y where "y = n * 400 div 146097"
  have "146097 * y = n * 400 - (n * 400) mod 146097"
    by (simp only: y_def minus_mod_eq_mult_div)
  moreover have "0 \<le> (n * 400) mod 146097" "(n * 400) mod 146097 < 146097"
    by simp_all
  ultimately have "146097 * y \<le> 400 * n" "400 * n < 146097 * y + 146097"
    by linarith+
  then have b: "days_before_year (y - 1) \<le> n" "n < days_before_year (y + 2)"
    using days_before_year_bounds [of "y - 1"] days_before_year_bounds [of "y + 2"]
    by (auto dest: year_guess_aux [of y n "days_before_year (y - 1)" "days_before_year (y + 2)"])
  have "year_of n =
      (if n < days_before_year y then y - 1 else if days_before_year (y + 1) \<le> n then y + 1 else y)"
    by (simp add: year_of_def y_def Let_def)
  then show "days_before_year (year_of n) \<le> n" and "n < days_before_year (year_of n + 1)"
    using b by (auto simp: add.assoc)
qed

lemma year_of_four_digits:
  assumes "0 \<le> n" "n < days_before_year 10000"
  shows "0 \<le> year_of n" "year_of n < 10000"
proof -
  show "0 \<le> year_of n"
  proof (rule ccontr)
    assume "\<not> 0 \<le> year_of n"
    then have "days_before_year (year_of n + 1) \<le> days_before_year 0"
      by (intro days_before_year_mono) simp
    with year_of_bounds(2) [of n] assms(1) show False by (simp add: days_before_year_def)
  qed
  show "year_of n < 10000"
    by (meson assms(2) days_before_year_mono leD leI order_trans year_of_bounds(1))
qed

lemma days_before_month_table:
  "days_before_month y 1 = 0" "days_before_month y 2 = 31"
  "days_before_month y 3 = (if leap_year y then 60 else 59)"
  "days_before_month y 4 = (if leap_year y then 91 else 90)"
  "days_before_month y 5 = (if leap_year y then 121 else 120)"
  "days_before_month y 6 = (if leap_year y then 152 else 151)"
  "days_before_month y 7 = (if leap_year y then 182 else 181)"
  "days_before_month y 8 = (if leap_year y then 213 else 212)"
  "days_before_month y 9 = (if leap_year y then 244 else 243)"
  "days_before_month y 10 = (if leap_year y then 274 else 273)"
  "days_before_month y 11 = (if leap_year y then 305 else 304)"
  "days_before_month y 12 = (if leap_year y then 335 else 334)"
  by (simp_all add: days_before_month_def)

lemma month_of_bounds:
  assumes "0 \<le> k" "k < (if leap_year y then 366 else 365)"
  shows "1 \<le> month_of y k \<and> month_of y k \<le> 12 \<and> days_before_month y (month_of y k) \<le> k \<and>
    k < days_before_month y (month_of y k) + days_in_month y (month_of y k)"
  using assms
  by (cases "leap_year y"; simp add: month_of_def days_before_month_table days_in_month_def)

section \<open>Printing then parsing\<close>

lemma digits_val_show2:
  assumes "k < 100"
  shows "digits_val acc (show2 (int k) @ rest) = digits_val (100 * acc + k) rest"
proof -
  have "show2 (int k) = [digit_char (k div 10), digit_char (k mod 10)]"
    by (simp add: show2_def nat_div_distrib nat_mod_distrib)
  moreover have "k div 10 < 10" using assms by (simp add: div_less_iff_less_mult)
  moreover have "10 * (10 * acc + k div 10) + k mod 10 = 100 * acc + k"
    using div_mult_mod_eq [of k 10] by simp
  ultimately show ?thesis by (simp add: add.commute)
qed

lemma digits_show2: "0 \<le> n \<Longrightarrow> n < 100 \<Longrightarrow> map_option int (digits_val 0 (show2 n)) = Some n"
  using digits_val_show2 [of "nat n" 0 "[]"] by simp

lemma digits_show4:
  assumes "0 \<le> n" "n < 10000"
  shows "map_option int (digits_val 0 (show4 n)) = Some n"
proof -
  define k where "k = nat n"
  have "k < 10000" using assms by (simp add: k_def)
  then have "k div 100 < 100" by (simp add: div_less_iff_less_mult)
  moreover have "show4 n = show2 (int (k div 100)) @ show2 (int (k mod 100)) @ []"
    using assms by (simp add: show4_def k_def zdiv_int zmod_int)
  ultimately have "digits_val 0 (show4 n) = Some (100 * (k div 100) + k mod 100)"
    by (simp only: digits_val_show2 mod_less_divisor zero_less_numeral) simp
  then show ?thesis using assms by (simp add: k_def)
qed

lemma length_show [simp]: "length (show2 n) = 2" "length (show4 n) = 4"
  by (simp_all add: show2_def show4_def)

lemma rfc3339_shape:
  defines "v \<equiv> \<lambda>y mo d h mi s. show4 y @ ''-'' @ show2 mo @ ''-'' @ show2 d @ ''T'' @
         show2 h @ '':'' @ show2 mi @ '':'' @ show2 s @ ''Z''"
  shows "length (v y mo d h mi s) = 20" "v y mo d h mi s ! 4 = CHR ''-''" "v y mo d h mi s ! 7 = CHR ''-''"
    "v y mo d h mi s ! 10 = CHR ''T''" "v y mo d h mi s ! 13 = CHR '':''" "v y mo d h mi s ! 16 = CHR '':''"
    "v y mo d h mi s ! 19 = CHR ''Z''"
    "take 4 (drop 0 (v y mo d h mi s)) = show4 y" "take 2 (drop 5 (v y mo d h mi s)) = show2 mo"
    "take 2 (drop 8 (v y mo d h mi s)) = show2 d" "take 2 (drop 11 (v y mo d h mi s)) = show2 h"
    "take 2 (drop 14 (v y mo d h mi s)) = show2 mi" "take 2 (drop 17 (v y mo d h mi s)) = show2 s"
  by (simp_all add: v_def show2_def show4_def)

lemma parse_shape:
  assumes "0 \<le> y" "y < 10000" "1 \<le> mo" "mo \<le> 12" "1 \<le> d" "d \<le> days_in_month y mo"
    "0 \<le> h" "h < 24" "0 \<le> mi" "mi < 60" "0 \<le> s" "s < 60"
  shows "parse_canonical (show4 y @ ''-'' @ show2 mo @ ''-'' @ show2 d @ ''T'' @
         show2 h @ '':'' @ show2 mi @ '':'' @ show2 s @ ''Z'') = Some (civil_secs y mo d h mi s)"
proof -
  have "d < 100" using assms(6) by (simp add: days_in_month_def split: if_splits)
  with assms show ?thesis
    by (simp only: parse_canonical_def rfc3339_shape num2_def num4_def digits_show2 digits_show4)
      simp
qed

lemma secs_of_day: 
  fixes r :: int
  shows "r div 3600 * 3600 + r mod 3600 div 60 * 60 + r mod 60 = r"
proof -
  have "r mod 3600 mod 60 = r mod 60" by (rule mod_mod_cancel) simp
  then have "r mod 3600 div 60 * 60 + r mod 60 = r mod 3600"
    by (metis div_mult_mod_eq)
  then show ?thesis by (metis add.assoc div_mult_mod_eq)
qed

lemma parse_format_rfc3339:
  assumes "four_digit_year t"
  shows "parse_canonical (format_rfc3339 t) = Some t"
proof -
  define n r where "n = t div 86400 + epoch_days" and "r = t mod 86400"
  define y where "y = year_of n"
  define mo where "mo = month_of y (n - days_before_year y)"
  define d where "d = n - days_before_year y - days_before_month y mo + 1"
  have r: "0 \<le> r" "r < 86400" by (simp_all add: r_def)
  have "0 \<le> n" "n < days_before_year 10000"
    using assms by (auto simp: n_def four_digit_year_def epoch_days_def)
  then have y: "0 \<le> y" "y < 10000" by (simp_all add: y_def year_of_four_digits)
  have k: "0 \<le> n - days_before_year y" "n - days_before_year y < (if leap_year y then 366 else 365)"
    using year_of_bounds [of n] days_before_year_Suc [of y] by (simp_all add: y_def)
  note mo = month_of_bounds [OF k, folded mo_def]
  have hms: "r div 3600 < 24" "0 \<le> r div 3600" "r mod 3600 div 60 < 60" "0 \<le> r mod 3600 div 60"
    using r by (simp_all add: div_less_iff_less_mult)
  have "civil_secs y mo d (r div 3600) (r mod 3600 div 60) (r mod 60) = (n - epoch_days) * 86400 + r"
    using secs_of_day [of r] by (simp add: civil_secs_def d_def)
  also have "\<dots> = t" by (simp add: n_def r_def)
  finally have "civil_secs y mo d (r div 3600) (r mod 3600 div 60) (r mod 60) = t" .
  moreover have "parse_canonical (format_rfc3339 t) =
      Some (civil_secs y mo d (r div 3600) (r mod 3600 div 60) (r mod 60))"
    unfolding format_rfc3339_def Let_def n_def [symmetric] r_def [symmetric] y_def [symmetric]
      mo_def [symmetric] d_def [symmetric]
    using y mo hms by (intro parse_shape) (auto simp: d_def)
  ultimately show ?thesis by simp
qed

end
