(* ===== verification/Sql_Tx.thy ===== *)
theory Sql_Tx
  imports Go_Base64 Go_Time
begin

text \<open>
  Database transactions as programs of a state monad. The \<open>world\<close> holds the durable database,
  the view of the open transaction, and a step counter. The outside is an \<open>host\<close> indexed by
  that counter: \<open>fault\<close> says which SQL statement, commit or body read fails, \<open>clock\<close> what
  \<^verbatim>\<open>time.Now\<close> returns, \<open>rand\<close> what \<^verbatim>\<open>secure.RandomBytes(18)\<close> returns. Every result below holds
  for every host, hence for every placement of failures and every advance of the clock during
  a request. A transaction that is not committed leaves the durable database as it was: the
  sources defer \<^verbatim>\<open>tx.Rollback()\<close> in every handler.

  \<open>wp m Q s\<close> is the weakest precondition of program \<open>m\<close> for postcondition \<open>Q\<close>; the rules in
  \<open>wp_rules\<close> take a program apart backwards.
\<close>

record host =
  fault :: "nat \<Rightarrow> bool"
  clock :: "nat \<Rightarrow> int"
  rand :: "nat \<Rightarrow> bytes option"

record 'd world =
  durable :: 'd
  work :: 'd
  tick :: nat

section \<open>Primitive steps\<close>

definition next_tick :: "'d world \<Rightarrow> 'd world" where
  "next_tick s = s\<lparr>tick := Suc (tick s)\<rparr>"

definition now_utc :: "'o host_scheme \<Rightarrow> ('d world, int) state" where
  "now_utc e = State (\<lambda>s. (clock e (tick s), next_tick s))"

text \<open>\<^verbatim>\<open>randomID\<close>: eighteen random bytes in base64, or no randomness.\<close>

definition randomID :: "'o host_scheme \<Rightarrow> ('d world, string option) state" where
  "randomID e = State (\<lambda>s. (map_option b64_encode (rand e (tick s)), next_tick s))"

text \<open>A SELECT: \<open>None\<close> when the statement or the scan of its rows fails.\<close>

definition query :: "'o host_scheme \<Rightarrow> ('d \<Rightarrow> 'a) \<Rightarrow> ('d world, 'a option) state" where
  "query e f = State (\<lambda>s. (if fault e (tick s) then None else Some (f (work s)), next_tick s))"

text \<open>
  An INSERT, UPDATE or DELETE: \<open>f\<close> gives \<open>None\<close> for a violated constraint, else a result
  (the number of rows affected) and the new view.
\<close>

definition exec :: "'o host_scheme \<Rightarrow> ('d \<Rightarrow> ('a \<times> 'd) option) \<Rightarrow> ('d world, 'a option) state" where
  "exec e f = State (\<lambda>s.
     if fault e (tick s) then (None, next_tick s)
     else case f (work s) of
            None \<Rightarrow> (None, next_tick s)
          | Some (a, d) \<Rightarrow> (Some a, (next_tick s)\<lparr>work := d\<rparr>))"

definition begin_tx :: "'o host_scheme \<Rightarrow> ('d world, bool) state" where
  "begin_tx e = State (\<lambda>s.
     if fault e (tick s) then (False, next_tick s)
     else (True, (next_tick s)\<lparr>work := durable s\<rparr>))"

definition commit_tx :: "'o host_scheme \<Rightarrow> ('d world, bool) state" where
  "commit_tx e = State (\<lambda>s.
     if fault e (tick s) then (False, next_tick s)
     else (True, (next_tick s)\<lparr>durable := work s\<rparr>))"

lemma next_tick_simps [simp]:
  "tick (next_tick s) = Suc (tick s)" "work (next_tick s) = work s"
  "durable (next_tick s) = durable s"
  by (simp_all add: next_tick_def)

lemmas step_defs = now_utc_def randomID_def query_def exec_def begin_tx_def commit_tx_def

section \<open>Weakest preconditions\<close>

definition wp :: "('s, 'a) state \<Rightarrow> ('a \<Rightarrow> 's \<Rightarrow> bool) \<Rightarrow> 's \<Rightarrow> bool" where
  "wp m Q s \<longleftrightarrow> (case run_state m s of (a, s') \<Rightarrow> Q a s')"

lemma wpD: "wp m Q s \<Longrightarrow> run_state m s = (a, s') \<Longrightarrow> Q a s'"
  by (simp add: wp_def)

lemma wpI: "(\<And>a s'. run_state m s = (a, s') \<Longrightarrow> Q a s') \<Longrightarrow> wp m Q s"
  by (auto simp: wp_def split: prod.splits)

lemma wp_mono: "wp m Q s \<Longrightarrow> (\<And>a s'. Q a s' \<Longrightarrow> Q' a s') \<Longrightarrow> wp m Q' s"
  by (auto simp: wp_def split: prod.splits)

lemma wp_conj: "wp m Q s \<Longrightarrow> wp m Q' s \<Longrightarrow> wp m (\<lambda>a s'. Q a s' \<and> Q' a s') s"
  by (auto simp: wp_def split: prod.splits)

lemma wp_return [wp_rules]: "Q a s \<Longrightarrow> wp (State_Monad.return a) Q s"
  by (simp add: wp_def)

lemma wp_bind [wp_rules]:
  "wp m (\<lambda>a. wp (f a) Q) s \<Longrightarrow> wp (State_Monad.bind m f) Q s"
  by (auto simp: wp_def split: prod.splits)

lemma wp_if [wp_rules]:
  "(b \<Longrightarrow> wp m Q s) \<Longrightarrow> (\<not> b \<Longrightarrow> wp n Q s) \<Longrightarrow> wp (if b then m else n) Q s"
  by simp

lemma wp_case_option [wp_rules]:
  "(x = None \<Longrightarrow> wp m Q s) \<Longrightarrow> (\<And>a. x = Some a \<Longrightarrow> wp (f a) Q s) \<Longrightarrow>
    wp (case x of None \<Rightarrow> m | Some a \<Rightarrow> f a) Q s"
  by (cases x) simp_all

lemma wp_case_list [wp_rules]:
  "(xs = [] \<Longrightarrow> wp m Q s) \<Longrightarrow> (\<And>y ys. xs = y # ys \<Longrightarrow> wp (f y ys) Q s) \<Longrightarrow>
    wp (case xs of [] \<Rightarrow> m | y # ys \<Rightarrow> f y ys) Q s"
  by (cases xs) simp_all

lemma wp_case_sum [wp_rules]:
  "(\<And>a. x = Inl a \<Longrightarrow> wp (f a) Q s) \<Longrightarrow> (\<And>b. x = Inr b \<Longrightarrow> wp (g b) Q s) \<Longrightarrow>
    wp (case x of Inl a \<Rightarrow> f a | Inr b \<Rightarrow> g b) Q s"
  by (cases x) simp_all

lemma wp_case_prod [wp_rules]:
  "(\<And>a b. x = (a, b) \<Longrightarrow> wp (f a b) Q s) \<Longrightarrow> wp (case x of (a, b) \<Rightarrow> f a b) Q s"
  by (cases x) simp_all

lemma wp_let [wp_rules]: "wp (f x) Q s \<Longrightarrow> wp (let y = x in f y) Q s"
  by simp

text \<open>Branches on a known outcome.\<close>

lemma wp_iota_rules [wp_iota]:
  "wp m Q s \<Longrightarrow> wp (if True then m else n) Q s" "wp n Q s \<Longrightarrow> wp (if False then m else n) Q s"
  "wp n Q s \<Longrightarrow> wp (if \<not> True then m else n) Q s" "wp m Q s \<Longrightarrow> wp (if \<not> False then m else n) Q s"
  by simp_all

lemma wp_iota_option [wp_iota]:
  "wp m Q s \<Longrightarrow> wp (case None of None \<Rightarrow> m | Some a \<Rightarrow> f a) Q s"
  "wp (f a) Q s \<Longrightarrow> wp (case Some a of None \<Rightarrow> m | Some a \<Rightarrow> f a) Q s"
  by simp_all

lemma wp_iota_sum [wp_iota]:
  "wp (g a) Q s \<Longrightarrow> wp (case Inl a of Inl a \<Rightarrow> g a | Inr b \<Rightarrow> h b) Q s"
  "wp (h b) Q s \<Longrightarrow> wp (case Inr b of Inl a \<Rightarrow> g a | Inr b \<Rightarrow> h b) Q s"
  by simp_all

lemma wp_now [wp_rules]:
  "Q (clock e (tick s)) (next_tick s) \<Longrightarrow> wp (now_utc e) Q s"
  by (simp add: wp_def now_utc_def)

lemma wp_randomID [wp_rules]:
  "Q (map_option b64_encode (rand e (tick s))) (next_tick s) \<Longrightarrow> wp (randomID e) Q s"
  by (simp add: wp_def randomID_def)

lemma wp_query [wp_rules]:
  "Q None (next_tick s) \<Longrightarrow> Q (Some (f (work s))) (next_tick s) \<Longrightarrow> wp (query e f) Q s"
  by (simp add: wp_def query_def)

lemma wp_exec:
  "Q None (next_tick s) \<Longrightarrow>
    (\<And>a d. f (work s) = Some (a, d) \<Longrightarrow> Q (Some a) ((next_tick s)\<lparr>work := d\<rparr>)) \<Longrightarrow>
    wp (exec e f) Q s"
  by (auto simp: wp_def exec_def split: option.splits)

lemma wp_begin:
  "Q False (next_tick s) \<Longrightarrow> Q True ((next_tick s)\<lparr>work := durable s\<rparr>) \<Longrightarrow> wp (begin_tx e) Q s"
  by (simp add: wp_def begin_tx_def)

lemma wp_commit:
  "Q False (next_tick s) \<Longrightarrow> Q True ((next_tick s)\<lparr>durable := work s\<rparr>) \<Longrightarrow> wp (commit_tx e) Q s"
  by (simp add: wp_def commit_tx_def)

section \<open>Executions without failures\<close>

definition fault_free :: "'o host_scheme \<Rightarrow> bool" where
  "fault_free e \<longleftrightarrow> (\<forall>n. \<not> fault e n) \<and> (\<forall>n. rand e n \<noteq> None)"

lemma fault_freeD: "fault_free e \<Longrightarrow> \<not> fault e n" "fault_free e \<Longrightarrow> \<exists>r. rand e n = Some r"
  by (auto simp: fault_free_def)

end
