(* ===== verification/Secure_Keys.thy ===== *)
theory Secure_Keys
  imports Sql_Tx
begin

text \<open>
  The parts of \<^verbatim>\<open>internal/secure\<close> the sync service runs: encodings, public-key checks,
  fingerprints, signature verification. The primitives of Go's \<^verbatim>\<open>crypto\<close> packages (SHA-256,
  Ed25519 verification, the X25519 shared secret) are fields of the record \<open>crypto\<close>: results
  hold for every choice of them unless they name a hypothesis.
\<close>

record crypto = host +
  sha256 :: "bytes \<Rightarrow> bytes"
  ed25519_verify :: "bytes \<Rightarrow> bytes \<Rightarrow> bytes \<Rightarrow> bool"
  x25519_nonzero :: "bytes \<Rightarrow> bool"

record blob =
  blob_Version :: int
  blob_Nonce :: string
  blob_Ciphertext :: string

record wrapped_key =
  wk_Version :: int
  wk_EphemeralKey :: string
  wk_Blob :: blob

definition nul :: string where
  "nul = [CHR 0x00]"

text \<open>Go's \<^verbatim>\<open>%x\<close> on bytes.\<close>

definition hex_digit :: "nat \<Rightarrow> char" where
  "hex_digit n = (if n < 10 then char_of (48 + n) else char_of (87 + n))"

definition hex_encode :: "bytes \<Rightarrow> string" where
  "hex_encode bs = concat (map (\<lambda>c. [hex_digit (of_char c div 16), hex_digit (of_char c mod 16)]) bs)"

definition PublicFingerprint :: "'c crypto_scheme \<Rightarrow> string \<Rightarrow> string \<Rightarrow> string" where
  "PublicFingerprint c signingPublic wrappingPublic =
     hex_encode (take 8 (sha256 c
       (''envbank.device.fingerprint.v1'' @ nul @ signingPublic @ nul @ wrappingPublic)))"

definition decodeCanonical :: "string \<Rightarrow> nat \<Rightarrow> bytes option" where
  "decodeCanonical value sz =
     (case b64_decode value of
        None \<Rightarrow> None
      | Some decoded \<Rightarrow>
          if length decoded \<noteq> sz \<or> b64_encode decoded \<noteq> value then None else Some decoded)"

definition ValidatePublicDeviceKeys :: "'c crypto_scheme \<Rightarrow> string \<Rightarrow> string \<Rightarrow> string option" where
  "ValidatePublicDeviceKeys c signingPublic wrappingPublic =
     (case decodeCanonical signingPublic 32 of
        None \<Rightarrow> Some ''invalid signing public key''
      | Some signing \<Rightarrow>
          if length signing \<noteq> 32 then Some ''invalid signing public key''
          else (case decodeCanonical wrappingPublic 32 of
                  None \<Rightarrow> Some ''invalid wrapping public key''
                | Some wrapping \<Rightarrow>
                    if length wrapping \<noteq> 32 then Some ''invalid wrapping public key''
                    else if \<not> x25519_nonzero c wrapping then Some ''invalid wrapping public key''
                    else None))"

definition Verify :: "'c crypto_scheme \<Rightarrow> string \<Rightarrow> bytes \<Rightarrow> string \<Rightarrow> bool" where
  "Verify c publicKey message signature =
     (case b64_decode publicKey of
        None \<Rightarrow> False
      | Some pub \<Rightarrow>
          length pub = 32 \<and>
          (case b64_decode signature of
             None \<Rightarrow> False
           | Some sig \<Rightarrow> ed25519_verify c pub message sig))"

lemma decodeCanonical_iff: "decodeCanonical v n = Some raw \<longleftrightarrow> length raw = n \<and> v = b64_encode raw"
  by (auto simp: decodeCanonical_def split: option.splits if_splits)

text \<open>Accepted public keys are exactly the canonical texts of two 32-byte strings.\<close>

lemma ValidatePublicDeviceKeys_ok:
  "ValidatePublicDeviceKeys c s w = None \<longleftrightarrow>
     (\<exists>ks kw. length ks = 32 \<and> length kw = 32 \<and> s = b64_encode ks \<and> w = b64_encode kw \<and>
        x25519_nonzero c kw)"
proof -
  have len: "\<And>v raw. decodeCanonical v 32 = Some raw \<Longrightarrow> length raw = 32"
    by (simp add: decodeCanonical_iff)
  have "ValidatePublicDeviceKeys c s w = None \<longleftrightarrow>
      (\<exists>ks kw. decodeCanonical s 32 = Some ks \<and> decodeCanonical w 32 = Some kw \<and> x25519_nonzero c kw)"
    unfolding ValidatePublicDeviceKeys_def
    by (cases "decodeCanonical s 32"; cases "decodeCanonical w 32") (simp_all add: len)
  then show ?thesis by (auto simp: decodeCanonical_iff)
qed

end
