(* ===== verification/Protocol.thy ===== *)
theory Protocol
  imports Secure_Keys
begin

text \<open>
  \<^verbatim>\<open>internal/protocol\<close>: the wire types of the sync service and the three functions that define
  what a signed request is (\<^verbatim>\<open>SignatureMessage\<close>, \<^verbatim>\<open>ValidateTimestamp\<close>, \<^verbatim>\<open>ValidateNonce\<close>).
  Timestamps the service writes are seconds (see \<open>Go_Time\<close>); an omitted one is \<open>None\<close>.
\<close>

section \<open>Wire types\<close>

record public_device =
  dev_ID :: string
  dev_Name :: string
  dev_SigningPublic :: string
  dev_WrappingPublic :: string
  dev_Fingerprint :: string
  dev_CreatedAt :: int

record device_status =
  ds_Device :: public_device
  ds_RevokedAt :: "int option"

record create_vault_request =
  cv_Name :: string
  cv_Device :: public_device

record enrollment_request =
  er_Name :: string
  er_SigningPublic :: string
  er_WrappingPublic :: string

record enrollment_status =
  es_Device :: public_device
  es_Approved :: bool
  es_Envelope :: "wrapped_key option"
  es_RevokedAt :: "int option"

datatype inv_state =
    InvitationPending
  | InvitationApproved
  | InvitationCancelled
  | InvitationRejected
  | InvitationExpired
  | InvitationAttemptsExhausted

fun inv_state_text :: "inv_state \<Rightarrow> string" where
  "inv_state_text InvitationPending = ''pending''"
| "inv_state_text InvitationApproved = ''approved''"
| "inv_state_text InvitationCancelled = ''cancelled''"
| "inv_state_text InvitationRejected = ''rejected''"
| "inv_state_text InvitationExpired = ''expired''"
| "inv_state_text InvitationAttemptsExhausted = ''attempts_exhausted''"

definition InvitationProtocolVersion :: int where
  "InvitationProtocolVersion = 1"

record invitation_request =
  ir_Version :: int
  ir_Name :: string
  ir_SigningPublic :: string
  ir_WrappingPublic :: string

record invitation_transition =
  it_Version :: int
  it_DeviceID :: string
  it_Fingerprint :: string

record invitation_approval =
  ia_Version :: int
  ia_DeviceID :: string
  ia_Fingerprint :: string
  ia_Envelope :: wrapped_key

record invitation_status =
  is_Version :: int
  is_Device :: public_device
  is_State :: inv_state
  is_ExpiresAt :: int
  is_AttemptsRemaining :: int
  is_TerminalAt :: "int option"
  is_Envelope :: "wrapped_key option"

record secret_blob_record =
  rec_ID :: string
  rec_Revision :: int
  rec_Blob :: blob
  rec_ModifiedAt :: int

record put_record_request =
  pr_ExpectedRevision :: int
  pr_Blob :: blob

record vault_object =
  vo_ID :: string
  vo_Revision :: int
  vo_Blob :: blob
  vo_ModifiedAt :: string

record put_object_request =
  po_ExpectedRevision :: int
  po_ModifiedAt :: string
  po_Blob :: blob

record access_event =
  ae_ID :: string
  ae_VaultID :: string
  ae_Timestamp :: int
  ae_IdentityID :: "string option"
  ae_IdentityVerified :: bool
  ae_TargetIdentityID :: "string option"
  ae_Operation :: string
  ae_Outcome :: string
  ae_Reason :: "string option"

section \<open>Signed requests\<close>

definition newline :: char where
  "newline = CHR 0x0A"

definition SignatureMessage ::
  "'c crypto_scheme \<Rightarrow> string \<Rightarrow> string \<Rightarrow> string \<Rightarrow> string \<Rightarrow> bytes \<Rightarrow> bytes" where
  "SignatureMessage c method path timestamp nonce body =
     join_with [newline]
       [''envbank.request.v1'', method, path, timestamp, nonce, b64_encode (sha256 c body)]"

text \<open>\<open>None\<close> is success, \<open>Some msg\<close> the error.\<close>

definition ValidateTimestamp :: "string \<Rightarrow> int \<Rightarrow> string option" where
  "ValidateTimestamp value now =
     (case parse_canonical value of
        None \<Rightarrow> Some ''invalid request timestamp''
      | Some parsed \<Rightarrow>
          (let delta = time_sub now (parsed * second);
               delta = (if delta < 0 then neg_duration delta else delta)
           in if 5 * minute < delta then Some ''request timestamp outside allowed window'' else None))"

definition ValidateNonce :: "string \<Rightarrow> string option" where
  "ValidateNonce value =
     (case b64_decode value of
        None \<Rightarrow> Some ''invalid request nonce''
      | Some decoded \<Rightarrow>
          if length decoded \<noteq> 18 \<or> b64_encode decoded \<noteq> value
          then Some ''invalid request nonce'' else None)"

section \<open>What the checks accept\<close>

lemma b64_encode_no_newline: "newline \<notin> set (b64_encode bs)"
  using to_sextets_bound [OF of_char_bytes, of bs] b64_char_not_newline
  by (force simp: b64_encode_def newline_def)

lemma SignatureMessage_fields:
  assumes "newline \<notin> set m \<union> set p \<union> set t \<union> set n"
  shows "split_on newline (SignatureMessage c m p t n b) =
    [''envbank.request.v1'', m, p, t, n, b64_encode (sha256 c b)]"
  unfolding SignatureMessage_def
  by (rule split_join) (use assms b64_encode_no_newline in \<open>auto simp: newline_def\<close>)

lemma ValidateNonce_ok: "ValidateNonce v = None \<longleftrightarrow> (\<exists>raw. length raw = 18 \<and> v = b64_encode raw)"
  by (auto simp: ValidateNonce_def split: option.splits)

lemma ValidateTimestamp_window:
  assumes "ValidateTimestamp v now = None"
  shows "\<exists>parsed. parse_canonical v = Some parsed \<and>
    (\<bar>now - parsed * second\<bar> \<le> 5 * minute \<or> now - parsed * second \<le> min_i64)"
proof -
  from assms obtain parsed where p: "parse_canonical v = Some parsed"
    and le: "\<not> 5 * minute < (if time_sub now (parsed * second) < 0
        then neg_duration (time_sub now (parsed * second)) else time_sub now (parsed * second))"
    by (auto simp: ValidateTimestamp_def Let_def split: option.splits if_splits)
  let ?d = "now - parsed * second"
  consider "?d \<le> min_i64" | "max_i64 < ?d" | "min_i64 < ?d" "?d \<le> max_i64" by linarith
  then have "\<bar>?d\<bar> \<le> 5 * minute \<or> ?d \<le> min_i64"
  proof cases
    case 2
    then have "time_sub now (parsed * second) = max_i64"
      by (simp add: time_sub_def Let_def min_i64_def max_i64_def)
    with le show ?thesis by (simp add: max_i64_def duration_defs)
  next
    case 3
    then have "time_sub now (parsed * second) = ?d"
      by (simp add: time_sub_def Let_def)
    with le 3 show ?thesis by (auto simp: neg_duration_id split: if_splits)
  qed simp
  with p show ?thesis by blast
qed

end
