(* ===== verification/Server_Db.thy ===== *)
theory Server_Db
  imports Protocol
begin

text \<open>
  The SQLite database of \<^verbatim>\<open>internal/server\<close>: one list of rows per table of schema version 6,
  and one function per SQL statement the handlers execute. A statement gives \<open>None\<close> when it
  violates a PRIMARY KEY, UNIQUE, FOREIGN KEY or CHECK constraint and otherwise the number of rows affected
  with the new database. JSON columns hold the value that \<^verbatim>\<open>json.Marshal\<close> encodes.
\<close>

section \<open>Tables\<close>

record vault_row =
  v_id :: string
  v_name :: string
  v_created_at :: int

record device_row =
  d_vault_id :: string
  d_device :: public_device
  d_revoked_at :: "int option"

record enrollment_row =
  e_vault_id :: string
  e_device :: public_device
  e_approved :: bool
  e_envelope :: "wrapped_key option"

record invitation_row =
  i_vault_id :: string
  i_device_id :: string
  i_protocol_version :: int
  i_state :: inv_state
  i_expires_at :: int
  i_failed_attempts :: int
  i_terminal_at :: "int option"
  i_terminal_actor :: "string option"

record record_row =
  r_vault_id :: string
  r_id :: string
  r_revision :: int
  r_blob :: blob
  r_modified_at :: int

record object_row =
  o_vault_id :: string
  o_id :: string
  o_revision :: int
  o_blob :: blob
  o_modified_at :: string

record nonce_row =
  n_vault_id :: string
  n_device_id :: string
  n_nonce :: string
  n_created_at :: int

record event_row =
  ev_sequence :: int
  ev_id :: string
  ev_vault_id :: string
  ev_timestamp :: int
  ev_identity_id :: "string option"
  ev_identity_verified :: bool
  ev_target_identity_id :: "string option"
  ev_operation :: string
  ev_outcome :: string
  ev_reason :: "string option"

record db =
  vaults :: "vault_row list"
  devices :: "device_row list"
  enrollments :: "enrollment_row list"
  invitations :: "invitation_row list"
  records :: "record_row list"
  vault_objects :: "object_row list"
  nonces :: "nonce_row list"
  access_events :: "event_row list"
  event_sequence :: int

definition empty_db :: db where
  "empty_db = \<lparr>vaults = [], devices = [], enrollments = [], invitations = [], records = [],
     vault_objects = [], nonces = [], access_events = [], event_sequence = 0\<rparr>"

text \<open>Primary keys.\<close>

definition device_key :: "device_row \<Rightarrow> string \<times> string" where
  "device_key r = (d_vault_id r, dev_ID (d_device r))"

definition enrollment_key :: "enrollment_row \<Rightarrow> string \<times> string" where
  "enrollment_key r = (e_vault_id r, dev_ID (e_device r))"

definition invitation_key :: "invitation_row \<Rightarrow> string \<times> string" where
  "invitation_key r = (i_vault_id r, i_device_id r)"

definition record_key :: "record_row \<Rightarrow> string \<times> string" where
  "record_key r = (r_vault_id r, r_id r)"

definition object_key :: "object_row \<Rightarrow> string \<times> string" where
  "object_key r = (o_vault_id r, o_id r)"

definition nonce_key :: "nonce_row \<Rightarrow> string \<times> string \<times> string" where
  "nonce_key r = (n_vault_id r, n_device_id r, n_nonce r)"

lemmas key_defs = device_key_def enrollment_key_def invitation_key_def record_key_def
  object_key_def nonce_key_def

section \<open>Statements on vaults, devices and enrollments\<close>

definition vault_exists :: "string \<Rightarrow> db \<Rightarrow> bool" where
  "vault_exists vaultID d \<longleftrightarrow> vaultID \<in> set (map v_id (vaults d))"

definition insert_vault :: "vault_row \<Rightarrow> db \<Rightarrow> (nat \<times> db) option" where
  "insert_vault r d =
     (if vault_exists (v_id r) d then None
      else Some (1, d\<lparr>vaults := vaults d @ [r]\<rparr>))"

definition insert_device :: "string \<Rightarrow> public_device \<Rightarrow> db \<Rightarrow> (nat \<times> db) option" where
  "insert_device vaultID device d =
     (if \<not> vault_exists vaultID d \<or> (vaultID, dev_ID device) \<in> set (map device_key (devices d)) then None
      else Some (1, d\<lparr>devices := devices d @
        [\<lparr>d_vault_id = vaultID, d_device = device, d_revoked_at = None\<rparr>]\<rparr>))"

definition insert_enrollment :: "string \<Rightarrow> public_device \<Rightarrow> db \<Rightarrow> (nat \<times> db) option" where
  "insert_enrollment vaultID device d =
     (if \<not> vault_exists vaultID d \<or>
         (vaultID, dev_ID device) \<in> set (map enrollment_key (enrollments d)) then None
      else Some (1, d\<lparr>enrollments := enrollments d @
        [\<lparr>e_vault_id = vaultID, e_device = device, e_approved = False, e_envelope = None\<rparr>]\<rparr>))"

definition unapproved :: "string \<Rightarrow> string \<Rightarrow> enrollment_row \<Rightarrow> bool" where
  "unapproved vaultID deviceID r \<longleftrightarrow> enrollment_key r = (vaultID, deviceID) \<and> \<not> e_approved r"

definition approve_enrollment_row ::
  "string \<Rightarrow> string \<Rightarrow> wrapped_key \<Rightarrow> db \<Rightarrow> (nat \<times> db) option" where
  "approve_enrollment_row vaultID deviceID envelope d =
     Some (count_where (unapproved vaultID deviceID) (enrollments d),
       d\<lparr>enrollments := update_where (unapproved vaultID deviceID)
          (\<lambda>r. r\<lparr>e_approved := True, e_envelope := Some envelope\<rparr>) (enrollments d)\<rparr>)"

definition active_row :: "string \<Rightarrow> string \<Rightarrow> device_row \<Rightarrow> bool" where
  "active_row vaultID deviceID r \<longleftrightarrow> device_key r = (vaultID, deviceID) \<and> d_revoked_at r = None"

definition revoke_device_row :: "int \<Rightarrow> string \<Rightarrow> string \<Rightarrow> db \<Rightarrow> (nat \<times> db) option" where
  "revoke_device_row now vaultID deviceID d =
     Some (count_where (active_row vaultID deviceID) (devices d),
       d\<lparr>devices := update_where (active_row vaultID deviceID)
          (\<lambda>r. r\<lparr>d_revoked_at := Some now\<rparr>) (devices d)\<rparr>)"

section \<open>Statements on records and objects\<close>

text \<open>\<^verbatim>\<open>CHECK (revision > 0)\<close> guards both tables.\<close>

definition insert_record :: "record_row \<Rightarrow> db \<Rightarrow> (nat \<times> db) option" where
  "insert_record r d =
     (if \<not> vault_exists (r_vault_id r) d \<or> record_key r \<in> set (map record_key (records d)) \<or>
         r_revision r \<le> 0 then None
      else Some (1, d\<lparr>records := records d @ [r]\<rparr>))"

definition record_at :: "string \<Rightarrow> string \<Rightarrow> int \<Rightarrow> record_row \<Rightarrow> bool" where
  "record_at vaultID recordID revision r \<longleftrightarrow>
     record_key r = (vaultID, recordID) \<and> r_revision r = revision"

definition update_record ::
  "string \<Rightarrow> string \<Rightarrow> int \<Rightarrow> int \<Rightarrow> blob \<Rightarrow> int \<Rightarrow> db \<Rightarrow> (nat \<times> db) option" where
  "update_record vaultID recordID current revision b modified d =
     (let n = count_where (record_at vaultID recordID current) (records d) in
      if 0 < n \<and> revision \<le> 0 then None
      else Some (n, d\<lparr>records := update_where (record_at vaultID recordID current)
          (\<lambda>r. r\<lparr>r_revision := revision, r_blob := b, r_modified_at := modified\<rparr>) (records d)\<rparr>))"

definition insert_object :: "object_row \<Rightarrow> db \<Rightarrow> (nat \<times> db) option" where
  "insert_object r d =
     (if \<not> vault_exists (o_vault_id r) d \<or> object_key r \<in> set (map object_key (vault_objects d)) \<or>
         o_revision r \<le> 0 then None
      else Some (1, d\<lparr>vault_objects := vault_objects d @ [r]\<rparr>))"

definition object_at :: "string \<Rightarrow> string \<Rightarrow> int \<Rightarrow> object_row \<Rightarrow> bool" where
  "object_at vaultID objectID revision r \<longleftrightarrow>
     object_key r = (vaultID, objectID) \<and> o_revision r = revision"

definition update_object ::
  "string \<Rightarrow> string \<Rightarrow> int \<Rightarrow> int \<Rightarrow> blob \<Rightarrow> string \<Rightarrow> db \<Rightarrow> (nat \<times> db) option" where
  "update_object vaultID objectID current revision b modified d =
     (let n = count_where (object_at vaultID objectID current) (vault_objects d) in
      if 0 < n \<and> revision \<le> 0 then None
      else Some (n, d\<lparr>vault_objects := update_where (object_at vaultID objectID current)
          (\<lambda>r. r\<lparr>o_revision := revision, o_blob := b, o_modified_at := modified\<rparr>) (vault_objects d)\<rparr>))"

definition delete_object :: "string \<Rightarrow> string \<Rightarrow> int \<Rightarrow> db \<Rightarrow> (nat \<times> db) option" where
  "delete_object vaultID objectID revision d =
     Some (count_where (object_at vaultID objectID revision) (vault_objects d),
       d\<lparr>vault_objects := delete_where (object_at vaultID objectID revision) (vault_objects d)\<rparr>)"

section \<open>Statements on nonces\<close>

text \<open>\<^verbatim>\<open>INSERT ... ON CONFLICT DO NOTHING\<close>\<close>

definition insert_nonce :: "nonce_row \<Rightarrow> db \<Rightarrow> (nat \<times> db) option" where
  "insert_nonce r d =
     (if nonce_key r \<in> set (map nonce_key (nonces d)) then Some (0, d)
      else Some (1, d\<lparr>nonces := nonces d @ [r]\<rparr>))"

definition delete_nonces_before :: "int \<Rightarrow> db \<Rightarrow> (nat \<times> db) option" where
  "delete_nonces_before cutoff d =
     Some (count_where (\<lambda>r. n_created_at r < cutoff) (nonces d),
       d\<lparr>nonces := delete_where (\<lambda>r. n_created_at r < cutoff) (nonces d)\<rparr>)"

definition delete_device_nonces :: "string \<Rightarrow> string \<Rightarrow> db \<Rightarrow> (nat \<times> db) option" where
  "delete_device_nonces vaultID deviceID d =
     Some (count_where (\<lambda>r. n_vault_id r = vaultID \<and> n_device_id r = deviceID) (nonces d),
       d\<lparr>nonces := delete_where (\<lambda>r. n_vault_id r = vaultID \<and> n_device_id r = deviceID) (nonces d)\<rparr>)"

section \<open>Statements on invitations\<close>

definition insert_invitation :: "invitation_row \<Rightarrow> db \<Rightarrow> (nat \<times> db) option" where
  "insert_invitation r d =
     (if invitation_key r \<notin> set (map enrollment_key (enrollments d)) \<or>
         invitation_key r \<in> set (map invitation_key (invitations d)) \<or>
         i_failed_attempts r < 0 \<or> 5 < i_failed_attempts r then None
      else Some (1, d\<lparr>invitations := invitations d @ [r]\<rparr>))"

definition pending_invitation :: "string \<Rightarrow> string \<Rightarrow> invitation_row \<Rightarrow> bool" where
  "pending_invitation vaultID deviceID r \<longleftrightarrow>
     invitation_key r = (vaultID, deviceID) \<and> i_state r = InvitationPending"

text \<open>\<^verbatim>\<open>UPDATE invitations SET state, terminal_at, terminal_actor ... AND state = 'pending'\<close>\<close>

definition close_invitation_row ::
  "inv_state \<Rightarrow> int \<Rightarrow> string \<Rightarrow> string \<Rightarrow> string \<Rightarrow> db \<Rightarrow> (nat \<times> db) option" where
  "close_invitation_row st now actor vaultID deviceID d =
     Some (count_where (pending_invitation vaultID deviceID) (invitations d),
       d\<lparr>invitations := update_where (pending_invitation vaultID deviceID)
          (\<lambda>r. r\<lparr>i_state := st, i_terminal_at := Some now, i_terminal_actor := Some actor\<rparr>)
          (invitations d)\<rparr>)"

text \<open>\<^verbatim>\<open>UPDATE invitations SET failed_attempts, state, terminal_at, terminal_actor ...\<close>\<close>

definition fail_invitation_row ::
  "int \<Rightarrow> inv_state \<Rightarrow> int option \<Rightarrow> string option \<Rightarrow> string \<Rightarrow> string \<Rightarrow> db \<Rightarrow> (nat \<times> db) option" where
  "fail_invitation_row attempts st terminalAt terminalActor vaultID deviceID d =
     (let n = count_where (pending_invitation vaultID deviceID) (invitations d) in
      if 0 < n \<and> (attempts < 0 \<or> 5 < attempts) then None
      else Some (n, d\<lparr>invitations := update_where (pending_invitation vaultID deviceID)
          (\<lambda>r. r\<lparr>i_failed_attempts := attempts, i_state := st, i_terminal_at := terminalAt,
                 i_terminal_actor := terminalActor\<rparr>) (invitations d)\<rparr>))"

section \<open>Access events\<close>

definition event_operations :: "string list" where
  "event_operations =
     [''enrollment_request'', ''enrollment_list'', ''enrollment_status'', ''enrollment_approval'',
      ''device_list'', ''device_revocation'', ''record_list'', ''record_update'', ''event_list'',
      ''invitation_creation'', ''invitation_list'', ''invitation_status'', ''invitation_approval'',
      ''invitation_rejection'', ''invitation_cancellation'', ''invitation_expiry'', ''object_list'',
      ''object_read'', ''object_update'', ''object_delete'']"

definition event_outcomes :: "string list" where
  "event_outcomes = [''succeeded'', ''rejected'', ''denied'']"

definition event_reasons :: "string list" where
  "event_reasons =
     [''invalid_signature'', ''stale_timestamp'', ''replay'', ''revoked_device'', ''pending_device'',
      ''invalid_request'', ''unknown_device'', ''not_found'', ''revision_conflict'',
      ''already_revoked'', ''already_approved'', ''final_active_device'', ''binding_mismatch'',
      ''terminal_conflict'', ''attempt_exhaustion'', ''incorrect_actor'', ''unsupported_version'',
      ''expired'']"

text \<open>The CHECK constraints of \<^verbatim>\<open>access_events\<close>.\<close>

definition event_checks :: "event_row \<Rightarrow> bool" where
  "event_checks r \<longleftrightarrow>
     ev_operation r \<in> set event_operations \<and> ev_outcome r \<in> set event_outcomes \<and>
     (case ev_reason r of None \<Rightarrow> True | Some x \<Rightarrow> x \<in> set event_reasons)"

text \<open>
  \<^verbatim>\<open>sequence INTEGER PRIMARY KEY AUTOINCREMENT\<close>: SQLite remembers the largest sequence ever
  used, so deleted sequences are not reused. The row passed in carries a dummy sequence.
\<close>

definition insert_event :: "event_row \<Rightarrow> db \<Rightarrow> (nat \<times> db) option" where
  "insert_event r d =
     (if \<not> vault_exists (ev_vault_id r) d \<or> ev_id r \<in> set (map ev_id (access_events d)) \<or>
         \<not> event_checks r then None
      else (let n = event_sequence d + 1 in
            Some (1, d\<lparr>event_sequence := n,
                       access_events := access_events d @ [r\<lparr>ev_sequence := n\<rparr>]\<rparr>)))"

text \<open>
  Event timestamps are RFC 3339 texts with nanoseconds and no trailing zeros, and the retention
  query compares the texts. Up to the seconds two texts have the same length, so the comparison
  is by second first and then by what follows: \<^verbatim>\<open>Z\<close>, or a dot, the digits, and \<^verbatim>\<open>Z\<close>.
\<close>

fun frac_digits :: "nat \<Rightarrow> int \<Rightarrow> string" where
  "frac_digits 0 n = []"
| "frac_digits (Suc k) n = frac_digits k (n div 10) @ [digit_char (nat (n mod 10))]"

definition nano_suffix :: "int \<Rightarrow> string" where
  "nano_suffix t =
     (let n = t mod second in
      if n = 0 then ''Z''
      else ''.'' @ rev (dropWhile ((=) (CHR ''0'')) (rev (frac_digits 9 n))) @ ''Z'')"

definition nano_text_less :: "int \<Rightarrow> int \<Rightarrow> bool" where
  "nano_text_less a b \<longleftrightarrow>
     to_secs a < to_secs b \<or> to_secs a = to_secs b \<and> nano_suffix a < nano_suffix b"

definition delete_events_before :: "string \<Rightarrow> int \<Rightarrow> db \<Rightarrow> (nat \<times> db) option" where
  "delete_events_before vaultID cutoff d =
     (let p = (\<lambda>r. ev_vault_id r = vaultID \<and> nano_text_less (ev_timestamp r) cutoff) in
      Some (count_where p (access_events d), d\<lparr>access_events := delete_where p (access_events d)\<rparr>))"

definition in_class :: "string \<Rightarrow> bool \<Rightarrow> event_row \<Rightarrow> bool" where
  "in_class vaultID verified r \<longleftrightarrow> ev_vault_id r = vaultID \<and> ev_identity_verified r = verified"

text \<open>\<^verbatim>\<open>SELECT sequence ... ORDER BY sequence DESC LIMIT n\<close>\<close>

definition newest_sequences :: "string \<Rightarrow> bool \<Rightarrow> nat \<Rightarrow> db \<Rightarrow> int list" where
  "newest_sequences vaultID verified n d =
     take n (rev (sort (map ev_sequence (filter (in_class vaultID verified) (access_events d)))))"

definition delete_events_beyond :: "string \<Rightarrow> bool \<Rightarrow> nat \<Rightarrow> db \<Rightarrow> (nat \<times> db) option" where
  "delete_events_beyond vaultID verified n d =
     (let p = (\<lambda>r. in_class vaultID verified r \<and>
                   ev_sequence r \<notin> set (newest_sequences vaultID verified n d)) in
      Some (count_where p (access_events d), d\<lparr>access_events := delete_where p (access_events d)\<rparr>))"

section \<open>Queries\<close>

definition find_device :: "string \<Rightarrow> string \<Rightarrow> bool \<Rightarrow> db \<Rightarrow> device_status option" where
  "find_device vaultID deviceID activeOnly d =
     map_option (\<lambda>r. \<lparr>ds_Device = d_device r, ds_RevokedAt = d_revoked_at r\<rparr>)
       (find (\<lambda>r. device_key r = (vaultID, deviceID) \<and> (activeOnly \<longrightarrow> d_revoked_at r = None))
         (devices d))"

definition find_enrollment :: "string \<Rightarrow> string \<Rightarrow> db \<Rightarrow> enrollment_status option" where
  "find_enrollment vaultID deviceID d =
     map_option (\<lambda>r. \<lparr>es_Device = e_device r, es_Approved = e_approved r, es_Envelope = e_envelope r,
         es_RevokedAt = (case find_device vaultID deviceID False d of
                           None \<Rightarrow> None | Some ds \<Rightarrow> ds_RevokedAt ds)\<rparr>)
       (find (\<lambda>r. enrollment_key r = (vaultID, deviceID)) (enrollments d))"

definition active_count :: "string \<Rightarrow> db \<Rightarrow> nat" where
  "active_count vaultID d = count_where (\<lambda>r. d_vault_id r = vaultID \<and> d_revoked_at r = None) (devices d)"

text \<open>What \<^verbatim>\<open>ORDER BY created_at, id\<close> returns.\<close>

definition order_by :: "('r \<Rightarrow> int) \<Rightarrow> ('r \<Rightarrow> string) \<Rightarrow> 'r list \<Rightarrow> 'r list" where
  "order_by created ident rows = sort_key created (sort_key ident rows)"

lemma set_order_by [simp]: "set (order_by c i rows) = set rows"
  by (simp add: order_by_def)

lemma length_order_by [simp]: "length (order_by c i rows) = length rows"
  by (simp add: order_by_def)

end
