(* ===== verification/Server_Http.thy ===== *)
theory Server_Http
  imports Server_Db
begin

text \<open>
  Requests, responses and the environment of the sync service. JSON decoding of request bodies
  is a field of the environment per request type: \<open>None\<close> is a decoding error. The decoders with
  \<open>strict\<close> in their name are \<^verbatim>\<open>decodeStrictJSON\<close>, which also refuses unknown fields and trailing
  data.
\<close>

record env = crypto +
  json_create_vault :: "bytes \<Rightarrow> create_vault_request option"
  json_enrollment_request :: "bytes \<Rightarrow> enrollment_request option"
  json_enrollment_approval :: "bytes \<Rightarrow> wrapped_key option"
  json_put_record :: "bytes \<Rightarrow> put_record_request option"
  json_put_object :: "bytes \<Rightarrow> put_object_request option"
  json_delete_object :: "bytes \<Rightarrow> int option"
  strict_invitation_request :: "bytes \<Rightarrow> invitation_request option"
  strict_invitation_approval :: "bytes \<Rightarrow> invitation_approval option"
  strict_invitation_transition :: "bytes \<Rightarrow> invitation_transition option"

record http_request =
  rq_Method :: string
  rq_Path :: string
  rq_RequestURI :: string
  rq_Limit :: string
  rq_Before :: string
  rq_Device :: string
  rq_Timestamp :: string
  rq_Nonce :: string
  rq_Signature :: string
  rq_Body :: bytes

datatype payload =
    PError string
  | PRevisionConflict int
  | PHealth
  | PVaultCreated string string
  | PEnrollment enrollment_status
  | PEnrollments "enrollment_status list"
  | PDevice device_status
  | PDevices "device_status list"
  | PRecord secret_blob_record
  | PRecords "secret_blob_record list"
  | PObject vault_object
  | PObjects "vault_object list"
  | PInvitation invitation_status
  | PInvitations "invitation_status list"
  | PEvents "access_event list" "string option"
  | PEmpty

record response =
  resp_status :: nat
  resp_body :: payload

type_synonym 'a handler = "(db world, 'a) state"

definition writeJSON :: "nat \<Rightarrow> payload \<Rightarrow> response handler" where
  "writeJSON st p = State_Monad.return \<lparr>resp_status = st, resp_body = p\<rparr>"

definition writeError :: "nat \<Rightarrow> string \<Rightarrow> response handler" where
  "writeError st msg = writeJSON st (PError msg)"

definition writePersistError :: "response handler" where
  "writePersistError = writeError 500 ''could not persist state''"

definition maxBytes :: nat where
  "maxBytes = 1048576"

text \<open>
  \<^verbatim>\<open>io.ReadAll(io.LimitReader(r.Body, limit+1))\<close> with the length test that follows it:
  \<open>None\<close> for a read error or a body longer than the limit.
\<close>

definition readLimitedBody :: "env \<Rightarrow> http_request \<Rightarrow> bytes option handler" where
  "readLimitedBody e r = State (\<lambda>s.
     (if fault e (tick s) \<or> maxBytes < length (rq_Body r) then None else Some (rq_Body r), next_tick s))"

definition readBody :: "env \<Rightarrow> http_request \<Rightarrow> (response + bytes) handler" where
  "readBody e r = do {
     body \<leftarrow> readLimitedBody e r;
     case body of
       None \<Rightarrow> do { w \<leftarrow> writeError 400 ''request body is too large''; State_Monad.return (Inl w) }
     | Some raw \<Rightarrow> State_Monad.return (Inr raw)
   }"

definition decodeJSON ::
  "env \<Rightarrow> http_request \<Rightarrow> (bytes \<Rightarrow> 'a option) \<Rightarrow> (response + 'a) handler" where
  "decodeJSON e r decode = do {
     body \<leftarrow> readBody e r;
     case body of
       Inl w \<Rightarrow> State_Monad.return (Inl w)
     | Inr raw \<Rightarrow>
         (case decode raw of
            None \<Rightarrow> do { w \<leftarrow> writeError 400 ''invalid JSON''; State_Monad.return (Inl w) }
          | Some v \<Rightarrow> State_Monad.return (Inr v))
   }"

definition validPublicDeviceKeys :: "env \<Rightarrow> string \<Rightarrow> string \<Rightarrow> bool" where
  "validPublicDeviceKeys e signingPublic wrappingPublic \<longleftrightarrow>
     ValidatePublicDeviceKeys e signingPublic wrappingPublic = None"

lemma wp_writeJSON [wp_rules]:
  "Q \<lparr>resp_status = st, resp_body = p\<rparr> s \<Longrightarrow> wp (writeJSON st p) Q s"
  by (simp add: writeJSON_def wp_return)

lemma wp_writeError [wp_rules]:
  "Q \<lparr>resp_status = st, resp_body = PError m\<rparr> s \<Longrightarrow> wp (writeError st m) Q s"
  by (simp add: writeError_def wp_writeJSON)

lemma wp_writePersistError [wp_rules]:
  "Q \<lparr>resp_status = 500, resp_body = PError ''could not persist state''\<rparr> s \<Longrightarrow> wp writePersistError Q s"
  by (simp add: writePersistError_def wp_writeError)

lemma wp_readLimitedBody [wp_rules]:
  "Q None (next_tick s) \<Longrightarrow> Q (Some (rq_Body r)) (next_tick s) \<Longrightarrow> wp (readLimitedBody e r) Q s"
  by (simp add: wp_def readLimitedBody_def)

end
