(* ===== verification/Server_Events.thy ===== *)
theory Server_Events
  imports Server_Http
begin

text \<open>
  \<^verbatim>\<open>internal/server/events.go\<close>: the access-event log with its retention rules, and the page
  cursor. The event insertion is one transaction step of every handler.
\<close>

record eventDetails =
  identityID :: string
  identityVerified :: bool
  targetIdentityID :: string
  operation :: string
  outcome :: string
  reason :: string

definition zero_event :: eventDetails where
  "zero_event = \<lparr>identityID = '''', identityVerified = False, targetIdentityID = '''',
     operation = '''', outcome = '''', reason = ''''\<rparr>"

definition eventMaxAge :: int where
  "eventMaxAge = 90 * 24 * hour"

definition maxVerifiedEvents :: nat where
  "maxVerifiedEvents = 10000"

definition maxUnverifiedEvents :: nat where
  "maxUnverifiedEvents = 2000"

definition defaultAccessEventLimit :: int where
  "defaultAccessEventLimit = 100"

definition maxAccessEventLimit :: int where
  "maxAccessEventLimit = 500"

text \<open>An empty Go string is stored as NULL.\<close>

definition nullable :: "string \<Rightarrow> string option" where
  "nullable s = (if s = '''' then None else Some s)"

definition event_of :: "string \<Rightarrow> string \<Rightarrow> int \<Rightarrow> eventDetails \<Rightarrow> event_row" where
  "event_of ident vaultID now event =
     \<lparr>ev_sequence = 0, ev_id = ident, ev_vault_id = vaultID, ev_timestamp = now,
      ev_identity_id = nullable (identityID event), ev_identity_verified = identityVerified event,
      ev_target_identity_id = nullable (targetIdentityID event), ev_operation = operation event,
      ev_outcome = outcome event, ev_reason = nullable (reason event)\<rparr>"

text \<open>\<open>True\<close> is a nil error.\<close>

definition pruneAccessEvents :: "env \<Rightarrow> string \<Rightarrow> int \<Rightarrow> bool handler" where
  "pruneAccessEvents e vaultID now = do {
     r \<leftarrow> exec e (delete_events_before vaultID (now - eventMaxAge));
     case r of None \<Rightarrow> State_Monad.return False | Some _ \<Rightarrow> do {
       r \<leftarrow> exec e (delete_events_beyond vaultID True maxVerifiedEvents);
       case r of None \<Rightarrow> State_Monad.return False | Some _ \<Rightarrow> do {
         r \<leftarrow> exec e (delete_events_beyond vaultID False maxUnverifiedEvents);
         case r of None \<Rightarrow> State_Monad.return False | Some _ \<Rightarrow> State_Monad.return True } } }"

definition insertAccessEvent :: "env \<Rightarrow> string \<Rightarrow> eventDetails \<Rightarrow> bool handler" where
  "insertAccessEvent e vaultID event = do {
     ident \<leftarrow> randomID e;
     case ident of None \<Rightarrow> State_Monad.return False | Some ident \<Rightarrow> do {
       now \<leftarrow> now_utc e;
       r \<leftarrow> exec e (insert_event (event_of ident vaultID now event));
       case r of None \<Rightarrow> State_Monad.return False
       | Some _ \<Rightarrow> pruneAccessEvents e vaultID now } }"

section \<open>Page cursors\<close>

fun be_bytes :: "nat \<Rightarrow> nat \<Rightarrow> nat list" where
  "be_bytes 0 n = []"
| "be_bytes (Suc k) n = be_bytes k (n div 256) @ [n mod 256]"

fun be_value :: "nat list \<Rightarrow> nat" where
  "be_value bs = foldl (\<lambda>acc b. acc * 256 + b) 0 bs"

text \<open>\<^verbatim>\<open>binary.BigEndian.PutUint64(raw, uint64(sequence))\<close>\<close>

definition encodeEventCursor :: "int \<Rightarrow> string" where
  "encodeEventCursor sequence = b64_encode (map char_of (be_bytes 8 (nat (sequence mod 2 ^ 64))))"

definition decodeEventCursor :: "string \<Rightarrow> int option" where
  "decodeEventCursor value =
     (case b64_decode value of
        None \<Rightarrow> None
      | Some raw \<Rightarrow>
          if length raw \<noteq> 8 then None
          else (let sequence = be_value (map of_char raw) in
                if sequence = 0 \<or> max_i64 < int sequence then None else Some (int sequence)))"

definition parseAccessEventPage :: "string \<Rightarrow> string \<Rightarrow> string + (int \<times> int)" where
  "parseAccessEventPage rLimit rBefore =
     (let limit =
        (if rLimit = '''' then Some defaultAccessEventLimit
         else case atoi rLimit of
                None \<Rightarrow> None
              | Some parsed \<Rightarrow>
                  if parsed < 1 \<or> maxAccessEventLimit < parsed then None else Some parsed)
      in case limit of
           None \<Rightarrow> Inl ''limit must be between 1 and 500''
         | Some limit \<Rightarrow>
             if rBefore = '''' then Inr (limit, 0)
             else case decodeEventCursor rBefore of
                    None \<Rightarrow> Inl ''invalid cursor''
                  | Some before \<Rightarrow> Inr (limit, before))"

section \<open>Cursor round trip\<close>

lemma length_be_bytes [simp]: "length (be_bytes k n) = k"
  by (induction k arbitrary: n) auto

lemma be_bytes_bound: "b \<in> set (be_bytes k n) \<Longrightarrow> b < 256"
  by (induction k arbitrary: n) auto

lemma be_value_bytes: "n < 256 ^ k \<Longrightarrow> be_value (be_bytes k n) = n"
proof (induction k arbitrary: n)
  case (Suc k)
  then have "n div 256 < 256 ^ k" by (simp add: div_less_iff_less_mult mult.commute)
  from Suc.IH [OF this] show ?case by simp
qed simp

lemma decode_encode_cursor:
  assumes "0 < n" "n \<le> max_i64"
  shows "decodeEventCursor (encodeEventCursor n) = Some n"
proof -
  have m: "n mod 2 ^ 64 = n" using assms by (simp add: max_i64_def)
  have "map (of_char :: char \<Rightarrow> nat) (map char_of (be_bytes 8 (nat n))) = be_bytes 8 (nat n)"
    by (simp add: comp_def) (rule map_idI, simp add: be_bytes_bound)
  moreover have "nat n < 256 ^ 8" using assms by (simp add: max_i64_def nat_less_iff)
  ultimately show ?thesis
    using assms by (simp add: encodeEventCursor_def decodeEventCursor_def m be_value_bytes Let_def
        del: be_value.simps map_map)
qed

lemma parse_page_bounds:
  assumes "parseAccessEventPage a b = Inr (limit, before)"
  shows "1 \<le> limit \<and> limit \<le> 500 \<and> 0 \<le> before \<and> before \<le> max_i64"
  using assms unfolding parseAccessEventPage_def decodeEventCursor_def
  by (auto simp: Let_def defaultAccessEventLimit_def maxAccessEventLimit_def max_i64_def
      split: option.splits if_splits)

section \<open>Retention\<close>

text \<open>The number of events of one class after the class was pruned.\<close>

lemma newest_sequences_length: "length (newest_sequences v b n d) \<le> n"
  by (simp add: newest_sequences_def)

definition class_count :: "string \<Rightarrow> bool \<Rightarrow> db \<Rightarrow> nat" where
  "class_count vaultID verified d = count_where (in_class vaultID verified) (access_events d)"

lemma card_filter_distinct_key:
  assumes "distinct (map k rows)"
  shows "length (filter p rows) = card (k ` {r \<in> set rows. p r})"
proof -
  have "distinct (map k (filter p rows))"
    using assms by (rule distinct_map_filter)
  then have "card (set (map k (filter p rows))) = length (map k (filter p rows))"
    by (rule distinct_card)
  then show ?thesis by (simp add: image_def Collect_conj_eq)
qed

lemma delete_events_beyond_count:
  assumes "distinct (map ev_sequence (access_events d))"
    and "delete_events_beyond v b n d = Some (k, d')"
  shows "class_count v b d' \<le> n"
proof -
  let ?new = "newest_sequences v b n d"
  have d': "access_events d' = filter (\<lambda>r. \<not> (in_class v b r \<and> ev_sequence r \<notin> set ?new)) (access_events d)"
    using assms(2) by (auto simp: delete_events_beyond_def Let_def delete_where_def)
  have "class_count v b d' = length (filter (\<lambda>r. in_class v b r \<and> ev_sequence r \<in> set ?new) (access_events d))"
    by (simp add: class_count_def count_where_def d' conj_commute cong: conj_cong filter_cong)
  also have "\<dots> = card (ev_sequence ` {r \<in> set (access_events d). in_class v b r \<and> ev_sequence r \<in> set ?new})"
    using assms(1) by (rule card_filter_distinct_key)
  also have "\<dots> \<le> card (set ?new)"
    by (intro card_mono) auto
  also have "\<dots> \<le> n"
    using newest_sequences_length [of v b n d] card_length le_trans by blast
  finally show ?thesis .
qed

end
