(* ===== verification/Server_Auth.thy ===== *)
theory Server_Auth
  imports Server_Events
begin

text \<open>
  Request authentication of \<^verbatim>\<open>internal/server/server.go\<close> and the ways a handler ends a
  transaction: \<^verbatim>\<open>finishEvent\<close>, \<^verbatim>\<open>rejectEvent\<close>, \<^verbatim>\<open>authenticationFailure\<close> and
  \<^verbatim>\<open>bestEffortPublicRejection\<close>.
\<close>

record authenticatedRequest =
  auth_identityID :: string
  auth_operation :: string

definition commit :: "env \<Rightarrow> response option handler" where
  "commit e = do {
     ok \<leftarrow> commit_tx e;
     if ok then State_Monad.return None
     else do { w \<leftarrow> writePersistError; State_Monad.return (Some w) } }"

text \<open>\<open>Some w\<close> when the event could not be recorded and \<open>w\<close> was written.\<close>

definition finishEvent :: "env \<Rightarrow> string \<Rightarrow> eventDetails \<Rightarrow> response option handler" where
  "finishEvent e vaultID event = do {
     ok \<leftarrow> insertAccessEvent e vaultID event;
     if \<not> ok then do { w \<leftarrow> writePersistError; State_Monad.return (Some w) }
     else commit e }"

definition rejectEvent ::
  "env \<Rightarrow> string \<Rightarrow> authenticatedRequest \<Rightarrow> string \<Rightarrow> nat \<Rightarrow> payload \<Rightarrow> string \<Rightarrow> response handler" where
  "rejectEvent e vaultID auth targetID status message why = do {
     failed \<leftarrow> finishEvent e vaultID \<lparr>identityID = auth_identityID auth, identityVerified = True,
       targetIdentityID = targetID, operation = auth_operation auth,
       outcome = ''rejected'', reason = why\<rparr>;
     case failed of Some w \<Rightarrow> State_Monad.return w | None \<Rightarrow> writeJSON status message }"

definition authenticationFailure ::
  "env \<Rightarrow> string \<Rightarrow> eventDetails \<Rightarrow> bool \<Rightarrow> nat \<Rightarrow> string \<Rightarrow> response handler" where
  "authenticationFailure e vaultID event verified status message = do {
     ok \<leftarrow> insertAccessEvent e vaultID event;
     if \<not> ok then (if verified then writePersistError else writeError status message)
     else do {
       ok \<leftarrow> commit_tx e;
       if \<not> ok \<and> verified then writePersistError else writeError status message } }"

definition bestEffortPublicRejection :: "env \<Rightarrow> string \<Rightarrow> nat \<Rightarrow> string \<Rightarrow> response handler" where
  "bestEffortPublicRejection e vaultID status message = do {
     ok \<leftarrow> insertAccessEvent e vaultID (zero_event\<lparr>operation := ''enrollment_request'',
       outcome := ''rejected'', reason := ''invalid_request''\<rparr>);
     if \<not> ok then writeError status message
     else do { _ \<leftarrow> commit_tx e; writeError status message } }"

text \<open>A failed lookup counts as a missing vault.\<close>

definition vaultExists :: "env \<Rightarrow> string \<Rightarrow> bool handler" where
  "vaultExists e vaultID = do {
     r \<leftarrow> query e (vault_exists vaultID);
     State_Monad.return (r = Some True) }"

definition getDeviceStatusTx ::
  "env \<Rightarrow> string \<Rightarrow> string \<Rightarrow> bool \<Rightarrow> device_status option option handler" where
  "getDeviceStatusTx e vaultID deviceID activeOnly = query e (find_device vaultID deviceID activeOnly)"

definition getEnrollmentTx ::
  "env \<Rightarrow> string \<Rightarrow> string \<Rightarrow> enrollment_status option option handler" where
  "getEnrollmentTx e vaultID deviceID = query e (find_enrollment vaultID deviceID)"

text \<open>
  The device the headers claim, with the reason it may not act. \<open>None\<close> is a database error;
  \<open>Some None\<close> an unknown device.
\<close>

definition claimedDevice ::
  "env \<Rightarrow> string \<Rightarrow> string \<Rightarrow> bool \<Rightarrow> (public_device \<times> string) option option handler" where
  "claimedDevice e vaultID claimedID allowPending = do {
     status \<leftarrow> getDeviceStatusTx e vaultID claimedID False;
     case status of
       None \<Rightarrow> State_Monad.return None
     | Some (Some st) \<Rightarrow>
         State_Monad.return (Some (Some (ds_Device st,
           if ds_RevokedAt st \<noteq> None then ''revoked_device'' else '''')))
     | Some None \<Rightarrow> do {
         enrollment \<leftarrow> getEnrollmentTx e vaultID claimedID;
         case enrollment of
           None \<Rightarrow> State_Monad.return None
         | Some None \<Rightarrow> State_Monad.return (Some None)
         | Some (Some enr) \<Rightarrow>
             State_Monad.return (Some (Some (es_Device enr,
               if allowPending then '''' else ''pending_device''))) } }"

text \<open>The part of \<^verbatim>\<open>authenticateDevice\<close> after the signature was verified.\<close>

definition acceptNonce ::
  "env \<Rightarrow> http_request \<Rightarrow> string \<Rightarrow> public_device \<Rightarrow> string \<Rightarrow> string \<Rightarrow>
     (response + authenticatedRequest) handler" where
  "acceptNonce e r vaultID device oper authorizationReason = do {
     serverNow \<leftarrow> now_utc e;
     if ValidateTimestamp (rq_Timestamp r) serverNow \<noteq> None \<or> ValidateNonce (rq_Nonce r) \<noteq> None then do {
       w \<leftarrow> authenticationFailure e vaultID (zero_event\<lparr>identityID := dev_ID device,
         identityVerified := True, operation := oper, outcome := ''denied'',
         reason := ''stale_timestamp''\<rparr>) True 401 ''invalid authentication headers'';
       State_Monad.return (Inl w) }
     else do {
       inserted \<leftarrow> exec e (insert_nonce \<lparr>n_vault_id = vaultID, n_device_id = dev_ID device,
         n_nonce = rq_Nonce r, n_created_at = to_secs serverNow\<rparr>);
       case inserted of
         None \<Rightarrow> do { w \<leftarrow> writePersistError; State_Monad.return (Inl w) }
       | Some inserted \<Rightarrow>
           if inserted = 0 then do {
             w \<leftarrow> authenticationFailure e vaultID (zero_event\<lparr>identityID := dev_ID device,
               identityVerified := True, operation := oper, outcome := ''denied'',
               reason := ''replay''\<rparr>) True 401 ''replayed request'';
             State_Monad.return (Inl w) }
           else do {
             pruned \<leftarrow> exec e (delete_nonces_before (to_secs (serverNow - 10 * minute)));
             case pruned of
               None \<Rightarrow> do { w \<leftarrow> writePersistError; State_Monad.return (Inl w) }
             | Some _ \<Rightarrow>
                 if authorizationReason \<noteq> '''' then do {
                   w \<leftarrow> authenticationFailure e vaultID (zero_event\<lparr>identityID := dev_ID device,
                     identityVerified := True, operation := oper, outcome := ''denied'',
                     reason := authorizationReason\<rparr>) True 401 ''unknown device'';
                   State_Monad.return (Inl w) }
                 else State_Monad.return (Inr \<lparr>auth_identityID = dev_ID device,
                        auth_operation = oper\<rparr>) } } }"

definition authenticateDevice ::
  "env \<Rightarrow> http_request \<Rightarrow> string \<Rightarrow> bytes \<Rightarrow> string \<Rightarrow> bool \<Rightarrow>
     (response + authenticatedRequest) handler" where
  "authenticateDevice e r vaultID body oper allowPending = do {
     exists \<leftarrow> vaultExists e vaultID;
     if \<not> exists then do { w \<leftarrow> writeError 404 ''vault not found''; State_Monad.return (Inl w) }
     else do {
       claimed \<leftarrow> claimedDevice e vaultID (rq_Device r) allowPending;
       case claimed of
         None \<Rightarrow> do { w \<leftarrow> writePersistError; State_Monad.return (Inl w) }
       | Some claimed \<Rightarrow>
           (case (case claimed of None \<Rightarrow> None
                  | Some (device, why) \<Rightarrow> if dev_ID device = '''' then None else Some (device, why)) of
              None \<Rightarrow> do {
                w \<leftarrow> authenticationFailure e vaultID (zero_event\<lparr>operation := oper,
                  outcome := ''denied'', reason := ''unknown_device''\<rparr>) False 401 ''unknown device'';
                State_Monad.return (Inl w) }
            | Some (device, why) \<Rightarrow>
                if rq_Signature r = '''' \<or>
                   \<not> Verify e (dev_SigningPublic device)
                       (SignatureMessage e (rq_Method r) (rq_RequestURI r) (rq_Timestamp r) (rq_Nonce r) body)
                       (rq_Signature r)
                then do {
                  w \<leftarrow> authenticationFailure e vaultID (zero_event\<lparr>identityID := dev_ID device,
                    operation := oper, outcome := ''denied'', reason := ''invalid_signature''\<rparr>)
                    False 401 ''invalid request signature'';
                  State_Monad.return (Inl w) }
                else acceptNonce e r vaultID device oper why) } }"

text \<open>The event of an accepted request that had the given target.\<close>

definition succeeded :: "authenticatedRequest \<Rightarrow> string \<Rightarrow> eventDetails" where
  "succeeded auth targetID = \<lparr>identityID = auth_identityID auth, identityVerified = True,
     targetIdentityID = targetID, operation = auth_operation auth, outcome = ''succeeded'', reason = ''''\<rparr>"

text \<open>
  How a handler ends: it records the event, commits and writes its result; or it reports that
  the event could not be recorded.
\<close>

definition finishWith :: "env \<Rightarrow> string \<Rightarrow> eventDetails \<Rightarrow> nat \<Rightarrow> payload \<Rightarrow> response handler" where
  "finishWith e vaultID event status p = do {
     failed \<leftarrow> finishEvent e vaultID event;
     case failed of Some w \<Rightarrow> State_Monad.return w | None \<Rightarrow> writeJSON status p }"

text \<open>
  The frame of every authenticated handler: begin the transaction, authenticate, continue.
\<close>

definition authenticated ::
  "env \<Rightarrow> http_request \<Rightarrow> string \<Rightarrow> bytes \<Rightarrow> string \<Rightarrow> bool \<Rightarrow>
     (authenticatedRequest \<Rightarrow> response handler) \<Rightarrow> response handler" where
  "authenticated e r vaultID body oper allowPending k = do {
     ok \<leftarrow> begin_tx e;
     if \<not> ok then writePersistError
     else do {
       auth \<leftarrow> authenticateDevice e r vaultID body oper allowPending;
       case auth of Inl w \<Rightarrow> State_Monad.return w | Inr auth \<Rightarrow> k auth } }"

text \<open>
  The frame of the authenticated handlers that read their body before the transaction.
\<close>

definition authenticatedBody ::
  "env \<Rightarrow> http_request \<Rightarrow> string \<Rightarrow> string \<Rightarrow> bool \<Rightarrow>
     (bytes \<Rightarrow> authenticatedRequest \<Rightarrow> response handler) \<Rightarrow> response handler" where
  "authenticatedBody e r vaultID oper allowPending k = do {
     body \<leftarrow> readBody e r;
     case body of
       Inl w \<Rightarrow> State_Monad.return w
     | Inr body \<Rightarrow> authenticated e r vaultID body oper allowPending (k body) }"

end
