(* ===== verification/Server_Handlers.thy ===== *)
theory Server_Handlers
  imports Server_Auth
begin

text \<open>
  The handlers of \<^verbatim>\<open>internal/server/server.go\<close> for vaults, enrollments, devices, records, vault
  objects and access events, each with every early return of the source. The list handlers
  read their rows with one query step: its failure stands for the failure of the query, of a
  scan, or of closing the rows, all of which the source answers alike.
\<close>

section \<open>Vaults and enrollments\<close>

definition createVault :: "env \<Rightarrow> http_request \<Rightarrow> response handler" where
  "createVault e r = do {
     decoded \<leftarrow> decodeJSON e r (json_create_vault e);
     case decoded of Inl w \<Rightarrow> State_Monad.return w | Inr request \<Rightarrow>
       (let dev = cv_Device request in
        if cv_Name request = '''' \<or> dev_Name dev = '''' \<or> dev_SigningPublic dev = '''' \<or>
           dev_WrappingPublic dev = ''''
        then writeError 400 ''vault and device fields are required''
        else if \<not> validPublicDeviceKeys e (dev_SigningPublic dev) (dev_WrappingPublic dev)
        then writeError 400 ''invalid device public keys''
        else do {
          vaultID \<leftarrow> randomID e;
          case vaultID of None \<Rightarrow> writeError 500 ''randomness unavailable'' | Some vaultID \<Rightarrow> do {
            deviceID \<leftarrow> randomID e;
            case deviceID of None \<Rightarrow> writeError 500 ''randomness unavailable'' | Some deviceID \<Rightarrow> do {
              now \<leftarrow> now_utc e;
              let device = dev\<lparr>dev_ID := deviceID, dev_CreatedAt := to_secs now,
                dev_Fingerprint := PublicFingerprint e (dev_SigningPublic dev) (dev_WrappingPublic dev)\<rparr>;
              ok \<leftarrow> begin_tx e;
              if \<not> ok then writePersistError else do {
                r1 \<leftarrow> exec e (insert_vault \<lparr>v_id = vaultID, v_name = cv_Name request,
                  v_created_at = to_secs now\<rparr>);
                case r1 of None \<Rightarrow> writePersistError | Some _ \<Rightarrow> do {
                  r2 \<leftarrow> exec e (insert_device vaultID device);
                  case r2 of None \<Rightarrow> writePersistError | Some _ \<Rightarrow> do {
                    failed \<leftarrow> commit e;
                    case failed of Some w \<Rightarrow> State_Monad.return w
                    | None \<Rightarrow> writeJSON 201 (PVaultCreated vaultID deviceID) } } } } } }) }"

definition enrolledDevice :: "env \<Rightarrow> string \<Rightarrow> int \<Rightarrow> string \<Rightarrow> string \<Rightarrow> string \<Rightarrow> public_device" where
  "enrolledDevice e deviceID now name signingPublic wrappingPublic =
     \<lparr>dev_ID = deviceID, dev_Name = name, dev_SigningPublic = signingPublic,
      dev_WrappingPublic = wrappingPublic,
      dev_Fingerprint = PublicFingerprint e signingPublic wrappingPublic,
      dev_CreatedAt = to_secs now\<rparr>"

definition requestEnrollment :: "env \<Rightarrow> http_request \<Rightarrow> string \<Rightarrow> response handler" where
  "requestEnrollment e r vaultID = do {
     body \<leftarrow> readLimitedBody e r;
     ok \<leftarrow> begin_tx e;
     if \<not> ok then writePersistError else do {
       exists \<leftarrow> vaultExists e vaultID;
       if \<not> exists then writeError 404 ''vault not found'' else
       case body of None \<Rightarrow> bestEffortPublicRejection e vaultID 400 ''request body is too large''
       | Some body \<Rightarrow>
         (case json_enrollment_request e body of
            None \<Rightarrow> bestEffortPublicRejection e vaultID 400 ''invalid JSON''
          | Some request \<Rightarrow>
              if er_Name request = '''' \<or> er_SigningPublic request = '''' \<or> er_WrappingPublic request = ''''
              then bestEffortPublicRejection e vaultID 400 ''device fields are required''
              else if \<not> validPublicDeviceKeys e (er_SigningPublic request) (er_WrappingPublic request)
              then bestEffortPublicRejection e vaultID 400 ''invalid device public keys''
              else do {
                deviceID \<leftarrow> randomID e;
                case deviceID of None \<Rightarrow> writeError 500 ''randomness unavailable'' | Some deviceID \<Rightarrow> do {
                  now \<leftarrow> now_utc e;
                  let device = enrolledDevice e deviceID now (er_Name request)
                    (er_SigningPublic request) (er_WrappingPublic request);
                  r1 \<leftarrow> exec e (insert_enrollment vaultID device);
                  case r1 of None \<Rightarrow> writePersistError | Some _ \<Rightarrow>
                    finishWith e vaultID (zero_event\<lparr>targetIdentityID := dev_ID device,
                        operation := ''enrollment_request'', outcome := ''succeeded''\<rparr>)
                      201 (PEnrollment \<lparr>es_Device = device, es_Approved = False,
                        es_Envelope = None, es_RevokedAt = None\<rparr>) } }) } }"

definition enrollment_list :: "string \<Rightarrow> db \<Rightarrow> enrollment_status list" where
  "enrollment_list vaultID d =
     map (\<lambda>r. \<lparr>es_Device = e_device r, es_Approved = e_approved r, es_Envelope = None,
            es_RevokedAt = (case find_device vaultID (dev_ID (e_device r)) False d of
                              None \<Rightarrow> None | Some ds \<Rightarrow> ds_RevokedAt ds)\<rparr>)
       (order_by (dev_CreatedAt \<circ> e_device) (dev_ID \<circ> e_device)
         (filter (\<lambda>r. e_vault_id r = vaultID) (enrollments d)))"

definition listEnrollments :: "env \<Rightarrow> http_request \<Rightarrow> string \<Rightarrow> response handler" where
  "listEnrollments e r vaultID =
     authenticated e r vaultID '''' ''enrollment_list'' False (\<lambda>auth. do {
       rows \<leftarrow> query e (enrollment_list vaultID);
       case rows of None \<Rightarrow> writePersistError | Some out \<Rightarrow>
         finishWith e vaultID (succeeded auth '''') 200 (PEnrollments out) })"

definition getEnrollment :: "env \<Rightarrow> http_request \<Rightarrow> string \<Rightarrow> string \<Rightarrow> response handler" where
  "getEnrollment e r vaultID enrollmentID =
     authenticated e r vaultID '''' ''enrollment_status'' True (\<lambda>auth. do {
       enrollment \<leftarrow> getEnrollmentTx e vaultID enrollmentID;
       case enrollment of
         None \<Rightarrow> writePersistError
       | Some None \<Rightarrow> rejectEvent e vaultID auth enrollmentID 404 (PError ''enrollment not found'') ''not_found''
       | Some (Some enrollment) \<Rightarrow>
           if auth_identityID auth \<noteq> dev_ID (es_Device enrollment) then
             finishWith e vaultID ((succeeded auth enrollmentID)\<lparr>outcome := ''denied'',
               reason := ''invalid_request''\<rparr>) 401 (PError ''device mismatch'')
           else finishWith e vaultID (succeeded auth enrollmentID) 200 (PEnrollment enrollment) })"

definition has_invitation :: "string \<Rightarrow> string \<Rightarrow> db \<Rightarrow> bool" where
  "has_invitation vaultID deviceID d \<longleftrightarrow> (vaultID, deviceID) \<in> set (map invitation_key (invitations d))"

definition approveEnrollment :: "env \<Rightarrow> http_request \<Rightarrow> string \<Rightarrow> string \<Rightarrow> response handler" where
  "approveEnrollment e r vaultID enrollmentID =
     authenticatedBody e r vaultID ''enrollment_approval'' False (\<lambda>body auth.
       case json_enrollment_approval e body of
         None \<Rightarrow> rejectEvent e vaultID auth enrollmentID 400 (PError ''invalid JSON'') ''invalid_request''
       | Some envelope \<Rightarrow> do {
           enrollment \<leftarrow> getEnrollmentTx e vaultID enrollmentID;
           case enrollment of
             None \<Rightarrow> writePersistError
           | Some None \<Rightarrow>
               rejectEvent e vaultID auth enrollmentID 404 (PError ''enrollment not found'') ''not_found''
           | Some (Some enrollment) \<Rightarrow>
               if es_Approved enrollment then
                 rejectEvent e vaultID auth enrollmentID 409 (PError ''enrollment already approved'')
                   ''already_approved''
               else do {
                 invitation \<leftarrow> query e (has_invitation vaultID enrollmentID);
                 case invitation of
                   None \<Rightarrow> writePersistError
                 | Some invited \<Rightarrow>
                     if invited then
                       rejectEvent e vaultID auth enrollmentID 409
                         (PError ''invitation must use versioned approval endpoint'') ''terminal_conflict''
                     else do {
                       r1 \<leftarrow> exec e (approve_enrollment_row vaultID enrollmentID envelope);
                       case r1 of None \<Rightarrow> writePersistError | Some _ \<Rightarrow> do {
                         r2 \<leftarrow> exec e (insert_device vaultID (es_Device enrollment));
                         case r2 of None \<Rightarrow> writePersistError | Some _ \<Rightarrow>
                           finishWith e vaultID (succeeded auth enrollmentID) 200
                             (PEnrollment \<lparr>es_Device = es_Device enrollment, es_Approved = True,
                               es_Envelope = None, es_RevokedAt = None\<rparr>) } } } })"

section \<open>Devices\<close>

definition device_list :: "string \<Rightarrow> db \<Rightarrow> device_status list" where
  "device_list vaultID d =
     map (\<lambda>r. \<lparr>ds_Device = d_device r, ds_RevokedAt = d_revoked_at r\<rparr>)
       (order_by (dev_CreatedAt \<circ> d_device) (dev_ID \<circ> d_device)
         (filter (\<lambda>r. d_vault_id r = vaultID) (devices d)))"

definition listDevices :: "env \<Rightarrow> http_request \<Rightarrow> string \<Rightarrow> response handler" where
  "listDevices e r vaultID =
     authenticated e r vaultID '''' ''device_list'' False (\<lambda>auth. do {
       rows \<leftarrow> query e (device_list vaultID);
       case rows of None \<Rightarrow> writePersistError | Some out \<Rightarrow>
         finishWith e vaultID (succeeded auth '''') 200 (PDevices out) })"

definition revokeDevice :: "env \<Rightarrow> http_request \<Rightarrow> string \<Rightarrow> string \<Rightarrow> response handler" where
  "revokeDevice e r vaultID deviceID =
     authenticated e r vaultID '''' ''device_revocation'' False (\<lambda>auth. do {
       target \<leftarrow> getDeviceStatusTx e vaultID deviceID False;
       case target of
         None \<Rightarrow> writePersistError
       | Some None \<Rightarrow> rejectEvent e vaultID auth deviceID 404 (PError ''device not found'') ''not_found''
       | Some (Some target) \<Rightarrow>
           if ds_RevokedAt target \<noteq> None then
             rejectEvent e vaultID auth deviceID 409 (PError ''device already revoked'') ''already_revoked''
           else do {
             active \<leftarrow> query e (active_count vaultID);
             case active of
               None \<Rightarrow> writePersistError
             | Some active \<Rightarrow>
                 if active \<le> 1 then
                   rejectEvent e vaultID auth deviceID 409
                     (PError ''cannot revoke the final active device'') ''final_active_device''
                 else do {
                   now \<leftarrow> now_utc e;
                   updated \<leftarrow> exec e (revoke_device_row (to_secs now) vaultID deviceID);
                   case updated of
                     None \<Rightarrow> writePersistError
                   | Some updated \<Rightarrow>
                       if updated \<noteq> 1 then
                         rejectEvent e vaultID auth deviceID 409 (PError ''device already revoked'')
                           ''already_revoked''
                       else do {
                         deleted \<leftarrow> exec e (delete_device_nonces vaultID deviceID);
                         case deleted of
                           None \<Rightarrow> writePersistError
                         | Some _ \<Rightarrow>
                             finishWith e vaultID (succeeded auth deviceID) 200
                               (PDevice (target\<lparr>ds_RevokedAt := Some (to_secs now)\<rparr>)) } } } })"

section \<open>Records\<close>

definition record_list :: "string \<Rightarrow> db \<Rightarrow> secret_blob_record list" where
  "record_list vaultID d =
     map (\<lambda>r. \<lparr>rec_ID = r_id r, rec_Revision = r_revision r, rec_Blob = r_blob r,
            rec_ModifiedAt = r_modified_at r\<rparr>)
       (filter (\<lambda>r. r_vault_id r = vaultID) (records d))"

definition listRecords :: "env \<Rightarrow> http_request \<Rightarrow> string \<Rightarrow> response handler" where
  "listRecords e r vaultID =
     authenticated e r vaultID '''' ''record_list'' False (\<lambda>auth. do {
       rows \<leftarrow> query e (record_list vaultID);
       case rows of None \<Rightarrow> writePersistError | Some out \<Rightarrow>
         finishWith e vaultID (succeeded auth '''') 200 (PRecords out) })"

text \<open>\<^verbatim>\<open>current\<close> stays 0 when no row is found.\<close>

definition current_revision :: "string \<Rightarrow> string \<Rightarrow> db \<Rightarrow> int" where
  "current_revision vaultID recordID d =
     (case find (\<lambda>r. record_key r = (vaultID, recordID)) (records d) of
        None \<Rightarrow> 0 | Some r \<Rightarrow> r_revision r)"

definition putRecord :: "env \<Rightarrow> http_request \<Rightarrow> string \<Rightarrow> string \<Rightarrow> response handler" where
  "putRecord e r vaultID recordID =
     authenticatedBody e r vaultID ''record_update'' False (\<lambda>body auth.
       case json_put_record e body of
         None \<Rightarrow> rejectEvent e vaultID auth '''' 400 (PError ''invalid JSON'') ''invalid_request''
       | Some request \<Rightarrow> do {
           current \<leftarrow> query e (current_revision vaultID recordID);
           case current of
             None \<Rightarrow> writePersistError
           | Some current \<Rightarrow>
               if current \<noteq> pr_ExpectedRevision request then
                 rejectEvent e vaultID auth '''' 409 (PRevisionConflict current) ''revision_conflict''
               else do {
                 now \<leftarrow> now_utc e;
                 let revision = i64 (current + 1);
                 r1 \<leftarrow> (if current = 0 then
                         exec e (insert_record \<lparr>r_vault_id = vaultID, r_id = recordID,
                           r_revision = revision, r_blob = pr_Blob request, r_modified_at = to_secs now\<rparr>)
                       else exec e (update_record vaultID recordID current revision
                              (pr_Blob request) (to_secs now)));
                 case r1 of None \<Rightarrow> writePersistError | Some _ \<Rightarrow>
                   finishWith e vaultID (succeeded auth '''') 200
                     (PRecord \<lparr>rec_ID = recordID, rec_Revision = revision, rec_Blob = pr_Blob request,
                       rec_ModifiedAt = to_secs now\<rparr>) } })"

section \<open>Vault objects\<close>

definition object_of_row :: "object_row \<Rightarrow> vault_object" where
  "object_of_row r = \<lparr>vo_ID = o_id r, vo_Revision = o_revision r, vo_Blob = o_blob r,
     vo_ModifiedAt = o_modified_at r\<rparr>"

definition object_list :: "string \<Rightarrow> db \<Rightarrow> vault_object list" where
  "object_list vaultID d =
     map object_of_row (sort_key o_id (filter (\<lambda>r. o_vault_id r = vaultID) (vault_objects d)))"

definition find_object :: "string \<Rightarrow> string \<Rightarrow> db \<Rightarrow> vault_object option" where
  "find_object vaultID objectID d =
     map_option object_of_row (find (\<lambda>r. object_key r = (vaultID, objectID)) (vault_objects d))"

definition listVaultObjects :: "env \<Rightarrow> http_request \<Rightarrow> string \<Rightarrow> response handler" where
  "listVaultObjects e r vaultID =
     authenticated e r vaultID '''' ''object_list'' False (\<lambda>auth. do {
       rows \<leftarrow> query e (object_list vaultID);
       case rows of None \<Rightarrow> writePersistError | Some objects \<Rightarrow>
         finishWith e vaultID (succeeded auth '''') 200 (PObjects objects) })"

definition getVaultObject :: "env \<Rightarrow> http_request \<Rightarrow> string \<Rightarrow> string \<Rightarrow> response handler" where
  "getVaultObject e r vaultID objectID =
     authenticated e r vaultID '''' ''object_read'' False (\<lambda>auth. do {
       found \<leftarrow> query e (find_object vaultID objectID);
       case found of
         None \<Rightarrow> writePersistError
       | Some None \<Rightarrow> rejectEvent e vaultID auth '''' 404 (PError ''vault object not found'') ''not_found''
       | Some (Some obj) \<Rightarrow> finishWith e vaultID (succeeded auth '''') 200 (PObject obj) })"

definition validOpaqueObjectID :: "string \<Rightarrow> bool" where
  "validOpaqueObjectID ident =
     (case b64_decode ident of None \<Rightarrow> False | Some raw \<Rightarrow> length raw = 32 \<and> b64_encode raw = ident)"

definition validObjectTimestamp :: "string \<Rightarrow> bool" where
  "validObjectTimestamp value \<longleftrightarrow> parse_canonical value \<noteq> None"

definition validEncryptedVaultObject :: "blob \<Rightarrow> bool" where
  "validEncryptedVaultObject b =
     (if blob_Version b \<noteq> 1 then False
      else case b64_decode (blob_Nonce b) of
             None \<Rightarrow> False
           | Some nonce \<Rightarrow>
               if length nonce \<noteq> 12 \<or> b64_encode nonce \<noteq> blob_Nonce b then False
               else case b64_decode (blob_Ciphertext b) of
                      None \<Rightarrow> False
                    | Some ciphertext \<Rightarrow>
                        16 \<le> length ciphertext \<and> b64_encode ciphertext = blob_Ciphertext b)"

definition current_object_revision :: "string \<Rightarrow> string \<Rightarrow> db \<Rightarrow> int option" where
  "current_object_revision vaultID objectID d =
     map_option o_revision (find (\<lambda>r. object_key r = (vaultID, objectID)) (vault_objects d))"

definition putVaultObject :: "env \<Rightarrow> http_request \<Rightarrow> string \<Rightarrow> string \<Rightarrow> response handler" where
  "putVaultObject e r vaultID objectID =
     authenticatedBody e r vaultID ''object_update'' False (\<lambda>body auth.
       case (case json_put_object e body of
               None \<Rightarrow> None
             | Some request \<Rightarrow>
                 if \<not> validOpaqueObjectID objectID \<or> po_ExpectedRevision request < 0 \<or>
                    \<not> validObjectTimestamp (po_ModifiedAt request) \<or>
                    \<not> validEncryptedVaultObject (po_Blob request)
                 then None else Some request) of
         None \<Rightarrow> rejectEvent e vaultID auth '''' 400 (PError ''invalid encrypted vault object'')
                   ''invalid_request''
       | Some request \<Rightarrow> do {
           current \<leftarrow> query e (current_object_revision vaultID objectID);
           case current of
             None \<Rightarrow> writePersistError
           | Some found \<Rightarrow>
               (let current = (case found of None \<Rightarrow> 0 | Some n \<Rightarrow> n);
                    revision = i64 (current + 1) in
                if current \<noteq> po_ExpectedRevision request then
                  rejectEvent e vaultID auth '''' 409 (PRevisionConflict current) ''revision_conflict''
                else do {
                  r1 \<leftarrow> (if current = 0 then do {
                          n \<leftarrow> exec e (insert_object \<lparr>o_vault_id = vaultID, o_id = objectID,
                            o_revision = revision, o_blob = po_Blob request,
                            o_modified_at = po_ModifiedAt request\<rparr>);
                          State_Monad.return (n \<noteq> None) }
                        else do {
                          n \<leftarrow> exec e (update_object vaultID objectID current revision (po_Blob request)
                            (po_ModifiedAt request));
                          State_Monad.return (n = Some 1) });
                  if \<not> r1 then writePersistError
                  else finishWith e vaultID (succeeded auth '''') 200
                         (PObject \<lparr>vo_ID = objectID, vo_Revision = revision, vo_Blob = po_Blob request,
                           vo_ModifiedAt = po_ModifiedAt request\<rparr>) }) })"

definition deleteVaultObject :: "env \<Rightarrow> http_request \<Rightarrow> string \<Rightarrow> string \<Rightarrow> response handler" where
  "deleteVaultObject e r vaultID objectID =
     authenticatedBody e r vaultID ''object_delete'' False (\<lambda>body auth.
       case (case json_delete_object e body of
               None \<Rightarrow> None
             | Some expected \<Rightarrow>
                 if \<not> validOpaqueObjectID objectID \<or> expected < 1 then None else Some expected) of
         None \<Rightarrow> rejectEvent e vaultID auth '''' 400 (PError ''invalid vault object deletion'')
                   ''invalid_request''
       | Some expected \<Rightarrow> do {
           deleted \<leftarrow> exec e (delete_object vaultID objectID expected);
           case deleted of
             None \<Rightarrow> writePersistError
           | Some deleted \<Rightarrow>
               if deleted \<noteq> 1 then do {
                 current \<leftarrow> query e (current_object_revision vaultID objectID);
                 case current of
                   None \<Rightarrow> writePersistError
                 | Some None \<Rightarrow>
                     rejectEvent e vaultID auth '''' 404 (PError ''vault object not found'') ''not_found''
                 | Some (Some current) \<Rightarrow>
                     rejectEvent e vaultID auth '''' 409 (PRevisionConflict current) ''revision_conflict'' }
               else finishWith e vaultID (succeeded auth '''') 204 PEmpty })"

section \<open>Access events\<close>

definition event_of_row :: "event_row \<Rightarrow> access_event" where
  "event_of_row r =
     \<lparr>ae_ID = ev_id r, ae_VaultID = ev_vault_id r, ae_Timestamp = ev_timestamp r,
      ae_IdentityID = ev_identity_id r, ae_IdentityVerified = ev_identity_verified r,
      ae_TargetIdentityID = ev_target_identity_id r, ae_Operation = ev_operation r,
      ae_Outcome = ev_outcome r, ae_Reason = ev_reason r\<rparr>"

definition event_rows :: "string \<Rightarrow> int \<Rightarrow> nat \<Rightarrow> db \<Rightarrow> event_row list" where
  "event_rows vaultID before n d =
     take n (rev (sort_key ev_sequence
       (filter (\<lambda>r. ev_vault_id r = vaultID \<and> (before \<noteq> 0 \<longrightarrow> ev_sequence r < before))
         (access_events d))))"

text \<open>The scan loop: events collected so far, the last sequence, whether more rows follow.\<close>

fun collect_page ::
  "nat \<Rightarrow> access_event list \<Rightarrow> int \<Rightarrow> event_row list \<Rightarrow> access_event list \<times> int \<times> bool" where
  "collect_page limit events lastSequence [] = (events, lastSequence, False)"
| "collect_page limit events lastSequence (row # rows) =
     (if length events = limit then (events, lastSequence, True)
      else collect_page limit (events @ [event_of_row row]) (ev_sequence row) rows)"

definition listAccessEvents :: "env \<Rightarrow> http_request \<Rightarrow> string \<Rightarrow> response handler" where
  "listAccessEvents e r vaultID =
     authenticated e r vaultID '''' ''event_list'' False (\<lambda>auth.
       case parseAccessEventPage (rq_Limit r) (rq_Before r) of
         Inl msg \<Rightarrow> rejectEvent e vaultID auth '''' 400 (PError msg) ''invalid_request''
       | Inr (limit, before) \<Rightarrow> do {
           ok \<leftarrow> insertAccessEvent e vaultID (succeeded auth '''');
           if \<not> ok then writePersistError else do {
             rows \<leftarrow> query e (event_rows vaultID before (nat (limit + 1)));
             case rows of
               None \<Rightarrow> writePersistError
             | Some rows \<Rightarrow>
                 (case collect_page (nat limit) [] 0 rows of (events, lastSequence, hasMore) \<Rightarrow> do {
                    failed \<leftarrow> commit e;
                    case failed of Some w \<Rightarrow> State_Monad.return w
                    | None \<Rightarrow> writeJSON 200 (PEvents events
                        (if hasMore then Some (encodeEventCursor lastSequence) else None)) }) } })"

end
