(* ===== verification/Server_Invitations.thy ===== *)
theory Server_Invitations
  imports Server_Handlers
begin

text \<open>
  \<^verbatim>\<open>internal/server/invitations.go\<close>: the life of a pairing invitation (creation, listing, status,
  the approve, reject and cancel transitions, failed attempts, expiry), and the dispatch of
  \<^verbatim>\<open>ServeHTTP\<close> over all handlers.
\<close>

section \<open>Rows and helpers\<close>

definition invitationLifetime :: int where
  "invitationLifetime = 10 * minute"

definition invitationMaxAttempts :: int where
  "invitationMaxAttempts = 5"

record invitationRow =
  ivr_status :: invitation_status
  ivr_failedAttempts :: int
  ivr_terminalActor :: "string option"

text \<open>\<^verbatim>\<open>scanInvitation\<close> on a row of the join of an invitation with its enrollment.\<close>

definition scanInvitation :: "invitation_row \<Rightarrow> enrollment_row \<Rightarrow> invitationRow" where
  "scanInvitation i en =
     \<lparr>ivr_status = \<lparr>is_Version = i_protocol_version i,
         is_Device = (e_device en)\<lparr>dev_ID := i_device_id i\<rparr>,
         is_State = i_state i, is_ExpiresAt = i_expires_at i,
         is_AttemptsRemaining = invitationMaxAttempts - i_failed_attempts i,
         is_TerminalAt = i_terminal_at i, is_Envelope = None\<rparr>,
      ivr_failedAttempts = i_failed_attempts i,
      ivr_terminalActor = i_terminal_actor i\<rparr>"

definition join_invitation :: "db \<Rightarrow> invitation_row \<Rightarrow> invitationRow option" where
  "join_invitation d i =
     map_option (scanInvitation i) (find (\<lambda>en. enrollment_key en = invitation_key i) (enrollments d))"

definition find_invitation :: "string \<Rightarrow> string \<Rightarrow> db \<Rightarrow> invitationRow option" where
  "find_invitation vaultID deviceID d =
     Option.bind (find (\<lambda>i. invitation_key i = (vaultID, deviceID)) (invitations d)) (join_invitation d)"

definition getInvitationTx :: "env \<Rightarrow> string \<Rightarrow> string \<Rightarrow> invitationRow option option handler" where
  "getInvitationTx e vaultID deviceID = query e (find_invitation vaultID deviceID)"

text \<open>A failed lookup counts as an inactive actor.\<close>

definition actorIsActive :: "env \<Rightarrow> string \<Rightarrow> string \<Rightarrow> bool handler" where
  "actorIsActive e vaultID deviceID = do {
     st \<leftarrow> getDeviceStatusTx e vaultID deviceID True;
     State_Monad.return (case st of Some (Some _) \<Rightarrow> True | _ \<Rightarrow> False) }"

definition validEnvelope :: "wrapped_key \<Rightarrow> bool" where
  "validEnvelope envelope =
     (case (b64_decode (wk_EphemeralKey envelope), b64_decode (blob_Nonce (wk_Blob envelope)),
            b64_decode (blob_Ciphertext (wk_Blob envelope))) of
        (Some ephemeral, Some nonce, Some ciphertext) \<Rightarrow>
          wk_Version envelope = 1 \<and> blob_Version (wk_Blob envelope) = 1 \<and>
          length ephemeral = 32 \<and> length nonce = 12 \<and> 16 \<le> length ciphertext
      | _ \<Rightarrow> False)"

fun terminalReason :: "inv_state \<Rightarrow> string" where
  "terminalReason InvitationExpired = ''expired''"
| "terminalReason InvitationAttemptsExhausted = ''attempt_exhaustion''"
| "terminalReason _ = ''terminal_conflict''"

definition bestEffortInvitationCreationRejection :: "env \<Rightarrow> string \<Rightarrow> string \<Rightarrow> response handler" where
  "bestEffortInvitationCreationRejection e vaultID message = do {
     ok \<leftarrow> insertAccessEvent e vaultID (zero_event\<lparr>operation := ''invitation_creation'',
       outcome := ''rejected'',
       reason := (if message = ''unsupported invitation version'' then ''unsupported_version''
                  else ''invalid_request'')\<rparr>);
     if \<not> ok then writeError 400 message
     else do { _ \<leftarrow> commit_tx e; writeError 400 message } }"

section \<open>Creation\<close>

definition createInvitation :: "env \<Rightarrow> http_request \<Rightarrow> string \<Rightarrow> response handler" where
  "createInvitation e r vaultID = do {
     body \<leftarrow> readLimitedBody e r;
     ok \<leftarrow> begin_tx e;
     if \<not> ok then writePersistError else do {
       exists \<leftarrow> vaultExists e vaultID;
       if \<not> exists then writeError 404 ''vault not found'' else
       case Option.bind body (strict_invitation_request e) of
         None \<Rightarrow> bestEffortInvitationCreationRejection e vaultID ''invalid invitation request''
       | Some request \<Rightarrow>
           if ir_Version request \<noteq> InvitationProtocolVersion then
             bestEffortInvitationCreationRejection e vaultID ''unsupported invitation version''
           else (let name = trim_space (ir_Name request) in
             if name = '''' \<or> 64 < length name \<or> has_control name \<or>
                ir_SigningPublic request = '''' \<or> ir_WrappingPublic request = '''' then
               bestEffortInvitationCreationRejection e vaultID ''device fields are required''
             else if \<not> validPublicDeviceKeys e (ir_SigningPublic request) (ir_WrappingPublic request) then
               bestEffortInvitationCreationRejection e vaultID ''invalid device public keys''
             else do {
               deviceID \<leftarrow> randomID e;
               case deviceID of None \<Rightarrow> writeError 500 ''randomness unavailable'' | Some deviceID \<Rightarrow> do {
                 now \<leftarrow> now_utc e;
                 let device = enrolledDevice e deviceID now name
                   (ir_SigningPublic request) (ir_WrappingPublic request);
                 r1 \<leftarrow> exec e (insert_enrollment vaultID device);
                 case r1 of None \<Rightarrow> writePersistError | Some _ \<Rightarrow> do {
                   let expiresAt = to_secs (now + invitationLifetime);
                   r2 \<leftarrow> exec e (insert_invitation \<lparr>i_vault_id = vaultID, i_device_id = dev_ID device,
                     i_protocol_version = ir_Version request, i_state = InvitationPending,
                     i_expires_at = expiresAt, i_failed_attempts = 0, i_terminal_at = None,
                     i_terminal_actor = None\<rparr>);
                   case r2 of None \<Rightarrow> writePersistError | Some _ \<Rightarrow>
                     finishWith e vaultID (zero_event\<lparr>targetIdentityID := dev_ID device,
                         operation := ''invitation_creation'', outcome := ''succeeded''\<rparr>)
                       201 (PInvitation \<lparr>is_Version = ir_Version request, is_Device = device,
                         is_State = InvitationPending, is_ExpiresAt = expiresAt,
                         is_AttemptsRemaining = invitationMaxAttempts, is_TerminalAt = None,
                         is_Envelope = None\<rparr>) } } }) } }"

section \<open>Expiry\<close>

text \<open>\<open>Inl w\<close> when the handler must stop with response \<open>w\<close>, else the row as it is now.\<close>

definition expireInvitation :: "env \<Rightarrow> string \<Rightarrow> invitationRow \<Rightarrow> (response + invitationRow) handler" where
  "expireInvitation e vaultID row =
     (if is_State (ivr_status row) \<noteq> InvitationPending then State_Monad.return (Inr row)
      else do {
        t \<leftarrow> now_utc e;
        if t < is_ExpiresAt (ivr_status row) * second then State_Monad.return (Inr row)
        else do {
          now \<leftarrow> now_utc e;
          updated \<leftarrow> exec e (close_invitation_row InvitationExpired (to_secs now) ''server'' vaultID
            (dev_ID (is_Device (ivr_status row))));
          case updated of
            None \<Rightarrow> do { w \<leftarrow> writePersistError; State_Monad.return (Inl w) }
          | Some updated \<Rightarrow> do {
              ok \<leftarrow> (if updated = 1 then
                       insertAccessEvent e vaultID (zero_event\<lparr>
                         targetIdentityID := dev_ID (is_Device (ivr_status row)),
                         operation := ''invitation_expiry'', outcome := ''succeeded'', reason := ''expired''\<rparr>)
                     else State_Monad.return True);
              if \<not> ok then do { w \<leftarrow> writePersistError; State_Monad.return (Inl w) }
              else State_Monad.return (Inr (row\<lparr>
                ivr_status := (ivr_status row)\<lparr>is_State := InvitationExpired,
                  is_TerminalAt := Some (to_secs now)\<rparr>,
                ivr_terminalActor := Some ''server''\<rparr>)) } } })"

definition pending_rows :: "string \<Rightarrow> string \<Rightarrow> db \<Rightarrow> invitationRow list" where
  "pending_rows vaultID deviceID d =
     List.map_filter (join_invitation d)
       (filter (\<lambda>i. i_vault_id i = vaultID \<and> i_state i = InvitationPending \<and>
                    (deviceID \<noteq> '''' \<longrightarrow> i_device_id i = deviceID)) (invitations d))"

fun expireEach :: "env \<Rightarrow> string \<Rightarrow> invitationRow list \<Rightarrow> response option handler" where
  "expireEach e vaultID [] = State_Monad.return None"
| "expireEach e vaultID (row # rows) = do {
     x \<leftarrow> expireInvitation e vaultID row;
     case x of Inl w \<Rightarrow> State_Monad.return (Some w) | Inr _ \<Rightarrow> expireEach e vaultID rows }"

definition expireInvitations :: "env \<Rightarrow> string \<Rightarrow> string \<Rightarrow> response option handler" where
  "expireInvitations e vaultID deviceID = do {
     rows \<leftarrow> query e (pending_rows vaultID deviceID);
     case rows of
       None \<Rightarrow> do { w \<leftarrow> writePersistError; State_Monad.return (Some w) }
     | Some pending \<Rightarrow> expireEach e vaultID pending }"

section \<open>Listing and status\<close>

definition invitation_list :: "string \<Rightarrow> db \<Rightarrow> invitation_status list" where
  "invitation_list vaultID d =
     map ivr_status
       (order_by (dev_CreatedAt \<circ> is_Device \<circ> ivr_status) (dev_ID \<circ> is_Device \<circ> ivr_status)
         (List.map_filter (join_invitation d) (filter (\<lambda>i. i_vault_id i = vaultID) (invitations d))))"

definition listInvitations :: "env \<Rightarrow> http_request \<Rightarrow> string \<Rightarrow> response handler" where
  "listInvitations e r vaultID =
     authenticated e r vaultID '''' ''invitation_list'' False (\<lambda>auth. do {
       failed \<leftarrow> expireInvitations e vaultID '''';
       case failed of Some w \<Rightarrow> State_Monad.return w | None \<Rightarrow> do {
         rows \<leftarrow> query e (invitation_list vaultID);
         case rows of None \<Rightarrow> writePersistError | Some out \<Rightarrow>
           finishWith e vaultID (succeeded auth '''') 200 (PInvitations out) } })"

definition getInvitation :: "env \<Rightarrow> http_request \<Rightarrow> string \<Rightarrow> string \<Rightarrow> response handler" where
  "getInvitation e r vaultID deviceID =
     authenticated e r vaultID '''' ''invitation_status'' True (\<lambda>auth. do {
       row \<leftarrow> getInvitationTx e vaultID deviceID;
       case row of
         None \<Rightarrow> writePersistError
       | Some None \<Rightarrow> rejectEvent e vaultID auth deviceID 404 (PError ''invitation not found'') ''not_found''
       | Some (Some row) \<Rightarrow> do {
           active \<leftarrow> actorIsActive e vaultID (auth_identityID auth);
           if \<not> active \<and> auth_identityID auth \<noteq> deviceID then
             rejectEvent e vaultID auth deviceID 401 (PError ''device cannot inspect invitation'')
               ''incorrect_actor''
           else do {
             x \<leftarrow> expireInvitation e vaultID row;
             case x of Inl w \<Rightarrow> State_Monad.return w | Inr row \<Rightarrow>
               if is_State (ivr_status row) = InvitationApproved \<and> auth_identityID auth = deviceID then do {
                 enrollment \<leftarrow> getEnrollmentTx e vaultID deviceID;
                 case enrollment of
                   Some (Some enr) \<Rightarrow>
                     finishWith e vaultID (succeeded auth deviceID) 200
                       (PInvitation ((ivr_status row)\<lparr>is_Envelope := es_Envelope enr\<rparr>))
                 | _ \<Rightarrow> writePersistError }
               else finishWith e vaultID (succeeded auth deviceID) 200 (PInvitation (ivr_status row)) } } })"

section \<open>Transitions\<close>

definition failInvitationAttempt ::
  "env \<Rightarrow> string \<Rightarrow> authenticatedRequest \<Rightarrow> invitationRow \<Rightarrow> string \<Rightarrow> string \<Rightarrow> string \<Rightarrow> response handler" where
  "failInvitationAttempt e vaultID auth row oper why message = do {
     let attempts = ivr_failedAttempts row + 1;
     let exhausted = invitationMaxAttempts \<le> attempts;
     let deviceID = dev_ID (is_Device (ivr_status row));
     terminalAt \<leftarrow> (if exhausted then do { now \<leftarrow> now_utc e; State_Monad.return (Some (to_secs now)) }
                   else State_Monad.return None);
     let terminalActor = (if exhausted then Some (auth_identityID auth) else None);
     let st = (if exhausted then InvitationAttemptsExhausted else InvitationPending);
     let why = (if exhausted then ''attempt_exhaustion'' else why);
     updated \<leftarrow> exec e (fail_invitation_row attempts st terminalAt terminalActor vaultID deviceID);
     case updated of
       None \<Rightarrow> writePersistError
     | Some updated \<Rightarrow>
         if updated \<noteq> 1 then
           rejectEvent e vaultID auth deviceID 409 (PError ''invitation already transitioned'')
             ''terminal_conflict''
         else finishWith e vaultID \<lparr>identityID = auth_identityID auth, identityVerified = True,
                targetIdentityID = deviceID, operation = oper, outcome = ''rejected'', reason = why\<rparr>
                (if exhausted then 409 else 400)
                (PError (if exhausted then ''invitation attempts exhausted'' else message)) }"

datatype inv_action = Approve | Reject | Cancel

fun action_operation :: "inv_action \<Rightarrow> string" where
  "action_operation Approve = ''invitation_approval''"
| "action_operation Reject = ''invitation_rejection''"
| "action_operation Cancel = ''invitation_cancellation''"

fun action_state :: "inv_action \<Rightarrow> inv_state" where
  "action_state Approve = InvitationApproved"
| "action_state Reject = InvitationRejected"
| "action_state Cancel = InvitationCancelled"

text \<open>The decoded body: the bindings it claims and, for an approval, the envelope.\<close>

definition decode_action ::
  "env \<Rightarrow> inv_action \<Rightarrow> bytes \<Rightarrow> (invitation_transition \<times> wrapped_key option) option" where
  "decode_action e action body =
     (if action = Approve then
        map_option (\<lambda>a. (\<lparr>it_Version = ia_Version a, it_DeviceID = ia_DeviceID a,
            it_Fingerprint = ia_Fingerprint a\<rparr>, Some (ia_Envelope a)))
          (strict_invitation_approval e body)
      else map_option (\<lambda>t. (t, None)) (strict_invitation_transition e body))"

definition roleOK :: "inv_action \<Rightarrow> string \<Rightarrow> string \<Rightarrow> bool \<Rightarrow> bool" where
  "roleOK action identity deviceID active \<longleftrightarrow>
     action = Cancel \<and> identity = deviceID \<and> \<not> active \<or> action \<noteq> Cancel \<and> active"

definition bindingOK :: "invitation_transition \<Rightarrow> invitation_status \<Rightarrow> bool" where
  "bindingOK t st \<longleftrightarrow> it_Version t = is_Version st \<and> it_DeviceID t = dev_ID (is_Device st) \<and>
     it_Fingerprint t = dev_Fingerprint (is_Device st)"

text \<open>
  The checks on role, binding and envelope: the envelope to store, or the reason and message
  of the failed attempt.
\<close>

definition check_transition ::
  "inv_action \<Rightarrow> string \<Rightarrow> string \<Rightarrow> bool \<Rightarrow> invitation_status \<Rightarrow>
     (invitation_transition \<times> wrapped_key option) option \<Rightarrow> (string \<times> string) + wrapped_key option" where
  "check_transition action identity deviceID active st decoded =
     (if \<not> roleOK action identity deviceID active then
        Inl (''incorrect_actor'', ''device cannot perform invitation transition'')
      else case decoded of
        None \<Rightarrow> Inl (''invalid_request'', ''invalid invitation transition'')
      | Some (t, envelope) \<Rightarrow>
          if it_Version t \<noteq> is_Version st then Inl (''unsupported_version'', ''invitation version mismatch'')
          else if \<not> bindingOK t st \<or> (case envelope of None \<Rightarrow> False | Some k \<Rightarrow> \<not> validEnvelope k) then
            Inl (''binding_mismatch'', ''invitation transition binding mismatch'')
          else Inr envelope)"

definition applyTransition ::
  "env \<Rightarrow> string \<Rightarrow> string \<Rightarrow> inv_action \<Rightarrow> authenticatedRequest \<Rightarrow> invitationRow \<Rightarrow>
     wrapped_key option \<Rightarrow> response handler" where
  "applyTransition e vaultID deviceID action auth row envelope = do {
     now \<leftarrow> now_utc e;
     updated \<leftarrow> exec e (close_invitation_row (action_state action) (to_secs now) (auth_identityID auth)
       vaultID deviceID);
     case updated of
       None \<Rightarrow> writePersistError
     | Some updated \<Rightarrow>
         if updated \<noteq> 1 then
           rejectEvent e vaultID auth deviceID 409 (PError ''invitation already transitioned'')
             ''terminal_conflict''
         else do {
           stored \<leftarrow> (case envelope of
             None \<Rightarrow> State_Monad.return True
           | Some envelope \<Rightarrow> do {
               updated \<leftarrow> exec e (approve_enrollment_row vaultID deviceID envelope);
               if updated \<noteq> Some 1 then State_Monad.return False
               else do {
                 r2 \<leftarrow> exec e (insert_device vaultID (is_Device (ivr_status row)));
                 State_Monad.return (r2 \<noteq> None) } });
           if \<not> stored then writePersistError
           else finishWith e vaultID (succeeded auth deviceID) 200
             (PInvitation ((ivr_status row)\<lparr>is_State := action_state action,
               is_TerminalAt := Some (to_secs now)\<rparr>)) } }"

definition transitionInvitation ::
  "env \<Rightarrow> http_request \<Rightarrow> string \<Rightarrow> string \<Rightarrow> inv_action \<Rightarrow> response handler" where
  "transitionInvitation e r vaultID deviceID action =
     authenticatedBody e r vaultID (action_operation action) True (\<lambda>body auth. do {
       row \<leftarrow> getInvitationTx e vaultID deviceID;
       case row of
         None \<Rightarrow> writePersistError
       | Some None \<Rightarrow> rejectEvent e vaultID auth deviceID 404 (PError ''invitation not found'') ''not_found''
       | Some (Some row) \<Rightarrow> do {
           x \<leftarrow> expireInvitation e vaultID row;
           case x of Inl w \<Rightarrow> State_Monad.return w | Inr row \<Rightarrow>
             if is_State (ivr_status row) \<noteq> InvitationPending then
               rejectEvent e vaultID auth deviceID 409
                 (PError (''invitation is '' @ inv_state_text (is_State (ivr_status row))))
                 (terminalReason (is_State (ivr_status row)))
             else do {
               active \<leftarrow> actorIsActive e vaultID (auth_identityID auth);
               case check_transition action (auth_identityID auth) deviceID active (ivr_status row)
                      (decode_action e action body) of
                 Inl (why, message) \<Rightarrow>
                   failInvitationAttempt e vaultID auth row (action_operation action) why message
               | Inr envelope \<Rightarrow> applyTransition e vaultID deviceID action auth row envelope } } })"

section \<open>Dispatch\<close>

fun parse_action :: "string \<Rightarrow> inv_action option" where
  "parse_action s =
     (if s = ''approve'' then Some Approve else if s = ''reject'' then Some Reject
      else if s = ''cancel'' then Some Cancel else None)"

definition ServeHTTP :: "env \<Rightarrow> http_request \<Rightarrow> response handler" where
  "ServeHTTP e r =
     (let m = rq_Method r in
      if rq_Path r = ''/healthz'' \<and> m = ''GET'' then writeJSON 200 PHealth
      else if rq_Path r = ''/v1/vaults'' \<and> m = ''POST'' then createVault e r
      else case split_on (CHR ''/'') (trim_char (CHR ''/'') (rq_Path r)) of
        v1 # vs # vaultID # rest \<Rightarrow>
          if v1 \<noteq> ''v1'' \<or> vs \<noteq> ''vaults'' then writeError 404 ''not found''
          else (case rest of
            [a] \<Rightarrow>
              if a = ''invitations'' \<and> m = ''POST'' then createInvitation e r vaultID
              else if a = ''invitations'' \<and> m = ''GET'' then listInvitations e r vaultID
              else if a = ''enrollments'' \<and> m = ''POST'' then requestEnrollment e r vaultID
              else if a = ''enrollments'' \<and> m = ''GET'' then listEnrollments e r vaultID
              else if a = ''devices'' \<and> m = ''GET'' then listDevices e r vaultID
              else if a = ''records'' \<and> m = ''GET'' then listRecords e r vaultID
              else if a = ''objects'' \<and> m = ''GET'' then listVaultObjects e r vaultID
              else if a = ''access-events'' \<and> m = ''GET'' then listAccessEvents e r vaultID
              else writeError 404 ''not found''
          | [a, b] \<Rightarrow>
              if a = ''invitations'' \<and> m = ''GET'' then getInvitation e r vaultID b
              else if a = ''enrollments'' \<and> m = ''GET'' then getEnrollment e r vaultID b
              else if a = ''enrollments'' \<and> b \<noteq> '''' \<and> m = ''POST'' then approveEnrollment e r vaultID b
              else if a = ''devices'' \<and> m = ''DELETE'' then revokeDevice e r vaultID b
              else if a = ''records'' \<and> m = ''PUT'' then putRecord e r vaultID b
              else if a = ''objects'' \<and> m = ''GET'' then getVaultObject e r vaultID b
              else if a = ''objects'' \<and> m = ''PUT'' then putVaultObject e r vaultID b
              else if a = ''objects'' \<and> m = ''DELETE'' then deleteVaultObject e r vaultID b
              else writeError 404 ''not found''
          | [a, b, c] \<Rightarrow>
              (if a = ''invitations'' \<and> m = ''POST'' then
                 (case parse_action c of
                    Some action \<Rightarrow> transitionInvitation e r vaultID b action
                  | None \<Rightarrow> writeError 404 ''not found'')
               else writeError 404 ''not found'')
          | _ \<Rightarrow> writeError 404 ''not found'')
      | _ \<Rightarrow> writeError 404 ''not found'')"

end
