(* ===== verification/Server_Effects.thy ===== *)
theory Server_Effects
  imports Server_Invitations
begin

text \<open>
  What the handlers can do to the database, as an interface. The locale \<open>service_effects\<close> lists
  the transactional effects of the service: each law is one group of statements that a handler
  executes together, with what the handler has checked before as its premises. A relation \<open>R\<close>
  between database states (stamped with the step counter) that contains every effect and is a
  preorder contains every run of every handler: this is proved once here, for all handlers and
  all failures, and used with different \<open>R\<close> for invariants, for facts that never change back,
  and for replay protection. The same proof shows that a response with status 500 leaves the
  durable database untouched.
\<close>

definition valid_identity :: "env \<Rightarrow> public_device \<Rightarrow> bool" where
  "valid_identity e dev \<longleftrightarrow>
     dev_Fingerprint dev = PublicFingerprint e (dev_SigningPublic dev) (dev_WrappingPublic dev) \<and>
     validPublicDeviceKeys e (dev_SigningPublic dev) (dev_WrappingPublic dev)"

definition fresh_invitation :: "string \<Rightarrow> string \<Rightarrow> int \<Rightarrow> invitation_row \<Rightarrow> bool" where
  "fresh_invitation v ident now i \<longleftrightarrow> i_vault_id i = v \<and> i_device_id i = ident \<and>
     i_state i = InvitationPending \<and> i_failed_attempts i = 0 \<and> i_terminal_at i = None \<and>
     i_terminal_actor i = None \<and> i_expires_at i = to_secs (now + invitationLifetime)"

locale service_effects =
  fixes R :: "nat \<times> db \<Rightarrow> nat \<times> db \<Rightarrow> bool" and e :: env
  assumes R_time: "n \<le> n' \<Longrightarrow> R (n, d) (n', d)"
    and R_trans: "R x y \<Longrightarrow> R y z \<Longrightarrow> R x z"
    and R_event: "insert_event (event_of ident v now ev) d = Some (k, d1) \<Longrightarrow>
      delete_events_before v (now - eventMaxAge) d1 = Some (k1, d2) \<Longrightarrow>
      delete_events_beyond v True maxVerifiedEvents d2 = Some (k2, d3) \<Longrightarrow>
      delete_events_beyond v False maxUnverifiedEvents d3 = Some (k3, d4) \<Longrightarrow> R (n, d) (n, d4)"
    and R_nonce: "insert_nonce rn d = Some (k, d1) \<Longrightarrow> k \<noteq> 0 \<Longrightarrow> n \<le> m \<Longrightarrow> m < n' \<Longrightarrow>
      n_created_at rn = to_secs (clock e m) \<Longrightarrow>
      delete_nonces_before (to_secs (clock e m - 10 * minute)) d1 = Some (k1, d2) \<Longrightarrow>
      R (n, d) (n', d2)"
    and R_create_vault: "insert_vault rv d = Some (k, d1) \<Longrightarrow> valid_identity e dev \<Longrightarrow>
      insert_device (v_id rv) dev d1 = Some (k1, d2) \<Longrightarrow> R (n, d) (n, d2)"
    and R_enroll: "vault_exists v d \<Longrightarrow> valid_identity e dev \<Longrightarrow>
      insert_enrollment v dev d = Some (k, d1) \<Longrightarrow> R (n, d) (n, d1)"
    and R_invite: "vault_exists v d \<Longrightarrow> valid_identity e dev \<Longrightarrow>
      insert_enrollment v dev d = Some (k, d1) \<Longrightarrow> fresh_invitation v (dev_ID dev) now i \<Longrightarrow>
      insert_invitation i d1 = Some (k1, d2) \<Longrightarrow> R (n, d) (n, d2)"
    and R_approve: "find_enrollment v ident d = Some en \<Longrightarrow> \<not> es_Approved en \<Longrightarrow>
      \<not> has_invitation v ident d \<Longrightarrow> approve_enrollment_row v ident env d = Some (k, d1) \<Longrightarrow>
      insert_device v (es_Device en) d1 = Some (k1, d2) \<Longrightarrow> R (n, d) (n, d2)"
    and R_revoke: "find_device v ident False d = Some ds \<Longrightarrow> ds_RevokedAt ds = None \<Longrightarrow>
      1 < active_count v d \<Longrightarrow> revoke_device_row now v ident d = Some (1, d1) \<Longrightarrow>
      delete_device_nonces v ident d1 = Some (k, d2) \<Longrightarrow> R (n, d) (n, d2)"
    and R_revoke_none: "revoke_device_row now v ident d = Some (k, d1) \<Longrightarrow> k \<noteq> 1 \<Longrightarrow> R (n, d) (n, d1)"
    and R_insert_record: "current_revision (r_vault_id rr) (r_id rr) d = 0 \<Longrightarrow> r_revision rr = 1 \<Longrightarrow>
      insert_record rr d = Some (k, d1) \<Longrightarrow> R (n, d) (n, d1)"
    and R_update_record: "current_revision v ident d = cur \<Longrightarrow> cur \<noteq> 0 \<Longrightarrow>
      update_record v ident cur (i64 (cur + 1)) b t d = Some (k, d1) \<Longrightarrow> R (n, d) (n, d1)"
    and R_insert_object: "insert_object ro d = Some (k, d1) \<Longrightarrow> R (n, d) (n, d1)"
    and R_update_object: "update_object v ident cur (i64 (cur + 1)) b t' d = Some (k, d1) \<Longrightarrow> R (n, d) (n, d1)"
    and R_delete_object: "delete_object v ident expected d = Some (k, d1) \<Longrightarrow> R (n, d) (n, d1)"
    and R_close: "st \<in> {InvitationExpired, InvitationRejected, InvitationCancelled} \<Longrightarrow>
      close_invitation_row st t actor v ident d = Some (k, d1) \<Longrightarrow> R (n, d) (n, d1)"
    and R_close_none: "close_invitation_row st t actor v ident d = Some (k, d1) \<Longrightarrow> k \<noteq> 1 \<Longrightarrow> R (n, d) (n, d1)"
    and R_fail: "find_invitation v ident d = Some row \<Longrightarrow> is_State (ivr_status row) = InvitationPending \<Longrightarrow>
      attempts = ivr_failedAttempts row + 1 \<Longrightarrow>
      st = (if invitationMaxAttempts \<le> attempts then InvitationAttemptsExhausted else InvitationPending) \<Longrightarrow>
      (invitationMaxAttempts \<le> attempts \<longleftrightarrow> at \<noteq> None) \<Longrightarrow>
      (invitationMaxAttempts \<le> attempts \<longleftrightarrow> actor' \<noteq> None) \<Longrightarrow>
      fail_invitation_row attempts st at actor' v ident d = Some (k, d1) \<Longrightarrow> R (n, d) (n, d1)"
    and R_approve_invitation: "find_invitation v ident d = Some row \<Longrightarrow>
      is_State (ivr_status row) = InvitationPending \<Longrightarrow>
      close_invitation_row InvitationApproved t actor v ident d = Some (1, d1) \<Longrightarrow>
      approve_enrollment_row v ident env d1 = Some (1, d2) \<Longrightarrow>
      insert_device v (is_Device (ivr_status row)) d2 = Some (k, d3) \<Longrightarrow> R (n, d) (n, d3)"

text \<open>
  A run of one handler, started at step \<open>n0\<close> on database \<open>d0\<close>. \<open>aborted\<close>: nothing was committed.
  \<open>open_tx\<close>: nothing was committed and the transaction's view is reachable by effects.
  \<open>closed\<close>: what holds when the handler has answered.
\<close>

locale service_run = service_effects +
  fixes n0 :: nat and d0 :: db
begin

definition aborted :: "db world \<Rightarrow> bool" where
  "aborted s \<longleftrightarrow> durable s = d0 \<and> n0 \<le> tick s"

definition open_tx :: "db world \<Rightarrow> bool" where
  "open_tx s \<longleftrightarrow> durable s = d0 \<and> n0 \<le> tick s \<and> R (n0, d0) (tick s, work s)"

definition committed :: "db world \<Rightarrow> bool" where
  "committed s \<longleftrightarrow> R (n0, d0) (tick s, durable s)"

definition closed :: "response \<Rightarrow> db world \<Rightarrow> bool" where
  "closed r s \<longleftrightarrow> R (n0, d0) (tick s, durable s) \<and> (resp_status r = 500 \<longrightarrow> durable s = d0)"

lemma open_aborted: "open_tx s \<Longrightarrow> aborted s"
  by (simp add: open_tx_def aborted_def)

lemma aborted_tick [intro]: "aborted s \<Longrightarrow> aborted (next_tick s)"
  by (simp add: aborted_def)

lemma open_tick [intro]: "open_tx s \<Longrightarrow> open_tx (next_tick s)"
  using R_trans [OF _ R_time [of "tick s" "Suc (tick s)" "work s"]] by (simp add: open_tx_def)

lemma open_work_aborted: "open_tx s \<Longrightarrow> aborted (s\<lparr>work := d\<rparr>)"
  by (simp add: open_tx_def aborted_def)

lemma aborted_work [intro]: "aborted s \<Longrightarrow> aborted (s\<lparr>work := d\<rparr>)"
  by (simp add: aborted_def)

text \<open>An effect on the view, one or more steps after \<open>s\<close>.\<close>

lemma open_effect:
  assumes "open_tx s" "R (tick s, work s) (m, d)" "m \<le> tick s'" "durable s' = durable s" "work s' = d"
    "tick s \<le> tick s'"
  shows "open_tx s'"
proof -
  have "R (n0, d0) (m, d)"
    using assms(1,2) R_trans by (auto simp: open_tx_def)
  from R_trans [OF this R_time [OF assms(3)]] show ?thesis
    using assms by (simp add: open_tx_def)
qed

lemma aborted_closed: "aborted s \<Longrightarrow> closed r s"
  using R_time by (simp add: aborted_def closed_def)

lemma committed_closed: "committed s \<Longrightarrow> resp_status r \<noteq> 500 \<Longrightarrow> closed r s"
  by (simp add: committed_def closed_def)

lemma run_begin:
  "aborted s \<Longrightarrow> (\<And>s'. aborted s' \<Longrightarrow> Q False s') \<Longrightarrow> (\<And>s'. open_tx s' \<Longrightarrow> Q True s') \<Longrightarrow>
    wp (begin_tx e) Q s"
  by (rule wp_begin) (auto simp: aborted_def open_tx_def R_time)

lemma run_commit_tx:
  "open_tx s \<Longrightarrow> (\<And>s'. aborted s' \<Longrightarrow> Q False s') \<Longrightarrow> (\<And>s'. committed s' \<Longrightarrow> Q True s') \<Longrightarrow>
    wp (commit_tx e) Q s"
  using open_tick [of s] by (intro wp_commit) (auto simp: aborted_def open_tx_def committed_def)

lemma run_event [run_rules]:
  assumes "open_tx s" "\<And>s'. aborted s' \<Longrightarrow> Q False s'" "\<And>s'. open_tx s' \<Longrightarrow> Q True s'"
  shows "wp (insertAccessEvent e v ev) Q s"
proof -
  have ab: "aborted s" using assms(1) by (rule open_aborted)
  show ?thesis
    unfolding insertAccessEvent_def pruneAccessEvents_def
    apply (rule wp_iota wp_rules wp_exec assms(2) aborted_work aborted_tick ab)+
    apply (rule assms(3))
    apply (rule open_effect [OF assms(1) R_event])
    apply simp_all
    done
qed

lemma run_commit [run_rules]:
  "open_tx s \<Longrightarrow> (\<And>w s'. aborted s' \<Longrightarrow> Q (Some w) s') \<Longrightarrow> (\<And>s'. committed s' \<Longrightarrow> Q None s') \<Longrightarrow>
    wp (commit e) Q s"
  unfolding commit_def by (rule wp_iota wp_rules run_commit_tx | assumption | simp)+

lemma run_finishEvent [run_rules]:
  "open_tx s \<Longrightarrow> (\<And>w s'. aborted s' \<Longrightarrow> Q (Some w) s') \<Longrightarrow> (\<And>s'. committed s' \<Longrightarrow> Q None s') \<Longrightarrow>
    wp (finishEvent e v ev) Q s"
  unfolding finishEvent_def by (rule wp_iota wp_rules run_rules | assumption | simp)+

lemma run_finishWith [run_rules]:
  assumes "open_tx s" "st \<noteq> 500" "\<And>w s'. closed w s' \<Longrightarrow> Q w s'"
  shows "wp (finishWith e v ev st p) Q s"
  unfolding finishWith_def
  by (rule wp_iota wp_rules run_rules assms(1,3) | erule aborted_closed committed_closed)+
    (simp add: assms(2))

lemma run_rejectEvent [run_rules]:
  assumes "open_tx s" "st \<noteq> 500" "\<And>w s'. closed w s' \<Longrightarrow> Q w s'"
  shows "wp (rejectEvent e v a t st p why) Q s"
  unfolding rejectEvent_def
  by (rule wp_iota wp_rules run_rules assms(1,3) | erule aborted_closed committed_closed)+
    (simp add: assms(2))

lemma run_commit_any:
  assumes "open_tx s" "st \<noteq> 500" "\<And>w s'. closed w s' \<Longrightarrow> Q w s'"
  shows "wp (do { _ \<leftarrow> commit_tx e; writeError st m }) Q s"
  by (rule wp_iota wp_rules run_commit_tx assms(1,3) | erule aborted_closed committed_closed)+
    (simp add: assms(2))

lemma run_authenticationFailure [run_rules]:
  assumes "open_tx s" "st \<noteq> 500" "\<And>w s'. closed w s' \<Longrightarrow> Q w s'"
  shows "wp (authenticationFailure e v ev verified st m) Q s"
  unfolding authenticationFailure_def
  by (rule wp_iota wp_rules run_event run_commit_tx assms(1,3) | assumption
      | erule aborted_closed committed_closed | (simp add: assms(2); fail))+

lemma run_bestEffortPublicRejection [run_rules]:
  assumes "open_tx s" "st \<noteq> 500" "\<And>w s'. closed w s' \<Longrightarrow> Q w s'"
  shows "wp (bestEffortPublicRejection e v st m) Q s"
  unfolding bestEffortPublicRejection_def
  apply (rule wp_bind)
  by (rule wp_iota run_commit_any run_event wp_rules assms | assumption | erule aborted_closed)+

lemma run_bestEffortInvitation [run_rules]:
  assumes "open_tx s" "\<And>w s'. closed w s' \<Longrightarrow> Q w s'"
  shows "wp (bestEffortInvitationCreationRejection e v m) Q s"
  unfolding bestEffortInvitationCreationRejection_def
  apply (rule wp_bind)
  by (rule wp_iota run_commit_any run_event wp_rules assms | assumption | erule aborted_closed | simp)+

lemma run_vaultExists [run_rules]:
  assumes "open_tx s" "\<And>s'. open_tx s' \<Longrightarrow> Q False s'"
    "\<And>s'. open_tx s' \<Longrightarrow> vault_exists v (work s') \<Longrightarrow> Q True s'"
  shows "wp (vaultExists e v) Q s"
  unfolding vaultExists_def
  using assms open_tick [OF assms(1)]
  by (cases "vault_exists v (work s)") (auto simp: wp_def query_def)

text \<open>Queries leave the view as it is.\<close>

lemma run_query [run_rules]:
  assumes "open_tx s" "\<And>s'. open_tx s' \<Longrightarrow> work s' = work s \<Longrightarrow> Q None s'"
    "\<And>s'. open_tx s' \<Longrightarrow> work s' = work s \<Longrightarrow> Q (Some (f (work s'))) s'"
  shows "wp (query e f) Q s"
  using assms(2,3) open_tick [OF assms(1)] by (intro wp_query) simp_all

lemma run_now [run_rules]:
  "open_tx s \<Longrightarrow> (\<And>s' t. open_tx s' \<Longrightarrow> work s' = work s \<Longrightarrow> Q t s') \<Longrightarrow> wp (now_utc e) Q s"
  using open_tick by (intro wp_now) auto

lemma run_readLimitedBody [run_rules]:
  "aborted s \<Longrightarrow> (\<And>b s'. aborted s' \<Longrightarrow> Q b s') \<Longrightarrow> wp (readLimitedBody e r) Q s"
  by (intro wp_readLimitedBody) (auto simp: aborted_def)

lemma run_readBody [run_rules]:
  "aborted s \<Longrightarrow> (\<And>x s'. aborted s' \<Longrightarrow> Q x s') \<Longrightarrow> wp (readBody e r) Q s"
  unfolding readBody_def by (rule wp_bind run_readLimitedBody wp_rules | assumption | simp)+

lemma run_decodeJSON [run_rules]:
  "aborted s \<Longrightarrow> (\<And>x s'. aborted s' \<Longrightarrow> Q x s') \<Longrightarrow> wp (decodeJSON e r f) Q s"
  unfolding decodeJSON_def by (rule wp_bind run_readBody wp_rules | assumption | simp)+

lemma run_claimedDevice [run_rules]:
  assumes "open_tx s" "\<And>x s'. open_tx s' \<Longrightarrow> Q x s'"
  shows "wp (claimedDevice e v ident pend) Q s"
  unfolding claimedDevice_def getDeviceStatusTx_def getEnrollmentTx_def
  by (rule wp_iota wp_bind run_query wp_rules assms | assumption)+

lemma run_acceptNonce [run_rules]:
  assumes "open_tx s" "\<And>w s'. closed w s' \<Longrightarrow> Q (Inl w) s'" "\<And>a s'. open_tx s' \<Longrightarrow> Q (Inr a) s'"
  shows "wp (acceptNonce e r v dev oper why) Q s"
proof -
  have ab: "aborted s" using assms(1) by (rule open_aborted)
  have zero: "open_tx ((next_tick s')\<lparr>work := d\<rparr>)"
    if "insert_nonce rn (work s') = Some (k, d)" "k = 0" "open_tx s'" for rn s' k d
  proof -
    have "d = work s'" using that by (auto simp: insert_nonce_def split: if_splits)
    with open_tick [OF that(3)] show ?thesis by (simp add: open_tx_def)
  qed
  have spent: "open_tx ((next_tick ((next_tick (next_tick s))\<lparr>work := d\<rparr>))\<lparr>work := d'\<rparr>)"
    if "insert_nonce \<lparr>n_vault_id = v, n_device_id = i, n_nonce = nn, n_created_at = to_secs (clock e (tick s))\<rparr>
          (work (next_tick s)) = Some (k, d)" "k \<noteq> 0"
      "delete_nonces_before (to_secs (clock e (tick s) - 10 * minute))
          (work ((next_tick (next_tick s))\<lparr>work := d\<rparr>)) = Some (k', d')" for i nn k d k' d'
    by (rule open_effect [OF assms(1) R_nonce [OF that(1) [simplified] that(2), where n' = "Suc (tick s)"]])
      (use that in simp_all)
  show ?thesis
    unfolding acceptNonce_def
    by (assumption | rule wp_iota wp_bind wp_exec wp_rules assms open_tick run_authenticationFailure
        aborted_closed aborted_tick aborted_work ab
        | (rule zero, assumption, assumption, rule open_tick, rule assms(1))
        | (rule spent, assumption+) | (simp; fail))+
qed

lemma run_authenticateDevice [run_rules]:
  assumes "open_tx s" "\<And>w s'. closed w s' \<Longrightarrow> Q (Inl w) s'" "\<And>a s'. open_tx s' \<Longrightarrow> Q (Inr a) s'"
  shows "wp (authenticateDevice e r v body oper pend) Q s"
  unfolding authenticateDevice_def
  by (assumption | erule open_aborted | rule wp_iota wp_bind run_vaultExists run_claimedDevice run_acceptNonce
        run_authenticationFailure wp_rules assms aborted_closed | (simp; fail))+

lemma run_authenticated:
  assumes "aborted s" "\<And>w s'. closed w s' \<Longrightarrow> Q w s'" "\<And>a s'. open_tx s' \<Longrightarrow> wp (k a) Q s'"
  shows "wp (authenticated e r v body oper pend k) Q s"
  unfolding authenticated_def
  by (assumption | rule wp_iota wp_bind run_begin run_authenticateDevice wp_rules assms aborted_closed)+

lemma run_authenticatedBody:
  assumes "aborted s" "\<And>w s'. closed w s' \<Longrightarrow> Q w s'" "\<And>b a s'. open_tx s' \<Longrightarrow> wp (k b a) Q s'"
  shows "wp (authenticatedBody e r v oper pend k) Q s"
  unfolding authenticatedBody_def
  by (assumption | rule wp_iota wp_bind run_readBody run_authenticated wp_rules assms aborted_closed)+

section \<open>Invitations\<close>

lemma run_close:
  assumes "open_tx s" "st \<noteq> InvitationPending" "st \<noteq> InvitationApproved" "st \<noteq> InvitationAttemptsExhausted"
    "\<And>s'. aborted s' \<Longrightarrow> Q None s'" "\<And>k s'. open_tx s' \<Longrightarrow> Q (Some k) s'"
  shows "wp (exec e (close_invitation_row st t actor v ident)) Q s"
proof (rule wp_exec)
  show "Q None (next_tick s)" using assms(1) by (intro assms(5) aborted_tick open_aborted)
next
  fix k d assume *: "close_invitation_row st t actor v ident (work s) = Some (k, d)"
  from assms(2-4) have "st \<in> {InvitationExpired, InvitationRejected, InvitationCancelled}"
    by (cases st) auto
  from open_effect [OF assms(1) R_close [OF this *]]
  show "Q (Some k) ((next_tick s)\<lparr>work := d\<rparr>)" by (intro assms(6)) simp
qed

lemma run_expireInvitation [run_rules]:
  assumes "open_tx s" "\<And>w s'. closed w s' \<Longrightarrow> Q (Inl w) s'"
    "\<And>row' s'. open_tx s' \<Longrightarrow>
      is_State (ivr_status row') = InvitationPending \<longrightarrow> row' = row \<and> work s' = work s \<Longrightarrow> Q (Inr row') s'"
  shows "wp (expireInvitation e v row) Q s"
  unfolding expireInvitation_def
  by (assumption | rule wp_iota wp_bind run_now run_close run_event wp_rules assms aborted_closed
      | (simp; fail))+

lemma run_expireEach [run_rules]:
  assumes "open_tx s" "\<And>w s'. closed w s' \<Longrightarrow> Q (Some w) s'" "\<And>s'. open_tx s' \<Longrightarrow> Q None s'"
  shows "wp (expireEach e v rows) Q s"
  using assms(1)
proof (induction rows arbitrary: s)
  case Nil
  then show ?case by (simp add: wp_return assms(3))
next
  case (Cons row rows)
  show ?case
    unfolding expireEach.simps
    by (assumption | rule wp_iota wp_bind run_expireInvitation wp_rules assms(2) Cons)+
qed

lemma run_expireInvitations [run_rules]:
  assumes "open_tx s" "\<And>w s'. closed w s' \<Longrightarrow> Q (Some w) s'" "\<And>s'. open_tx s' \<Longrightarrow> Q None s'"
  shows "wp (expireInvitations e v ident) Q s"
  unfolding expireInvitations_def
  by (assumption | erule open_aborted | rule wp_iota wp_bind run_query run_expireEach wp_rules
      assms aborted_closed)+

end

end
