(* ===== verification/Server_Runs.thy ===== *)
theory Server_Runs
  imports Server_Effects
begin

text \<open>
  Every handler, started with no transaction open, ends in \<open>closed\<close>: whatever it made durable is
  a composition of the effects of \<open>service_effects\<close>, and nothing was made durable when it
  answers 500. The result for \<^verbatim>\<open>ServeHTTP\<close> is the lemma \<open>run_ServeHTTP\<close>.
\<close>

context service_run
begin

section \<open>Handlers that only read\<close>

lemmas run_read = wp_iota wp_bind run_authenticated run_authenticatedBody run_finishWith run_rejectEvent
  run_query run_now run_event run_commit run_expireInvitations run_expireInvitation wp_rules aborted_closed

lemma run_listEnrollments: "aborted s \<Longrightarrow> wp (listEnrollments e r v) closed s"
  unfolding listEnrollments_def
  by (assumption | erule open_aborted | rule run_read | (simp; fail))+

lemma run_getEnrollment: "aborted s \<Longrightarrow> wp (getEnrollment e r v ident) closed s"
  unfolding getEnrollment_def getEnrollmentTx_def
  by (assumption | erule open_aborted | rule run_read | (simp; fail))+

lemma run_listDevices: "aborted s \<Longrightarrow> wp (listDevices e r v) closed s"
  unfolding listDevices_def
  by (assumption | erule open_aborted | rule run_read | (simp; fail))+

lemma run_listRecords: "aborted s \<Longrightarrow> wp (listRecords e r v) closed s"
  unfolding listRecords_def
  by (assumption | erule open_aborted | rule run_read | (simp; fail))+

lemma run_listVaultObjects: "aborted s \<Longrightarrow> wp (listVaultObjects e r v) closed s"
  unfolding listVaultObjects_def
  by (assumption | erule open_aborted | rule run_read | (simp; fail))+

lemma run_getVaultObject: "aborted s \<Longrightarrow> wp (getVaultObject e r v ident) closed s"
  unfolding getVaultObject_def
  by (assumption | erule open_aborted | rule run_read | (simp; fail))+

lemma run_listAccessEvents: "aborted s \<Longrightarrow> wp (listAccessEvents e r v) closed s"
  unfolding listAccessEvents_def
  by (assumption | erule open_aborted committed_closed | rule run_read | (simp; fail))+

lemma run_listInvitations: "aborted s \<Longrightarrow> wp (listInvitations e r v) closed s"
  unfolding listInvitations_def
  by (assumption | erule open_aborted | rule run_read | (simp; fail))+

lemma run_getInvitation: "aborted s \<Longrightarrow> wp (getInvitation e r v ident) closed s"
  unfolding getInvitation_def getEnrollmentTx_def getInvitationTx_def actorIsActive_def getDeviceStatusTx_def
  by (assumption | erule open_aborted | rule run_read | (simp; fail))+

section \<open>Handlers that write\<close>

lemmas run_write = run_read aborted_tick aborted_work

text \<open>One statement whose effect is a law of the locale.\<close>

lemma run_exec:
  assumes "open_tx s" "\<And>k d. f (work s) = Some (k, d) \<Longrightarrow> R (tick s, work s) (tick s, d)"
    "\<And>s'. aborted s' \<Longrightarrow> Q None s'"
    "\<And>k s'. f (work s) = Some (k, work s') \<Longrightarrow> open_tx s' \<Longrightarrow> Q (Some k) s'"
  shows "wp (exec e f) Q s"
proof (rule wp_exec)
  show "Q None (next_tick s)" using assms(1) by (intro assms(3) aborted_tick open_aborted)
next
  fix k d assume *: "f (work s) = Some (k, d)"
  from open_effect [OF assms(1) assms(2) [OF *]] *
  show "Q (Some k) ((next_tick s)\<lparr>work := d\<rparr>)" by (intro assms(4)) simp_all
qed

text \<open>Two statements whose joint effect is a law.\<close>

lemma run_exec2:
  assumes "open_tx s" "\<And>s'. aborted s' \<Longrightarrow> wp m Q s'"
    "\<And>k d k' d'. f (work s) = Some (k, d) \<Longrightarrow> g d = Some (k', d') \<Longrightarrow> R (tick s, work s) (tick s, d')"
    "\<And>k' s'. open_tx s' \<Longrightarrow> wp (h k') Q s'"
  shows "wp (do { r1 \<leftarrow> exec e f; case r1 of None \<Rightarrow> m | Some _ \<Rightarrow> do {
           r2 \<leftarrow> exec e g; case r2 of None \<Rightarrow> m | Some k' \<Rightarrow> h k' } }) Q s"
proof -
  have ab: "aborted s" using assms(1) by (rule open_aborted)
  have op: "open_tx ((next_tick ((next_tick s)\<lparr>work := d\<rparr>))\<lparr>work := d'\<rparr>)"
    if "f (work s) = Some (k, d)" "g (work ((next_tick s)\<lparr>work := d\<rparr>)) = Some (k', d')" for k d k' d'
    by (rule open_effect [OF assms(1) assms(3) [OF that(1)]]) (use that in simp_all)
  show ?thesis
    by (assumption | rule wp_iota wp_bind wp_exec assms(2,4) aborted_tick aborted_work ab
        | (rule op, assumption, assumption))+
qed

lemma run_putRecord: "aborted s \<Longrightarrow> wp (putRecord e r v ident) closed s"
  unfolding putRecord_def
  by (assumption | erule open_aborted | rule run_write | rule run_exec, assumption
      | erule R_insert_record [rotated 2] R_update_record [rotated 2] | (simp; fail))+

lemma run_putVaultObject: "aborted s \<Longrightarrow> wp (putVaultObject e r v ident) closed s"
  unfolding putVaultObject_def
  by (assumption | erule open_aborted | rule run_write | rule run_exec, assumption
      | erule R_insert_object R_update_object | (simp; fail))+

lemma run_deleteVaultObject: "aborted s \<Longrightarrow> wp (deleteVaultObject e r v ident) closed s"
  unfolding deleteVaultObject_def
  by (assumption | erule open_aborted | rule run_write | rule run_exec, assumption
      | erule R_delete_object | (simp; fail))+

text \<open>The frame of the public handlers: their first steps run before the transaction.\<close>

lemma run_randomID:
  "aborted s \<Longrightarrow> (\<And>x s'. aborted s' \<Longrightarrow> Q x s') \<Longrightarrow> wp (randomID e) Q s"
  by (rule wp_randomID) (auto simp: aborted_def)

lemma run_now_aborted:
  "aborted s \<Longrightarrow> (\<And>t s'. aborted s' \<Longrightarrow> Q t s') \<Longrightarrow> wp (now_utc e) Q s"
  by (rule wp_now) (auto simp: aborted_def)

lemma run_randomID_open:
  "open_tx s \<Longrightarrow> (\<And>x s'. open_tx s' \<Longrightarrow> work s' = work s \<Longrightarrow> Q x s') \<Longrightarrow> wp (randomID e) Q s"
  by (rule wp_randomID) (use open_tick in auto)

lemma valid_identity_created:
  "validPublicDeviceKeys e (dev_SigningPublic dev) (dev_WrappingPublic dev) \<Longrightarrow>
    valid_identity e (dev\<lparr>dev_ID := i, dev_CreatedAt := t,
      dev_Fingerprint := PublicFingerprint e (dev_SigningPublic dev) (dev_WrappingPublic dev)\<rparr>)"
  by (simp add: valid_identity_def)

lemma valid_identity_enrolled:
  "validPublicDeviceKeys e sp wp' \<Longrightarrow> valid_identity e (enrolledDevice e i t nm sp wp')"
  by (simp add: valid_identity_def enrolledDevice_def)

lemma run_createVault: "aborted s \<Longrightarrow> wp (createVault e r) closed s"
  unfolding createVault_def
  by (assumption | erule open_aborted | (erule committed_closed, simp)
      | rule run_exec2 wp_iota wp_let wp_bind run_decodeJSON run_randomID run_now_aborted run_begin
        run_commit wp_rules aborted_closed
      | (rule R_create_vault, assumption, rule valid_identity_created, simp, simp; fail)
      | (simp; fail))+

lemma run_requestEnrollment: "aborted s \<Longrightarrow> wp (requestEnrollment e r v) closed s"
  unfolding requestEnrollment_def
  by (assumption | rule wp_iota wp_let wp_bind run_readLimitedBody run_randomID_open run_now run_begin
        run_vaultExists run_bestEffortPublicRejection run_finishWith wp_rules aborted_closed
      | (rule run_exec, assumption)
      | (erule R_enroll [rotated 2], simp, rule valid_identity_enrolled, simp; fail)
      | erule open_aborted | (simp; fail))+

lemma run_approveEnrollment: "aborted s \<Longrightarrow> wp (approveEnrollment e r v ident) closed s"
  unfolding approveEnrollment_def getEnrollmentTx_def
  by (assumption | erule open_aborted | rule run_exec2 run_write
      | (erule (1) R_approve [rotated 3]; simp; fail) | (simp; fail))+

text \<open>Revocation: the nonces go only when the device was still active.\<close>

lemma run_revoke:
  assumes "open_tx s" "find_device v ident False (work s) = Some ds" "ds_RevokedAt ds = None"
    "1 < active_count v (work s)"
  shows "wp (do { updated \<leftarrow> exec e (revoke_device_row t v ident);
       case updated of None \<Rightarrow> writePersistError
       | Some updated \<Rightarrow>
           if updated \<noteq> 1 then rejectEvent e v auth ident 409 p why
           else do {
             deleted \<leftarrow> exec e (delete_device_nonces v ident);
             case deleted of None \<Rightarrow> writePersistError
             | Some _ \<Rightarrow> finishWith e v ev 200 p' } }) closed s"
proof -
  have ab: "aborted s" using assms(1) by (rule open_aborted)
  have none: "open_tx ((next_tick s)\<lparr>work := d\<rparr>)"
    if "revoke_device_row t v ident (work s) = Some (k, d)" "k \<noteq> 1" for k d
    by (rule open_effect [OF assms(1) R_revoke_none [OF that]]) simp_all
  have some: "open_tx ((next_tick ((next_tick s)\<lparr>work := d\<rparr>))\<lparr>work := d'\<rparr>)"
    if "revoke_device_row t v ident (work s) = Some (k, d)" "\<not> k \<noteq> 1"
      "delete_device_nonces v ident (work ((next_tick s)\<lparr>work := d\<rparr>)) = Some (k', d')" for k d k' d'
    by (rule open_effect [OF assms(1) R_revoke [OF assms(2-4)]]) (use that in simp_all)
  show ?thesis
    by (assumption | rule wp_iota wp_bind wp_exec run_rejectEvent run_finishWith wp_rules
        aborted_closed aborted_tick aborted_work ab
        | (rule none, assumption, assumption) | (rule some, assumption, assumption, assumption)
        | (simp; fail))+
qed

lemma run_revokeDevice: "aborted s \<Longrightarrow> wp (revokeDevice e r v ident) closed s"
  unfolding revokeDevice_def getDeviceStatusTx_def
  by (assumption | erule open_aborted | (rule run_revoke; simp; fail) | rule run_write | (simp; fail))+

lemma fresh_created:
  "fresh_invitation v (dev_ID dev) now \<lparr>i_vault_id = v, i_device_id = dev_ID dev,
     i_protocol_version = n, i_state = InvitationPending, i_expires_at = to_secs (now + invitationLifetime),
     i_failed_attempts = 0, i_terminal_at = None, i_terminal_actor = None\<rparr>"
  by (simp add: fresh_invitation_def)

lemma run_createInvitation: "aborted s \<Longrightarrow> wp (createInvitation e r v) closed s"
  unfolding createInvitation_def Let_def
  by (assumption | rule wp_iota run_exec2 wp_bind run_readLimitedBody run_randomID_open run_now run_begin
        run_vaultExists run_bestEffortInvitation run_finishWith wp_rules aborted_closed
      | (rule R_invite [rotated 2], assumption, rule fresh_created, assumption, simp,
          rule valid_identity_enrolled, simp)
      | erule open_aborted | (simp; fail))+

section \<open>Transitions of an invitation\<close>

lemma run_failInvitationAttempt:
  assumes "open_tx s" "find_invitation v ident (work s) = Some row"
    "is_State (ivr_status row) = InvitationPending" "dev_ID (is_Device (ivr_status row)) = ident"
  shows "wp (failInvitationAttempt e v auth row oper why m) closed s"
  unfolding failInvitationAttempt_def Let_def assms(4)
  by (assumption | rule wp_iota wp_bind run_now run_rejectEvent run_finishWith wp_rules aborted_closed assms(1)
      | (rule run_exec, (rule assms(1) | assumption))
      | (erule R_fail [where row = row, rotated -1]; simp add: assms; fail)
      | (simp; fail))+

lemma find_invitation_ID:
  "find_invitation v ident d = Some row \<Longrightarrow> dev_ID (is_Device (ivr_status row)) = ident"
  by (auto simp: find_invitation_def join_invitation_def scanInvitation_def invitation_key_def
      bind_eq_Some_conv dest!: find_SomeD)

lemma run_applyTransition:
  assumes "open_tx s" "find_invitation v ident (work s) = Some row"
    "is_State (ivr_status row) = InvitationPending" "envelope \<noteq> None \<longleftrightarrow> action = Approve"
  shows "wp (applyTransition e v ident action auth row envelope) closed s"
proof -
  have ab: "aborted s" using assms(1) by (rule open_aborted)
  let ?close = "\<lambda>t. close_invitation_row (action_state action) t (auth_identityID auth) v ident"
  have none: "open_tx ((next_tick (next_tick s))\<lparr>work := d\<rparr>)"
    if "?close t (work (next_tick s)) = Some (k, d)" "k \<noteq> 1" for t k d
    by (rule open_effect [OF assms(1) R_close_none [OF that(1) [simplified] that(2)]]) simp_all
  have close: "open_tx ((next_tick (next_tick s))\<lparr>work := d\<rparr>)"
    if "?close t (work (next_tick s)) = Some (k, d)" "envelope = None" for t k d
    by (rule open_effect [OF assms(1) R_close [OF _ that(1) [simplified]]])
      (use that assms(4) in \<open>cases action; simp\<close>)+
  have approve: "open_tx ((next_tick ((next_tick ((next_tick (next_tick s))\<lparr>work := d1\<rparr>))\<lparr>work := d2\<rparr>))\<lparr>work := d3\<rparr>)"
    if "?close t (work (next_tick s)) = Some (k, d1)" "\<not> k \<noteq> 1" "envelope = Some w"
      "approve_enrollment_row v ident w (work ((next_tick (next_tick s))\<lparr>work := d1\<rparr>)) = Some (k2, d2)"
      "\<not> Some k2 \<noteq> Some 1"
      "insert_device v (is_Device (ivr_status row))
         (work ((next_tick ((next_tick (next_tick s))\<lparr>work := d1\<rparr>))\<lparr>work := d2\<rparr>)) = Some (k3, d3)"
    for t k d1 w k2 d2 k3 d3
    by (rule open_effect [OF assms(1) R_approve_invitation [OF assms(2,3), where ?d1.0 = d1 and ?d2.0 = d2]])
      (use that assms(4) in auto)
  show ?thesis
    unfolding applyTransition_def
    by (assumption | rule wp_iota wp_bind wp_exec run_rejectEvent run_finishWith wp_rules
        aborted_closed aborted_tick aborted_work ab
        | (rule none, assumption, assumption) | (rule close, assumption, assumption)
        | (rule approve, assumption, assumption, assumption, assumption, assumption, assumption)
        | (simp; fail))+
qed

lemma check_transition_envelope:
  "check_transition action i ident active st (decode_action e action body) = Inr envelope \<Longrightarrow>
    envelope \<noteq> None \<longleftrightarrow> action = Approve"
  by (auto simp: check_transition_def decode_action_def split: option.splits if_splits)

text \<open>A pending invitation: the checks decide between a failed attempt and the transition.\<close>

lemma run_pending_transition:
  assumes "open_tx s" "find_invitation v ident (work s) = Some row"
    "is_State (ivr_status row) = InvitationPending"
  shows "wp (case check_transition action i ident active (ivr_status row) (decode_action e action body) of
       Inl (why, m) \<Rightarrow> failInvitationAttempt e v auth row oper why m
     | Inr envelope \<Rightarrow> applyTransition e v ident action auth row envelope) closed s"
  by (rule wp_rules run_failInvitationAttempt [OF assms find_invitation_ID [OF assms(2)]]
      run_applyTransition [OF assms] | erule check_transition_envelope)+

lemma run_transitionInvitation: "aborted s \<Longrightarrow> wp (transitionInvitation e r v ident action) closed s"
  unfolding transitionInvitation_def getInvitationTx_def actorIsActive_def getDeviceStatusTx_def
  by (assumption | erule open_aborted | (rule run_pending_transition; simp; fail) | rule run_read
      | (simp; fail))+

section \<open>Dispatch\<close>

lemma run_ServeHTTP: "aborted s \<Longrightarrow> wp (ServeHTTP e r) closed s"
  unfolding ServeHTTP_def
  by (assumption | rule run_createVault run_createInvitation run_listInvitations
      run_requestEnrollment run_listEnrollments run_listDevices run_listRecords run_listVaultObjects
      run_listAccessEvents run_getInvitation run_getEnrollment run_approveEnrollment run_revokeDevice
      run_putRecord run_getVaultObject run_putVaultObject run_deleteVaultObject run_transitionInvitation
      wp_rules | erule aborted_closed)+

text \<open>The same as a statement about a run of the service on a world with no transaction open.\<close>

lemma serve:
  assumes "run_state (ServeHTTP e r) s = (resp, s')" "durable s = d0" "tick s = n0"
  shows "R (n0, d0) (tick s', durable s')" and "resp_status resp = 500 \<Longrightarrow> durable s' = d0"
  using wpD [OF run_ServeHTTP assms(1)] assms(2,3) by (auto simp: aborted_def closed_def)

end

end
