(* ===== verification/Server_Invariant.thy ===== *)
theory Server_Invariant
  imports Server_Runs
begin

text \<open>
  The invariant of the database: keys, references, identities, revisions, the life of an
  invitation, the event log. \<open>tables_ok\<close> is kept by every statement on its own; \<open>active_ok\<close>
  (every vault keeps an active device), \<open>approvals_ok\<close> (invitations, enrollments and devices
  agree) and \<open>caps_ok\<close> (the event log is bounded) hold between the groups of statements a handler
  executes together. The interpretation \<open>inv\<close> of \<open>service_run\<close> carries them through every
  handler.
\<close>

definition keys_ok :: "db \<Rightarrow> bool" where
  "keys_ok d \<longleftrightarrow> distinct (map v_id (vaults d)) \<and> distinct (map device_key (devices d)) \<and>
     distinct (map enrollment_key (enrollments d)) \<and> distinct (map invitation_key (invitations d)) \<and>
     distinct (map record_key (records d)) \<and> distinct (map object_key (vault_objects d)) \<and>
     distinct (map nonce_key (nonces d))"

definition refs_ok :: "db \<Rightarrow> bool" where
  "refs_ok d \<longleftrightarrow> (\<forall>r\<in>set (devices d). vault_exists (d_vault_id r) d) \<and>
     (\<forall>r\<in>set (enrollments d). vault_exists (e_vault_id r) d) \<and>
     (\<forall>r\<in>set (records d). vault_exists (r_vault_id r) d) \<and>
     (\<forall>r\<in>set (vault_objects d). vault_exists (o_vault_id r) d) \<and>
     (\<forall>r\<in>set (access_events d). vault_exists (ev_vault_id r) d) \<and>
     (\<forall>r\<in>set (invitations d). invitation_key r \<in> enrollment_key ` set (enrollments d))"

definition identities_ok :: "env \<Rightarrow> db \<Rightarrow> bool" where
  "identities_ok e d \<longleftrightarrow> (\<forall>r\<in>set (devices d). valid_identity e (d_device r)) \<and>
     (\<forall>r\<in>set (enrollments d). valid_identity e (e_device r))"

definition revisions_ok :: "db \<Rightarrow> bool" where
  "revisions_ok d \<longleftrightarrow> (\<forall>r\<in>set (records d). 1 \<le> r_revision r \<and> r_revision r \<le> max_i64) \<and>
     (\<forall>r\<in>set (vault_objects d). 1 \<le> o_revision r)"

definition invitation_ok :: "invitation_row \<Rightarrow> bool" where
  "invitation_ok i \<longleftrightarrow> 0 \<le> i_failed_attempts i \<and> i_failed_attempts i \<le> 5 \<and>
     (i_state i = InvitationPending \<longleftrightarrow> i_terminal_at i = None) \<and>
     (i_state i = InvitationPending \<longleftrightarrow> i_terminal_actor i = None) \<and>
     (i_state i = InvitationAttemptsExhausted \<longleftrightarrow> i_failed_attempts i = 5)"

definition invitations_ok :: "db \<Rightarrow> bool" where
  "invitations_ok d \<longleftrightarrow> (\<forall>i\<in>set (invitations d). invitation_ok i)"

definition events_ok :: "db \<Rightarrow> bool" where
  "events_ok d \<longleftrightarrow> distinct (map ev_sequence (access_events d)) \<and> distinct (map ev_id (access_events d)) \<and>
     0 \<le> event_sequence d \<and>
     (\<forall>r\<in>set (access_events d). 0 < ev_sequence r \<and> ev_sequence r \<le> event_sequence d \<and> event_checks r)"

definition tables_ok :: "env \<Rightarrow> db \<Rightarrow> bool" where
  "tables_ok e d \<longleftrightarrow> keys_ok d \<and> refs_ok d \<and> identities_ok e d \<and> revisions_ok d \<and> invitations_ok d \<and>
     events_ok d"

definition active_ok :: "db \<Rightarrow> bool" where
  "active_ok d \<longleftrightarrow> (\<forall>r\<in>set (vaults d). 1 \<le> active_count (v_id r) d)"

definition device_identity :: "device_row \<Rightarrow> string \<times> public_device" where
  "device_identity r = (d_vault_id r, d_device r)"

definition enrollment_agrees :: "db \<Rightarrow> enrollment_row \<Rightarrow> bool" where
  "enrollment_agrees d en \<longleftrightarrow> (e_approved en \<longleftrightarrow> e_envelope en \<noteq> None) \<and>
     (e_approved en \<longrightarrow> (e_vault_id en, e_device en) \<in> device_identity ` set (devices d))"

definition invitation_agrees :: "db \<Rightarrow> invitation_row \<Rightarrow> bool" where
  "invitation_agrees d i \<longleftrightarrow> (\<forall>en\<in>set (enrollments d). enrollment_key en = invitation_key i \<longrightarrow>
     (i_state i = InvitationApproved \<longleftrightarrow> e_approved en))"

definition approvals_ok :: "db \<Rightarrow> bool" where
  "approvals_ok d \<longleftrightarrow> (\<forall>en\<in>set (enrollments d). enrollment_agrees d en) \<and>
     (\<forall>i\<in>set (invitations d). invitation_agrees d i)"

definition caps_ok :: "db \<Rightarrow> bool" where
  "caps_ok d \<longleftrightarrow> (\<forall>v\<in>set (map ev_vault_id (access_events d)).
     class_count v True d \<le> maxVerifiedEvents \<and> class_count v False d \<le> maxUnverifiedEvents)"

definition db_ok :: "env \<Rightarrow> db \<Rightarrow> bool" where
  "db_ok e d \<longleftrightarrow> tables_ok e d \<and> active_ok d \<and> approvals_ok d \<and> caps_ok d"

section \<open>What each statement keeps\<close>

lemmas tables_defs = tables_ok_def keys_ok_def refs_ok_def identities_ok_def revisions_ok_def
  invitations_ok_def events_ok_def vault_exists_def

named_theorems statement_keeps \<open>statements keep the table invariant\<close>

lemma insert_vault_keeps [statement_keeps]:
  "insert_vault r d = Some (k, d') \<Longrightarrow> tables_ok e d \<Longrightarrow> tables_ok e d'"
  by (clarsimp simp: tables_defs insert_vault_def table_simps  split: if_splits; force?)

lemma insert_device_keeps [statement_keeps]:
  "insert_device v dev d = Some (k, d') \<Longrightarrow> tables_ok e d \<Longrightarrow> valid_identity e dev \<Longrightarrow> tables_ok e d'"
  by (clarsimp simp: tables_defs insert_device_def table_simps device_key_def split: if_splits; force?)

lemma insert_enrollment_keeps [statement_keeps]:
  "insert_enrollment v dev d = Some (k, d') \<Longrightarrow> tables_ok e d \<Longrightarrow> valid_identity e dev \<Longrightarrow> tables_ok e d'"
  by (clarsimp simp: tables_defs insert_enrollment_def table_simps enrollment_key_def split: if_splits; force?)

lemma approve_enrollment_row_keeps [statement_keeps]:
  "approve_enrollment_row v i w d = Some (k, d') \<Longrightarrow> tables_ok e d \<Longrightarrow> tables_ok e d'"
  by (clarsimp simp: tables_defs approve_enrollment_row_def table_simps enrollment_key_def split: if_splits; force?)

lemma revoke_device_row_keeps [statement_keeps]:
  "revoke_device_row t v i d = Some (k, d') \<Longrightarrow> tables_ok e d \<Longrightarrow> tables_ok e d'"
  by (clarsimp simp: tables_defs revoke_device_row_def table_simps device_key_def split: if_splits; force?)

lemma insert_record_keeps [statement_keeps]:
  "insert_record r d = Some (k, d') \<Longrightarrow> tables_ok e d \<Longrightarrow> r_revision r \<le> max_i64 \<Longrightarrow> tables_ok e d'"
  by (clarsimp simp: tables_defs insert_record_def table_simps  split: if_splits; force?)

lemma update_record_keeps [statement_keeps]:
  "update_record v i cur n b t d = Some (k, d') \<Longrightarrow> tables_ok e d \<Longrightarrow> n \<le> max_i64 \<Longrightarrow> tables_ok e d'"
  by (clarsimp simp: tables_defs update_record_def table_simps record_key_def Let_def count_where_zero split: if_splits; force?)

lemma insert_object_keeps [statement_keeps]:
  "insert_object r d = Some (k, d') \<Longrightarrow> tables_ok e d \<Longrightarrow> tables_ok e d'"
  by (clarsimp simp: tables_defs insert_object_def table_simps  split: if_splits; force?)

lemma update_object_keeps [statement_keeps]:
  "update_object v i cur n b t d = Some (k, d') \<Longrightarrow> tables_ok e d \<Longrightarrow> tables_ok e d'"
  by (clarsimp simp: tables_defs update_object_def table_simps object_key_def Let_def count_where_zero split: if_splits; force?)

lemma delete_object_keeps [statement_keeps]:
  "delete_object v i n d = Some (k, d') \<Longrightarrow> tables_ok e d \<Longrightarrow> tables_ok e d'"
  by (clarsimp simp: tables_defs delete_object_def table_simps  split: if_splits; force?)

lemma insert_nonce_keeps [statement_keeps]:
  "insert_nonce r d = Some (k, d') \<Longrightarrow> tables_ok e d \<Longrightarrow> tables_ok e d'"
  by (clarsimp simp: tables_defs insert_nonce_def table_simps  split: if_splits; force?)

lemma delete_nonces_before_keeps [statement_keeps]:
  "delete_nonces_before c d = Some (k, d') \<Longrightarrow> tables_ok e d \<Longrightarrow> tables_ok e d'"
  by (clarsimp simp: tables_defs delete_nonces_before_def table_simps  split: if_splits; force?)

lemma delete_device_nonces_keeps [statement_keeps]:
  "delete_device_nonces v i d = Some (k, d') \<Longrightarrow> tables_ok e d \<Longrightarrow> tables_ok e d'"
  by (clarsimp simp: tables_defs delete_device_nonces_def table_simps  split: if_splits; force?)

lemma insert_invitation_keeps [statement_keeps]:
  "insert_invitation r d = Some (k, d') \<Longrightarrow> tables_ok e d \<Longrightarrow> invitation_ok r \<Longrightarrow> tables_ok e d'"
  by (clarsimp simp: tables_defs insert_invitation_def table_simps  split: if_splits; force?)

lemma close_invitation_row_keeps [statement_keeps]:
  "close_invitation_row st t a v i d = Some (k, d') \<Longrightarrow> tables_ok e d \<Longrightarrow> st \<notin> {InvitationPending, InvitationAttemptsExhausted} \<Longrightarrow> tables_ok e d'"
  by (clarsimp simp: tables_defs close_invitation_row_def table_simps invitation_key_def invitation_ok_def pending_invitation_def split: if_splits; force?)

lemma insert_event_keeps [statement_keeps]:
  "insert_event r d = Some (k, d') \<Longrightarrow> tables_ok e d \<Longrightarrow> tables_ok e d'"
  by (clarsimp simp: tables_defs insert_event_def table_simps Let_def event_checks_def split: if_splits; force?)

lemma delete_events_before_keeps [statement_keeps]:
  "delete_events_before v c d = Some (k, d') \<Longrightarrow> tables_ok e d \<Longrightarrow> tables_ok e d'"
  by (clarsimp simp: tables_defs delete_events_before_def table_simps Let_def split: if_splits; force?)

lemma delete_events_beyond_keeps [statement_keeps]:
  "delete_events_beyond v b n d = Some (k, d') \<Longrightarrow> tables_ok e d \<Longrightarrow> tables_ok e d'"
  by (clarsimp simp: tables_defs delete_events_beyond_def table_simps Let_def split: if_splits; force?)

lemma fail_invitation_row_keeps:
  assumes "fail_invitation_row attempts st at actor v i d = Some (k, d')" "tables_ok e d"
    "attempts \<le> 5" "0 \<le> attempts" "st = (if attempts = 5 then InvitationAttemptsExhausted else InvitationPending)"
    "attempts = 5 \<longleftrightarrow> at \<noteq> None" "attempts = 5 \<longleftrightarrow> actor \<noteq> None"
  shows "tables_ok e d'"
proof -
  have "invitation_ok (r\<lparr>i_failed_attempts := attempts, i_state := st, i_terminal_at := at,
      i_terminal_actor := actor\<rparr>)" for r
    using assms(3-) by (auto simp: invitation_ok_def)
  with assms(1,2) show ?thesis
    by (clarsimp simp: tables_defs fail_invitation_row_def Let_def table_simps invitation_key_def
        split: if_splits)
qed

section \<open>Every vault keeps an active device\<close>

lemma active_ok_devices:
  "active_ok d \<Longrightarrow> vaults d' = vaults d \<Longrightarrow> devices d' = devices d \<Longrightarrow> active_ok d'"
  by (simp add: active_ok_def active_count_def)

lemma active_count_insert_device:
  "insert_device v dev d = Some (k, d') \<Longrightarrow> active_count v' d' = active_count v' d + (if v' = v then 1 else 0)"
  by (auto simp: insert_device_def active_count_def split: if_splits)

lemma active_ok_insert_device:
  "insert_device v dev d = Some (k, d') \<Longrightarrow> active_ok d \<Longrightarrow> active_ok d'"
  using active_count_insert_device [of v dev d k d']
  by (auto simp: active_ok_def insert_device_def trans_le_add1 split: if_splits)

lemma active_ok_create:
  assumes "insert_vault rv d = Some (k, d1)" "insert_device (v_id rv) dev d1 = Some (k1, d2)" "active_ok d"
  shows "active_ok d2"
proof -
  have "active_count v d1 = active_count v d" for v
    using assms(1) by (auto simp: insert_vault_def active_count_def split: if_splits)
  with active_count_insert_device [OF assms(2)] assms show ?thesis
    by (auto simp: active_ok_def insert_vault_def insert_device_def split: if_splits)
qed

lemma active_count_revoke:
  assumes "revoke_device_row t v ident d = Some (k, d')"
  shows "active_count v d' + k = active_count v d" "v' \<noteq> v \<Longrightarrow> active_count v' d' = active_count v' d"
  using assms
  by (auto simp: revoke_device_row_def active_count_def active_row_def device_key_def
      intro!: count_where_update_out count_where_update_eq)

lemma active_ok_revoke:
  assumes "revoke_device_row t v ident d = Some (1, d')" "1 < active_count v d" "active_ok d"
  shows "active_ok d'"
proof -
  have "1 \<le> active_count v' d'" if "1 \<le> active_count v' d" for v'
    using active_count_revoke(1) [OF assms(1)] active_count_revoke(2) [OF assms(1), of v'] that assms(2) by (cases "v' = v") auto
  moreover have "vaults d' = vaults d" using assms(1) by (auto simp: revoke_device_row_def)
  ultimately show ?thesis using assms(3) by (simp add: active_ok_def)
qed

text \<open>Under the key of the table an update that does not count one row changes nothing.\<close>

lemma revoke_none_same:
  assumes "revoke_device_row t v ident d = Some (k, d')" "k \<noteq> 1" "keys_ok d"
  shows "d' = d"
  using assms update_where_unchanged [of device_key "devices d" "active_row v ident" "(v, ident)"]
  by (auto simp: revoke_device_row_def active_row_def keys_ok_def)

lemma close_none_same:
  assumes "close_invitation_row st t a v ident d = Some (k, d')" "k \<noteq> 1" "keys_ok d"
  shows "d' = d"
  using assms update_where_unchanged [of invitation_key "invitations d" "pending_invitation v ident" "(v, ident)"]
  by (auto simp: close_invitation_row_def pending_invitation_def keys_ok_def)

section \<open>Invitations, enrollments and devices agree\<close>

lemma approvals_ok_same:
  "approvals_ok d \<Longrightarrow> enrollments d' = enrollments d \<Longrightarrow> invitations d' = invitations d \<Longrightarrow>
    device_identity ` set (devices d) \<subseteq> device_identity ` set (devices d') \<Longrightarrow> approvals_ok d'"
  by (auto simp: approvals_ok_def enrollment_agrees_def invitation_agrees_def)

lemma device_identity_insert:
  "insert_device v dev d = Some (k, d') \<Longrightarrow>
    device_identity ` set (devices d') = insert (v, dev) (device_identity ` set (devices d))"
  by (auto simp: insert_device_def device_identity_def split: if_splits)

lemma device_identity_revoke:
  "revoke_device_row t v ident d = Some (k, d') \<Longrightarrow>
    device_identity ` set (devices d') = device_identity ` set (devices d)"
  unfolding revoke_device_row_def
  by (clarsimp simp: image_update_where device_identity_def)

lemma approvals_ok_insert_device:
  "insert_device v dev d = Some (k, d') \<Longrightarrow> approvals_ok d \<Longrightarrow> approvals_ok d'"
  by (erule approvals_ok_same, unfold device_identity_insert)
    (auto simp: insert_device_def split: if_splits)

lemma approvals_ok_revoke:
  "revoke_device_row t v ident d = Some (k, d') \<Longrightarrow> approvals_ok d \<Longrightarrow> approvals_ok d'"
  by (erule approvals_ok_same, unfold device_identity_revoke) (auto simp: revoke_device_row_def)

lemma approvals_ok_enroll:
  assumes "insert_enrollment v dev d = Some (k, d')" "approvals_ok d" "refs_ok d"
  shows "approvals_ok d'"
proof -
  let ?en = "\<lparr>e_vault_id = v, e_device = dev, e_approved = False, e_envelope = None\<rparr>"
  have d': "d' = d\<lparr>enrollments := enrollments d @ [?en]\<rparr>"
    and new: "enrollment_key ?en \<notin> enrollment_key ` set (enrollments d)"
    using assms(1) by (auto simp: insert_enrollment_def enrollment_key_def split: if_splits)
  have "invitation_agrees d' i" if "i \<in> set (invitations d)" for i
  proof -
    from that assms(3) new have "enrollment_key ?en \<noteq> invitation_key i"
      by (auto simp: refs_ok_def)
    with that assms(2) show ?thesis by (auto simp: approvals_ok_def invitation_agrees_def d')
  qed
  with assms(2) show ?thesis by (simp add: approvals_ok_def enrollment_agrees_def d')
qed

lemma approvals_ok_invite:
  assumes "insert_enrollment v dev d = Some (k, d1)" "insert_invitation i d1 = Some (k1, d2)"
    "fresh_invitation v (dev_ID dev) now i" "approvals_ok d" "refs_ok d"
  shows "approvals_ok d2"
proof -
  from assms(1,4,5) have d1: "approvals_ok d1" by (rule approvals_ok_enroll)
  have "(v, dev_ID dev) \<notin> enrollment_key ` set (enrollments d)" "i_state i = InvitationPending"
    "invitation_key i = (v, dev_ID dev)"
    using assms(1,3) by (auto simp: insert_enrollment_def fresh_invitation_def invitation_key_def split: if_splits)
  then have "invitation_agrees d1 i"
    using assms(1) by (auto simp: invitation_agrees_def insert_enrollment_def image_iff split: if_splits) metis
  moreover have "d2 = d1\<lparr>invitations := invitations d1 @ [i]\<rparr>"
    using assms(2) by (simp add: insert_invitation_def split: if_splits)
  ultimately show ?thesis
    using d1 by (simp add: approvals_ok_def enrollment_agrees_def invitation_agrees_def)
qed

text \<open>Replacing the rows of pending invitations by rows that are not approved.\<close>

lemma approvals_ok_pending_update:
  assumes "approvals_ok d" "d' = d\<lparr>invitations := update_where (pending_invitation v ident) f (invitations d)\<rparr>"
    "\<And>i. invitation_key (f i) = invitation_key i" "\<And>i. i_state (f i) \<noteq> InvitationApproved"
  shows "approvals_ok d'"
proof -
  have "invitation_agrees d' (f i)" if "invitation_agrees d i" "i_state i = InvitationPending" for i
    using that assms(3,4) by (auto simp: invitation_agrees_def assms(2))
  moreover have "invitation_agrees d' i" if "invitation_agrees d i" for i
    using that by (simp add: invitation_agrees_def assms(2))
  ultimately show ?thesis
    using assms(1) by (auto simp: approvals_ok_def enrollment_agrees_def assms(2) ball_update_where
        pending_invitation_def)
qed

lemma approvals_ok_close:
  "close_invitation_row st t a v ident d = Some (k, d') \<Longrightarrow> st \<noteq> InvitationApproved \<Longrightarrow>
    approvals_ok d \<Longrightarrow> approvals_ok d'"
  by (rule approvals_ok_pending_update [where f = "\<lambda>r. r\<lparr>i_state := st, i_terminal_at := Some t,
        i_terminal_actor := Some a\<rparr>" and v = v and ident = ident and d = d])
    (auto simp: close_invitation_row_def invitation_key_def)

lemma approvals_ok_fail:
  "fail_invitation_row n st at a v ident d = Some (k, d') \<Longrightarrow> st \<noteq> InvitationApproved \<Longrightarrow>
    approvals_ok d \<Longrightarrow> approvals_ok d'"
  by (rule approvals_ok_pending_update [where f = "\<lambda>r. r\<lparr>i_failed_attempts := n, i_state := st,
        i_terminal_at := at, i_terminal_actor := a\<rparr>" and v = v and ident = ident and d = d])
    (auto simp: fail_invitation_row_def Let_def invitation_key_def split: if_splits)

lemma approvals_ok_approve:
  assumes "approvals_ok d" "keys_ok d" "en0 \<in> set (enrollments d)" "enrollment_key en0 = (v, ident)"
    and en: "enrollments d' = update_where (unapproved v ident)
      (\<lambda>r. r\<lparr>e_approved := True, e_envelope := Some w\<rparr>) (enrollments d)"
    and dev: "insert (v, e_device en0) (device_identity ` set (devices d)) \<subseteq> device_identity ` set (devices d')"
    and inv: "\<And>i. i \<in> set (invitations d') \<Longrightarrow> (if invitation_key i = (v, ident)
      then i_state i = InvitationApproved else i \<in> set (invitations d))"
  shows "approvals_ok d'"
proof -
  have "enrollment_agrees d' (if unapproved v ident r then r\<lparr>e_approved := True, e_envelope := Some w\<rparr> else r)"
    if r: "r \<in> set (enrollments d)" for r
  proof (cases "unapproved v ident r")
    case True
    then have "r = en0"
      using assms(2-4) r by (auto simp: keys_ok_def unapproved_def intro: distinct_key_eq)
    with True dev assms(4) show ?thesis by (auto simp: enrollment_agrees_def enrollment_key_def)
  next
    case False
    then show ?thesis using assms(1) r dev by (auto simp: approvals_ok_def enrollment_agrees_def)
  qed
  moreover have "invitation_agrees d' i" if i: "i \<in> set (invitations d')" for i
  proof (cases "invitation_key i = (v, ident)")
    case True
    with inv [OF i] show ?thesis
      by (auto simp: invitation_agrees_def en table_simps unapproved_def)
  next
    case False
    with inv [OF i] assms(1) have "invitation_agrees d i" by (auto simp: approvals_ok_def)
    with False show ?thesis
      by (auto simp: invitation_agrees_def en table_simps unapproved_def enrollment_key_def)
  qed
  ultimately show ?thesis by (simp add: approvals_ok_def en ball_update_where)
qed

lemma find_enrollmentD:
  "find_enrollment v ident d = Some en \<Longrightarrow>
    \<exists>r\<in>set (enrollments d). enrollment_key r = (v, ident) \<and> es_Device en = e_device r"
  by (auto simp: find_enrollment_def dest!: find_SomeD)

lemma find_invitationD:
  assumes "find_invitation v ident d = Some row"
  shows "\<exists>i\<in>set (invitations d). \<exists>r\<in>set (enrollments d). invitation_key i = (v, ident) \<and>
    enrollment_key r = (v, ident) \<and> is_Device (ivr_status row) = e_device r \<and>
    is_State (ivr_status row) = i_state i \<and> ivr_failedAttempts row = i_failed_attempts i"
proof -
  from assms obtain i r where i: "i \<in> set (invitations d)" "invitation_key i = (v, ident)"
    and r: "r \<in> set (enrollments d)" "enrollment_key r = (v, ident)" and row: "row = scanInvitation i r"
    by (auto simp: find_invitation_def join_invitation_def bind_eq_Some_conv dest!: find_SomeD)
  then have "(e_device r)\<lparr>dev_ID := i_device_id i\<rparr> = e_device r"
    by (auto simp: invitation_key_def enrollment_key_def intro: public_device.equality)
  with i r row show ?thesis by (auto simp: scanInvitation_def)
qed

lemma approvals_ok_direct:
  assumes "find_enrollment v ident d = Some en" "\<not> has_invitation v ident d"
    "approve_enrollment_row v ident w d = Some (k, d1)" "insert_device v (es_Device en) d1 = Some (k1, d2)"
    "approvals_ok d" "keys_ok d"
  shows "approvals_ok d2"
proof -
  obtain r where r: "r \<in> set (enrollments d)" "enrollment_key r = (v, ident)" "es_Device en = e_device r"
    using find_enrollmentD [OF assms(1)] by blast
  have "invitation_key i \<noteq> (v, ident)" if "i \<in> set (invitations d)" for i
    using that assms(2) by (auto simp: has_invitation_def image_iff)
  then show ?thesis
    by (intro approvals_ok_approve [OF assms(5,6) r(1,2), where w = w])
      (use assms(3,4) device_identity_insert [OF assms(4)] r(3)
        in \<open>auto simp: approve_enrollment_row_def insert_device_def split: if_splits\<close>)
qed

lemma approvals_ok_invited:
  assumes "find_invitation v ident d = Some row" "is_State (ivr_status row) = InvitationPending"
    "close_invitation_row InvitationApproved t actor v ident d = Some (1, d1)"
    "approve_enrollment_row v ident w d1 = Some (k, d2)"
    "insert_device v (is_Device (ivr_status row)) d2 = Some (k1, d3)"
    "approvals_ok d" "keys_ok d"
  shows "approvals_ok d3"
proof -
  obtain i r where i: "i \<in> set (invitations d)" "invitation_key i = (v, ident)" "i_state i = InvitationPending"
    and r: "r \<in> set (enrollments d)" "enrollment_key r = (v, ident)" "is_Device (ivr_status row) = e_device r"
    using find_invitationD [OF assms(1)] assms(2) by auto
  have one: "j = i" if "j \<in> set (invitations d)" "invitation_key j = (v, ident)" for j
    using that i assms(7) by (auto simp: keys_ok_def intro: distinct_key_eq)
  let ?f = "\<lambda>r. r\<lparr>i_state := InvitationApproved, i_terminal_at := Some t, i_terminal_actor := Some actor\<rparr>"
  have d3: "invitations d3 = update_where (pending_invitation v ident) ?f (invitations d)"
    using assms(3-5)
    by (auto simp: close_invitation_row_def approve_enrollment_row_def insert_device_def split: if_splits)
  have inv: "if invitation_key j = (v, ident) then i_state j = InvitationApproved else j \<in> set (invitations d)"
    if j: "j \<in> set (invitations d3)" for j
  proof -
    from j obtain j0 where "j0 \<in> set (invitations d)" "j = (if pending_invitation v ident j0 then ?f j0 else j0)"
      unfolding d3 set_update_where by blast
    with one i(3) show ?thesis by (auto simp: pending_invitation_def invitation_key_def split: if_splits)
  qed
  show ?thesis
    by (rule approvals_ok_approve [OF assms(6,7) r(1,2) _ _ inv, where w = w])
      (use assms(3-5) device_identity_insert [OF assms(5)] r(3)
        in \<open>auto simp: close_invitation_row_def approve_enrollment_row_def insert_device_def
          split: if_splits\<close>)
qed

section \<open>The event log is bounded\<close>

lemma caps_ok_iff:
  "caps_ok d \<longleftrightarrow> (\<forall>v. class_count v True d \<le> maxVerifiedEvents \<and> class_count v False d \<le> maxUnverifiedEvents)"
proof -
  have "class_count v b d = 0" if "v \<notin> set (map ev_vault_id (access_events d))" for v b
    using that by (auto simp: class_count_def count_where_zero in_class_def)
  then show ?thesis unfolding caps_ok_def by (metis le0)
qed

lemma caps_ok_same: "caps_ok d \<Longrightarrow> access_events d' = access_events d \<Longrightarrow> caps_ok d'"
  by (simp add: caps_ok_def class_count_def)

lemma class_count_delete:
  "access_events d' = delete_where p (access_events d) \<Longrightarrow> class_count v b d' \<le> class_count v b d"
  by (simp add: class_count_def count_where_delete_le)

lemma class_count_delete_before:
  "delete_events_before v c d = Some (k, d') \<Longrightarrow> class_count v' b d' \<le> class_count v' b d"
  by (rule class_count_delete) (auto simp: delete_events_before_def Let_def)

lemma class_count_delete_beyond:
  "delete_events_beyond v c n d = Some (k, d') \<Longrightarrow> class_count v' b d' \<le> class_count v' b d"
  by (rule class_count_delete) (auto simp: delete_events_beyond_def Let_def)

lemma class_count_insert_event:
  "insert_event r d = Some (k, d') \<Longrightarrow> v' \<noteq> ev_vault_id r \<Longrightarrow> class_count v' b d' = class_count v' b d"
  by (auto simp: insert_event_def Let_def class_count_def in_class_def split: if_splits)

lemma caps_ok_event:
  assumes "insert_event (event_of ident v now ev) d = Some (k, d1)"
    "delete_events_before v c d1 = Some (k1, d2)"
    "delete_events_beyond v True maxVerifiedEvents d2 = Some (k2, d3)"
    "delete_events_beyond v False maxUnverifiedEvents d3 = Some (k3, d4)"
    "tables_ok e d" "caps_ok d"
  shows "caps_ok d4"
proof -
  have "tables_ok e d1" using assms(1,5) by (rule insert_event_keeps)
  with assms(2) have t2: "tables_ok e d2" by (rule delete_events_before_keeps)
  with assms(3) have t3: "tables_ok e d3" by (rule delete_events_beyond_keeps)
  have "class_count v True d4 \<le> maxVerifiedEvents"
    using delete_events_beyond_count [OF _ assms(3)] t2 class_count_delete_beyond [OF assms(4), of v True]
    by (auto simp: tables_ok_def events_ok_def)
  moreover have "class_count v False d4 \<le> maxUnverifiedEvents"
    using delete_events_beyond_count [OF _ assms(4)] t3 by (simp add: tables_ok_def events_ok_def)
  moreover have "class_count v' b d4 \<le> class_count v' b d" if "v' \<noteq> v" for v' b
    using class_count_delete_beyond [OF assms(4), of v' b] class_count_delete_beyond [OF assms(3), of v' b]
      class_count_delete_before [OF assms(2), of v' b] class_count_insert_event [OF assms(1), of v' b] that
    by (simp add: event_of_def)
  ultimately show ?thesis
    using assms(6) unfolding caps_ok_iff by (metis le_trans)
qed

section \<open>What each effect keeps\<close>

lemma db_ok_frame:
  "db_ok e d \<Longrightarrow> tables_ok e d' \<Longrightarrow> vaults d' = vaults d \<Longrightarrow> devices d' = devices d \<Longrightarrow>
    enrollments d' = enrollments d \<Longrightarrow> invitations d' = invitations d \<Longrightarrow>
    access_events d' = access_events d \<Longrightarrow> db_ok e d'"
  by (auto simp: db_ok_def intro: active_ok_devices approvals_ok_same caps_ok_same)

lemma db_ok_parts:
  "db_ok e d \<Longrightarrow> tables_ok e d" "db_ok e d \<Longrightarrow> keys_ok d" "db_ok e d \<Longrightarrow> refs_ok d"
  "db_ok e d \<Longrightarrow> active_ok d" "db_ok e d \<Longrightarrow> approvals_ok d" "db_ok e d \<Longrightarrow> caps_ok d"
  by (simp_all add: db_ok_def tables_ok_def)

lemma event_keeps:
  assumes "insert_event (event_of ident v now ev) d = Some (k, d1)"
    "delete_events_before v c d1 = Some (k1, d2)"
    "delete_events_beyond v True maxVerifiedEvents d2 = Some (k2, d3)"
    "delete_events_beyond v False maxUnverifiedEvents d3 = Some (k3, d4)" "db_ok e d"
  shows "db_ok e d4"
proof -
  have "tables_ok e d4"
    using assms insert_event_keeps delete_events_before_keeps delete_events_beyond_keeps db_ok_parts(1) by metis
  moreover have "vaults d4 = vaults d" "devices d4 = devices d" "enrollments d4 = enrollments d"
    "invitations d4 = invitations d"
    using assms(1-4) by (auto simp: insert_event_def delete_events_before_def delete_events_beyond_def Let_def
        split: if_splits)
  ultimately show ?thesis
    using assms(5) caps_ok_event [OF assms(1-4)]
    by (auto simp: db_ok_def intro: active_ok_devices approvals_ok_same)
qed

lemma create_vault_keeps:
  assumes "insert_vault rv d = Some (k, d1)" "valid_identity e dev" "insert_device (v_id rv) dev d1 = Some (k1, d2)"
    "db_ok e d"
  shows "db_ok e d2"
proof -
  have "tables_ok e d2" using assms insert_vault_keeps insert_device_keeps db_ok_parts(1) by metis
  moreover have "approvals_ok d1" "access_events d1 = access_events d"
    using assms(1,4) by (auto simp: insert_vault_def db_ok_def intro: approvals_ok_same split: if_splits)
  moreover have "access_events d2 = access_events d1"
    using assms(3) by (auto simp: insert_device_def split: if_splits)
  ultimately show ?thesis
    using active_ok_create [OF assms(1,3)] approvals_ok_insert_device [OF assms(3)] assms(4)
    by (auto simp: db_ok_def intro: caps_ok_same)
qed

lemma enroll_keeps:
  assumes "valid_identity e dev" "insert_enrollment v dev d = Some (k, d1)" "db_ok e d"
  shows "db_ok e d1"
proof -
  have "vaults d1 = vaults d" "devices d1 = devices d" "access_events d1 = access_events d"
    using assms(2) by (auto simp: insert_enrollment_def split: if_splits)
  with assms insert_enrollment_keeps [OF assms(2)] approvals_ok_enroll [OF assms(2)] show ?thesis
    using active_ok_devices caps_ok_same by (metis db_ok_def db_ok_parts)
qed

lemma invite_keeps:
  assumes "valid_identity e dev" "insert_enrollment v dev d = Some (k, d1)"
    "fresh_invitation v (dev_ID dev) now i" "insert_invitation i d1 = Some (k1, d2)" "db_ok e d"
  shows "db_ok e d2"
proof -
  have "db_ok e d1" using assms(1,2,5) by (rule enroll_keeps)
  moreover have "invitation_ok i" using assms(3) by (simp add: fresh_invitation_def invitation_ok_def)
  ultimately have "tables_ok e d2" using insert_invitation_keeps [OF assms(4)] db_ok_parts(1) by blast
  moreover have "approvals_ok d2"
    using assms(5) by (intro approvals_ok_invite [OF assms(2,4,3)]) (simp_all add: db_ok_parts)
  moreover have "vaults d2 = vaults d1" "devices d2 = devices d1" "access_events d2 = access_events d1"
    using assms(4) by (auto simp: insert_invitation_def split: if_splits)
  ultimately show ?thesis
    using \<open>db_ok e d1\<close> active_ok_devices caps_ok_same by (metis db_ok_def)
qed

lemma revoke_keeps:
  assumes "1 < active_count v d" "revoke_device_row now v ident d = Some (1, d1)"
    "delete_device_nonces v ident d1 = Some (k, d2)" "db_ok e d"
  shows "db_ok e d2"
proof -
  have t: "tables_ok e d1"
    using assms(2,4) revoke_device_row_keeps db_ok_parts(1) by blast
  moreover have "access_events d1 = access_events d"
    using assms(2) by (auto simp: revoke_device_row_def)
  ultimately have "db_ok e d1"
    using assms(4) active_ok_revoke [OF assms(2,1)] approvals_ok_revoke [OF assms(2)] caps_ok_same
    by (auto simp: db_ok_def)
  then show ?thesis
    by (rule db_ok_frame)
      (use assms(3) delete_device_nonces_keeps [OF assms(3) t] in \<open>auto simp: delete_device_nonces_def\<close>)
qed

lemma approve_keeps:
  assumes "find_enrollment v ident d = Some en" "\<not> has_invitation v ident d"
    "approve_enrollment_row v ident w d = Some (k, d1)" "insert_device v (es_Device en) d1 = Some (k1, d2)"
    "db_ok e d"
  shows "db_ok e d2"
proof -
  have "valid_identity e (es_Device en)"
    using find_enrollmentD [OF assms(1)] assms(5) by (auto simp: db_ok_def tables_ok_def identities_ok_def)
  then have "tables_ok e d2"
    using assms(3-5) approve_enrollment_row_keeps insert_device_keeps db_ok_parts(1) by metis
  moreover have d1: "active_ok d1" "access_events d1 = access_events d"
    using assms(3,5) by (auto simp: approve_enrollment_row_def db_ok_def intro: active_ok_devices)
  moreover have "access_events d2 = access_events d1"
    using assms(4) by (auto simp: insert_device_def split: if_splits)
  ultimately show ?thesis
    using approvals_ok_direct [OF assms(1-4)] assms(5) active_ok_insert_device [OF assms(4)]
    by (auto simp: db_ok_def tables_ok_def intro: caps_ok_same)
qed

lemma close_keeps:
  assumes "st \<in> {InvitationExpired, InvitationRejected, InvitationCancelled}"
    "close_invitation_row st t actor v ident d = Some (k, d1)" "db_ok e d"
  shows "db_ok e d1"
proof -
  have "tables_ok e d1"
    using assms close_invitation_row_keeps [OF assms(2)] db_ok_parts(1) by auto
  moreover have "vaults d1 = vaults d" "devices d1 = devices d" "access_events d1 = access_events d"
    using assms(2) by (auto simp: close_invitation_row_def)
  moreover have "approvals_ok d1"
    by (rule approvals_ok_close [OF assms(2)]) (use assms(1,3) in \<open>auto simp: db_ok_def\<close>)
  ultimately show ?thesis
    using assms(3) active_ok_devices caps_ok_same by (metis db_ok_def)
qed

lemma fail_keeps:
  assumes "find_invitation v ident d = Some row" "is_State (ivr_status row) = InvitationPending"
    "attempts = ivr_failedAttempts row + 1"
    "st = (if invitationMaxAttempts \<le> attempts then InvitationAttemptsExhausted else InvitationPending)"
    "invitationMaxAttempts \<le> attempts \<longleftrightarrow> at \<noteq> None" "invitationMaxAttempts \<le> attempts \<longleftrightarrow> actor \<noteq> None"
    "fail_invitation_row attempts st at actor v ident d = Some (k, d1)" "db_ok e d"
  shows "db_ok e d1"
proof -
  obtain i where "i \<in> set (invitations d)" "i_state i = InvitationPending"
    "attempts = i_failed_attempts i + 1"
    using find_invitationD [OF assms(1)] assms(2,3) by auto
  then have "0 \<le> attempts" "attempts \<le> 5" "invitationMaxAttempts \<le> attempts \<longleftrightarrow> attempts = 5"
    using assms(8) by (auto simp: db_ok_def tables_ok_def invitations_ok_def invitation_ok_def
        invitationMaxAttempts_def)
  then have "tables_ok e d1"
    by (intro fail_invitation_row_keeps [OF assms(7) db_ok_parts(1) [OF assms(8)]])
      (use assms(4-6) in simp_all)
  moreover have "vaults d1 = vaults d" "devices d1 = devices d" "access_events d1 = access_events d"
    using assms(7) by (auto simp: fail_invitation_row_def Let_def split: if_splits)
  moreover have "approvals_ok d1"
    by (rule approvals_ok_fail [OF assms(7)]) (use assms(4,8) in \<open>auto simp: db_ok_def\<close>)
  ultimately show ?thesis
    using assms(8) active_ok_devices caps_ok_same by (metis db_ok_def)
qed

lemma approve_invitation_keeps:
  assumes "find_invitation v ident d = Some row" "is_State (ivr_status row) = InvitationPending"
    "close_invitation_row InvitationApproved t actor v ident d = Some (1, d1)"
    "approve_enrollment_row v ident w d1 = Some (1, d2)"
    "insert_device v (is_Device (ivr_status row)) d2 = Some (k, d3)" "db_ok e d"
  shows "db_ok e d3"
proof -
  have "valid_identity e (is_Device (ivr_status row))"
    using find_invitationD [OF assms(1)] assms(6) by (auto simp: db_ok_def tables_ok_def identities_ok_def)
  moreover have "tables_ok e d1"
    by (rule close_invitation_row_keeps [OF assms(3)]) (use assms(6) in \<open>auto simp: db_ok_parts\<close>)
  ultimately have "tables_ok e d3"
    using assms(4,5) approve_enrollment_row_keeps insert_device_keeps by metis
  moreover have d2: "vaults d2 = vaults d" "devices d2 = devices d" "access_events d2 = access_events d"
    using assms(3,4) by (auto simp: close_invitation_row_def approve_enrollment_row_def)
  moreover have "active_ok d2"
    using active_ok_devices [OF _ d2(1,2)] assms(6) by (simp add: db_ok_def)
  moreover have "access_events d3 = access_events d2"
    using assms(5) by (auto simp: insert_device_def split: if_splits)
  ultimately show ?thesis
    using approvals_ok_invited [OF assms(1-5)] assms(6) active_ok_insert_device [OF assms(5)]
    by (auto simp: db_ok_def tables_ok_def intro: caps_ok_same)
qed

lemma nonce_keeps:
  assumes "insert_nonce rn d = Some (k, d1)" "delete_nonces_before c d1 = Some (k1, d2)" "db_ok e d"
  shows "db_ok e d2"
proof (rule db_ok_frame [OF assms(3)])
  show "tables_ok e d2"
    using assms insert_nonce_keeps delete_nonces_before_keeps db_ok_parts(1) by metis
qed (use assms(1,2) in \<open>auto simp: insert_nonce_def delete_nonces_before_def split: if_splits\<close>)

lemma insert_record_ok: "insert_record r d = Some (k, d1) \<Longrightarrow> r_revision r \<le> max_i64 \<Longrightarrow> db_ok e d \<Longrightarrow> db_ok e d1"
  by (rule db_ok_frame [OF _ insert_record_keeps [OF _ db_ok_parts(1)]], assumption+)
    (auto simp: insert_record_def split: if_splits)

lemma update_record_ok: "update_record v i c n b t d = Some (k, d1) \<Longrightarrow> n \<le> max_i64 \<Longrightarrow> db_ok e d \<Longrightarrow> db_ok e d1"
  by (rule db_ok_frame [OF _ update_record_keeps [OF _ db_ok_parts(1)]], assumption+)
    (auto simp: update_record_def Let_def split: if_splits)

lemma insert_object_ok: "insert_object r d = Some (k, d1) \<Longrightarrow> db_ok e d \<Longrightarrow> db_ok e d1"
  by (rule db_ok_frame [OF _ insert_object_keeps [OF _ db_ok_parts(1)]], assumption+)
    (auto simp: insert_object_def split: if_splits)

lemma update_object_ok: "update_object v i c n b t d = Some (k, d1) \<Longrightarrow> db_ok e d \<Longrightarrow> db_ok e d1"
  by (rule db_ok_frame [OF _ update_object_keeps [OF _ db_ok_parts(1)]], assumption+)
    (auto simp: update_object_def Let_def split: if_splits)

lemma delete_object_ok: "delete_object v i n d = Some (k, d1) \<Longrightarrow> db_ok e d \<Longrightarrow> db_ok e d1"
  by (rule db_ok_frame [OF _ delete_object_keeps [OF _ db_ok_parts(1)]], assumption+)
    (auto simp: delete_object_def split: if_splits)

section \<open>The invariant holds through every request\<close>

interpretation inv: service_run "\<lambda>x y. db_ok e (snd x) \<longrightarrow> db_ok e (snd y)" e n0 d0 for e n0 d0
proof (unfold_locales, goal_cases)
  case 3 then show ?case by (auto intro: event_keeps)
next
  case 4 then show ?case by (auto intro: nonce_keeps)
next
  case 5 then show ?case by (auto intro: create_vault_keeps)
next
  case 6 then show ?case by (auto intro: enroll_keeps)
next
  case 7 then show ?case by (auto intro: invite_keeps)
next
  case 8 then show ?case by (auto intro: approve_keeps)
next
  case 9 then show ?case by (auto intro: revoke_keeps)
next
  case 10 then show ?case using revoke_none_same db_ok_parts(2) by fastforce
next
  case 11 then show ?case by (auto intro: insert_record_ok simp: max_i64_def)
next
  case 12 then show ?case using i64_range by (auto intro: update_record_ok)
next
  case 13 then show ?case by (auto intro: insert_object_ok)
next
  case 14 then show ?case by (auto intro: update_object_ok)
next
  case 15 then show ?case by (auto intro: delete_object_ok)
next
  case 16 then show ?case using close_keeps by fastforce
next
  case 17 then show ?case using close_none_same db_ok_parts(2) by fastforce
next
  case 18 show ?case using fail_keeps [OF 18(1-7)] by simp
next
  case 19 then show ?case by (auto intro: approve_invitation_keeps)
qed auto

lemma empty_db_ok: "db_ok e empty_db"
  by (simp add: db_ok_def tables_defs empty_db_def active_ok_def approvals_ok_def caps_ok_def)

end
