(* ===== verification/Server_History.thy ===== *)
theory Server_History
  imports Server_Invariant
begin

text \<open>
  What never changes back. \<open>grows d d'\<close> says of a later database that no vault, device, enrollment,
  invitation or record of the earlier one is gone, that a revocation, an approval and the end of
  an invitation stay as they are, and that the revision of a record only goes up, its content
  changing with it. The interpretation \<open>hist\<close> carries it through every handler.
\<close>

section \<open>Rows that are kept\<close>

definition kept :: "('r \<Rightarrow> 'r \<Rightarrow> bool) \<Rightarrow> 'r list \<Rightarrow> 'r list \<Rightarrow> bool" where
  "kept le xs ys \<longleftrightarrow> (\<forall>r\<in>set xs. \<exists>r'\<in>set ys. le r r')"

lemma kept_refl: "(\<And>r. le r r) \<Longrightarrow> kept le xs xs"
  by (auto simp: kept_def)

lemma kept_trans: "(\<And>a b c. le a b \<Longrightarrow> le b c \<Longrightarrow> le a c) \<Longrightarrow> kept le xs ys \<Longrightarrow> kept le ys zs \<Longrightarrow> kept le xs zs"
  by (fastforce simp: kept_def)

lemma kept_append: "kept le xs ys \<Longrightarrow> kept le xs (ys @ zs)"
  by (auto simp: kept_def)

lemma kept_update_where:
  assumes "\<And>r. le r r" "\<And>r. p r \<Longrightarrow> le r (f r)"
  shows "kept le rows (update_where p f rows)"
  unfolding kept_def
proof
  fix r assume "r \<in> set rows"
  then have "(if p r then f r else r) \<in> set (update_where p f rows)" by (auto simp: set_update_where)
  then show "\<exists>r'\<in>set (update_where p f rows). le r r'" using assms by (metis (full_types))
qed

definition device_le :: "device_row \<Rightarrow> device_row \<Rightarrow> bool" where
  "device_le r r' \<longleftrightarrow> device_identity r' = device_identity r \<and>
     (d_revoked_at r \<noteq> None \<longrightarrow> d_revoked_at r' = d_revoked_at r)"

definition enrollment_le :: "enrollment_row \<Rightarrow> enrollment_row \<Rightarrow> bool" where
  "enrollment_le r r' \<longleftrightarrow> e_vault_id r' = e_vault_id r \<and> e_device r' = e_device r \<and>
     (e_approved r \<longrightarrow> r' = r)"

definition invitation_le :: "invitation_row \<Rightarrow> invitation_row \<Rightarrow> bool" where
  "invitation_le i i' \<longleftrightarrow> invitation_key i' = invitation_key i \<and>
     i_protocol_version i' = i_protocol_version i \<and> i_expires_at i' = i_expires_at i \<and>
     (i_state i \<noteq> InvitationPending \<longrightarrow> i' = i)"

definition record_le :: "record_row \<Rightarrow> record_row \<Rightarrow> bool" where
  "record_le r r' \<longleftrightarrow> record_key r' = record_key r \<and> r_revision r \<le> r_revision r' \<and>
     (r_revision r' = r_revision r \<longrightarrow> r' = r)"

lemmas le_defs = device_le_def enrollment_le_def invitation_le_def record_le_def

definition grows :: "db \<Rightarrow> db \<Rightarrow> bool" where
  "grows d d' \<longleftrightarrow> set (vaults d) \<subseteq> set (vaults d') \<and> kept device_le (devices d) (devices d') \<and>
     kept enrollment_le (enrollments d) (enrollments d') \<and>
     kept invitation_le (invitations d) (invitations d') \<and> kept record_le (records d) (records d') \<and>
     event_sequence d \<le> event_sequence d'"

lemma le_refl: "device_le r1 r1" "enrollment_le r2 r2" "invitation_le r3 r3" "record_le r4 r4"
  by (simp_all add: le_defs)

lemma le_trans:
  "device_le a b \<Longrightarrow> device_le b c \<Longrightarrow> device_le a c"
  "enrollment_le a' b' \<Longrightarrow> enrollment_le b' c' \<Longrightarrow> enrollment_le a' c'"
  "invitation_le i j \<Longrightarrow> invitation_le j k \<Longrightarrow> invitation_le i k"
  "record_le x y \<Longrightarrow> record_le y z \<Longrightarrow> record_le x z"
  by (auto simp: le_defs)

lemma kept_same [simp]:
  "kept device_le ds ds" "kept enrollment_le es es" "kept invitation_le invs invs" "kept record_le rs rs"
  by (simp_all add: kept_refl le_refl)

lemma kept_add [simp]:
  "kept device_le ds (ds @ a)" "kept enrollment_le es (es @ b)" "kept invitation_le invs (invs @ c)"
  "kept record_le rs (rs @ d)"
  by (simp_all add: kept_append)

lemma grows_refl [simp]: "grows d d"
  by (simp add: grows_def)

lemma grows_trans: "grows a b \<Longrightarrow> grows b c \<Longrightarrow> grows a c"
  unfolding grows_def by (meson kept_trans le_trans order_trans)

section \<open>Statements\<close>

named_theorems statement_grows \<open>statements only let the database grow\<close>

lemma insert_grows [statement_grows]:
  "insert_vault rv d = Some (k, d') \<Longrightarrow> grows d d'" "insert_device v dev d = Some (k, d') \<Longrightarrow> grows d d'"
  "insert_enrollment v dev d = Some (k, d') \<Longrightarrow> grows d d'" "insert_invitation i d = Some (k, d') \<Longrightarrow> grows d d'"
  "insert_record r d = Some (k, d') \<Longrightarrow> grows d d'" "insert_object ro d = Some (k, d') \<Longrightarrow> grows d d'"
  "insert_nonce rn d = Some (k, d') \<Longrightarrow> grows d d'" "insert_event ev d = Some (k, d') \<Longrightarrow> grows d d'"
  by (auto simp: grows_def insert_vault_def insert_device_def insert_enrollment_def insert_invitation_def
      insert_record_def insert_object_def insert_nonce_def insert_event_def Let_def split: if_splits)

lemma delete_grows [statement_grows]:
  "delete_object v i n d = Some (k, d') \<Longrightarrow> grows d d'" "delete_nonces_before c d = Some (k, d') \<Longrightarrow> grows d d'"
  "delete_device_nonces v i d = Some (k, d') \<Longrightarrow> grows d d'" "delete_events_before v c d = Some (k, d') \<Longrightarrow> grows d d'"
  "delete_events_beyond v b m d = Some (k, d') \<Longrightarrow> grows d d'"
  "update_object v i n n' bl t d = Some (k, d') \<Longrightarrow> grows d d'"
  by (auto simp: grows_def delete_object_def delete_nonces_before_def delete_device_nonces_def
      delete_events_before_def delete_events_beyond_def update_object_def Let_def split: if_splits)

lemma update_grows [statement_grows]:
  "approve_enrollment_row v i w d = Some (k, d') \<Longrightarrow> grows d d'"
  "revoke_device_row t v i d = Some (k, d') \<Longrightarrow> grows d d'"
  "close_invitation_row st t a v i d = Some (k, d') \<Longrightarrow> grows d d'"
  "fail_invitation_row n st at aa v i d = Some (k, d') \<Longrightarrow> grows d d'"
  by (auto simp: grows_def approve_enrollment_row_def revoke_device_row_def close_invitation_row_def
      fail_invitation_row_def Let_def unapproved_def active_row_def pending_invitation_def le_defs
      device_identity_def invitation_key_def split: if_splits intro!: kept_update_where)

lemma update_record_grows [statement_grows]:
  "update_record v i cur n b t d = Some (k, d') \<Longrightarrow> cur < n \<Longrightarrow> grows d d'"
  by (auto simp: grows_def update_record_def Let_def record_at_def le_defs record_key_def
      split: if_splits intro!: kept_update_where)

text \<open>The successor of a stored revision is larger, or the CHECK constraint refuses it.\<close>

lemma update_record_next_grows:
  assumes "update_record v i (current_revision v i d) (i64 (current_revision v i d + 1)) b t d = Some (k, d')"
    "current_revision v i d \<noteq> 0" "db_ok e d"
  shows "grows d d'"
proof -
  let ?cur = "current_revision v i d"
  obtain r where r: "r \<in> set (records d)" "record_key r = (v, i)" "?cur = r_revision r"
    using assms(2) by (auto simp: current_revision_def split: option.splits dest!: find_SomeD)
  then have bounds: "1 \<le> ?cur" "?cur \<le> max_i64"
    using assms(3) by (auto simp: db_ok_def tables_ok_def revisions_ok_def)
  have "0 < count_where (record_at v i ?cur) (records d)"
    using r by (auto simp: count_where_pos record_at_def)
  then have "0 < i64 (?cur + 1)"
    using assms(1) by (auto simp: update_record_def Let_def split: if_splits)
  then have "?cur \<noteq> max_i64" by (auto simp: i64_max_wraps min_i64_def)
  then have "i64 (?cur + 1) = ?cur + 1"
    using bounds by (intro i64_id) (auto simp: min_i64_def)
  then show ?thesis using update_record_grows [OF assms(1)] by simp
qed

interpretation hist: service_run "\<lambda>x y. db_ok e (snd x) \<longrightarrow> db_ok e (snd y) \<and> grows (snd x) (snd y)" e n0 d0
  for e n0 d0
proof (unfold_locales, goal_cases)
  case 2 then show ?case using grows_trans by blast
next
  case 3 then show ?case using inv.R_event [OF 3] statement_grows grows_trans by (simp, metis)
next
  case 4 then show ?case using inv.R_nonce [OF 4] statement_grows grows_trans by (simp, metis)
next
  case 5 then show ?case using inv.R_create_vault [OF 5] statement_grows grows_trans by (simp, metis)
next
  case 6 then show ?case using inv.R_enroll [OF 6] statement_grows by auto
next
  case 7 then show ?case using inv.R_invite [OF 7] statement_grows grows_trans by (simp, metis)
next
  case 8 then show ?case using inv.R_approve [OF 8] statement_grows grows_trans by (simp, metis)
next
  case 9 then show ?case using inv.R_revoke [OF 9] statement_grows grows_trans by (simp, metis)
next
  case 10 then show ?case using inv.R_revoke_none [OF 10] statement_grows by auto
next
  case 11 then show ?case using inv.R_insert_record [OF 11] statement_grows by auto
next
  case 12 then show ?case using inv.R_update_record [OF 12] update_record_next_grows by auto
next
  case 13 then show ?case using inv.R_insert_object [OF 13] statement_grows by auto
next
  case 14 then show ?case using inv.R_update_object [OF 14] statement_grows by auto
next
  case 15 then show ?case using inv.R_delete_object [OF 15] statement_grows by auto
next
  case 16 then show ?case using inv.R_close [OF 16] statement_grows by auto
next
  case 17 then show ?case using inv.R_close_none [OF 17] statement_grows by auto
next
  case 18 then show ?case using inv.R_fail [OF 18] statement_grows by auto
next
  case 19 then show ?case using inv.R_approve_invitation [OF 19] statement_grows grows_trans by (simp, metis)
qed auto

end
