(* ===== verification/Server_Replay.thy ===== *)
theory Server_Replay
  imports Server_History
begin

text \<open>
  What a successful authentication means, and why the same signed request is not accepted twice.
\<close>

section \<open>What authentication checked\<close>

text \<open>The device a request claims, when it may act: an active device, or a pending one where allowed.\<close>

definition may_act :: "string \<Rightarrow> string \<Rightarrow> bool \<Rightarrow> db \<Rightarrow> public_device option" where
  "may_act v ident pend d =
     (case find_device v ident False d of
        Some ds \<Rightarrow> if ds_RevokedAt ds = None then Some (ds_Device ds) else None
      | None \<Rightarrow> if pend then map_option es_Device (find_enrollment v ident d) else None)"

definition accepted ::
  "env \<Rightarrow> http_request \<Rightarrow> string \<Rightarrow> bytes \<Rightarrow> string \<Rightarrow> bool \<Rightarrow> db world \<Rightarrow> authenticatedRequest \<Rightarrow>
     nat \<Rightarrow> db world \<Rightarrow> bool" where
  "accepted e r v body oper pend s auth m s' \<longleftrightarrow>
     tick s \<le> m \<and> m < tick s' \<and> durable s' = durable s \<and> auth_operation auth = oper \<and>
     vault_exists v (work s) \<and>
     (case may_act v (rq_Device r) pend (work s) of None \<Rightarrow> False
      | Some dev \<Rightarrow> dev_ID dev = auth_identityID auth \<and> dev_ID dev \<noteq> '''' \<and>
          Verify e (dev_SigningPublic dev)
            (SignatureMessage e (rq_Method r) (rq_RequestURI r) (rq_Timestamp r) (rq_Nonce r) body)
            (rq_Signature r)) \<and>
     ValidateTimestamp (rq_Timestamp r) (clock e m) = None \<and> ValidateNonce (rq_Nonce r) = None \<and>
     (v, auth_identityID auth, rq_Nonce r) \<notin> nonce_key ` set (nonces (work s)) \<and>
     nonces (work s') = delete_where (\<lambda>n. n_created_at n < to_secs (clock e m - 10 * minute))
       (nonces (work s) @ [\<lparr>n_vault_id = v, n_device_id = auth_identityID auth, n_nonce = rq_Nonce r,
          n_created_at = to_secs (clock e m)\<rparr>]) \<and>
     work s' = (work s)\<lparr>nonces := nonces (work s')\<rparr>"

lemma wp_any: "(\<And>a s'. Q a s') \<Longrightarrow> wp m Q s"
  by (auto simp: wp_def split: prod.splits)

lemma acceptNonce_accepted:
  "wp (acceptNonce e r v dev oper why) (\<lambda>res s'. \<forall>auth. res = Inr auth \<longrightarrow>
     why = '''' \<and> auth_identityID auth = dev_ID dev \<and> auth_operation auth = oper \<and>
     (\<exists>m. tick s \<le> m \<and> m < tick s' \<and> durable s' = durable s \<and>
     ValidateTimestamp (rq_Timestamp r) (clock e m) = None \<and> ValidateNonce (rq_Nonce r) = None \<and>
     (v, dev_ID dev, rq_Nonce r) \<notin> nonce_key ` set (nonces (work s)) \<and>
     work s' = (work s)\<lparr>nonces := delete_where (\<lambda>n. n_created_at n < to_secs (clock e m - 10 * minute))
       (nonces (work s) @ [\<lparr>n_vault_id = v, n_device_id = dev_ID dev, n_nonce = rq_Nonce r,
          n_created_at = to_secs (clock e m)\<rparr>])\<rparr>)) s"
  unfolding acceptNonce_def
  apply (rule wp_iota wp_bind wp_exec wp_now wp_if wp_return | (rule wp_any, simp; fail) | (rule wp_any, rule wp_return, simp; fail)| (simp; fail))+
  apply (auto simp: insert_nonce_def nonce_key_def delete_nonces_before_def split: if_splits)
  done

lemma claimedDevice_may_act:
  "wp (claimedDevice e v ident pend) (\<lambda>res s'. tick s \<le> tick s' \<and> work s' = work s \<and> durable s' = durable s \<and>
     (\<forall>dev. res = Some (Some (dev, '''')) \<longrightarrow> may_act v ident pend (work s) = Some dev)) s"
  unfolding claimedDevice_def getDeviceStatusTx_def getEnrollmentTx_def
  by (rule wp_iota wp_bind wp_query wp_case_option wp_return | (auto simp: may_act_def; fail))+

lemma vaultExists_exists:
  "wp (vaultExists e v) (\<lambda>res s'. tick s \<le> tick s' \<and> work s' = work s \<and> durable s' = durable s \<and>
     (res \<longrightarrow> vault_exists v (work s))) s"
  unfolding vaultExists_def by (rule wp_iota wp_bind wp_query wp_return | simp)+

lemma authenticateDevice_accepted:
  assumes "run_state (authenticateDevice e r v body oper pend) s = (Inr auth, s')"
  shows "\<exists>m. accepted e r v body oper pend s auth m s'"
proof -
  have "wp (authenticateDevice e r v body oper pend)
      (\<lambda>res s'. \<forall>auth. res = Inr auth \<longrightarrow> (\<exists>m. accepted e r v body oper pend s auth m s')) s"
    unfolding authenticateDevice_def
    apply (rule wp_bind, rule wp_mono [OF vaultExists_exists])
    apply (rule wp_if)
     apply (rule wp_bind, rule wp_any, rule wp_return, simp)
    apply (rule wp_bind, rule wp_mono [OF claimedDevice_may_act])
    apply (rule wp_case_option wp_case_prod wp_if | (rule wp_bind, rule wp_any, rule wp_return, simp; fail))+
    apply (rule wp_mono [OF acceptNonce_accepted])
    apply (elim conjE exE all_forward imp_forward, assumption)
    apply (clarsimp simp: accepted_def split: if_splits option.splits)
    apply (rule exI, intro conjI)
       prefer 3 apply assumption
      apply auto
    done
  from wpD [OF this assms] show ?thesis by simp
qed

section \<open>A nonce stays spent\<close>

definition revoked_in :: "string \<Rightarrow> string \<Rightarrow> db \<Rightarrow> bool" where
  "revoked_in v ident d \<longleftrightarrow> (\<exists>r\<in>set (devices d). device_key r = (v, ident) \<and> d_revoked_at r \<noteq> None)"

definition nonce_kept :: "string \<Rightarrow> string \<Rightarrow> string \<Rightarrow> int \<Rightarrow> db \<Rightarrow> bool" where
  "nonce_kept v ident nonce t0 d \<longleftrightarrow>
     (\<exists>r\<in>set (nonces d). nonce_key r = (v, ident, nonce) \<and> to_secs t0 \<le> n_created_at r)"

definition spent :: "env \<Rightarrow> string \<Rightarrow> string \<Rightarrow> string \<Rightarrow> int \<Rightarrow> nat \<times> db \<Rightarrow> bool" where
  "spent e v ident nonce t0 x \<longleftrightarrow>
     nonce_kept v ident nonce t0 (snd x) \<or> revoked_in v ident (snd x) \<or> t0 + 10 * minute < clock e (fst x)"

lemma spent_same:
  "spent e v ident nonce t0 (n, d) \<Longrightarrow> set (nonces d) \<subseteq> set (nonces d') \<Longrightarrow> set (devices d) \<subseteq> set (devices d') \<Longrightarrow>
    spent e v ident nonce t0 (n, d')"
  by (auto simp: spent_def nonce_kept_def revoked_in_def)

lemma spent_prune:
  assumes "spent e v ident nonce t0 (n, d)" "mono (clock e)" "n \<le> m" "m < n'"
    "insert_nonce rn d = Some (k, d1)" "delete_nonces_before (to_secs (clock e m - 10 * minute)) d1 = Some (k1, d2)"
  shows "spent e v ident nonce t0 (n', d2)"
proof -
  have sub: "set (nonces d) \<subseteq> set (nonces d1)" "devices d2 = devices d"
    and d2: "nonces d2 = delete_where (\<lambda>r. n_created_at r < to_secs (clock e m - 10 * minute)) (nonces d1)"
    using assms(5,6) by (auto simp: insert_nonce_def delete_nonces_before_def split: if_splits)
  have late: "clock e n \<le> clock e n'" "clock e m \<le> clock e n'"
    using assms(2-4) by (auto simp: mono_def)
  consider (kept) "nonce_kept v ident nonce t0 d" | (revoked) "revoked_in v ident d"
    | (old) "t0 + 10 * minute < clock e n"
    using assms(1) by (auto simp: spent_def)
  then show ?thesis
  proof cases
    case kept
    then obtain r where r: "r \<in> set (nonces d1)" "nonce_key r = (v, ident, nonce)" "to_secs t0 \<le> n_created_at r"
      using sub(1) by (auto simp: nonce_kept_def)
    show ?thesis
    proof (cases "n_created_at r < to_secs (clock e m - 10 * minute)")
      case True
      with r(3) have "to_secs t0 < to_secs (clock e m - 10 * minute)" by simp
      then have "t0 < clock e m - 10 * minute" by (rule to_secs_less)
      with late show ?thesis by (simp add: spent_def)
    next
      case False
      with r show ?thesis by (auto simp: spent_def nonce_kept_def d2 set_delete_where)
    qed
  next
    case revoked
    then show ?thesis by (simp add: spent_def revoked_in_def sub)
  next
    case old
    with late show ?thesis by (simp add: spent_def)
  qed
qed

lemma spent_revoke:
  assumes "spent e v ident nonce t0 (n, d)" "revoke_device_row now v' ident' d = Some (1, d1)"
    "delete_device_nonces v' ident' d1 = Some (k, d2)"
  shows "spent e v ident nonce t0 (n, d2)"
proof (cases "(v, ident) = (v', ident')")
  case True
  from assms(2) have "0 < count_where (active_row v' ident') (devices d)"
    by (simp add: revoke_device_row_def)
  then obtain r where "r \<in> set (devices d)" "active_row v' ident' r"
    by (auto simp: count_where_pos)
  moreover have "devices d2 = update_where (active_row v' ident') (\<lambda>r. r\<lparr>d_revoked_at := Some now\<rparr>) (devices d)"
    using assms(2,3) by (auto simp: revoke_device_row_def delete_device_nonces_def)
  ultimately have "r\<lparr>d_revoked_at := Some now\<rparr> \<in> set (devices d2)" "device_key (r\<lparr>d_revoked_at := Some now\<rparr>) = (v, ident)"
    using True by (auto simp: set_update_where active_row_def device_key_def)
  then have "revoked_in v ident d2" unfolding revoked_in_def by force
  then show ?thesis by (simp add: spent_def)
next
  case False
  then have "nonce_kept v ident nonce t0 d \<Longrightarrow> nonce_kept v ident nonce t0 d2"
    using assms(2,3) by (force simp: nonce_kept_def revoke_device_row_def delete_device_nonces_def
        set_delete_where nonce_key_def)
  moreover have "revoked_in v ident d \<Longrightarrow> revoked_in v ident d2"
    using assms(2,3) by (force simp: revoked_in_def revoke_device_row_def delete_device_nonces_def
        update_where_def active_row_def)
  ultimately show ?thesis using assms(1) by (auto simp: spent_def)
qed

lemma revoke_row_kept:
  "revoke_device_row now v' i' d = Some (k, d') \<Longrightarrow> spent e v ident nonce t0 (n, d) \<Longrightarrow> spent e v ident nonce t0 (n, d')"
  by (force simp: spent_def nonce_kept_def revoked_in_def revoke_device_row_def update_where_def active_row_def)

lemmas table_statement_defs = insert_event_def delete_events_before_def delete_events_beyond_def
  insert_vault_def insert_device_def insert_enrollment_def insert_invitation_def approve_enrollment_row_def
  close_invitation_row_def fail_invitation_row_def insert_record_def update_record_def insert_object_def
  update_object_def delete_object_def Let_def

interpretation rep: service_run
  "\<lambda>x y. fst x \<le> fst y \<and> (mono (clock e) \<longrightarrow> spent e v i nn t0 x \<longrightarrow> spent e v i nn t0 y)" e n0 d0
  for v i nn t0 e n0 d0
proof (unfold_locales, goal_cases)
  case 1 then show ?case by (auto simp: spent_def mono_def dest: le_less_trans less_le_trans)
next
  case 4 then show ?case by (auto intro: spent_prune)
next
  case 9 then show ?case by (auto intro: spent_revoke)
next
  case 10 then show ?case by (auto intro: revoke_row_kept)
qed (auto elim!: spent_same simp: table_statement_defs split: if_splits)

end
