(* ===== verification/Server_Steps.thy ===== *)
theory Server_Steps
  imports Server_Replay
begin

text \<open>
  The service as a step relation: \<open>handle\<close> is one request on the durable database, \<open>serves\<close> any
  number of requests. SQLite runs the transactions one after the other
  (\<^verbatim>\<open>_txlock=immediate\<close>), and outside its transaction a handler only reads its body, the clock
  and random bytes, so requests in sequence are the interleavings that can be observed.
\<close>

definition handle :: "env \<Rightarrow> http_request \<Rightarrow> nat \<times> db \<Rightarrow> response \<times> (nat \<times> db)" where
  "handle e r x =
     (case run_state (ServeHTTP e r) \<lparr>durable = snd x, work = snd x, tick = fst x\<rparr> of
        (resp, s) \<Rightarrow> (resp, (tick s, durable s)))"

inductive serves :: "env \<Rightarrow> nat \<times> db \<Rightarrow> nat \<times> db \<Rightarrow> bool" for e where
  serves_none: "serves e x x"
| serves_next: "serves e x y \<Longrightarrow> handle e r y = (resp, z) \<Longrightarrow> serves e x z"

lemma handle_run:
  assumes "handle e r x = (resp, y)"
  obtains s where "run_state (ServeHTTP e r) \<lparr>durable = snd x, work = snd x, tick = fst x\<rparr> = (resp, s)"
    "y = (tick s, durable s)"
  using assms by (auto simp: handle_def split: prod.splits)

lemma handle_500: "handle e r x = (resp, y) \<Longrightarrow> resp_status resp = 500 \<Longrightarrow> snd y = snd x"
  by (erule handle_run) (use inv.serve(2) in fastforce)

lemma handle_grows: "handle e r x = (resp, y) \<Longrightarrow> db_ok e (snd x) \<Longrightarrow> db_ok e (snd y) \<and> grows (snd x) (snd y)"
  by (erule handle_run) (use hist.serve(1) in fastforce)

lemma handle_spent:
  "handle e r x = (resp, y) \<Longrightarrow> fst x \<le> fst y \<and> (mono (clock e) \<longrightarrow> spent e v i nn t0 x \<longrightarrow> spent e v i nn t0 y)"
  by (erule handle_run) (use rep.serve(1) [of e r] in fastforce)

lemma serves_grows:
  "serves e x y \<Longrightarrow> db_ok e (snd x) \<Longrightarrow> db_ok e (snd y) \<and> grows (snd x) (snd y)"
  by (induction rule: serves.induct) (auto dest: handle_grows intro: grows_trans)

lemma serves_spent:
  "serves e x y \<Longrightarrow> fst x \<le> fst y \<and> (mono (clock e) \<longrightarrow> spent e v i nn t0 x \<longrightarrow> spent e v i nn t0 y)"
  by (induction rule: serves.induct) (auto dest: handle_spent)

end
