(* ===== verification/Server_Demo.thy ===== *)
theory Server_Demo
  imports Server_Steps
begin

text \<open>
  A concrete run of the service, for the witnesses: a vault is created and its device stores a
  record.
\<close>

section \<open>A concrete environment\<close>

definition demo_key :: "char \<Rightarrow> string" where
  "demo_key c = b64_encode (replicate 32 c)"

definition demo_device :: public_device where
  "demo_device = \<lparr>dev_ID = '''', dev_Name = ''laptop'', dev_SigningPublic = demo_key (CHR ''s''),
     dev_WrappingPublic = demo_key (CHR ''w''), dev_Fingerprint = '''', dev_CreatedAt = 0\<rparr>"

definition demo_blob :: blob where
  "demo_blob = \<lparr>blob_Version = 1, blob_Nonce = ''n'', blob_Ciphertext = ''c''\<rparr>"

definition demo_env :: env where
  "demo_env = \<lparr>fault = (\<lambda>_. False), clock = (\<lambda>n. 1700000000 * second + int n),
     rand = (\<lambda>n. Some (replicate 17 (CHR ''r'') @ [char_of n])),
     sha256 = (\<lambda>_. replicate 32 (CHR ''h'')), ed25519_verify = (\<lambda>_ _ _. True), x25519_nonzero = (\<lambda>_. True),
     json_create_vault = (\<lambda>_. Some \<lparr>cv_Name = ''team'', cv_Device = demo_device\<rparr>),
     json_enrollment_request = (\<lambda>_. Some \<lparr>er_Name = ''phone'', er_SigningPublic = demo_key (CHR ''p''),
        er_WrappingPublic = demo_key (CHR ''q'')\<rparr>),
     json_enrollment_approval = (\<lambda>_. None),
     json_put_record = (\<lambda>_. Some \<lparr>pr_ExpectedRevision = 0, pr_Blob = demo_blob\<rparr>),
     json_put_object = (\<lambda>_. None), json_delete_object = (\<lambda>_. None),
     strict_invitation_request = (\<lambda>_. None), strict_invitation_approval = (\<lambda>_. None),
     strict_invitation_transition =
       (\<lambda>_. Some \<lparr>it_Version = 1, it_DeviceID = ''phone'', it_Fingerprint = ''''\<rparr>)\<rparr>"

definition demo_request :: "string \<Rightarrow> string \<Rightarrow> string \<Rightarrow> http_request" where
  "demo_request m p dev = \<lparr>rq_Method = m, rq_Path = p, rq_RequestURI = p, rq_Limit = '''', rq_Before = '''',
     rq_Device = dev, rq_Timestamp = format_rfc3339 1700000000, rq_Nonce = b64_encode (replicate 18 (CHR ''n'')),
     rq_Signature = ''c2ln'', rq_Body = ''''\<rparr>"

definition demo_create :: http_request where
  "demo_create = demo_request ''POST'' ''/v1/vaults'' ''''"

section \<open>Evaluating handlers\<close>

lemmas run_defs = now_utc_def query_def exec_def begin_tx_def commit_tx_def randomID_def readLimitedBody_def
  readBody_def decodeJSON_def writeJSON_def writeError_def writePersistError_def commit_def next_tick_def

lemma demo_env_sel [simp]:
  "fault demo_env n = False" "rand demo_env n = Some (replicate 17 (CHR ''r'') @ [char_of n])"
  "clock demo_env n = 1700000000 * second + int n"
  "json_create_vault demo_env b = Some \<lparr>cv_Name = ''team'', cv_Device = demo_device\<rparr>"
  "json_put_record demo_env b = Some \<lparr>pr_ExpectedRevision = 0, pr_Blob = demo_blob\<rparr>"
  "ed25519_verify demo_env k m sg = True" "sha256 demo_env m = replicate 32 (CHR ''h'')"
  by (simp_all add: demo_env_def)

lemma demo_mono: "mono (clock demo_env)"
  by (simp add: mono_def)

lemma demo_device_sel [simp]:
  "dev_Name demo_device = ''laptop''" "dev_SigningPublic demo_device = demo_key (CHR ''s'')"
  "dev_WrappingPublic demo_device = demo_key (CHR ''w'')"
  by (simp_all add: demo_device_def)

lemma demo_keys_ok: "validPublicDeviceKeys demo_env (demo_key a) (demo_key b)"
  unfolding validPublicDeviceKeys_def ValidatePublicDeviceKeys_ok demo_key_def
  by (rule exI [of _ "replicate 32 a"], rule exI [of _ "replicate 32 b"]) (simp add: demo_env_def)

lemma b64_encode_Nil_iff: "b64_encode bs = [] \<longleftrightarrow> bs = []"
proof
  assume "b64_encode bs = []"
  moreover have "b64_encode [] = []" by code_simp
  ultimately show "bs = []" using b64_encode_inject by metis
qed (simp, code_simp)

lemma demo_key_nonempty: "demo_key c \<noteq> []"
  by (simp add: demo_key_def b64_encode_Nil_iff)

section \<open>The run\<close>

definition demo_vault_id :: string where
  "demo_vault_id = b64_encode (replicate 17 (CHR ''r'') @ [CHR 0x01])"

definition demo_device_id :: string where
  "demo_device_id = b64_encode (replicate 17 (CHR ''r'') @ [CHR 0x02])"

definition demo_member :: public_device where
  "demo_member = demo_device\<lparr>dev_ID := demo_device_id, dev_CreatedAt := 1700000000,
     dev_Fingerprint := PublicFingerprint demo_env (demo_key (CHR ''s'')) (demo_key (CHR ''w''))\<rparr>"

definition demo_db :: db where
  "demo_db = empty_db\<lparr>vaults := [\<lparr>v_id = demo_vault_id, v_name = ''team'', v_created_at = 1700000000\<rparr>],
     devices := [\<lparr>d_vault_id = demo_vault_id, d_device = demo_member, d_revoked_at = None\<rparr>]\<rparr>"

lemma demo_created:
  "handle demo_env demo_create (0, empty_db) =
     (\<lparr>resp_status = 201, resp_body = PVaultCreated demo_vault_id demo_device_id\<rparr>, (8, demo_db))"
proof -
  have ids: "char_of (Suc 0) = CHR 0x01" "char_of (Suc (Suc 0)) = CHR 0x02" by code_simp+
  have t: "to_secs (1700000000 * second + 3) = 1700000000" by (simp add: to_secs_def second_def)
  show ?thesis
    by (simp add: handle_def ServeHTTP_def demo_create_def demo_request_def createVault_def run_defs
        demo_keys_ok demo_key_nonempty maxBytes_def insert_vault_def vault_exists_def insert_device_def
        empty_db_def Let_def ids t demo_db_def demo_vault_id_def demo_device_id_def demo_member_def)
qed

section \<open>An authenticated request\<close>

definition demo_list :: http_request where
  "demo_list = demo_request ''GET'' (''/v1/vaults/'' @ demo_vault_id @ ''/records'') demo_device_id"

lemma demo_ids: "demo_vault_id = ''cnJycnJycnJycnJycnJycnIB''" "demo_device_id = ''cnJycnJycnJycnJycnJycnIC''"
  by code_simp+

lemma demo_path: "split_on (CHR ''/'') (trim_char (CHR ''/'') (''/v1/vaults/'' @ demo_vault_id @ ''/records'')) =
   [''v1'', ''vaults'', demo_vault_id, ''records'']"
  unfolding demo_ids by code_simp

lemma demo_timestamp: "parse_canonical (format_rfc3339 1700000000) = Some 1700000000"
  by (rule parse_format_rfc3339) code_simp+

lemma demo_window: "t \<le> 1000 \<Longrightarrow> ValidateTimestamp (format_rfc3339 1700000000) (1700000000 * second + int t) = None"
  by (simp add: ValidateTimestamp_def demo_timestamp Let_def time_sub_def duration_defs min_i64_def max_i64_def)

lemma demo_nonce: "ValidateNonce (b64_encode (replicate 18 c)) = None"
  unfolding ValidateNonce_ok by (intro exI [of _ "replicate 18 c"]) simp

lemma demo_verify: "Verify demo_env (demo_key c) m ''c2ln''"
proof -
  have "b64_decode ''c2ln'' = Some ''sig''" by code_simp
  then show ?thesis by (simp add: Verify_def demo_key_def)
qed

lemma demo_id_nonempty: "demo_device_id \<noteq> []"
  by (simp add: demo_ids)

definition demo_nonce_row :: nonce_row where
  "demo_nonce_row = \<lparr>n_vault_id = demo_vault_id, n_device_id = demo_device_id,
     n_nonce = b64_encode (replicate 18 (CHR ''n'')), n_created_at = 1700000000\<rparr>"

definition demo_auth_db :: db where
  "demo_auth_db = demo_db\<lparr>nonces := [demo_nonce_row]\<rparr>"

lemma demo_secs: "n \<le> 900 \<Longrightarrow> to_secs (1700000000 * second + int n) = 1700000000"
  "n \<le> 900 \<Longrightarrow> to_secs (1700000000 * second + int n - 10 * minute) = 1699999400"
  by (simp_all add: to_secs_def duration_defs)

lemma demo_auth:
  assumes "n \<le> 100" "vault_exists demo_vault_id d" "nonces d = []"
    "find_device demo_vault_id demo_device_id False d = Some \<lparr>ds_Device = demo_member, ds_RevokedAt = None\<rparr>"
  shows "run_state (authenticateDevice demo_env (demo_request mt p demo_device_id) demo_vault_id body oper pend)
     \<lparr>durable = d0, work = d, tick = n\<rparr> =
   (Inr \<lparr>auth_identityID = demo_device_id, auth_operation = oper\<rparr>,
    \<lparr>durable = d0, work = d\<lparr>nonces := [demo_nonce_row]\<rparr>, tick = n + 5\<rparr>)"
proof -
  have t: "to_secs (1700000000 * second + (2 + int n)) = 1700000000"
    "to_secs (1700000000 * second + (2 + int n) - 10 * minute) = 1699999400"
    using demo_secs [of "n + 2"] assms by (simp_all add: algebra_simps)
  have w: "ValidateTimestamp (format_rfc3339 1700000000) (1700000000 * second + (2 + int n)) = None"
    using demo_window [of "n + 2"] assms by (simp add: algebra_simps)
  show ?thesis
    by (simp add: authenticateDevice_def vaultExists_def claimedDevice_def getDeviceStatusTx_def acceptNonce_def
        run_defs demo_verify demo_nonce w demo_request_def assms(2-4) demo_member_def demo_id_nonempty
        insert_nonce_def delete_nonces_before_def delete_where_def demo_nonce_row_def t)
qed

lemma demo_auth_demo_db:
  assumes "n \<le> 100"
  shows "run_state (authenticateDevice demo_env (demo_request mt p demo_device_id) demo_vault_id body oper pend)
     \<lparr>durable = demo_db, work = demo_db, tick = n\<rparr> =
   (Inr \<lparr>auth_identityID = demo_device_id, auth_operation = oper\<rparr>,
    \<lparr>durable = demo_db, work = demo_auth_db, tick = n + 5\<rparr>)"
  unfolding demo_auth_db_def
  by (rule demo_auth [OF assms])
    (simp_all add: demo_db_def empty_db_def vault_exists_def find_device_def device_key_def demo_member_def)

definition demo_event :: event_row where
  "demo_event = \<lparr>ev_sequence = 1, ev_id = b64_encode (replicate 17 (CHR ''r'') @ [CHR 0x0F]),
     ev_vault_id = demo_vault_id, ev_timestamp = 1700000000 * second + 16,
     ev_identity_id = Some demo_device_id, ev_identity_verified = True, ev_target_identity_id = None,
     ev_operation = ''record_list'', ev_outcome = ''succeeded'', ev_reason = None\<rparr>"

definition demo_listed_db :: db where
  "demo_listed_db = demo_auth_db\<lparr>access_events := [demo_event], event_sequence := 1\<rparr>"

lemma demo_listed:
  "handle demo_env demo_list (8, demo_db) =
     (\<lparr>resp_status = 200, resp_body = PRecords []\<rparr>, (22, demo_listed_db))"
proof -
  have path: "rq_Path demo_list = ''/v1/vaults/'' @ demo_vault_id @ ''/records''" "rq_Method demo_list = ''GET''"
    by (simp_all add: demo_list_def demo_request_def)
  have c: "char_of (15 :: nat) = CHR 0x0F" by code_simp
  have auth: "run_state (authenticateDevice demo_env demo_list demo_vault_id body oper pend)
      \<lparr>durable = demo_db, work = demo_db, tick = 9\<rparr> =
    (Inr \<lparr>auth_identityID = demo_device_id, auth_operation = oper\<rparr>,
     \<lparr>durable = demo_db, work = demo_auth_db, tick = 14\<rparr>)" for body oper pend
    using demo_auth_demo_db [of 9] by (simp add: demo_list_def)
  show ?thesis
    by (simp add: handle_def ServeHTTP_def path demo_path [simplified] listRecords_def authenticated_def run_defs auth)
      (simp add: finishWith_def finishEvent_def insertAccessEvent_def pruneAccessEvents_def insert_event_def
        run_defs event_of_def succeeded_def nullable_def demo_id_nonempty event_checks_def event_operations_def
        event_outcomes_def demo_listed_db_def demo_auth_db_def demo_db_def empty_db_def vault_exists_def Let_def
        record_list_def c demo_event_def delete_events_before_def delete_events_beyond_def newest_sequences_def
        in_class_def delete_where_def nano_text_less_def eventMaxAge_def maxVerifiedEvents_def
        maxUnverifiedEvents_def to_secs_def duration_defs)
qed
text \<open>The device stores the first revision of a record.\<close>

definition demo_put :: http_request where
  "demo_put = demo_request ''PUT'' (''/v1/vaults/'' @ demo_vault_id @ ''/records/db'') demo_device_id"

lemma demo_put_200:
  "resp_status (fst (run_state (putRecord demo_env demo_put demo_vault_id ''db'')
     \<lparr>durable = demo_db, work = demo_db, tick = 8\<rparr>)) = 200"
proof -
  have auth: "run_state (authenticateDevice demo_env demo_put demo_vault_id body oper pend)
      \<lparr>durable = demo_db, work = demo_db, tick = 10\<rparr> =
    (Inr \<lparr>auth_identityID = demo_device_id, auth_operation = oper\<rparr>,
     \<lparr>durable = demo_db, work = demo_auth_db, tick = 15\<rparr>)" for body oper pend
    using demo_auth_demo_db [of 10] by (simp add: demo_put_def)
  have body: "rq_Body demo_put = []" by (simp add: demo_put_def demo_request_def)
  show ?thesis
    by (simp add: putRecord_def authenticatedBody_def authenticated_def run_defs body auth maxBytes_def)
      (simp add: finishWith_def finishEvent_def insertAccessEvent_def pruneAccessEvents_def insert_event_def
        run_defs event_of_def succeeded_def nullable_def demo_id_nonempty event_checks_def event_operations_def
        event_outcomes_def demo_auth_db_def demo_db_def empty_db_def vault_exists_def Let_def
        current_revision_def insert_record_def delete_events_before_def delete_events_beyond_def)
qed

text \<open>A database with a revoked device.\<close>

definition demo_lost :: public_device where
  "demo_lost = demo_member\<lparr>dev_ID := ''lost''\<rparr>"

definition demo_revoked_db :: db where
  "demo_revoked_db = demo_db\<lparr>devices := devices demo_db @
     [\<lparr>d_vault_id = demo_vault_id, d_device = demo_lost, d_revoked_at = Some 1700000000\<rparr>]\<rparr>"

lemma demo_revoked_ok: "db_ok demo_env demo_revoked_db"
proof -
  have "demo_device_id \<noteq> ''lost''" by (simp add: demo_ids)
  moreover have "valid_identity demo_env demo_member" "valid_identity demo_env demo_lost"
    by (simp_all add: valid_identity_def demo_member_def demo_lost_def demo_keys_ok)
  ultimately show ?thesis
    by (simp add: db_ok_def tables_defs demo_revoked_db_def demo_db_def empty_db_def active_ok_def approvals_ok_def
        caps_ok_def active_count_def device_key_def demo_member_def demo_lost_def)
qed

text \<open>A pending invitation that the active device rejects.\<close>

definition demo_phone :: public_device where
  "demo_phone = \<lparr>dev_ID = ''phone'', dev_Name = ''phone'', dev_SigningPublic = demo_key (CHR ''p''),
     dev_WrappingPublic = demo_key (CHR ''q''), dev_Fingerprint = '''', dev_CreatedAt = 1700000000\<rparr>"

definition demo_invited_db :: db where
  "demo_invited_db = demo_db\<lparr>
     enrollments := [\<lparr>e_vault_id = demo_vault_id, e_device = demo_phone, e_approved = False, e_envelope = None\<rparr>],
     invitations := [\<lparr>i_vault_id = demo_vault_id, i_device_id = ''phone'', i_protocol_version = 1,
       i_state = InvitationPending, i_expires_at = 1700000600, i_failed_attempts = 0, i_terminal_at = None,
       i_terminal_actor = None\<rparr>]\<rparr>"

lemma demo_reject_200:
  "resp_status (fst (run_state (transitionInvitation demo_env demo_put demo_vault_id ''phone'' Reject)
     \<lparr>durable = demo_invited_db, work = demo_invited_db, tick = 8\<rparr>)) = 200"
proof -
  have auth: "run_state (authenticateDevice demo_env demo_put demo_vault_id body oper pend)
      \<lparr>durable = demo_invited_db, work = demo_invited_db, tick = 10\<rparr> =
    (Inr \<lparr>auth_identityID = demo_device_id, auth_operation = oper\<rparr>,
     \<lparr>durable = demo_invited_db, work = demo_invited_db\<lparr>nonces := [demo_nonce_row]\<rparr>, tick = 15\<rparr>)" for body oper pend
    using demo_auth [of 10 demo_invited_db]
    by (simp add: demo_put_def demo_invited_db_def demo_db_def empty_db_def vault_exists_def find_device_def
        device_key_def demo_member_def)
  have body: "rq_Body demo_put = []" by (simp add: demo_put_def demo_request_def)
  let ?d = "demo_invited_db\<lparr>nonces := [demo_nonce_row]\<rparr>"
  have dec: "decode_action demo_env Reject b = Some (\<lparr>it_Version = 1, it_DeviceID = ''phone'', it_Fingerprint = ''''\<rparr>, None)" for b
    by (simp add: decode_action_def demo_env_def)
  define row where "row = scanInvitation (hd (invitations demo_invited_db)) (hd (enrollments demo_invited_db))"
  have row: "find_invitation demo_vault_id ''phone'' ?d = Some row"
    by (simp add: row_def find_invitation_def join_invitation_def demo_invited_db_def invitation_key_def
        enrollment_key_def demo_phone_def)
  have st: "is_State (ivr_status row) = InvitationPending" "is_ExpiresAt (ivr_status row) = 1700000600"
    "is_Version (ivr_status row) = 1" "is_Device (ivr_status row) = demo_phone"
    by (simp_all add: row_def scanInvitation_def demo_invited_db_def demo_phone_def)
  have act: "find_device demo_vault_id demo_device_id True ?d = Some \<lparr>ds_Device = demo_member, ds_RevokedAt = None\<rparr>"
    by (simp add: find_device_def demo_invited_db_def demo_db_def device_key_def demo_member_def)
  have exp: "run_state (expireInvitation demo_env demo_vault_id row) \<lparr>durable = demo_invited_db, work = ?d, tick = 16\<rparr> =
      (Inr row, \<lparr>durable = demo_invited_db, work = ?d, tick = 17\<rparr>)"
    by (simp add: expireInvitation_def st run_defs duration_defs)
  have ck: "check_transition Reject demo_device_id ''phone'' True (ivr_status row) (decode_action demo_env Reject b) = Inr None" for b
    by (simp add: check_transition_def roleOK_def bindingOK_def dec st demo_phone_def)
  show ?thesis
    by (simp add: transitionInvitation_def authenticatedBody_def authenticated_def run_defs body auth maxBytes_def
        getInvitationTx_def actorIsActive_def getDeviceStatusTx_def row exp st(1) act ck)
      (simp add: applyTransition_def run_defs close_invitation_row_def pending_invitation_def
        demo_invited_db_def demo_db_def empty_db_def invitation_key_def
        finishWith_def finishEvent_def insertAccessEvent_def pruneAccessEvents_def insert_event_def
        event_of_def succeeded_def nullable_def demo_id_nonempty event_checks_def event_operations_def
        event_outcomes_def vault_exists_def Let_def delete_events_before_def delete_events_beyond_def)
qed

end
