(* ===== verification/Server_Results.thy ===== *)
theory Server_Results
  imports Server_Demo
begin

text \<open>
  What the answers of the service mean: the status a subprogram can return, and what is durable
  when a handler answers with success.
\<close>

section \<open>Statuses of the shared subprograms\<close>

definition same_but_events :: "db \<Rightarrow> db \<Rightarrow> bool" where
  "same_but_events d d' \<longleftrightarrow>
     d' = d\<lparr>access_events := access_events d', event_sequence := event_sequence d'\<rparr>"

lemma same_but_events_tables:
  assumes "same_but_events d d'"
  shows "vaults d' = vaults d" "devices d' = devices d" "enrollments d' = enrollments d"
    "invitations d' = invitations d" "records d' = records d" "vault_objects d' = vault_objects d"
    "nonces d' = nonces d"
  using assms unfolding same_but_events_def by (metis (no_types) db.select_convs db.update_convs db.surjective)+

lemma event_frame:
  "wp (insertAccessEvent e v ev) (\<lambda>_ s'. durable s' = durable s \<and> same_but_events (work s) (work s')) s"
  unfolding insertAccessEvent_def pruneAccessEvents_def
  by (rule wp_iota wp_bind wp_exec wp_rules
      | (auto simp: same_but_events_def insert_event_def delete_events_before_def delete_events_beyond_def
          Let_def split: if_splits; fail))+

text \<open>A handler's last step: an error with nothing durable, or its answer with its view durable.\<close>

definition finished :: "db world \<Rightarrow> nat \<Rightarrow> payload \<Rightarrow> response \<Rightarrow> db world \<Rightarrow> bool" where
  "finished s st p w s' \<longleftrightarrow>
     resp_status w = 500 \<and> durable s' = durable s \<or>
     w = \<lparr>resp_status = st, resp_body = p\<rparr> \<and> same_but_events (work s) (durable s')"

lemma finishEvent_durable:
  "wp (finishEvent e v ev) (\<lambda>res s'. case res of
       Some w \<Rightarrow> resp_status w = 500 \<and> durable s' = durable s
     | None \<Rightarrow> same_but_events (work s) (durable s')) s"
  unfolding finishEvent_def commit_def
  by (rule wp_bind, rule wp_mono [OF event_frame])
    (rule wp_iota wp_rules wp_bind wp_commit | (simp; fail))+

lemma finishWith_finished: "wp (finishWith e v ev st p) (finished s st p) s"
  unfolding finishWith_def
  by (rule wp_bind, rule wp_mono [OF finishEvent_durable])
    (rule wp_rules | (auto simp: finished_def split: option.splits; fail))+

lemma rejectEvent_finished: "wp (rejectEvent e v auth t st p why) (finished s st p) s"
  unfolding rejectEvent_def
  by (rule wp_bind, rule wp_mono [OF finishEvent_durable])
    (rule wp_rules | (auto simp: finished_def split: option.splits; fail))+

lemma authenticationFailure_status:
  "wp (authenticationFailure e v ev verified st m) (\<lambda>w _. resp_status w \<in> {st, 500}) s"
  unfolding authenticationFailure_def
  by (rule wp_bind, rule wp_any) (rule wp_rules wp_bind wp_any | (simp; fail))+

lemma authenticationFailure_rule:
  "(\<And>w s'. resp_status w \<in> {st, 500} \<Longrightarrow> Q w s') \<Longrightarrow> wp (authenticationFailure e v ev verified st m) Q s"
  by (rule wp_mono [OF authenticationFailure_status])

lemma authenticateDevice_status:
  "wp (authenticateDevice e r v body oper pend) (\<lambda>res _. \<forall>w. res = Inl w \<longrightarrow> resp_status w \<in> {401, 404, 500}) s"
  unfolding authenticateDevice_def acceptNonce_def
  by (rule wp_iota wp_bind wp_if wp_case_option wp_case_prod wp_return wp_writeError wp_writePersistError
        authenticationFailure_rule wp_any [where m = "vaultExists e v"] wp_any [where m = "claimedDevice e v i p" for i p]
        wp_any [where m = "exec e f" for f] wp_now | (auto; fail))+

text \<open>What a handler may rely on after authentication, and how it ends otherwise.\<close>

lemma authenticateDevice_rule:
  assumes "\<And>w s'. resp_status w \<in> {401, 404, 500} \<Longrightarrow> Q (Inl w) s'"
    "\<And>auth m s'. accepted e r v body oper pend s auth m s' \<Longrightarrow> Q (Inr auth) s'"
  shows "wp (authenticateDevice e r v body oper pend) Q s"
proof (rule wpI)
  fix res s' assume run: "run_state (authenticateDevice e r v body oper pend) s = (res, s')"
  show "Q res s'"
  proof (cases res)
    case (Inl w)
    with wpD [OF authenticateDevice_status run] assms(1) show ?thesis by simp
  next
    case (Inr auth)
    with authenticateDevice_accepted run assms(2) show ?thesis by blast
  qed
qed

lemma authenticated_rule:
  assumes "\<And>w s'. resp_status w \<in> {401, 404, 500} \<Longrightarrow> Q w s'"
    "\<And>auth m s1 s'. accepted e r v body oper pend s1 auth m s' \<Longrightarrow> work s1 = durable s \<Longrightarrow>
      durable s1 = durable s \<Longrightarrow> tick s \<le> tick s1 \<Longrightarrow> wp (k auth) Q s'"
  shows "wp (authenticated e r v body oper pend k) Q s"
  unfolding authenticated_def
  by (rule wp_bind wp_begin wp_iota wp_writePersistError wp_case_sum wp_return authenticateDevice_rule assms
      | assumption | (simp; fail))+

lemma authenticatedBody_rule:
  assumes "\<And>w s'. resp_status w \<in> {400, 401, 404, 500} \<Longrightarrow> Q w s'"
    "\<And>auth m s1 s'. accepted e r v (rq_Body r) oper pend s1 auth m s' \<Longrightarrow> work s1 = durable s \<Longrightarrow>
      durable s1 = durable s \<Longrightarrow> tick s \<le> tick s1 \<Longrightarrow> wp (k (rq_Body r) auth) Q s'"
  shows "wp (authenticatedBody e r v oper pend k) Q s"
  unfolding authenticatedBody_def readBody_def
  by (rule wp_bind wp_readLimitedBody wp_iota wp_writeError wp_return authenticated_rule assms(1)
      | (rule assms(2), assumption, simp_all; fail) | (auto; fail))+

section \<open>Storing a record\<close>

definition stored_record :: "string \<Rightarrow> string \<Rightarrow> db \<Rightarrow> record_row option" where
  "stored_record v ident d = find (\<lambda>r. record_key r = (v, ident)) (records d)"

lemma current_revision_stored:
  "current_revision v ident d = (case stored_record v ident d of None \<Rightarrow> 0 | Some r \<Rightarrow> r_revision r)"
  by (simp add: current_revision_def stored_record_def)

lemma find_app: "find p (xs @ ys) = (case find p xs of None \<Rightarrow> find p ys | Some x \<Rightarrow> Some x)"
  by (induction xs) auto

lemma stored_cong: "records d' = records d \<Longrightarrow> stored_record v ident d' = stored_record v ident d"
  by (simp add: stored_record_def)

text \<open>The record is stored with this revision and content.\<close>

definition stored_as :: "string \<Rightarrow> string \<Rightarrow> int \<Rightarrow> blob \<Rightarrow> db \<Rightarrow> bool" where
  "stored_as v ident n b d \<longleftrightarrow>
     (case stored_record v ident d of None \<Rightarrow> False | Some row \<Rightarrow> r_revision row = n \<and> r_blob row = b)"

lemma stored_insert:
  assumes "insert_record \<lparr>r_vault_id = v, r_id = ident, r_revision = n, r_blob = b, r_modified_at = t\<rparr> d = Some (k, d')"
  shows "stored_as v ident n b d'"
proof -
  have "find (\<lambda>r. record_key r = (v, ident)) (records d) = None"
    "records d' = records d @ [\<lparr>r_vault_id = v, r_id = ident, r_revision = n, r_blob = b, r_modified_at = t\<rparr>]"
    using assms by (auto simp: insert_record_def find_None_iff record_key_def image_iff split: if_splits)
  then show ?thesis by (simp add: stored_as_def stored_record_def find_app record_key_def)
qed

lemma stored_update:
  assumes "update_record v ident (current_revision v ident d) n b t d = Some (k, d')"
    "current_revision v ident d \<noteq> 0"
  shows "stored_as v ident n b d'"
proof -
  let ?f = "\<lambda>r. r\<lparr>r_revision := n, r_blob := b, r_modified_at := t\<rparr>"
  from assms(2) obtain r where r: "stored_record v ident d = Some r" "r_revision r = current_revision v ident d"
    by (auto simp: current_revision_stored split: option.splits)
  have "records d' = update_where (record_at v ident (current_revision v ident d)) ?f (records d)"
    using assms(1) by (auto simp: update_record_def Let_def split: if_splits)
  with r have "stored_record v ident d' = Some (?f r)"
    by (auto simp: stored_record_def find_None_update_where record_key_def record_at_def dest!: find_SomeD)
  then show ?thesis by (simp add: stored_as_def)
qed

text \<open>A 200 answer: the expected revision was the stored one, and its successor is durable.\<close>

definition record_stored :: "env \<Rightarrow> http_request \<Rightarrow> string \<Rightarrow> string \<Rightarrow> db \<Rightarrow> db \<Rightarrow> bool" where
  "record_stored e r v ident d d' \<longleftrightarrow>
     (case json_put_record e (rq_Body r) of None \<Rightarrow> False
      | Some request \<Rightarrow>
          current_revision v ident d = pr_ExpectedRevision request \<and>
          stored_as v ident (i64 (pr_ExpectedRevision request + 1)) (pr_Blob request) d')"

lemma accepted_records:
  "accepted e r v body oper pend s1 auth m s' \<Longrightarrow> work s1 = d \<Longrightarrow> records (work s') = records d"
  unfolding accepted_def by (metis (no_types) db.select_convs(5) db.surjective db.update_convs(7))

lemma finish_stored:
  assumes "json_put_record e (rq_Body r) = Some request"
    "stored_as v ident n (pr_Blob request) (work s)" "n = i64 (pr_ExpectedRevision request + 1)"
    "current_revision v ident d0 = pr_ExpectedRevision request"
  shows "wp (finishWith e v ev st p)
    (\<lambda>w s'. resp_status w = 200 \<longrightarrow> record_stored e r v ident d0 (durable s')) s"
proof (rule wp_mono [OF finishWith_finished], intro impI)
  fix w s' assume "finished s st p w s'" "resp_status w = 200"
  then have "same_but_events (work s) (durable s')" by (auto simp: finished_def)
  then have "records (durable s') = records (work s)" by (rule same_but_events_tables)
  from stored_cong [OF this] assms show "record_stored e r v ident d0 (durable s')"
    by (simp add: record_stored_def stored_as_def)
qed

lemma rejectEvent_not_200:
  assumes "st \<noteq> 200"
  shows "wp (rejectEvent e v auth t st p why) (\<lambda>w s'. resp_status w = 200 \<longrightarrow> P w s') s"
  using assms by (intro wp_mono [OF rejectEvent_finished]) (auto simp: finished_def)

lemma putRecord_stored:
  "wp (putRecord e r v ident) (\<lambda>w s'. resp_status w = 200 \<longrightarrow> record_stored e r v ident (durable s) (durable s')) s"
  unfolding putRecord_def
proof (rule authenticatedBody_rule, force, goal_cases)
  case (1 auth m s1 s')
  then have rec: "records (work s') = records (durable s)" by (blast intro: accepted_records)
  have cur: "current_revision v ident (work s') = current_revision v ident (durable s)"
    using stored_cong [OF rec] by (simp add: current_revision_stored)
  show ?case
    by (rule wp_iota wp_bind wp_case_option rejectEvent_not_200 wp_query wp_writePersistError wp_if wp_now
        wp_let wp_exec
        | (rule finish_stored, assumption, simp, erule stored_insert; simp add: cur; fail)
        | (rule finish_stored, assumption, simp, rule stored_update [where d = "work s'"]; simp add: cur; fail)
        | (simp; fail))+
qed

section \<open>Ending an invitation\<close>

lemma may_act_ID: "may_act v ident pend d = Some dev \<Longrightarrow> dev_ID dev = ident"
  by (auto simp: may_act_def find_device_def find_enrollment_def device_key_def enrollment_key_def
      split: option.splits if_splits dest!: find_SomeD)

lemma accepted_actor: "accepted e r v body oper pend s1 auth m s' \<Longrightarrow> auth_identityID auth = rq_Device r"
  by (auto simp: accepted_def split: option.splits dest: may_act_ID)

lemma accepted_view:
  assumes "accepted e r v body oper pend s1 auth m s'" "work s1 = d"
  obtains ns where "work s' = d\<lparr>nonces := ns\<rparr>"
  using assms unfolding accepted_def by metis

lemma expireInvitation_pending:
  "wp (expireInvitation e v row) (\<lambda>res s'.
     (\<forall>w. res = Inl w \<longrightarrow> resp_status w = 500) \<and>
     (\<forall>row'. res = Inr row' \<longrightarrow> is_State (ivr_status row') = InvitationPending \<longrightarrow>
        row' = row \<and> work s' = work s \<and> tick s \<le> tick s' \<and>
        (\<exists>m\<ge>tick s. clock e m < is_ExpiresAt (ivr_status row) * second))) s"
  unfolding expireInvitation_def
  by (rule wp_iota wp_bind wp_if wp_return wp_now wp_exec wp_case_option wp_writePersistError
      wp_any [where m = "insertAccessEvent e v ev" for ev] | (auto; fail))+

definition invitation_state :: "string \<Rightarrow> string \<Rightarrow> db \<Rightarrow> inv_state option" where
  "invitation_state v ident d = map_option i_state (find (\<lambda>i. invitation_key i = (v, ident)) (invitations d))"

lemma find_invitation_state:
  "find_invitation v ident d = Some row \<Longrightarrow> invitation_state v ident d = Some (is_State (ivr_status row))"
  by (auto simp: find_invitation_def invitation_state_def join_invitation_def scanInvitation_def
      bind_eq_Some_conv)

lemma close_state:
  assumes "close_invitation_row st t a v ident d = Some (k, d')"
    "invitation_state v ident d = Some InvitationPending"
  shows "invitation_state v ident d' = Some st"
proof -
  from assms(2) obtain i where i: "find (\<lambda>i. invitation_key i = (v, ident)) (invitations d) = Some i"
    "i_state i = InvitationPending"
    by (auto simp: invitation_state_def)
  then have p: "pending_invitation v ident i" by (auto simp: pending_invitation_def dest: find_SomeD)
  let ?f = "\<lambda>r. r\<lparr>i_state := st, i_terminal_at := Some t, i_terminal_actor := Some a\<rparr>"
  have d': "invitations d' = update_where (pending_invitation v ident) ?f (invitations d)"
    using assms(1) by (auto simp: close_invitation_row_def)
  have "find (\<lambda>i. invitation_key i = (v, ident)) (invitations d') = Some (?f i)"
    using find_None_update_where [of "\<lambda>i. invitation_key i = (v, ident)" ?f "pending_invitation v ident" "invitations d"]
      i(1) p by (simp add: d' invitation_key_def [of "r\<lparr>i_state := x, i_terminal_at := y, i_terminal_actor := z\<rparr>" for r x y z]
        flip: invitation_key_def)
  then show ?thesis by (simp add: invitation_state_def)
qed

definition transitioned ::
  "env \<Rightarrow> http_request \<Rightarrow> string \<Rightarrow> string \<Rightarrow> inv_action \<Rightarrow> db \<Rightarrow> db \<Rightarrow> bool" where
  "transitioned e r v ident action d d' \<longleftrightarrow>
     (case find_invitation v ident d of None \<Rightarrow> False
      | Some row \<Rightarrow> is_State (ivr_status row) = InvitationPending \<and>
          (case decode_action e action (rq_Body r) of None \<Rightarrow> False
           | Some (t, envelope) \<Rightarrow> bindingOK t (ivr_status row) \<and>
               (case envelope of None \<Rightarrow> True | Some w \<Rightarrow> validEnvelope w)) \<and>
          (if action = Cancel then rq_Device r = ident else find_device v (rq_Device r) True d \<noteq> None) \<and>
          invitation_state v ident d' = Some (action_state action) \<and>
          (action = Approve \<longrightarrow> find_device v ident True d' =
             Some \<lparr>ds_Device = is_Device (ivr_status row), ds_RevokedAt = None\<rparr>))"

lemma check_transition_ok:
  assumes "check_transition action i ident active st (decode_action e action body) = Inr envelope"
  shows "\<exists>t. decode_action e action body = Some (t, envelope) \<and> bindingOK t st \<and>
    (case envelope of None \<Rightarrow> True | Some w \<Rightarrow> validEnvelope w) \<and> roleOK action i ident active \<and>
    (envelope \<noteq> None \<longleftrightarrow> action = Approve)"
  using assms by (auto simp: check_transition_def decode_action_def split: option.splits if_splits)

lemma inserted_device:
  "insert_device v dev d = Some (k, d') \<Longrightarrow> dev_ID dev = ident \<Longrightarrow>
    find_device v ident True d' = Some \<lparr>ds_Device = dev, ds_RevokedAt = None\<rparr>"
  by (auto simp: insert_device_def find_device_def find_app device_key_def image_iff find_None_iff
      split: if_splits option.splits dest!: find_SomeD) force+

lemma failInvitationAttempt_status:
  "wp (failInvitationAttempt e v auth row oper why m) (\<lambda>w _. resp_status w \<noteq> 200) s"
  unfolding failInvitationAttempt_def Let_def
  by (rule wp_iota wp_bind wp_if wp_case_option wp_return wp_now wp_writePersistError
      wp_any [where m = "exec e f" for f] wp_mono [OF rejectEvent_finished] wp_mono [OF finishWith_finished]
      | (auto simp: finished_def split: if_splits; fail))+

text \<open>A 200 answer of \<^verbatim>\<open>applyTransition\<close>: the invitation is closed and, after an approval, the
  device is enrolled and active.\<close>

lemma finish_transition:
  assumes "invitation_state v ident (work s) = Some st" "action = Approve \<longrightarrow> find_device v ident True (work s) = Some ds"
  shows "wp (finishWith e v ev n p) (\<lambda>w s'. resp_status w = 200 \<longrightarrow>
     invitation_state v ident (durable s') = Some st \<and>
     (action = Approve \<longrightarrow> find_device v ident True (durable s') = Some ds)) s"
proof (rule wp_mono [OF finishWith_finished], intro impI)
  fix w s' assume "finished s n p w s'" "resp_status w = 200"
  then have "same_but_events (work s) (durable s')" by (auto simp: finished_def)
  from same_but_events_tables [OF this] assms
  show "invitation_state v ident (durable s') = Some st \<and>
     (action = Approve \<longrightarrow> find_device v ident True (durable s') = Some ds)"
    by (simp add: invitation_state_def find_device_def)
qed

lemma applyTransition_closed:
  assumes "find_invitation v ident (work s) = Some row" "is_State (ivr_status row) = InvitationPending"
    "envelope \<noteq> None \<longleftrightarrow> action = Approve"
  shows "wp (applyTransition e v ident action auth row envelope) (\<lambda>w s'. resp_status w = 200 \<longrightarrow>
     invitation_state v ident (durable s') = Some (action_state action) \<and>
     (action = Approve \<longrightarrow> find_device v ident True (durable s') =
        Some \<lparr>ds_Device = is_Device (ivr_status row), ds_RevokedAt = None\<rparr>)) s"
proof -
  have ID: "dev_ID (is_Device (ivr_status row)) = ident"
    using assms(1) by (rule hist.find_invitation_ID)
  have pend: "invitation_state v ident (work s) = Some InvitationPending"
    using find_invitation_state [OF assms(1)] assms(2) by simp
  have closed: "invitation_state v ident d = Some (action_state action)"
    if "close_invitation_row (action_state action) t a v ident (work (next_tick s)) = Some (k, d)" for t a k d
    using close_state [OF that] pend by simp
  have approved: "invitation_state v ident d2 = Some (action_state action) \<and>
      find_device v ident True d2 = Some \<lparr>ds_Device = is_Device (ivr_status row), ds_RevokedAt = None\<rparr>"
    if "close_invitation_row (action_state action) t a v ident (work (next_tick s)) = Some (k, d)"
      "approve_enrollment_row v ident w d = Some (k1, d1)"
      "insert_device v (is_Device (ivr_status row)) d1 = Some (k2, d2)" for t a k d w k1 d1 k2 d2
  proof -
    have "invitations d2 = invitations d"
      using that(2,3) by (auto simp: approve_enrollment_row_def insert_device_def split: if_splits)
    with closed [OF that(1)] inserted_device [OF that(3) ID] show ?thesis by (simp add: invitation_state_def)
  qed
  show ?thesis
    unfolding applyTransition_def
    by (rule wp_iota wp_bind wp_if wp_case_option wp_return wp_now wp_exec wp_writePersistError rejectEvent_not_200
        | (rule finish_transition; use assms(3) in \<open>auto simp: closed approved\<close>; fail)
        | (simp; fail))+
qed

lemma actorIsActive_query:
  "wp (actorIsActive e v i) (\<lambda>active s'. work s' = work s \<and> tick s \<le> tick s' \<and>
     (active \<longrightarrow> find_device v i True (work s) \<noteq> None)) s"
  unfolding actorIsActive_def getDeviceStatusTx_def
  by (rule wp_bind wp_query wp_return | (auto split: option.splits; fail))+

lemma transitionInvitation_transitioned:
  "wp (transitionInvitation e r v ident action) (\<lambda>w s'. resp_status w = 200 \<longrightarrow>
     transitioned e r v ident action (durable s) (durable s') \<and>
     (\<exists>m\<ge>tick s. \<exists>row. find_invitation v ident (durable s) = Some row \<and>
        clock e m < is_ExpiresAt (ivr_status row) * second)) s"
  unfolding transitionInvitation_def getInvitationTx_def
proof (rule authenticatedBody_rule, force, goal_cases)
  case (1 auth m s1 s')
  then obtain ns where view: "work s' = (durable s)\<lparr>nonces := ns\<rparr>" by (blast intro: accepted_view)
  have actor: "auth_identityID auth = rq_Device r" using 1(1) by (rule accepted_actor)
  have late: "tick s \<le> tick s'" using 1 by (auto simp: accepted_def)
  have find: "find_invitation v ident (work s') = find_invitation v ident (durable s)"
    "find_device v i b (work s') = find_device v i b (durable s)" for i b
    by (simp_all add: view find_invitation_def find_device_def join_invitation_def [abs_def])
  show ?case
    apply (rule wp_bind, rule wp_query, rule wp_iota, rule wp_writePersistError, simp)
    apply (rule wp_iota, rule wp_case_option, rule rejectEvent_not_200, simp)
    apply (rule wp_bind, rule wp_mono [OF expireInvitation_pending])
    apply (rule wp_case_sum, rule wp_return, simp)
    apply (rule wp_if, rule rejectEvent_not_200, simp)
    apply (rule wp_bind, rule wp_mono [OF actorIsActive_query])
    apply (rule wp_case_sum, rule wp_case_prod, rule wp_mono [OF failInvitationAttempt_status], simp)
    subgoal premises prems for row res s2 row' active s3 envelope
    proof -
      have row: "row' = row" "find_invitation v ident (work s3) = Some row" "is_State (ivr_status row) = InvitationPending"
        "find_invitation v ident (durable s) = Some row"
        using prems find by auto
      have ck: "check_transition action (rq_Device r) ident active (ivr_status row) (decode_action e action (rq_Body r)) = Inr envelope"
        using prems actor by auto
      have act: "active \<Longrightarrow> find_device v (rq_Device r) True (durable s) \<noteq> None"
        using prems find actor by auto
      obtain m where "Suc (tick s') \<le> m" "clock e m < is_ExpiresAt (ivr_status row) * second"
        using prems by auto
      then have exp: "\<exists>m\<ge>tick s. clock e m < is_ExpiresAt (ivr_status row) * second"
        using late by (intro exI [of _ m]) simp
      from check_transition_ok [OF ck] act
      have "\<And>d'. invitation_state v ident d' = Some (action_state action) \<and>
          (action = Approve \<longrightarrow> find_device v ident True d' =
             Some \<lparr>ds_Device = is_Device (ivr_status row), ds_RevokedAt = None\<rparr>) \<Longrightarrow>
          transitioned e r v ident action (durable s) d'"
        using row(3,4) by (auto simp: transitioned_def roleOK_def)
      with exp row check_transition_ok [OF ck] show ?thesis
        by (auto intro!: wp_mono [OF applyTransition_closed [OF row(2,3), of envelope action]])
    qed
    done
qed

end
