(* ===== verification/Server_Theorems.thy ===== *)
theory Server_Theorems
  imports Server_Results
begin

text \<open>
  The properties of the sync service: what holds of every database it can reach, what an answer
  means, and what its request checks accept.
\<close>

section \<open>Shared facts\<close>

lemma revoked_may_not_act:
  assumes "revoked_in v ident d" "keys_ok d"
  shows "may_act v ident pend d = None"
proof -
  obtain r where r: "r \<in> set (devices d)" "device_key r = (v, ident)" "d_revoked_at r \<noteq> None"
    using assms(1) by (auto simp: revoked_in_def)
  then have "find (\<lambda>r'. device_key r' = device_key r) (devices d) = Some r"
    using assms(2) by (intro find_distinct_key) (auto simp: keys_ok_def)
  with r show ?thesis by (simp add: may_act_def find_device_def)
qed

lemma revoked_in_grows:
  assumes "revoked_in v ident d" "grows d d'"
  shows "revoked_in v ident d'"
proof -
  obtain r where r: "r \<in> set (devices d)" "device_key r = (v, ident)" "d_revoked_at r \<noteq> None"
    using assms(1) by (auto simp: revoked_in_def)
  then obtain r' where "r' \<in> set (devices d')" "device_le r r'"
    using assms(2) by (auto simp: grows_def kept_def)
  with r show ?thesis
    by (auto simp: revoked_in_def device_le_def device_key_def device_identity_def intro!: bexI [of _ r'])
qed


lemma putRecord_keeps:
  assumes "run_state (putRecord e r v ident) s = (resp, s')" "db_ok e (durable s)"
  shows "db_ok e (durable s')"
  using wpD [OF inv.run_putRecord [where ?d0.0 = "durable s" and ?n0.0 = "tick s" and s = s] assms(1)] assms(2)
  by (simp add: inv.aborted_def inv.closed_def)

lemma stored_record_revision:
  "db_ok e d \<Longrightarrow> stored_record v ident d = Some row \<Longrightarrow> 1 \<le> r_revision row \<and> r_revision row \<le> max_i64"
  by (auto simp: stored_record_def db_ok_def tables_ok_def revisions_ok_def dest!: find_SomeD)

lemma current_revision_bounds: "db_ok e d \<Longrightarrow> 0 \<le> current_revision v ident d \<and> current_revision v ident d \<le> max_i64"
  using stored_record_revision [of e d v ident]
  by (auto simp: current_revision_stored max_i64_def split: option.splits)

lemma current_revision_grows:
  assumes "grows d d'" "db_ok e d'"
  shows "current_revision v ident d \<le> current_revision v ident d'"
proof (cases "stored_record v ident d")
  case None
  then show ?thesis using current_revision_bounds [OF assms(2)] by (simp add: current_revision_stored)
next
  case (Some row)
  then have "row \<in> set (records d)" "record_key row = (v, ident)"
    by (auto simp: stored_record_def dest: find_SomeD)
  then obtain row' where r': "row' \<in> set (records d')" "record_le row row'"
    using assms(1) by (auto simp: grows_def kept_def)
  then have "record_key row' = (v, ident)" using \<open>record_key row = (v, ident)\<close> by (simp add: record_le_def)
  then have "stored_record v ident d' = Some row'"
    using find_distinct_key [OF _ r'(1), of record_key] db_ok_parts(2) [OF assms(2)]
    by (simp add: stored_record_def keys_ok_def)
  with Some r'(2) show ?thesis by (simp add: current_revision_stored record_le_def)
qed

lemma next_revision_larger:
  assumes "0 \<le> n" "n \<le> max_i64" "1 \<le> i64 (n + 1)"
  shows "n < i64 (n + 1)"
proof -
  have "n \<noteq> max_i64" using assms(3) i64_max_wraps by (auto simp: min_i64_def)
  with assms(1,2) have "i64 (n + 1) = n + 1" by (intro i64_id) (auto simp: min_i64_def)
  then show ?thesis by simp
qed

section \<open>The database\<close>

text \<open>C1. After any sequence of requests, with any failures of the database, the clock and the
  source of randomness, the database satisfies its invariant: keys are unique and references resolve,
  every stored public identity has the fingerprint of its keys, every vault has an active device,
  invitations, enrollments and devices agree, attempts are at most five, and the event log is within
  its bounds.\<close>

theorem reachable_database_ok:
  assumes "serves e (0, empty_db) (n, d)"
  shows "db_ok e d"
  using serves_grows [OF assms] empty_db_ok by simp

theorem reachable_database_ok_witness: "db_ok demo_env demo_db"
  by (rule reachable_database_ok [OF serves_next [OF serves_none demo_created]])

text \<open>C2. A request that is answered with status 500 leaves the durable database as it was,
  whichever step failed.\<close>

theorem failed_request_changes_nothing:
  assumes "handle e r (n, d) = (resp, (n', d'))" "resp_status resp = 500"
  shows "d' = d"
  using handle_500 [OF assms] by simp

lemma demo_fault_run:
  "handle (demo_env\<lparr>fault := \<lambda>n. n = 5\<rparr>) demo_create (0, empty_db) =
     (\<lparr>resp_status = 500, resp_body = PError ''could not persist state''\<rparr>, (6, empty_db))"
proof -
  have "validPublicDeviceKeys (demo_env\<lparr>fault := f\<rparr>) a b = validPublicDeviceKeys demo_env a b" for f a b
    by (simp add: validPublicDeviceKeys_def ValidatePublicDeviceKeys_ok demo_env_def)
  then show ?thesis
    by (simp add: handle_def ServeHTTP_def demo_create_def demo_request_def createVault_def run_defs
        demo_keys_ok demo_key_nonempty maxBytes_def insert_vault_def vault_exists_def insert_device_def
        empty_db_def Let_def)
qed

theorem failed_request_changes_nothing_witness:
  "\<exists>resp n' d'. handle (demo_env\<lparr>fault := \<lambda>n. n = 5\<rparr>) demo_create (0, empty_db) = (resp, (n', d')) \<and>
     resp_status resp = 500 \<and> d' = empty_db"
  using failed_request_changes_nothing [OF demo_fault_run] demo_fault_run by simp

text \<open>C3. What the service has stored it keeps: across any sequence of requests no vault, device,
  enrollment, invitation or record disappears, a revoked device stays revoked with the same time, an
  approved enrollment and an ended invitation never change again, the revision of a record never goes
  down, and its content changes only with its revision.\<close>

theorem database_history:
  assumes "serves e (0, empty_db) (n, d)" "serves e (n, d) (n', d')"
  shows "grows d d'"
  using serves_grows [OF assms(2)] serves_grows [OF assms(1)] empty_db_ok by simp

theorem database_history_witness: "grows empty_db demo_db"
  by (rule database_history [OF serves_none serves_next [OF serves_none demo_created]])

section \<open>Authentication\<close>

text \<open>C4. A request is authenticated only when the vault exists, the claimed device is an active device
  (or, where pending devices may act, an enrolled one) whose key verifies the signature over method,
  path, timestamp, nonce and body, the timestamp is valid at the server's clock, the nonce is canonical
  and was not seen before; the nonce is then recorded.\<close>

theorem authenticated_request_checked:
  assumes "run_state (authenticateDevice e r v body oper pend) s = (Inr auth, s')"
  shows "\<exists>m. accepted e r v body oper pend s auth m s' \<and>
    nonce_kept v (rq_Device r) (rq_Nonce r) (clock e m) (work s')"
proof -
  obtain m where m: "accepted e r v body oper pend s auth m s'"
    using authenticateDevice_accepted [OF assms] by blast
  have "\<not> to_secs (clock e m) < to_secs (clock e m - 10 * minute)"
    using to_secs_mono [of "clock e m - 10 * minute" "clock e m"] by (simp add: minute_def second_def)
  with m accepted_actor [OF m] have "nonce_kept v (rq_Device r) (rq_Nonce r) (clock e m) (work s')"
    by (auto simp: accepted_def nonce_kept_def nonce_key_def delete_where_def)
  with m show ?thesis by blast
qed

theorem authenticated_request_checked_witness:
  "\<exists>auth m s'. accepted demo_env demo_list demo_vault_id [] ''record_list'' False
     \<lparr>durable = demo_db, work = demo_db, tick = 8\<rparr> auth m s' \<and>
     nonce_kept demo_vault_id (rq_Device demo_list) (rq_Nonce demo_list) (clock demo_env m) (work s')"
proof -
  have "run_state (authenticateDevice demo_env demo_list demo_vault_id [] ''record_list'' False)
      \<lparr>durable = demo_db, work = demo_db, tick = 8\<rparr> =
    (Inr \<lparr>auth_identityID = demo_device_id, auth_operation = ''record_list''\<rparr>,
     \<lparr>durable = demo_db, work = demo_auth_db, tick = 13\<rparr>)"
    using demo_auth_demo_db [of 8] by (simp add: demo_list_def)
  from authenticated_request_checked [OF this] show ?thesis by blast
qed



text \<open>C6. Revocation is final: once a device is revoked in a database that satisfies the invariant, no request that claims it
  is authenticated at any later time, whatever it is signed with.\<close>

theorem revoked_device_refused:
  assumes "db_ok e d" "revoked_in v (rq_Device r) d" "serves e (n, d) (n', d')"
    and "run_state (authenticateDevice e r v body oper pend) \<lparr>durable = d', work = d', tick = n'\<rparr> = (res, s')"
  shows "\<exists>w. res = Inl w \<and> resp_status w \<in> {401, 404, 500}"
proof (cases res)
  case (Inl w)
  with wpD [OF authenticateDevice_status assms(4)] show ?thesis by simp
next
  case (Inr auth)
  have ok: "db_ok e d'" "grows d d'"
    using serves_grows [OF assms(3)] assms(1) by auto
  have "revoked_in v (rq_Device r) d'"
    using assms(2) ok(2) by (rule revoked_in_grows)
  from revoked_may_not_act [OF this db_ok_parts(2) [OF ok(1)]] Inr authenticateDevice_accepted assms(4)
  show ?thesis by (fastforce simp: accepted_def)
qed

theorem revoked_device_refused_witness:
  "\<exists>w. fst (run_state (authenticateDevice demo_env (demo_request ''GET'' ''/'' ''lost'') demo_vault_id [] ''record_list'' False)
     \<lparr>durable = demo_revoked_db, work = demo_revoked_db, tick = 0\<rparr>) = Inl w \<and> resp_status w \<in> {401, 404, 500}"
proof -
  have "revoked_in demo_vault_id (rq_Device (demo_request ''GET'' ''/'' ''lost'')) demo_revoked_db"
    by (simp add: revoked_in_def demo_revoked_db_def demo_request_def device_key_def demo_lost_def)
  from revoked_device_refused [OF demo_revoked_ok this serves_none surjective_pairing] show ?thesis .
qed

section \<open>Answers\<close>

text \<open>C7. A stored record is what the client sent, on top of the revision it knew: when a record update is
  answered with 200, the stored revision was the expected one, and the durable database now holds the
  blob of the request under the next revision.\<close>

theorem put_record_success:
  assumes "run_state (putRecord e r v ident) s = (resp, s')" "resp_status resp = 200"
  shows "record_stored e r v ident (durable s) (durable s')"
  using wpD [OF putRecord_stored assms(1)] assms(2) by simp

theorem put_record_success_witness:
  "record_stored demo_env demo_put demo_vault_id ''db'' demo_db
     (durable (snd (run_state (putRecord demo_env demo_put demo_vault_id ''db'')
        \<lparr>durable = demo_db, work = demo_db, tick = 8\<rparr>)))"
  using put_record_success [OF surjective_pairing demo_put_200] by simp

text \<open>C8. No update is lost: of two updates of the same record that expect the same revision, the second
  is not answered with 200, whatever requests the service handles between them.\<close>

theorem no_lost_update:
  assumes "db_ok e (durable s)"
    and "run_state (putRecord e r1 v ident) s = (resp1, s1)" "resp_status resp1 = 200"
    and "serves e (tick s1, durable s1) (tick s2, durable s2)"
    and "run_state (putRecord e r2 v ident) s2 = (resp2, s3)"
    and "map_option pr_ExpectedRevision (json_put_record e (rq_Body r2)) =
      map_option pr_ExpectedRevision (json_put_record e (rq_Body r1))"
  shows "resp_status resp2 \<noteq> 200"
proof
  assume "resp_status resp2 = 200"
  with wpD [OF putRecord_stored assms(5)] have two: "record_stored e r2 v ident (durable s2) (durable s3)" by simp
  from wpD [OF putRecord_stored assms(2)] assms(3)
  have one: "record_stored e r1 v ident (durable s) (durable s1)" by simp
  have ok: "db_ok e (durable s1)" using putRecord_keeps [OF assms(2,1)] .
  obtain req1 req2 where req: "json_put_record e (rq_Body r1) = Some req1" "json_put_record e (rq_Body r2) = Some req2"
    "pr_ExpectedRevision req2 = pr_ExpectedRevision req1"
    using one two assms(6) by (auto simp: record_stored_def split: option.splits)
  let ?n = "pr_ExpectedRevision req1"
  have cur: "current_revision v ident (durable s2) = ?n" "current_revision v ident (durable s) = ?n"
    "current_revision v ident (durable s1) = i64 (?n + 1)"
    using one two req by (auto simp: record_stored_def stored_as_def current_revision_stored split: option.splits)
  have "current_revision v ident (durable s1) \<le> current_revision v ident (durable s2)"
    using serves_grows [OF assms(4)] ok by (auto intro: current_revision_grows)
  then have "i64 (?n + 1) \<le> ?n" using cur by simp
  moreover have "1 \<le> i64 (?n + 1)"
    using one req stored_record_revision [OF ok, of v ident]
    by (auto simp: record_stored_def stored_as_def split: option.splits)
  then have "?n < i64 (?n + 1)"
    using current_revision_bounds [OF assms(1), of v ident] cur by (intro next_revision_larger) auto
  ultimately show False by simp
qed

theorem no_lost_update_witness:
  "let s1 = snd (run_state (putRecord demo_env demo_put demo_vault_id ''db'')
        \<lparr>durable = demo_db, work = demo_db, tick = 8\<rparr>)
   in resp_status (fst (run_state (putRecord demo_env demo_put demo_vault_id ''db'') s1)) \<noteq> 200"
  unfolding Let_def
  by (rule no_lost_update [OF _ surjective_pairing demo_put_200 serves_none surjective_pairing refl])
    (use serves_grows [OF serves_next [OF serves_none demo_created]] empty_db_ok in simp)

text \<open>C9. An approval, rejection or cancellation that is answered with 200 ended a pending invitation that
  had not expired, with a request that named its version, device and fingerprint; an active device
  approved or rejected it, or the invited device itself cancelled it. After an approval, whose envelope
  is well formed, exactly the invited identity is an active device.\<close>

theorem invitation_transition_success:
  assumes "run_state (transitionInvitation e r v ident action) s = (resp, s')" "resp_status resp = 200"
  shows "transitioned e r v ident action (durable s) (durable s') \<and>
    (\<exists>m\<ge>tick s. \<exists>row. find_invitation v ident (durable s) = Some row \<and>
       clock e m < is_ExpiresAt (ivr_status row) * second)"
  using wpD [OF transitionInvitation_transitioned assms(1)] assms(2) by simp

theorem invitation_transition_success_witness:
  "transitioned demo_env demo_put demo_vault_id ''phone'' Reject demo_invited_db
     (durable (snd (run_state (transitionInvitation demo_env demo_put demo_vault_id ''phone'' Reject)
        \<lparr>durable = demo_invited_db, work = demo_invited_db, tick = 8\<rparr>)))"
  using invitation_transition_success [OF surjective_pairing demo_reject_200] by simp

end
