(* ===== verification/Wire_Theorems.thy ===== *)
theory Wire_Theorems
  imports Server_Results
begin

text \<open>
  Properties of what goes over the wire: the signed message, the request timestamp, the texts of
  times and bytes, the pages and the retention of the event log.
\<close>

section \<open>Signed requests\<close>

text \<open>C10. The signed message determines the request: when SHA-256 has no collision on the two bodies,
  and method, path, timestamp and nonce contain no newline, two requests with the same signed message
  agree in method, path, timestamp, nonce and body.\<close>

theorem signature_message_injective:
  assumes "newline \<notin> set (m1 @ p1 @ t1 @ n1)" "newline \<notin> set (m2 @ p2 @ t2 @ n2)"
    and "sha256 c b1 = sha256 c b2 \<Longrightarrow> b1 = b2"
    and "SignatureMessage c m1 p1 t1 n1 b1 = SignatureMessage c m2 p2 t2 n2 b2"
  shows "m1 = m2 \<and> p1 = p2 \<and> t1 = t2 \<and> n1 = n2 \<and> b1 = b2"
proof -
  have "split_on newline (SignatureMessage c m1 p1 t1 n1 b1) = split_on newline (SignatureMessage c m2 p2 t2 n2 b2)"
    using assms(4) by simp
  then show ?thesis
    using assms(1-3) by (simp add: SignatureMessage_fields b64_encode_inject)
qed

theorem signature_message_injective_witness:
  "SignatureMessage (demo_env\<lparr>sha256 := \<lambda>b. b\<rparr>) ''GET'' ''/a'' ''t'' ''n'' ''x'' =
     SignatureMessage (demo_env\<lparr>sha256 := \<lambda>b. b\<rparr>) ''GET'' ''/a'' ''t'' ''n'' ''x'' \<and> ''GET'' = ''GET''"
proof -
  have "''GET'' = ''GET'' \<and> ''/a'' = ''/a'' \<and> ''t'' = ''t'' \<and> ''n'' = ''n'' \<and> ''x'' = ''x''"
    by (rule signature_message_injective [where c = "demo_env\<lparr>sha256 := \<lambda>b. b\<rparr>"]) (simp_all add: newline_def)
  then show ?thesis by simp
qed

text \<open>C11. Within the range of a Go duration (292 years on either side of the clock) a timestamp is
  accepted exactly when it is a canonical RFC 3339 text within five minutes of the clock.\<close>

theorem timestamp_window_exact:
  assumes "parse_canonical v = Some ts" "\<bar>now - ts * second\<bar> < 2 ^ 63"
  shows "ValidateTimestamp v now = None \<longleftrightarrow> \<bar>now - ts * second\<bar> \<le> 5 * minute"
proof -
  let ?d = "now - ts * second"
  have "time_sub now (ts * second) = ?d"
    using assms(2) by (simp add: time_sub_def Let_def min_i64_def max_i64_def abs_less_iff)
  moreover have "?d < 0 \<Longrightarrow> neg_duration ?d = - ?d"
    using assms(2) by (intro neg_duration_id) (auto simp: min_i64_def max_i64_def)
  ultimately show ?thesis
    using assms(1) by (auto simp: ValidateTimestamp_def Let_def)
qed

theorem timestamp_window_exact_witness:
  "ValidateTimestamp (format_rfc3339 1700000000) (1700000301 * second) \<noteq> None"
proof -
  have "ValidateTimestamp (format_rfc3339 1700000000) (1700000301 * second) = None \<longleftrightarrow>
      \<bar>1700000301 * second - 1700000000 * second\<bar> \<le> 5 * minute"
    by (rule timestamp_window_exact [OF demo_timestamp]) (simp add: duration_defs)
  then show ?thesis by (simp add: duration_defs)
qed

text \<open>C12. Outside that range the check fails open: the difference saturates at the smallest duration, whose
  negation is itself, so a timestamp 293 years or more ahead of the clock passes the window check.\<close>

theorem far_future_timestamp_accepted:
  assumes "parse_canonical v = Some ts" "now - ts * second \<le> min_i64"
  shows "ValidateTimestamp v now = None"
proof -
  have "time_sub now (ts * second) = min_i64"
    using assms(2) by (simp add: time_sub_def Let_def min_i64_def max_i64_def)
  then show ?thesis
    using assms(1) by (simp add: ValidateTimestamp_def Let_def neg_duration_min) (simp add: min_i64_def duration_defs)
qed

theorem far_future_timestamp_accepted_witness:
  "ValidateTimestamp ''9999-01-01T00:00:00Z'' (1700000000 * second) = None"
proof -
  have "parse_canonical ''9999-01-01T00:00:00Z'' = Some 253370764800" by code_simp
  then show ?thesis
    by (rule far_future_timestamp_accepted) (simp add: duration_defs min_i64_def)
qed

section \<open>Texts\<close>

text \<open>The events a query with cursor \<open>before\<close> ranges over, newest first.\<close>

definition events_from :: "string \<Rightarrow> int \<Rightarrow> db \<Rightarrow> event_row list" where
  "events_from v before d = rev (sort_key ev_sequence
     (filter (\<lambda>r. ev_vault_id r = v \<and> (before \<noteq> 0 \<longrightarrow> ev_sequence r < before)) (access_events d)))"

lemma event_rows_take: "event_rows v before n d = take n (events_from v before d)"
  by (simp add: event_rows_def events_from_def)

definition last_sequence :: "int \<Rightarrow> event_row list \<Rightarrow> int" where
  "last_sequence s rows = (if rows = [] then s else ev_sequence (last rows))"

lemma collect_page_take:
  "length evs \<le> limit \<Longrightarrow> collect_page limit evs s rows =
     (evs @ map event_of_row (take (limit - length evs) rows),
      last_sequence s (take (limit - length evs) rows), limit - length evs < length rows)"
proof (induction rows arbitrary: evs s)
  case (Cons row rows)
  show ?case
  proof (cases "length evs = limit")
    case False
    then obtain k where k: "limit - length evs = Suc k" "limit - length (evs @ [event_of_row row]) = k"
      using Cons.prems by (cases "limit - length evs") auto
    with False Cons show ?thesis by (auto simp: last_sequence_def)
  qed (simp add: last_sequence_def)
qed (simp add: last_sequence_def)

lemma filter_below:
  fixes f :: "'r \<Rightarrow> int"
  shows "sorted (map f xs) \<Longrightarrow> distinct (map f xs) \<Longrightarrow> i < length xs \<Longrightarrow>
    filter (\<lambda>x. f x < f (xs ! i)) xs = take i xs"
proof (induction xs arbitrary: i)
  case (Cons x xs)
  show ?case
  proof (cases i)
    case 0
    then show ?thesis using Cons.prems by (auto simp: filter_empty_conv)
  next
    case (Suc j)
    then have "f x < f (xs ! j)" using Cons.prems by (auto simp: order_less_le dest: nth_mem)
    with Suc Cons show ?thesis by simp
  qed
qed simp

lemma distinct_sort_key: "distinct (map f xs) \<Longrightarrow> distinct (map f (sort_key f (filter p xs)))"
  by (auto simp: distinct_map intro: inj_on_subset)

lemma events_from_continue:
  assumes "distinct (map ev_sequence (access_events d))" "\<forall>r\<in>set (access_events d). 0 < ev_sequence r"
    "0 < limit" "limit < length (events_from v before d)"
  shows "events_from v (last_sequence 0 (take limit (events_from v before d))) d = drop limit (events_from v before d)"
proof -
  define p where "p r \<longleftrightarrow> ev_vault_id r = v \<and> (before \<noteq> 0 \<longrightarrow> ev_sequence r < before)" for r :: event_row
  define asc where "asc = sort_key ev_sequence (filter p (access_events d))"
  have desc: "events_from v before d = rev asc" by (simp add: events_from_def asc_def p_def [abs_def])
  have len: "limit < length asc" using assms(4) by (simp add: desc)
  have asc: "sorted (map ev_sequence asc)" "distinct (map ev_sequence asc)"
    unfolding asc_def by (simp, rule distinct_sort_key [OF assms(1)])
  let ?x = "asc ! (length asc - limit)"
  have "last (take limit (rev asc)) = rev asc ! (limit - 1)"
    using assms(3) len by (subst last_conv_nth) (auto simp: min_def)
  also have "\<dots> = ?x" using assms(3) len by (simp add: rev_nth)
  finally have last: "last_sequence 0 (take limit (events_from v before d)) = ev_sequence ?x"
    using assms(3) len by (auto simp: last_sequence_def desc)
  have x: "?x \<in> set (access_events d)" "p ?x"
    using nth_mem [of "length asc - limit" asc] assms(3) len by (auto simp: asc_def)
  have "filter (\<lambda>r. ev_vault_id r = v \<and> (ev_sequence ?x \<noteq> 0 \<longrightarrow> ev_sequence r < ev_sequence ?x)) (access_events d) =
      filter (\<lambda>r. ev_sequence r < ev_sequence ?x) (filter p (access_events d))"
    unfolding filter_filter using x assms(2) by (intro filter_cong refl) (auto simp: p_def)
  then have "sort_key ev_sequence (filter (\<lambda>r. ev_vault_id r = v \<and> (ev_sequence ?x \<noteq> 0 \<longrightarrow> ev_sequence r < ev_sequence ?x))
      (access_events d)) = filter (\<lambda>r. ev_sequence r < ev_sequence ?x) asc"
    unfolding asc_def filter_sort by (rule arg_cong)
  also have "\<dots> = take (length asc - limit) asc"
    by (rule filter_below [OF asc]) (use assms(3) len in simp)
  finally have next': "events_from v (ev_sequence ?x) d = rev (take (length asc - limit) asc)"
    unfolding events_from_def by (rule arg_cong)
  show ?thesis unfolding last next' unfolding desc using len by (simp add: rev_take)
qed

text \<open>C14. Paging through the event log loses and repeats nothing: a page holds the newest events before its
  cursor, it has a next cursor exactly when older events remain, and the next page continues with the
  first event that was left out.\<close>

theorem event_pages_continue:
  assumes "events_ok d" "0 < limit"
    and "collect_page limit [] 0 (event_rows v before (limit + 1) d) = (events, lastSequence, hasMore)"
  shows "events = map event_of_row (take limit (events_from v before d)) \<and>
    (hasMore \<longleftrightarrow> limit < length (events_from v before d)) \<and>
    (hasMore \<longrightarrow> events_from v lastSequence d = drop limit (events_from v before d))"
proof -
  have page: "events = map event_of_row (take limit (events_from v before d))"
    "lastSequence = last_sequence 0 (take limit (events_from v before d))"
    "hasMore \<longleftrightarrow> limit < length (events_from v before d)"
    using assms(3) collect_page_take [of "[]" limit 0] by (auto simp: event_rows_take min_def split: if_splits)
  then show ?thesis
    using events_from_continue [OF _ _ assms(2)] assms(1) by (simp add: events_ok_def)
qed

theorem event_pages_continue_witness:
  "let (events, lastSequence, hasMore) = collect_page 1 [] 0 (event_rows demo_vault_id 0 2 demo_listed_db)
   in events = [event_of_row demo_event] \<and> \<not> hasMore"
proof -
  have ok: "events_ok demo_listed_db"
    using serves_grows [OF serves_next [OF serves_next [OF serves_none demo_created] demo_listed]] empty_db_ok
    by (simp add: db_ok_def tables_ok_def)
  have "events_from demo_vault_id 0 demo_listed_db = [demo_event]"
    by (simp add: events_from_def demo_listed_db_def demo_event_def)
  moreover obtain events lastSequence hasMore
    where page: "collect_page 1 [] 0 (event_rows demo_vault_id 0 (1 + 1) demo_listed_db) = (events, lastSequence, hasMore)"
    by (cases "collect_page 1 [] 0 (event_rows demo_vault_id 0 (1 + 1) demo_listed_db)")
  ultimately have "events = [event_of_row demo_event] \<and> \<not> hasMore"
    using event_pages_continue [OF ok _ page] by simp
  with page show ?thesis by (simp add: Let_def numeral_2_eq_2)
qed

text \<open>A cursor names its event: decoding the cursor of a sequence number gives the number back.\<close>

theorem cursor_roundtrip:
  assumes "0 < n" "n \<le> max_i64"
  shows "decodeEventCursor (encodeEventCursor n) = Some n"
  using assms by (rule decode_encode_cursor)

theorem cursor_roundtrip_witness: "decodeEventCursor (encodeEventCursor 300) = Some 300"
  by (rule cursor_roundtrip) (simp_all add: max_i64_def)

lemma newest_taken:
  fixes xs :: "int list"
  assumes "x \<in> set xs" "\<And>y. y \<in> set xs \<Longrightarrow> y \<le> x" "0 < k"
  shows "x \<in> set (take k (rev (sort xs)))"
proof -
  have ne: "sort xs \<noteq> []" using assms(1) by (metis empty_iff list.set(1) set_sort)
  then obtain ys l where ys: "sort xs = ys @ [l]" by (metis append_butlast_last_id)
  have "l \<in> set xs" by (metis ys in_set_conv_decomp set_sort)
  moreover have "x \<le> l"
  proof -
    have "x \<in> set (ys @ [l])" using assms(1) ys by (metis set_sort)
    moreover have "sorted (ys @ [l])" by (metis ys sorted_sort)
    ultimately show ?thesis by (auto simp: sorted_append)
  qed
  ultimately have "l = x" using assms(2) by force
  with assms(3) show ?thesis by (cases k) (simp_all add: ys)
qed

lemma newest_kept_beyond:
  assumes "delete_events_beyond v b k d = Some (n, d')" "0 < k" "row \<in> set (access_events d)"
    "\<forall>r\<in>set (access_events d). ev_sequence r \<le> ev_sequence row"
  shows "row \<in> set (access_events d')"
proof -
  have "in_class v b row \<Longrightarrow> ev_sequence row \<in> set (newest_sequences v b k d)"
    unfolding newest_sequences_def using assms(2-4) by (intro newest_taken) auto
  with assms(1,3) show ?thesis by (auto simp: delete_events_beyond_def Let_def set_delete_where)
qed

lemma events_subset:
  "delete_events_beyond v b k d = Some (n, d') \<Longrightarrow> set (access_events d') \<subseteq> set (access_events d)"
  "delete_events_before v c d = Some (n, d') \<Longrightarrow> set (access_events d') \<subseteq> set (access_events d)"
  by (auto simp: delete_events_beyond_def delete_events_before_def Let_def set_delete_where)

lemma nano_text_less_bound: "nano_text_less a b \<Longrightarrow> a < b + second"
proof -
  assume "nano_text_less a b"
  then have "to_secs a \<le> to_secs b" by (auto simp: nano_text_less_def)
  moreover have "a = to_secs a * second + a mod second" "b = to_secs b * second + b mod second"
    by (simp_all add: to_secs_def)
  moreover have "0 \<le> b mod second" "a mod second < second" by (simp_all add: second_def)
  ultimately show ?thesis by (simp add: second_def)
qed

text \<open>The row a successful insertion leaves in the log.\<close>

definition logged :: "string \<Rightarrow> eventDetails \<Rightarrow> db \<Rightarrow> db \<Rightarrow> bool" where
  "logged v ev d d' \<longleftrightarrow> (\<exists>row\<in>set (access_events d'). ev_sequence row = event_sequence d + 1 \<and> ev_vault_id row = v \<and>
     ev_identity_id row = nullable (identityID ev) \<and> ev_identity_verified row = identityVerified ev \<and>
     ev_target_identity_id row = nullable (targetIdentityID ev) \<and> ev_operation row = operation ev \<and>
     ev_outcome row = outcome ev \<and> ev_reason row = nullable (reason ev))"

lemma event_chain_logged:
  assumes "insert_event (event_of ident v now ev) d = Some (k, d1)"
    "delete_events_before v (now - eventMaxAge) d1 = Some (k1, d2)"
    "delete_events_beyond v True maxVerifiedEvents d2 = Some (k2, d3)"
    "delete_events_beyond v False maxUnverifiedEvents d3 = Some (k3, d4)" "events_ok d"
  shows "logged v ev d d4"
proof -
  let ?row = "(event_of ident v now ev)\<lparr>ev_sequence := event_sequence d + 1\<rparr>"
  have d1: "access_events d1 = access_events d @ [?row]"
    using assms(1) by (auto simp: insert_event_def Let_def split: if_splits)
  then have top: "\<forall>r\<in>set (access_events d1). ev_sequence r \<le> ev_sequence ?row"
    using assms(5) by (auto simp: events_ok_def intro: order_trans)
  have "\<not> nano_text_less now (now - eventMaxAge)"
    using nano_text_less_bound [of now "now - eventMaxAge"] by (auto simp: eventMaxAge_def duration_defs)
  then have r2: "?row \<in> set (access_events d2)"
    using assms(2) by (auto simp: delete_events_before_def Let_def set_delete_where d1 event_of_def)
  have r3: "?row \<in> set (access_events d3)"
    by (rule newest_kept_beyond [OF assms(3) _ r2]) (use top events_subset(2) [OF assms(2)] in \<open>auto simp: maxVerifiedEvents_def\<close>)
  have "?row \<in> set (access_events d4)"
    by (rule newest_kept_beyond [OF assms(4) _ r3])
      (use top events_subset(2) [OF assms(2)] events_subset(1) [OF assms(3)] in \<open>auto simp: maxUnverifiedEvents_def\<close>)
  then show ?thesis unfolding logged_def by (rule bexI [rotated]) (simp add: event_of_def)
qed

lemma insertAccessEvent_logged:
  assumes "db_ok e (work s)"
  shows "wp (insertAccessEvent e v ev) (\<lambda>ok s'. ok \<longrightarrow> logged v ev (work s) (work s') \<and> caps_ok (work s')) s"
  unfolding insertAccessEvent_def pruneAccessEvents_def
  by (rule wp_iota wp_bind wp_exec wp_rules | (simp; fail))+
    (use assms in \<open>auto intro: event_chain_logged caps_ok_event simp: db_ok_def tables_ok_def\<close>)

text \<open>C16. A successful event insertion leaves the event in the log, under the next sequence number, and leaves at
  most 10000 verified and 2000 unverified events per vault.\<close>

theorem event_recorded_and_bounded:
  assumes "db_ok e (work s)" "run_state (insertAccessEvent e v ev) s = (True, s')"
  shows "logged v ev (work s) (work s') \<and> caps_ok (work s')"
  using wpD [OF insertAccessEvent_logged [OF assms(1)] assms(2)] by simp

theorem event_recorded_and_bounded_witness:
  "let s = \<lparr>durable = demo_db, work = demo_db, tick = 8\<rparr>;
       ev = zero_event\<lparr>operation := ''record_list'', outcome := ''denied'', reason := ''unknown_device''\<rparr>;
       s' = snd (run_state (insertAccessEvent demo_env demo_vault_id ev) s)
   in logged demo_vault_id ev demo_db (work s') \<and> caps_ok (work s')"
proof -
  define s :: "db world" where "s = \<lparr>durable = demo_db, work = demo_db, tick = 8\<rparr>"
  define ev where "ev = zero_event\<lparr>operation := ''record_list'', outcome := ''denied'', reason := ''unknown_device''\<rparr>"
  have "db_ok demo_env (work s)"
    using serves_grows [OF serves_next [OF serves_none demo_created]] empty_db_ok by (simp add: s_def)
  moreover have "fst (run_state (insertAccessEvent demo_env demo_vault_id ev) s)"
    by (simp add: insertAccessEvent_def pruneAccessEvents_def run_defs s_def ev_def zero_event_def insert_event_def
        event_of_def nullable_def event_checks_def event_operations_def event_outcomes_def event_reasons_def
        demo_db_def empty_db_def vault_exists_def Let_def delete_events_before_def delete_events_beyond_def)
  then have "run_state (insertAccessEvent demo_env demo_vault_id ev) s =
      (True, snd (run_state (insertAccessEvent demo_env demo_vault_id ev) s))"
    by (simp add: prod_eq_iff)
  ultimately show ?thesis
    using event_recorded_and_bounded [of demo_env s demo_vault_id ev] by (simp add: s_def ev_def Let_def)
qed

text \<open>The age limit of the event log compares timestamps as texts, which within one second is not the order of
  the times (a whole second is written without a fraction and sorts after every fraction of it); an event
  is therefore removed at most one second early, and one second early does happen.\<close>

theorem retention_order_error:
  assumes "nano_text_less a b"
  shows "a < b + second"
  using assms by (rule nano_text_less_bound)

theorem retention_order_error_witness:
  "nano_text_less 500000000 0 \<and> (0::int) < 500000000 \<and> 500000000 < 0 + second"
proof -
  have less: "nano_text_less 500000000 0"
    by code_simp
  then show ?thesis using retention_order_error [OF less] by simp
qed

end
