(* ===== verification/Provider.thy ===== *)
theory Provider
  imports Go_Text Go_Time
begin

text \<open>
  The provider boundary, \<^verbatim>\<open>internal/provider/provider.go\<close>: what an adapter promises
  (\<open>capabilities\<close>), the metadata, requests and evidence exchanged with it, and the reduction
  of whatever an adapter reports to a bounded, printable error. Formatting and clearing of
  secret bytes (\<^verbatim>\<open>SecretValue\<close>) has no counterpart: a request carries its bytes as a field.
\<close>

section \<open>Types\<close>

definition MaxProviderCodeBytes :: nat where
  "MaxProviderCodeBytes = 96"

record capabilities =
  can_Create :: bool
  can_ReadMetadata :: bool
  can_Update :: bool
  can_Validate :: bool
  can_Revoke :: bool
  SupportsIdempotencyKey :: bool
  SupportsIdempotentWrite :: bool
  SupportsMaskedPresence :: bool

record identity =
  id_Provider :: string
  id_ID :: string

text \<open>
  A Go map from strings to strings, as the list of its entries; \<open>None\<close> is the nil map. A read
  of a missing key gives the empty string.
\<close>

type_synonym string_map = "(string \<times> string) list"

definition lookup_string :: "string_map \<Rightarrow> string \<Rightarrow> string" where
  "lookup_string m k = (case map_of m k of None \<Rightarrow> [] | Some v \<Rightarrow> v)"

record target =
  ProjectID :: string
  EnvironmentID :: string
  ServiceIDs :: "string_map option"

datatype presence = PresenceUnknown | PresenceAbsent | PresencePresent | Presence_Other string

record variable_metadata =
  vm_Presence :: presence
  LastWriteKey :: string

record metadata_state =
  md_Target :: target
  md_Variables :: "(string \<times> (string \<times> variable_metadata) list) list"
  md_Revision :: string

record write_request =
  wr_Operation :: string
  wr_Target :: target
  wr_Service :: string
  wr_ServiceID :: string
  wr_Name :: string
  IdempotencyKey :: string
  secret :: bytes

definition cloneTarget :: "target \<Rightarrow> target" where
  "cloneTarget t = t\<lparr>ServiceIDs := Some (case ServiceIDs t of None \<Rightarrow> [] | Some m \<Rightarrow> m)\<rparr>"

definition NewWriteRequest ::
  "string \<Rightarrow> target \<Rightarrow> string \<Rightarrow> string \<Rightarrow> string \<Rightarrow> string \<Rightarrow> bytes \<Rightarrow> write_request" where
  "NewWriteRequest op t service serviceID name idempotencyKey value =
     \<lparr>wr_Operation = op, wr_Target = cloneTarget t, wr_Service = service,
      wr_ServiceID = serviceID, wr_Name = name, IdempotencyKey = idempotencyKey, secret = value\<rparr>"

record verify_request =
  vr_Target :: target
  vr_Service :: string
  vr_ServiceID :: string
  vr_Name :: string
  vr_WriteKey :: string
  vr_ProviderOperationID :: string
  ExpectedPresence :: presence

record write_evidence =
  ProviderOperationID :: string
  CommittedAt :: string

datatype verification = VerificationVerified | VerificationLimited | Verification_Other string

record verify_evidence =
  ev_Result :: verification
  ev_Presence :: presence
  VerifiedAt :: string
  ev_Reason :: string

datatype retry_class = RetryNever | RetrySafe | RetryAmbiguous | Retry_Other string

record provider_error =
  pe_Operation :: string
  pe_Status :: int
  pe_Code :: string
  pe_Retry :: retry_class

text \<open>
  The errors an adapter returns, as \<^verbatim>\<open>errors.As\<close> sees them: a typed error by value or by
  pointer, or any other error.
\<close>

datatype adapter_error =
    Error_Value provider_error
  | Error_Pointer "provider_error option"
  | Other_Error

section \<open>Evidence\<close>

definition canonicalTimestamp :: "string \<Rightarrow> bool" where
  "canonicalTimestamp v \<longleftrightarrow> parse_canonical v \<noteq> None"

definition write_evidence_Validate :: "write_evidence \<Rightarrow> string option" where
  "write_evidence_Validate e =
     (if ProviderOperationID e \<noteq> [] \<and>
         (length (ProviderOperationID e) > 128 \<or> \<not> safe_code (ProviderOperationID e))
      then Some ''provider write evidence ID is invalid''
      else if \<not> canonicalTimestamp (CommittedAt e)
      then Some ''provider write evidence time is invalid''
      else None)"

definition verify_evidence_Validate :: "verify_evidence \<Rightarrow> string option" where
  "verify_evidence_Validate e =
     (if ev_Result e \<noteq> VerificationVerified \<and> ev_Result e \<noteq> VerificationLimited
      then Some ''provider verification result is invalid''
      else if ev_Presence e \<noteq> PresenceUnknown \<and> ev_Presence e \<noteq> PresenceAbsent \<and>
              ev_Presence e \<noteq> PresencePresent
      then Some ''provider verification presence is invalid''
      else if \<not> canonicalTimestamp (VerifiedAt e)
      then Some ''provider verification time is invalid''
      else if ev_Reason e \<noteq> [] \<and>
              (length (ev_Reason e) > MaxProviderCodeBytes \<or> \<not> safe_code (ev_Reason e))
      then Some ''provider verification reason is invalid''
      else None)"

section \<open>Errors\<close>

definition safeOperation :: "string \<Rightarrow> string" where
  "safeOperation value =
     (let v = trim_space value in
      if v = [] \<or> length v > 48 \<or> \<not> safe_code v then ''request'' else v)"

definition sanitizeCode :: "string \<Rightarrow> string" where
  "sanitizeCode value =
     (let v = trim_space value in
      if v = [] \<or> length v > MaxProviderCodeBytes \<or> \<not> safe_code v then [] else v)"

definition boundedStatus :: "int \<Rightarrow> int" where
  "boundedStatus status = (if status < 100 \<or> status > 599 then 0 else status)"

fun validRetry :: "retry_class \<Rightarrow> retry_class" where
  "validRetry RetryNever = RetryNever"
| "validRetry RetrySafe = RetrySafe"
| "validRetry RetryAmbiguous = RetryAmbiguous"
| "validRetry (Retry_Other _) = RetryNever"

definition error_Validate :: "provider_error \<Rightarrow> string option" where
  "error_Validate err =
     (if pe_Operation err \<noteq> safeOperation (pe_Operation err) \<or>
         pe_Status err \<noteq> boundedStatus (pe_Status err) \<or>
         pe_Code err \<noteq> sanitizeCode (pe_Code err) \<or>
         pe_Retry err \<noteq> validRetry (pe_Retry err)
      then Some ''provider error metadata is invalid'' else None)"

definition NewError :: "string \<Rightarrow> int \<Rightarrow> string \<Rightarrow> retry_class \<Rightarrow> provider_error" where
  "NewError op status code retry =
     \<lparr>pe_Operation = safeOperation op, pe_Status = boundedStatus status,
      pe_Code = sanitizeCode code, pe_Retry = validRetry retry\<rparr>"

definition SanitizeError :: "string \<Rightarrow> adapter_error \<Rightarrow> provider_error" where
  "SanitizeError op err =
     (let generic = NewError op 0 []
            (if safeOperation op = ''write'' then RetryAmbiguous else RetryNever) in
      case err of
        Error_Value safe \<Rightarrow>
          safe\<lparr>pe_Operation := safeOperation op, pe_Status := boundedStatus (pe_Status safe),
            pe_Code := sanitizeCode (pe_Code safe), pe_Retry := validRetry (pe_Retry safe)\<rparr>
      | Error_Pointer (Some safe) \<Rightarrow> NewError op (pe_Status safe) (pe_Code safe) (pe_Retry safe)
      | Error_Pointer None \<Rightarrow> generic
      | Other_Error \<Rightarrow> generic)"

section \<open>Sanitising is a projection\<close>

definition is_safe_char :: "char \<Rightarrow> bool" where
  "is_safe_char c \<longleftrightarrow> is_lower c \<or> is_upper c \<or> is_digit c \<or> c \<in> set ''_.:-''"

lemma safe_code_chars: "safe_code s \<longleftrightarrow> s \<noteq> [] \<and> (\<forall>c \<in> set s. is_safe_char c)"
  by (auto simp: safe_code_def is_safe_char_def list_all_iff)

lemma trim_codes_stop:
  assumes "\<And>w. w \<in> set cs \<Longrightarrow> w \<noteq> [] \<Longrightarrow> hd w \<noteq> c"
  shows "trim_codes cs (c # s) = c # s"
proof -
  have "find (\<lambda>w. w \<noteq> [] \<and> has_prefix w (c # s)) cs = None"
    using assms by (fastforce simp: find_None_iff has_prefix_iff Cons_eq_append_conv)
  then show ?thesis by (simp add: trim_codes.simps [of cs "c # s"])
qed

lemma space_codes_unsafe:
  "list_all (\<lambda>w. w \<noteq> [] \<and> \<not> is_safe_char (hd w) \<and> \<not> is_safe_char (last w)) space_codes"
  by code_simp

lemma safe_not_space:
  "is_safe_char c \<Longrightarrow> w \<in> set space_codes \<Longrightarrow> hd w \<noteq> c \<and> last w \<noteq> c"
  using space_codes_unsafe by (auto simp: list_all_iff)

lemma trim_space_safe:
  assumes "safe_code s"
  shows "trim_space s = s"
proof -
  from assms obtain c t where s: "s = c # t" and c: "is_safe_char c" "is_safe_char (last s)"
    by (cases s) (auto simp: safe_code_chars)
  have front: "trim_codes space_codes s = s"
    unfolding s using c safe_not_space by (intro trim_codes_stop) auto
  obtain d u where rev: "rev s = d # u" using s by (cases "rev s") auto
  then have "d = last s" by (metis hd_rev list.sel(1))
  then have "trim_codes (map rev space_codes) (rev s) = rev s"
    unfolding rev using c safe_not_space by (intro trim_codes_stop) (auto simp: hd_rev)
  with front show ?thesis by (simp add: trim_space_def)
qed

lemma safe_code_request: "safe_code ''request''"
  by code_simp

lemma safeOperation_safe: "safe_code (safeOperation v) \<and> length (safeOperation v) \<le> 48"
  using safe_code_request by (simp add: safeOperation_def Let_def)

lemma safeOperation_idem [simp]: "safeOperation (safeOperation v) = safeOperation v"
  using safeOperation_safe [of v]
  by (subst safeOperation_def) (auto simp: trim_space_safe Let_def safe_code_chars)

lemma sanitizeCode_safe:
  "sanitizeCode v = [] \<or> safe_code (sanitizeCode v) \<and> length (sanitizeCode v) \<le> MaxProviderCodeBytes"
  by (auto simp: sanitizeCode_def Let_def)

lemma sanitizeCode_idem [simp]: "sanitizeCode (sanitizeCode v) = sanitizeCode v"
proof (cases "sanitizeCode v = []")
  case True
  have "sanitizeCode [] = []" by code_simp
  with True show ?thesis by simp
next
  case False
  with sanitizeCode_safe [of v] have "safe_code (sanitizeCode v)"
    "length (sanitizeCode v) \<le> MaxProviderCodeBytes" by auto
  with False show ?thesis
    by (subst sanitizeCode_def) (simp add: trim_space_safe Let_def)
qed

lemma boundedStatus_idem [simp]: "boundedStatus (boundedStatus n) = boundedStatus n"
  by (simp add: boundedStatus_def)

lemma validRetry_idem [simp]: "validRetry (validRetry r) = validRetry r"
  by (cases r) simp_all

lemma NewError_valid: "error_Validate (NewError op status code retry) = None"
  by (simp add: error_Validate_def NewError_def)

lemma SanitizeError_NewError:
  "\<exists>status code retry. SanitizeError op err = NewError op status code retry"
proof (cases err)
  case (Error_Value safe)
  then have "SanitizeError op err = NewError op (pe_Status safe) (pe_Code safe) (pe_Retry safe)"
    by (simp add: SanitizeError_def NewError_def Let_def)
  then show ?thesis by blast
next
  case (Error_Pointer p)
  then show ?thesis by (cases p) (simp_all add: SanitizeError_def Let_def, blast+)
next
  case Other_Error
  then show ?thesis by (simp add: SanitizeError_def Let_def) blast
qed

lemma SanitizeError_valid [simp]: "error_Validate (SanitizeError op err) = None"
  using SanitizeError_NewError [of op err] NewError_valid by auto

lemma SanitizeError_retry: "validRetry (pe_Retry (SanitizeError op err)) = pe_Retry (SanitizeError op err)"
  using SanitizeError_NewError [of op err] by (auto simp: NewError_def)

lemma SanitizeError_retry_cases:
  "pe_Retry (SanitizeError op err) \<in> {RetryNever, RetrySafe, RetryAmbiguous}"
  using SanitizeError_retry [of op err] by (cases "pe_Retry (SanitizeError op err)") auto

end
