(* ===== verification/Go_Json.thy ===== *)
theory Go_Json
  imports Go_Text
begin

text \<open>
  \<^verbatim>\<open>encoding/json\<close> as the sources use it to build the text that is hashed: strings with Go's
  escapes (HTML characters and the line separators included, invalid UTF-8 replaced), decimal
  integers, arrays, and objects whose members stand in the order of the struct's fields.
  \<open>print_json_inject\<close>: on valid UTF-8 the text determines the value.
\<close>

section \<open>UTF-8\<close>

abbreviation byte :: "char \<Rightarrow> nat" where
  "byte c \<equiv> of_char c"

definition continuation :: "char \<Rightarrow> bool" where
  "continuation c \<longleftrightarrow> 128 \<le> byte c \<and> byte c < 192"

text \<open>The length of the first rune, 0 if the bytes are not a valid encoding.\<close>

definition rune_len :: "string \<Rightarrow> nat" where
  "rune_len s =
     (case s of
        [] \<Rightarrow> 0
      | a # t \<Rightarrow>
          if byte a < 128 then 1
          else (case t of
              [] \<Rightarrow> 0
            | b # u \<Rightarrow>
                if \<not> continuation b then 0
                else if 194 \<le> byte a \<and> byte a < 224 then 2
                else (case u of
                    [] \<Rightarrow> 0
                  | c # v \<Rightarrow>
                      if \<not> continuation c then 0
                      else if byte a = 224 then (if 160 \<le> byte b then 3 else 0)
                      else if byte a = 237 then (if byte b < 160 then 3 else 0)
                      else if 225 \<le> byte a \<and> byte a < 240 then 3
                      else (case v of
                          [] \<Rightarrow> 0
                        | d # _ \<Rightarrow>
                            if \<not> continuation d then 0
                            else if byte a = 240 then (if 144 \<le> byte b then 4 else 0)
                            else if byte a = 244 then (if byte b < 144 then 4 else 0)
                            else if 241 \<le> byte a \<and> byte a < 244 then 4 else 0))))"

lemma rune_len_le: "rune_len s \<le> length s"
  by (auto simp: rune_len_def split: list.splits)

lemma rune_tail_high:
  "i < rune_len s \<Longrightarrow> 1 < rune_len s \<Longrightarrow> 128 \<le> byte (s ! i)"
  by (auto simp: rune_len_def continuation_def nth_Cons numeral_2_eq_2
      split: list.splits if_splits nat.splits)

function valid_utf8 :: "string \<Rightarrow> bool" where
  "valid_utf8 s =
     (if s = [] then True else if rune_len s = 0 then False else valid_utf8 (drop (rune_len s) s))"
  by pat_completeness auto
termination
  by (relation "measure length") auto

declare valid_utf8.simps [simp del]

section \<open>Strings\<close>

definition hex_char :: "nat \<Rightarrow> char" where
  "hex_char n = (if n < 10 then char_of (48 + n) else char_of (87 + n))"

definition backslash :: char where
  "backslash = CHR 0x5C"

definition quote :: char where
  "quote = CHR 0x22"

definition escape_ascii :: "char \<Rightarrow> string" where
  "escape_ascii c =
     (if c = quote \<or> c = backslash then [backslash, c]
      else if byte c = 8 then [backslash, CHR ''b'']
      else if byte c = 12 then [backslash, CHR ''f'']
      else if byte c = 10 then [backslash, CHR ''n'']
      else if byte c = 13 then [backslash, CHR ''r'']
      else if byte c = 9 then [backslash, CHR ''t'']
      else if byte c < 32 \<or> c = CHR ''<'' \<or> c = CHR ''>'' \<or> c = CHR ''&'' then
        [backslash, CHR ''u'', CHR ''0'', CHR ''0'', hex_char (byte c div 16), hex_char (byte c mod 16)]
      else [c])"

definition line_sep :: string where
  "line_sep = map char_of [226, 128, 168 :: nat]"

definition para_sep :: string where
  "para_sep = map char_of [226, 128, 169 :: nat]"

lemma separators_neq: "para_sep \<noteq> line_sep"
  by code_simp

function json_escape :: "string \<Rightarrow> string" where
  "json_escape s =
     (case s of
        [] \<Rightarrow> []
      | c # cs \<Rightarrow>
          if byte c < 128 then escape_ascii c @ json_escape cs
          else (let n = rune_len s in
            if n = 0 then backslash # ''ufffd'' @ json_escape cs
            else (if take n s = line_sep then backslash # ''u2028''
                  else if take n s = para_sep then backslash # ''u2029''
                  else take n s) @ json_escape (drop n s)))"
  by pat_completeness auto
termination
  by (relation "measure length") (auto simp: Let_def)

declare json_escape.simps [simp del]

definition json_string :: "string \<Rightarrow> string" where
  "json_string s = quote # json_escape s @ [quote]"

section \<open>Reading a string back\<close>

definition hex_val :: "char \<Rightarrow> nat" where
  "hex_val c = (if byte c < 58 then byte c - 48 else byte c - 87)"

lemma hex_val_char [simp]: "n < 16 \<Longrightarrow> hex_val (hex_char n) = n"
  by (simp add: hex_val_def hex_char_def)

definition short_escape :: "char \<Rightarrow> char" where
  "short_escape e =
     (if e = CHR ''b'' then char_of (8 :: nat) else if e = CHR ''f'' then char_of (12 :: nat)
      else if e = CHR ''n'' then char_of (10 :: nat) else if e = CHR ''r'' then char_of (13 :: nat)
      else if e = CHR ''t'' then char_of (9 :: nat) else e)"

definition wide_escape :: "string \<Rightarrow> string" where
  "wide_escape h =
     (if h = ''2028'' then line_sep else if h = ''2029'' then para_sep
      else [char_of (16 * hex_val (h ! 2) + hex_val (h ! 3))])"

function unquote :: "string \<Rightarrow> (string \<times> string) option" where
  "unquote s =
     (case s of
        [] \<Rightarrow> None
      | c # cs \<Rightarrow>
          if c = quote then Some ([], cs)
          else if c = backslash then
            (case cs of
               [] \<Rightarrow> None
             | e # r \<Rightarrow>
                 if e = CHR ''u'' then
                   map_option (\<lambda>(t, x). (wide_escape (take 4 r) @ t, x)) (unquote (drop 4 r))
                 else map_option (\<lambda>(t, x). (short_escape e # t, x)) (unquote r))
          else map_option (\<lambda>(t, x). (c # t, x)) (unquote cs))"
  by pat_completeness auto
termination
  by (relation "measure length") auto

declare unquote.simps [simp del]

lemma quote_neq [simp]: "quote \<noteq> backslash" "backslash \<noteq> quote"
  by (simp_all add: quote_def backslash_def)

lemma byte_quote: "byte quote = 34" "byte backslash = 92"
  by (simp_all add: quote_def backslash_def)

lemma unquote_quote: "unquote (quote # x) = Some ([], x)"
  by (simp add: unquote.simps [of "quote # x"])

lemma unquote_plain:
  "c \<noteq> quote \<Longrightarrow> c \<noteq> backslash \<Longrightarrow>
    unquote (c # x) = map_option (\<lambda>(t, y). (c # t, y)) (unquote x)"
  by (simp add: unquote.simps [of "c # x"])

lemma unquote_short:
  "e \<noteq> CHR ''u'' \<Longrightarrow>
    unquote (backslash # e # x) = map_option (\<lambda>(t, y). (short_escape e # t, y)) (unquote x)"
  by (simp add: unquote.simps [of "backslash # e # x"])

lemma unquote_wide:
  "length h = 4 \<Longrightarrow>
    unquote (backslash # CHR ''u'' # h @ x) =
      map_option (\<lambda>(t, y). (wide_escape h @ t, y)) (unquote x)"
  by (simp add: unquote.simps [of "backslash # CHR ''u'' # h @ x"])

lemma char_eq_byte: "byte c = n \<Longrightarrow> c = char_of n"
  by (metis char_of_char)

lemma byte_eq: "c = quote \<longleftrightarrow> byte c = 34" "c = backslash \<longleftrightarrow> byte c = 92"
  by (metis byte_quote of_char_eq_iff)+

lemma unquote_ascii:
  assumes "byte c < 128"
  shows "unquote (escape_ascii c @ x) = map_option (\<lambda>(t, y). (c # t, y)) (unquote x)"
proof -
  consider (same) "c = quote \<or> c = backslash"
    | (short) "byte c \<in> {8, 9, 10, 12, 13}"
    | (wide) "byte c < 32 \<or> c = CHR ''<'' \<or> c = CHR ''>'' \<or> c = CHR ''&''"
        "byte c \<notin> {8, 9, 10, 12, 13}" "c \<noteq> quote" "c \<noteq> backslash"
    | (plain) "c \<noteq> quote" "c \<noteq> backslash" "byte c \<notin> {8, 9, 10, 12, 13}"
        "\<not> (byte c < 32 \<or> c = CHR ''<'' \<or> c = CHR ''>'' \<or> c = CHR ''&'')"
    by blast
  then show ?thesis
  proof cases
    case same
    then have "c \<noteq> CHR ''u''" "short_escape c = c"
      by (auto simp: quote_def backslash_def short_escape_def)
    with same show ?thesis by (simp add: escape_ascii_def unquote_short)
  next
    case short
    then obtain e where "escape_ascii c = [backslash, e]" "short_escape e = char_of (byte c)" "e \<noteq> CHR ''u''"
      by (auto simp: escape_ascii_def byte_eq short_escape_def simp del: char_of_char)
    then show ?thesis by (simp add: unquote_short)
  next
    case wide
    have esc: "escape_ascii c =
        backslash # CHR ''u'' # [CHR ''0'', CHR ''0'', hex_char (byte c div 16), hex_char (byte c mod 16)]"
      using wide by (simp add: escape_ascii_def)
    have lt: "byte c div 16 < 16" "byte c mod 16 < 16" using assms by simp_all
    have "wide_escape [CHR ''0'', CHR ''0'', hex_char (byte c div 16), hex_char (byte c mod 16)] = [c]"
      using lt by (simp add: wide_escape_def)
    with esc show ?thesis
      using unquote_wide [of "[CHR ''0'', CHR ''0'', hex_char (byte c div 16), hex_char (byte c mod 16)]" x]
      by simp
  next
    case plain
    then show ?thesis by (simp add: escape_ascii_def unquote_plain)
  qed
qed

lemma unquote_high:
  "(\<And>c. c \<in> set w \<Longrightarrow> 128 \<le> byte c) \<Longrightarrow>
    unquote (w @ x) = map_option (\<lambda>(t, y). (w @ t, y)) (unquote x)"
proof (induction w)
  case Nil
  then show ?case by (simp add: option.map_ident case_prod_unfold)
next
  case (Cons c w)
  then have "128 \<le> byte c" by simp
  then have "c \<noteq> quote" "c \<noteq> backslash" by (auto simp: quote_def backslash_def)
  with Cons show ?case
    by (simp add: unquote_plain option.map_comp comp_def case_prod_unfold)
qed

lemma unquote_escape:
  "valid_utf8 s \<Longrightarrow> unquote (json_escape s @ quote # x) = Some (s, x)"
proof (induction s rule: json_escape.induct)
  case (1 s)
  show ?case
  proof (cases s)
    case Nil
    then show ?thesis by (simp add: json_escape.simps [of "[]"] unquote_quote)
  next
    case (Cons c cs)
    show ?thesis
    proof (cases "byte c < 128")
      case True
      then have "rune_len s = 1" by (simp add: Cons rune_len_def)
      then have "valid_utf8 cs" using valid_utf8.simps [of s] 1(4) Cons by simp
      then have "unquote (json_escape cs @ quote # x) = Some (cs, x)" by (rule 1(1) [OF Cons True])
      moreover have "json_escape s = escape_ascii c @ json_escape cs"
        using Cons True by (simp add: json_escape.simps [of "c # cs"])
      ultimately show ?thesis using Cons True by (simp add: unquote_ascii)
    next
      case False
      define n where "n = rune_len s"
      have n: "n \<noteq> 0" and v: "valid_utf8 (drop n s)"
        using valid_utf8.simps [of s] 1(4) Cons by (auto simp: n_def split: if_splits)
      have n1: "1 < n"
        using n False Cons by (auto simp: n_def rune_len_def split: list.splits if_splits)
      have rest: "unquote (json_escape (drop n s) @ quote # x) = Some (drop n s, x)"
        using 1(3) [OF Cons False n_def] n v by blast
      have high: "128 \<le> byte d" if "d \<in> set (take n s)" for d
        using that rune_tail_high n1 by (auto simp: in_set_conv_nth n_def)
      define w where "w = (if take n s = line_sep then backslash # ''u2028''
                  else if take n s = para_sep then backslash # ''u2029''
                  else take n s)"
      have "json_escape s = w @ json_escape (drop n s)"
        using Cons False n by (subst json_escape.simps) (simp add: n_def w_def Let_def)
      moreover have "unquote (w @ y) = map_option (\<lambda>(t, z). (take n s @ t, z)) (unquote y)" for y
      proof -
        consider "w = backslash # CHR ''u'' # ''2028''" "take n s = line_sep"
          | "w = backslash # CHR ''u'' # ''2029''" "take n s = para_sep"
          | "w = take n s"
          by (cases "take n s = line_sep"; cases "take n s = para_sep") (auto simp: w_def separators_neq)
        then show ?thesis
          using unquote_wide [of "''2028''" y] unquote_wide [of "''2029''" y]
            unquote_high [of "take n s" y, OF high]
          by cases (simp_all add: wide_escape_def)
      qed
      ultimately have "unquote (json_escape s @ quote # x) = Some (take n s @ drop n s, x)"
        using rest by simp
      then show ?thesis by simp
    qed
  qed
qed

lemma json_string_inject:
  assumes "valid_utf8 s" "valid_utf8 t" "json_string s @ x = json_string t @ y"
  shows "s = t \<and> x = y"
proof -
  from assms(3) have "json_escape s @ quote # x = json_escape t @ quote # y"
    by (simp add: json_string_def)
  with unquote_escape [OF assms(1), of x] unquote_escape [OF assms(2), of y]
  have "Some (s, x) = Some (t, y)" by argo
  then show ?thesis by simp
qed

section \<open>Values\<close>

datatype json =
    J_Null
  | J_String string
  | J_Int int
  | J_Array "json list"
  | J_Object "(string \<times> json) list"

fun show_nat :: "nat \<Rightarrow> string" where
  "show_nat n = (if n < 10 then [] else show_nat (n div 10)) @ [digit_char (n mod 10)]"

declare show_nat.simps [simp del]

definition show_int :: "int \<Rightarrow> string" where
  "show_int i = (if i < 0 then CHR ''-'' # show_nat (nat (- i)) else show_nat (nat i))"

fun print_json :: "json \<Rightarrow> string"
  and print_elements :: "json list \<Rightarrow> string"
  and print_members :: "(string \<times> json) list \<Rightarrow> string"
where
  "print_json J_Null = ''null''"
| "print_json (J_String s) = json_string s"
| "print_json (J_Int i) = show_int i"
| "print_json (J_Array vs) = CHR ''['' # print_elements vs"
| "print_json (J_Object ms) = CHR ''{'' # print_members ms"
| "print_elements [] = '']''"
| "print_elements (v # vs) = print_json v @ (if vs = [] then '']'' else CHR '','' # print_elements vs)"
| "print_members [] = ''}''"
| "print_members (m # ms) =
     json_string (fst m) @ CHR '':'' # print_json (snd m) @
     (if ms = [] then ''}'' else CHR '','' # print_members ms)"

fun json_utf8 :: "json \<Rightarrow> bool" where
  "json_utf8 J_Null = True"
| "json_utf8 (J_String s) = valid_utf8 s"
| "json_utf8 (J_Int i) = True"
| "json_utf8 (J_Array vs) = list_all json_utf8 vs"
| "json_utf8 (J_Object ms) = list_all (\<lambda>m. valid_utf8 (fst m) \<and> json_utf8 (snd m)) ms"

text \<open>What may follow a value inside a text.\<close>

definition delimited :: "string \<Rightarrow> bool" where
  "delimited x \<longleftrightarrow> x = [] \<or> hd x \<in> set '',]}''"

definition number_char :: "char \<Rightarrow> bool" where
  "number_char c \<longleftrightarrow> c = CHR ''-'' \<or> is_digit c"

lemma digits_val_append:
  "digits_val a (s @ t) = (case digits_val a s of None \<Rightarrow> None | Some b \<Rightarrow> digits_val b t)"
  by (induction s arbitrary: a) (auto split: option.split)

lemma digits_show_nat: "digits_val 0 (show_nat n) = Some n"
proof (induction n rule: show_nat.induct)
  case (1 n)
  then show ?case
    by (simp add: show_nat.simps [of n] digits_val_append)
qed

lemma show_nat_digits: "c \<in> set (show_nat n) \<Longrightarrow> is_digit c"
proof (induction n rule: show_nat.induct)
  case (1 n)
  have "is_digit (digit_char (n mod 10))"
    by (simp add: is_digit_def digit_char_def less_eq_char_def)
  with 1 show ?case by (auto simp: show_nat.simps [of n] split: if_splits)
qed

lemma show_nat_nonempty [simp]: "show_nat n \<noteq> []"
  by (simp add: show_nat.simps [of n])

lemma minus_not_digit: "\<not> is_digit (CHR ''-'')"
  by code_simp

lemma show_int_inj: "show_int i = show_int j \<Longrightarrow> i = j"
proof -
  assume eq: "show_int i = show_int j"
  have hd: "hd (show_nat n) \<noteq> CHR ''-''" for n
    using show_nat_digits [of "hd (show_nat n)" n] minus_not_digit by (metis hd_in_set show_nat_nonempty)
  then have ne: "show_nat n \<noteq> CHR ''-'' # t" for n t by (metis list.sel(1))
  have "(i < 0) = (j < 0)"
    using eq ne ne [symmetric] by (cases "i < 0"; cases "j < 0") (simp_all add: show_int_def)
  moreover have inj: "m = n" if "show_nat m = show_nat n" for m n
    using digits_show_nat that by (metis option.inject)
  ultimately consider "i < 0" "j < 0" "nat (- i) = nat (- j)" | "0 \<le> i" "0 \<le> j" "nat i = nat j"
    using eq by (cases "i < 0"; cases "j < 0") (simp_all add: show_int_def)
  then show "i = j" by cases simp_all
qed

lemma takeWhile_show_int:
  assumes "delimited x"
  shows "takeWhile number_char (show_int i @ x) = show_int i"
proof -
  have "number_char c" if "c \<in> set (show_int i)" for c
    using that show_nat_digits by (auto simp: show_int_def number_char_def split: if_splits)
  moreover have "takeWhile number_char x = []"
    using assms by (cases x) (auto simp: delimited_def number_char_def is_digit_def less_eq_char_def)
  ultimately show ?thesis by (simp add: takeWhile_append2)
qed

lemma show_int_inject:
  assumes "delimited x" "delimited y" "show_int i @ x = show_int j @ y"
  shows "i = j \<and> x = y"
  using takeWhile_show_int [OF assms(1), of i] takeWhile_show_int [OF assms(2), of j] assms(3)
  by (metis append_eq_append_conv show_int_inj)

text \<open>The first character tells the kinds of value apart.\<close>

fun json_kind :: "json \<Rightarrow> nat" where
  "json_kind J_Null = 0"
| "json_kind (J_String s) = 1"
| "json_kind (J_Int i) = 2"
| "json_kind (J_Array vs) = 3"
| "json_kind (J_Object ms) = 4"

definition kind_of_char :: "char \<Rightarrow> nat" where
  "kind_of_char c =
     (if c = CHR ''n'' then 0 else if c = quote then 1 else if c = CHR ''['' then 3
      else if c = CHR ''{'' then 4 else 2)"

lemma kind_of_number: "number_char c \<Longrightarrow> kind_of_char c = 2"
  by (auto simp: number_char_def kind_of_char_def is_digit_def quote_def less_eq_char_def)

lemma print_json_head:
  "\<exists>c t. print_json v = c # t \<and> kind_of_char c = json_kind v \<and> c \<notin> set '',]}''"
proof (cases v)
  case (J_Int i)
  obtain c t where ct: "show_int i = c # t"
    by (cases "show_int i") (auto simp: show_int_def split: if_splits)
  then have "c \<in> set (show_int i)" by simp
  then have "number_char c"
    using show_nat_digits by (auto simp: show_int_def number_char_def split: if_splits)
  moreover have "d \<notin> set '',]}''" if "number_char d" for d
    using that by (auto simp: number_char_def is_digit_def less_eq_char_def)
  ultimately show ?thesis using ct J_Int kind_of_number by auto
qed (auto simp: json_string_def kind_of_char_def quote_def)

lemma print_json_kind: "print_json v @ x = print_json w @ y \<Longrightarrow> json_kind v = json_kind w"
  using print_json_head [of v] print_json_head [of w] by auto

lemma print_inject:
  "json_utf8 v \<Longrightarrow> json_utf8 w \<Longrightarrow> delimited x \<Longrightarrow> delimited y \<Longrightarrow>
    print_json v @ x = print_json w @ y \<Longrightarrow> v = w \<and> x = y"
  "list_all json_utf8 vs \<Longrightarrow> list_all json_utf8 ws \<Longrightarrow>
    print_elements vs @ x = print_elements ws @ y \<Longrightarrow> vs = ws \<and> x = y"
  "list_all (\<lambda>m. valid_utf8 (fst m) \<and> json_utf8 (snd m)) ms \<Longrightarrow>
    list_all (\<lambda>m. valid_utf8 (fst m) \<and> json_utf8 (snd m)) ns \<Longrightarrow>
    print_members ms @ x = print_members ns @ y \<Longrightarrow> ms = ns \<and> x = y"
proof (induction v and vs and ms arbitrary: w x y and ws x y and ns x y
    rule: print_json_print_elements_print_members.induct)
  case 1
  then show ?case using print_json_kind [of J_Null x w y] by (cases w) auto
next
  case (2 s)
  then show ?case using print_json_kind [of "J_String s" x w y]
    by (cases w) (auto dest: json_string_inject)
next
  case (3 i)
  then obtain j where w: "w = J_Int j"
    using print_json_kind [of "J_Int i" x w y] by (cases w) auto
  have "show_int i @ x = show_int j @ y" using 3(5) unfolding w print_json.simps .
  with 3(3,4) have "i = j \<and> x = y" by (rule show_int_inject)
  with w show ?case by simp
next
  case (4 vs)
  have "json_kind w = 3" using print_json_kind [OF 4(6)] by simp
  then obtain u where w: "w = J_Array u" by (cases w) simp_all
  have "print_elements vs @ x = print_elements u @ y" using 4(6) unfolding w print_json.simps by simp
  then have "vs = u \<and> x = y" using 4(2,3) unfolding w by (intro 4(1)) simp_all
  with w show ?case by simp
next
  case (5 ms)
  have "json_kind w = 4" using print_json_kind [OF 5(6)] by simp
  then obtain u where w: "w = J_Object u" by (cases w) simp_all
  have "print_members ms @ x = print_members u @ y" using 5(6) unfolding w print_json.simps by simp
  then have "ms = u \<and> x = y" using 5(2,3) unfolding w by (intro 5(1)) simp_all
  with w show ?case by simp
next
  case 6
  then show ?case using print_json_head [of "hd ws"] by (cases ws) auto
next
  case (7 v vs)
  show ?case
  proof (cases ws)
    case Nil
    then show ?thesis using 7(5) print_json_head [of v] by auto
  next
    case (Cons w ws')
    define r where "r = (if vs = [] then '']'' else CHR '','' # print_elements vs) @ x"
    define r' where "r' = (if ws' = [] then '']'' else CHR '','' # print_elements ws') @ y"
    have "delimited r" "delimited r'" by (auto simp: r_def r'_def delimited_def)
    moreover have "print_json v @ r = print_json w @ r'"
      using 7(5) unfolding Cons r_def r'_def print_elements.simps by simp
    ultimately have "v = w \<and> r = r'"
      using 7(3,4) Cons by (intro 7(1)) simp_all
    then have vr: "v = w" "r = r'" by simp_all
    have "vs = ws' \<and> x = y"
    proof (cases "vs = [] \<or> ws' = []")
      case True
      then show ?thesis using vr(2) unfolding r_def r'_def by (auto split: if_splits)
    next
      case False
      then have "print_elements vs @ x = print_elements ws' @ y"
        using vr(2) unfolding r_def r'_def by simp
      with False 7(3,4) Cons show ?thesis by (intro 7(2)) simp_all
    qed
    with vr Cons show ?thesis by simp
  qed
next
  case 8
  then show ?case by (cases ns) (auto simp: json_string_def quote_def)
next
  case (9 m ms)
  show ?case
  proof (cases ns)
    case Nil
    then show ?thesis using 9(5) by (auto simp: json_string_def quote_def)
  next
    case (Cons n ns')
    define r where "r = (if ms = [] then ''}'' else CHR '','' # print_members ms) @ x"
    define r' where "r' = (if ns' = [] then ''}'' else CHR '','' # print_members ns') @ y"
    have d: "delimited r" "delimited r'" by (auto simp: r_def r'_def delimited_def)
    have "json_string (fst m) @ (CHR '':'' # print_json (snd m) @ r) =
        json_string (fst n) @ (CHR '':'' # print_json (snd n) @ r')"
      using 9(5) unfolding Cons r_def r'_def print_members.simps by simp
    then have "fst m = fst n \<and> CHR '':'' # print_json (snd m) @ r = CHR '':'' # print_json (snd n) @ r'"
      using 9(3,4) Cons by (intro json_string_inject) simp_all
    then have f: "fst m = fst n" and s: "print_json (snd m) @ r = print_json (snd n) @ r'"
      by simp_all
    have "snd m = snd n \<and> r = r'"
      using 9(3,4) Cons d s by (intro 9(1)) simp_all
    then have vr: "snd m = snd n" "r = r'" by simp_all
    have "ms = ns' \<and> x = y"
    proof (cases "ms = [] \<or> ns' = []")
      case True
      then show ?thesis using vr(2) unfolding r_def r'_def by (auto split: if_splits)
    next
      case False
      then have "print_members ms @ x = print_members ns' @ y"
        using vr(2) unfolding r_def r'_def by simp
      with False 9(3,4) Cons show ?thesis by (intro 9(2)) simp_all
    qed
    with vr Cons f show ?thesis by (simp add: prod_eq_iff)
  qed
qed

theorem print_json_inject:
  "json_utf8 v \<Longrightarrow> json_utf8 w \<Longrightarrow> print_json v = print_json w \<Longrightarrow> v = w"
  using print_inject(1) [of v w "[]" "[]"] by (simp add: delimited_def)

end
