(* ===== verification/Rollout_Plan.thy ===== *)
theory Rollout_Plan
  imports Secure_Keys Provider Go_Json
begin

text \<open>
  Provider plans, \<^verbatim>\<open>internal/rollout/plan.go\<close>: the data bound by a plan, its digest over the
  canonical JSON text, and the validation every use of a plan runs. Times are nanoseconds, the
  texts of a plan whole seconds. SHA-256 is the field \<open>sha256\<close> of \<open>crypto\<close>. A slice without
  elements is the nil slice, which is what \<^verbatim>\<open>Plan\<close> builds.
\<close>

section \<open>Types\<close>

definition PlanVersion :: int where "PlanVersion = 1"
definition PlanTTL :: int where "PlanTTL = 15 * 60"
definition MaxActions :: nat where "MaxActions = 512"

definition PlanKindNamesOnly :: string where "PlanKindNamesOnly = ''names-only''"
definition PlanKindBindingNames :: string where "PlanKindBindingNames = ''binding-names''"

record planned_name =
  pn_Service :: string
  pn_ServiceID :: string
  pn_Name :: string
  pn_Desired :: string
  pn_State :: string
  pn_Record :: string
  pn_ExpectedRecordRevision :: int

record target_binding =
  tb_ProjectID :: string
  tb_EnvironmentID :: string
  tb_ServiceIDs :: "string_map option"

record action =
  act_ID :: string
  act_Operation :: string
  act_Service :: string
  act_ServiceID :: string
  act_Name :: string
  act_Record :: string
  act_ValueSource :: string
  act_PublicValue :: string
  act_ExpectedRecordRevision :: int

record provider_plan =
  plan_Version :: int
  plan_Bundle :: string
  plan_ManifestDigest :: string
  plan_SnapshotRevision :: int
  plan_Provider :: string
  plan_ProviderIdentity :: string
  plan_ProviderRevision :: string
  plan_Target :: target_binding
  plan_Kind :: string
  plan_Names :: "planned_name list"
  plan_Actions :: "action list"
  plan_CreatedAt :: string
  plan_ExpiresAt :: string
  plan_Digest :: string

definition plan_ID :: "provider_plan \<Rightarrow> string" where
  "plan_ID plan = plan_Digest plan"

text \<open>\<^verbatim>\<open>^[A-Za-z0-9_.:-]{1,128}$\<close>\<close>

definition evidence_pattern :: "string \<Rightarrow> bool" where
  "evidence_pattern s \<longleftrightarrow> safe_code s \<and> length s \<le> 128"

section \<open>Digest\<close>

definition omitempty :: "string \<Rightarrow> json \<Rightarrow> (string \<times> json) list" where
  "omitempty name v =
     (if v = J_String [] \<or> v = J_Int 0 \<or> v = J_Array [] then [] else [(name, v)])"

definition slice_json :: "json list \<Rightarrow> json" where
  "slice_json vs = (if vs = [] then J_Null else J_Array vs)"

definition binding_json :: "target_binding \<Rightarrow> json" where
  "binding_json t = J_Object
     [(''project_id'', J_String (tb_ProjectID t)), (''environment_id'', J_String (tb_EnvironmentID t)),
      (''service_ids'', case tb_ServiceIDs t of None \<Rightarrow> J_Null
         | Some m \<Rightarrow> J_Object (map (\<lambda>(k, v). (k, J_String v)) m))]"

definition planned_name_json :: "planned_name \<Rightarrow> json" where
  "planned_name_json n = J_Object
     ([(''service'', J_String (pn_Service n)), (''service_id'', J_String (pn_ServiceID n)),
       (''name'', J_String (pn_Name n)), (''desired'', J_String (pn_Desired n)),
       (''state'', J_String (pn_State n))] @ omitempty ''record'' (J_String (pn_Record n)) @
       omitempty ''expected_record_revision'' (J_Int (pn_ExpectedRecordRevision n)))"

definition action_json :: "action \<Rightarrow> json" where
  "action_json a = J_Object
     ([(''id'', J_String (act_ID a)), (''operation'', J_String (act_Operation a)),
       (''service'', J_String (act_Service a)), (''service_id'', J_String (act_ServiceID a)),
       (''name'', J_String (act_Name a))] @ omitempty ''record'' (J_String (act_Record a)) @
       omitempty ''value_source'' (J_String (act_ValueSource a)) @
       omitempty ''public_value'' (J_String (act_PublicValue a)) @
       omitempty ''expected_record_revision'' (J_Int (act_ExpectedRecordRevision a)))"

definition plan_json :: "provider_plan \<Rightarrow> json" where
  "plan_json p = J_Object
     ([(''version'', J_Int (plan_Version p)), (''bundle'', J_String (plan_Bundle p)),
       (''manifest_digest'', J_String (plan_ManifestDigest p)),
       (''snapshot_revision'', J_Int (plan_SnapshotRevision p)),
       (''provider'', J_String (plan_Provider p)),
       (''provider_identity'', J_String (plan_ProviderIdentity p))] @
       omitempty ''provider_revision'' (J_String (plan_ProviderRevision p)) @
      [(''target'', binding_json (plan_Target p))] @
       omitempty ''kind'' (J_String (plan_Kind p)) @
       omitempty ''names'' (J_Array (map planned_name_json (plan_Names p))) @
      [(''actions'', slice_json (map action_json (plan_Actions p))),
       (''created_at'', J_String (plan_CreatedAt p)), (''expires_at'', J_String (plan_ExpiresAt p)),
       (''digest'', J_String (plan_Digest p))])"

definition ComputeDigest :: "'c crypto_scheme \<Rightarrow> provider_plan \<Rightarrow> string" where
  "ComputeDigest c plan = hex_encode (sha256 c (print_json (plan_json (plan\<lparr>plan_Digest := []\<rparr>))))"

section \<open>Validation\<close>

definition service_id_of :: "target_binding \<Rightarrow> string \<Rightarrow> string" where
  "service_id_of t service =
     (case tb_ServiceIDs t of None \<Rightarrow> [] | Some m \<Rightarrow> lookup_string m service)"

definition at_index :: "string \<Rightarrow> nat \<Rightarrow> string \<Rightarrow> string" where
  "at_index prefix i suffix = prefix @ '' '' @ show_nat i @ '' '' @ suffix"

definition action_incomplete :: "action \<Rightarrow> bool" where
  "action_incomplete a \<longleftrightarrow> act_ID a = [] \<or> act_Operation a = [] \<or> act_Service a = [] \<or>
     act_ServiceID a = [] \<or> act_Name a = []"

definition record_backed :: "action \<Rightarrow> bool" where
  "record_backed a \<longleftrightarrow> (act_ValueSource a = [] \<or> act_ValueSource a = ''record'') \<and>
     act_Record a \<noteq> [] \<and> act_ExpectedRecordRevision a > 0 \<and> act_PublicValue a = []"

definition public_constant :: "action \<Rightarrow> bool" where
  "public_constant a \<longleftrightarrow> act_ValueSource a = ''public-constant'' \<and> act_Record a = [] \<and>
     act_ExpectedRecordRevision a = 0"

definition validateAction :: "nat \<Rightarrow> action \<Rightarrow> target_binding \<Rightarrow> string option" where
  "validateAction i a t =
     (if action_incomplete a then Some (at_index ''provider plan action'' i ''is incomplete'')
      else if act_Operation a \<notin> set [''create'', ''update'', ''upsert'', ''revoke''] then
        Some (at_index ''provider plan action'' i ''has an invalid operation'')
      else if service_id_of t (act_Service a) \<noteq> act_ServiceID a then
        Some (at_index ''provider plan action'' i ''has an invalid service binding'')
      else if act_Operation a \<noteq> ''revoke'' \<and> \<not> record_backed a \<and> \<not> public_constant a then
        Some (at_index ''provider plan action'' i ''has an invalid value source'')
      else if act_Operation a = ''revoke'' \<and>
              (act_Record a \<noteq> [] \<or> act_ValueSource a \<noteq> [] \<or> act_PublicValue a \<noteq> [] \<or>
               act_ExpectedRecordRevision a \<noteq> 0) then
        Some (at_index ''provider plan action'' i ''has unexpected record state'')
      else None)"

definition target_key :: "string \<Rightarrow> string \<Rightarrow> string" where
  "target_key service name = service @ nul @ name"

definition name_invalid :: "planned_name \<Rightarrow> target_binding \<Rightarrow> bool" where
  "name_invalid n t \<longleftrightarrow> pn_Service n = [] \<or> pn_ServiceID n = [] \<or> pn_Name n = [] \<or>
     service_id_of t (pn_Service n) \<noteq> pn_ServiceID n \<or>
     pn_Desired n \<notin> set [''present'', ''absent''] \<or>
     pn_State n \<notin> set [''unverifiable'', ''present'', ''absent'']"

fun validateNames :: "nat \<Rightarrow> string list \<Rightarrow> target_binding \<Rightarrow> planned_name list \<Rightarrow> string option" where
  "validateNames i seen t [] = None"
| "validateNames i seen t (n # ns) =
     (let key = target_key (pn_Service n) (pn_Name n) in
      if name_invalid n t then Some (at_index ''names-only provider plan entry'' i ''is invalid'')
      else if key \<in> set seen then Some (at_index ''names-only provider plan entry'' i ''is duplicated'')
      else if pn_Desired n = ''absent'' \<and> (pn_Record n \<noteq> [] \<or> pn_ExpectedRecordRevision n \<noteq> 0) then
        Some (at_index ''names-only provider plan entry'' i ''has unexpected record state'')
      else if pn_Record n = [] \<and> pn_ExpectedRecordRevision n \<noteq> 0 \<or>
              pn_Record n \<noteq> [] \<and> pn_ExpectedRecordRevision n < 1 then
        Some (at_index ''names-only provider plan entry'' i ''has an invalid record revision'')
      else validateNames (Suc i) (key # seen) t ns)"

definition named_item :: "planned_name list \<Rightarrow> action \<Rightarrow> planned_name option" where
  "named_item names a =
     map_of (rev (map (\<lambda>n. (target_key (pn_Service n) (pn_Name n), n)) names))
       (target_key (act_Service a) (act_Name a))"

definition named_action_ok :: "string \<Rightarrow> planned_name list \<Rightarrow> action \<Rightarrow> bool" where
  "named_action_ok kind names a =
     (case named_item names a of
        None \<Rightarrow> False
      | Some item \<Rightarrow>
          pn_Desired item = ''present'' \<and> act_Operation a = ''upsert'' \<and>
            act_Record a = pn_Record item \<and>
            act_ExpectedRecordRevision a = pn_ExpectedRecordRevision item \<or>
          kind = PlanKindBindingNames \<and> pn_Desired item = ''absent'' \<and> act_Operation a = ''revoke'')"

fun validateNamedActions :: "nat \<Rightarrow> string \<Rightarrow> planned_name list \<Rightarrow> action list \<Rightarrow> string option" where
  "validateNamedActions i kind names [] = None"
| "validateNamedActions i kind names (a # as) =
     (if named_action_ok kind names a then validateNamedActions (Suc i) kind names as
      else Some (at_index ''names-only provider plan action'' i ''does not match a desired-present name''))"

fun validate_actions ::
  "nat \<Rightarrow> string list \<Rightarrow> string list \<Rightarrow> target_binding \<Rightarrow> action list \<Rightarrow> string option" where
  "validate_actions i ids targets t [] = None"
| "validate_actions i ids targets t (a # as) =
     (if action_incomplete a then Some (at_index ''provider plan action'' i ''is incomplete'')
      else if act_ID a \<in> set ids then Some (at_index ''provider plan action'' i ''has a duplicate ID'')
      else if target_key (act_Service a) (act_Name a) \<in> set targets then
        Some (at_index ''provider plan action'' i ''duplicates a variable target'')
      else (case validateAction i a t of
              Some err \<Rightarrow> Some err
            | None \<Rightarrow> validate_actions (Suc i) (act_ID a # ids)
                        (target_key (act_Service a) (act_Name a) # targets) t as))"

definition named_kind :: "provider_plan \<Rightarrow> bool" where
  "named_kind plan \<longleftrightarrow> plan_Kind plan = PlanKindNamesOnly \<or> plan_Kind plan = PlanKindBindingNames"

text \<open>The checks on the plan's fields that stand before the loop over its actions.\<close>

definition plan_header :: "provider_plan \<Rightarrow> int \<Rightarrow> string option" where
  "plan_header plan now =
     (if plan_Version plan \<noteq> PlanVersion then
        Some (''unsupported provider plan version '' @ show_int (plan_Version plan))
      else if plan_Bundle plan = [] \<or> \<not> digest_pattern (plan_ManifestDigest plan) \<or>
              plan_SnapshotRevision plan < 1 \<or> plan_Provider plan = [] \<or>
              plan_ProviderIdentity plan = [] then Some ''provider plan identity is invalid''
      else if plan_ProviderRevision plan \<noteq> [] \<and> \<not> evidence_pattern (plan_ProviderRevision plan) then
        Some ''provider plan revision evidence is invalid''
      else (case parse_canonical (plan_CreatedAt plan) of
          None \<Rightarrow> Some ''provider plan creation time is invalid''
        | Some created \<Rightarrow>
            (case parse_canonical (plan_ExpiresAt plan) of
                None \<Rightarrow> Some ''provider plan expiry is invalid''
              | Some expires \<Rightarrow>
                  if expires \<noteq> created + PlanTTL then Some ''provider plan expiry is invalid''
                  else if \<not> now < expires * second then Some ''provider plan has expired''
                  else if now < created * second then Some ''provider plan is not yet valid''
                  else if tb_ProjectID (plan_Target plan) = [] \<or>
                          tb_EnvironmentID (plan_Target plan) = [] \<or>
                          tb_ServiceIDs (plan_Target plan) = None then
                    Some ''provider plan target binding is incomplete''
                  else if plan_Kind plan \<noteq> [] \<and> \<not> named_kind plan then
                    Some ''provider plan kind is invalid''
                  else None)))"

definition plan_Validate :: "'c crypto_scheme \<Rightarrow> provider_plan \<Rightarrow> int \<Rightarrow> string option" where
  "plan_Validate c plan now =
     (case plan_header plan now of Some err \<Rightarrow> Some err | None \<Rightarrow>
      case (if named_kind plan then
              (if plan_Names plan = [] \<or> length (plan_Names plan) > MaxActions \<or>
                  length (plan_Actions plan) > MaxActions then
                 Some ''names-only provider plan must contain between 1 and 512 names''
               else validateNames 0 [] (plan_Target plan) (plan_Names plan))
            else if plan_Actions plan = [] \<or> length (plan_Actions plan) > MaxActions \<or>
                    plan_Names plan \<noteq> [] then
              Some ''provider plan must contain between 1 and 512 actions''
            else None) of Some err \<Rightarrow> Some err | None \<Rightarrow>
      case validate_actions 0 [] [] (plan_Target plan) (plan_Actions plan) of
        Some err \<Rightarrow> Some err | None \<Rightarrow>
      case (if named_kind plan then
              validateNamedActions 0 (plan_Kind plan) (plan_Names plan) (plan_Actions plan)
            else None) of Some err \<Rightarrow> Some err | None \<Rightarrow>
      if plan_Digest plan \<noteq> ComputeDigest c plan then Some ''provider plan digest is invalid''
      else None)"

section \<open>What validation establishes\<close>

definition action_ok :: "target_binding \<Rightarrow> action \<Rightarrow> bool" where
  "action_ok t a \<longleftrightarrow> (\<forall>i. validateAction i a t = None)"

lemma validateAction_ok: "validateAction i a t = None \<longleftrightarrow> action_ok t a"
  by (auto simp: action_ok_def validateAction_def split: if_splits)

lemma action_okD:
  assumes "action_ok t a"
  shows "\<not> action_incomplete a" "service_id_of t (act_Service a) = act_ServiceID a"
    "act_Operation a \<in> {''create'', ''update'', ''upsert'', ''revoke''}"
    "act_Operation a \<noteq> ''revoke'' \<Longrightarrow> record_backed a \<or> public_constant a"
    "act_Operation a = ''revoke'' \<Longrightarrow> act_Record a = [] \<and> act_PublicValue a = []"
  using assms by (auto simp: action_ok_def validateAction_def split: if_splits)

definition action_key :: "action \<Rightarrow> string" where
  "action_key a = target_key (act_Service a) (act_Name a)"

lemma not_image_iff: "x \<notin> f ` A \<longleftrightarrow> (\<forall>a \<in> A. f a \<noteq> x)"
  by (auto simp: image_iff)

lemma validate_actions_None:
  "validate_actions i ids targets t as = None \<longleftrightarrow>
     (\<forall>a \<in> set as. action_ok t a \<and> act_ID a \<notin> set ids \<and> action_key a \<notin> set targets) \<and>
     distinct (map act_ID as) \<and> distinct (map action_key as)"
proof (induction as arbitrary: i ids targets)
  case Nil
  then show ?case by simp
next
  case (Cons a as)
  show ?case
  proof (cases "action_ok t a")
    case True
    then have "validateAction i a t = None" "\<not> action_incomplete a"
      by (simp_all add: validateAction_ok action_okD(1))
    then show ?thesis
      using True by (auto simp: Cons.IH action_key_def [symmetric] not_image_iff)
  next
    case False
    then obtain err where "validateAction i a t = Some err"
      using validateAction_ok [of i a t] by auto
    with False show ?thesis by simp
  qed
qed

definition name_ok :: "target_binding \<Rightarrow> planned_name \<Rightarrow> bool" where
  "name_ok t n \<longleftrightarrow> \<not> name_invalid n t \<and>
     (pn_Desired n = ''absent'' \<longrightarrow> pn_Record n = [] \<and> pn_ExpectedRecordRevision n = 0) \<and>
     (pn_Record n = [] \<longrightarrow> pn_ExpectedRecordRevision n = 0) \<and>
     (pn_Record n \<noteq> [] \<longrightarrow> 1 \<le> pn_ExpectedRecordRevision n)"

definition name_key :: "planned_name \<Rightarrow> string" where
  "name_key n = target_key (pn_Service n) (pn_Name n)"

lemma validateNames_None:
  "validateNames i seen t ns = None \<longleftrightarrow>
     (\<forall>n \<in> set ns. name_ok t n \<and> name_key n \<notin> set seen) \<and> distinct (map name_key ns)"
proof (induction ns arbitrary: i seen)
  case Nil
  then show ?case by simp
next
  case (Cons n ns)
  show ?case
  proof (cases "name_ok t n")
    case True
    then have "validateNames i seen t (n # ns) = None \<longleftrightarrow>
        name_key n \<notin> set seen \<and> validateNames (Suc i) (name_key n # seen) t ns = None"
      unfolding name_ok_def name_key_def validateNames.simps Let_def
      by (cases "pn_Record n = []"; cases "pn_Desired n = ''absent''") simp_all
    with True show ?thesis by (auto simp: Cons.IH not_image_iff)
  next
    case False
    then have "validateNames i seen t (n # ns) \<noteq> None"
      unfolding name_ok_def validateNames.simps Let_def
      by (cases "pn_Record n = []"; cases "pn_Desired n = ''absent''"; cases "name_invalid n t") auto
    with False show ?thesis by (metis list.set_intros(1))
  qed
qed

lemma validateNamedActions_None:
  "validateNamedActions i kind names as = None \<longleftrightarrow> list_all (named_action_ok kind names) as"
  by (induction as arbitrary: i) auto

lemma map_of_rev_distinct: "distinct (map fst kvs) \<Longrightarrow> map_of (rev kvs) = map_of kvs"
  by (subst map_of_inject_set) (simp_all add: rev_map [symmetric])

lemma named_item_unique:
  assumes "distinct (map name_key names)"
  shows "named_item names a = Some n \<longleftrightarrow> n \<in> set names \<and> name_key n = action_key a"
proof -
  let ?kvs = "map (\<lambda>n. (target_key (pn_Service n) (pn_Name n), n)) names"
  have "distinct (map fst ?kvs)" using assms by (simp add: name_key_def [abs_def] comp_def)
  then show ?thesis
    by (simp add: named_item_def rev_map [symmetric] map_of_rev_distinct map_of_eq_Some_iff)
      (auto simp: action_key_def name_key_def image_iff)
qed

text \<open>The content of a plan that passes validation at time \<open>now\<close>.\<close>

definition plan_ok :: "provider_plan \<Rightarrow> int \<Rightarrow> bool" where
  "plan_ok plan now \<longleftrightarrow>
     (\<forall>a \<in> set (plan_Actions plan). action_ok (plan_Target plan) a) \<and>
     distinct (map act_ID (plan_Actions plan)) \<and> distinct (map action_key (plan_Actions plan)) \<and>
     length (plan_Actions plan) \<le> MaxActions \<and>
     (\<exists>created. parse_canonical (plan_CreatedAt plan) = Some created \<and>
        parse_canonical (plan_ExpiresAt plan) = Some (created + PlanTTL) \<and>
        created * second \<le> now \<and> now < (created + PlanTTL) * second) \<and>
     (if named_kind plan then
        distinct (map name_key (plan_Names plan)) \<and>
        (\<forall>n \<in> set (plan_Names plan). name_ok (plan_Target plan) n) \<and>
        list_all (named_action_ok (plan_Kind plan) (plan_Names plan)) (plan_Actions plan)
      else plan_Names plan = [])"

lemma plan_headerD:
  assumes "plan_header plan now = None"
  shows "plan_Version plan = PlanVersion" "plan_Bundle plan \<noteq> []"
    "digest_pattern (plan_ManifestDigest plan)" "1 \<le> plan_SnapshotRevision plan"
    "plan_Provider plan \<noteq> []" "plan_ProviderIdentity plan \<noteq> []"
    "plan_ProviderRevision plan = [] \<or> evidence_pattern (plan_ProviderRevision plan)"
    "tb_ProjectID (plan_Target plan) \<noteq> []" "tb_EnvironmentID (plan_Target plan) \<noteq> []"
    "tb_ServiceIDs (plan_Target plan) \<noteq> None"
    "\<exists>created. parse_canonical (plan_CreatedAt plan) = Some created \<and>
        parse_canonical (plan_ExpiresAt plan) = Some (created + PlanTTL) \<and>
        created * second \<le> now \<and> now < (created + PlanTTL) * second"
  using assms by (auto simp: plan_header_def split: if_splits option.splits)

lemma plan_ValidateD:
  assumes "plan_Validate c plan now = None"
  shows "plan_header plan now = None" "plan_ok plan now" "plan_Digest plan = ComputeDigest c plan"
proof -
  show h: "plan_header plan now = None" and "plan_Digest plan = ComputeDigest c plan"
    using assms by (auto simp: plan_Validate_def split: option.splits if_splits)
  show "plan_ok plan now"
    using assms plan_headerD(11) [OF h] unfolding plan_ok_def plan_Validate_def
    by (auto simp: validate_actions_None validateNames_None validateNamedActions_None
        split: option.splits if_splits)
qed

section \<open>The digest binds the plan\<close>

text \<open>Every text of the plan is valid UTF-8; the others are changed by \<^verbatim>\<open>json.Marshal\<close>.\<close>

definition plan_utf8 :: "provider_plan \<Rightarrow> bool" where
  "plan_utf8 p \<longleftrightarrow> json_utf8 (plan_json p)"

lemma action_json_inject: "action_json a = action_json b \<Longrightarrow> a = b"
  by (cases a; cases b) (auto simp: action_json_def omitempty_def split: if_splits)

lemma planned_name_json_inject: "planned_name_json a = planned_name_json b \<Longrightarrow> a = b"
  by (cases a; cases b) (auto simp: planned_name_json_def omitempty_def split: if_splits)

lemma binding_json_inject: "binding_json a = binding_json b \<Longrightarrow> a = b"
proof -
  have inj: "inj (\<lambda>(k, v). (k, J_String v))" by (auto simp: inj_def)
  show "binding_json a = binding_json b \<Longrightarrow> a = b"
    by (cases a; cases b)
      (auto simp: binding_json_def inj_map_eq_map [OF inj] split: option.splits)
qed

lemma slice_json_inject: "slice_json xs = slice_json ys \<Longrightarrow> xs = ys"
  by (auto simp: slice_json_def split: if_splits)

lemma plan_json_inject: "plan_json p = plan_json q \<Longrightarrow> p = q"
proof -
  assume eq: "plan_json p = plan_json q"
  have "plan_Names p = plan_Names q"
    if "map planned_name_json (plan_Names p) = map planned_name_json (plan_Names q)"
    using that planned_name_json_inject by (metis injI inj_map_eq_map)
  moreover have "plan_Actions p = plan_Actions q"
    if "slice_json (map action_json (plan_Actions p)) = slice_json (map action_json (plan_Actions q))"
    using slice_json_inject [OF that] action_json_inject by (metis injI inj_map_eq_map)
  ultimately show "p = q"
    using eq binding_json_inject [of "plan_Target p" "plan_Target q"]
    by (cases p; cases q) (auto simp: plan_json_def omitempty_def split: if_splits)
qed

lemma hex_digit_inj: "m < 16 \<Longrightarrow> n < 16 \<Longrightarrow> hex_digit m = hex_digit n \<Longrightarrow> m = n"
  using hex_val_char [of m] hex_val_char [of n] by (simp add: hex_digit_def hex_char_def)

lemma hex_encode_inject: "hex_encode a = hex_encode b \<Longrightarrow> a = b"
proof (induction a arbitrary: b)
  case Nil
  then show ?case by (cases b) (simp_all add: hex_encode_def)
next
  case (Cons c a)
  then obtain d b' where b: "b = d # b'" by (cases b) (simp_all add: hex_encode_def)
  have eq: "hex_digit (of_char c div 16) = hex_digit (of_char d div 16)"
    "hex_digit (of_char c mod 16) = hex_digit (of_char d mod 16)" "hex_encode a = hex_encode b'"
    using Cons.prems by (simp_all add: b hex_encode_def)
  have lt: "(of_char x :: nat) div 16 < 16" for x :: char
  proof -
    have "(of_char x :: nat) < 256" by (metis of_char_mod_256 mod_less_divisor zero_less_numeral)
    then show ?thesis by (simp add: less_mult_imp_div_less)
  qed
  have "(of_char c :: nat) div 16 = of_char d div 16" "(of_char c :: nat) mod 16 = of_char d mod 16"
    using eq(1,2) lt hex_digit_inj by simp_all
  then have "(of_char c :: nat) = of_char d" by (metis div_mult_mod_eq)
  with eq(3) Cons.IH b show ?case by simp
qed

definition digest_text :: "provider_plan \<Rightarrow> bytes" where
  "digest_text p = print_json (plan_json (p\<lparr>plan_Digest := []\<rparr>))"

lemma digest_text_inject:
  assumes "plan_utf8 p" "plan_utf8 q" "digest_text p = digest_text q"
  shows "p\<lparr>plan_Digest := []\<rparr> = q\<lparr>plan_Digest := []\<rparr>"
proof -
  have "plan_utf8 (r\<lparr>plan_Digest := []\<rparr>)" if "plan_utf8 r" for r
    using that by (auto simp: plan_utf8_def plan_json_def valid_utf8.simps [of "[]"])
  with assms show ?thesis
    using print_json_inject plan_json_inject by (auto simp: plan_utf8_def digest_text_def)
qed

lemma ComputeDigest_collision:
  assumes "ComputeDigest c p = ComputeDigest c q"
  shows "sha256 c (digest_text p) = sha256 c (digest_text q)"
  using assms by (simp add: ComputeDigest_def digest_text_def hex_encode_inject)

end
