(* ===== verification/Rollout_State.thy ===== *)
theory Rollout_State
  imports Rollout_Plan
begin

text \<open>
  Rollout operations, \<^verbatim>\<open>internal/rollout/state.go\<close>: the statuses of an operation and of its
  actions, and the validation that stands before every save and after every load.
\<close>

definition OperationVersion :: int where "OperationVersion = 1"

datatype operation_status =
    StatusDraft | StatusPrepared | StatusPlanned | StatusConfirmed | StatusWriting
  | StatusRetryable | StatusReconciliation | StatusWritten | StatusVerifying | StatusReady
  | StatusLimited | StatusPromoted | StatusRolledBack | StatusFailed | Status_Other string

datatype action_status =
    ActionPending | ActionInFlight | ActionCommitted | ActionVerified | ActionLimited
  | Action_Other string

record operation_action =
  oa_Action :: action
  oa_Status :: action_status
  oa_Attempts :: int
  oa_WriteKey :: string
  oa_LastAttemptAt :: string
  oa_WriteEvidence :: "write_evidence option"
  oa_VerifyEvidence :: "verify_evidence option"
  oa_LastError :: "provider_error option"

record operation =
  op_Version :: int
  op_ID :: string
  op_PlanID :: string
  op_PlanDigest :: string
  op_Bundle :: string
  op_ManifestDigest :: string
  op_SnapshotRevision :: int
  op_Provider :: string
  op_ProviderIdentity :: string
  op_ProviderRevision :: string
  op_Target :: target_binding
  op_Status :: operation_status
  op_Actions :: "operation_action list"
  op_CreatedAt :: string
  op_UpdatedAt :: string
  op_DeploymentID :: string
  op_DeployedVersion :: string
  op_PromotedAt :: string
  op_RollbackID :: string
  op_RolledBackAt :: string

fun validOperationStatus :: "operation_status \<Rightarrow> bool" where
  "validOperationStatus (Status_Other _) = False"
| "validOperationStatus _ = True"

fun validActionStatus :: "action_status \<Rightarrow> bool" where
  "validActionStatus (Action_Other _) = False"
| "validActionStatus _ = True"

definition canonicalTime :: "string \<Rightarrow> int option" where
  "canonicalTime value = parse_canonical value"

definition operation_identity :: "operation \<Rightarrow> bool" where
  "operation_identity op \<longleftrightarrow>
     op_Version op = OperationVersion \<and> op_ID op \<noteq> [] \<and> op_PlanID op \<noteq> [] \<and>
     op_PlanDigest op = op_PlanID op \<and> digest_pattern (op_PlanDigest op) \<and>
     op_Bundle op \<noteq> [] \<and> digest_pattern (op_ManifestDigest op) \<and>
     1 \<le> op_SnapshotRevision op \<and> op_Provider op \<noteq> [] \<and> op_ProviderIdentity op \<noteq> []"

definition deployment_evidence :: "operation \<Rightarrow> bool" where
  "deployment_evidence op \<longleftrightarrow>
     (op_DeploymentID op \<noteq> [] \<longrightarrow> evidence_pattern (op_DeploymentID op)) \<and>
     (op_DeployedVersion op \<noteq> [] \<longrightarrow> evidence_pattern (op_DeployedVersion op)) \<and>
     (op_RollbackID op \<noteq> [] \<longrightarrow> evidence_pattern (op_RollbackID op))"

definition deployment_complete :: "operation \<Rightarrow> bool" where
  "deployment_complete op \<longleftrightarrow>
     (op_Status op = StatusPromoted \<longrightarrow>
        op_DeploymentID op \<noteq> [] \<and> op_DeployedVersion op \<noteq> [] \<and> op_PromotedAt op \<noteq> []) \<and>
     (op_Status op = StatusRolledBack \<longrightarrow> op_RollbackID op \<noteq> [] \<and> op_RolledBackAt op \<noteq> [])"

definition operation_header :: "operation \<Rightarrow> string option" where
  "operation_header op =
     (if \<not> operation_identity op then Some ''rollout operation identity is invalid''
      else if op_ProviderRevision op \<noteq> [] \<and> \<not> evidence_pattern (op_ProviderRevision op) then
        Some ''rollout operation provider revision is invalid''
      else if \<not> deployment_evidence op then
        Some ''rollout operation deployment evidence is invalid''
      else if op_PromotedAt op \<noteq> [] \<and> canonicalTime (op_PromotedAt op) = None then
        Some ''rollout operation promotion time is invalid''
      else if op_RolledBackAt op \<noteq> [] \<and> canonicalTime (op_RolledBackAt op) = None then
        Some ''rollout operation rollback time is invalid''
      else if \<not> deployment_complete op then
        Some ''rollout operation deployment evidence is incomplete''
      else if \<not> validOperationStatus (op_Status op) \<or> op_Actions op = [] \<or>
              length (op_Actions op) > MaxActions then
        Some ''rollout operation status is invalid''
      else if tb_ProjectID (op_Target op) = [] \<or> tb_EnvironmentID (op_Target op) = [] \<or>
              tb_ServiceIDs (op_Target op) = None then
        Some ''rollout operation target binding is incomplete''
      else (case canonicalTime (op_CreatedAt op) of
          None \<Rightarrow> Some ''rollout operation creation time is invalid''
        | Some created \<Rightarrow>
            (case canonicalTime (op_UpdatedAt op) of
                None \<Rightarrow> Some ''rollout operation update time is invalid''
              | Some updated \<Rightarrow>
                  if updated < created then Some ''rollout operation update time is invalid''
                  else None)))"

definition done_status :: "action_status \<Rightarrow> bool" where
  "done_status s \<longleftrightarrow> s = ActionVerified \<or> s = ActionLimited"

definition committed_status :: "action_status \<Rightarrow> bool" where
  "committed_status s \<longleftrightarrow> s = ActionCommitted \<or> s = ActionVerified \<or> s = ActionLimited"

text \<open>The checks of one action after the one on duplicates.\<close>

definition validate_item :: "nat \<Rightarrow> target_binding \<Rightarrow> operation_action \<Rightarrow> string option" where
  "validate_item i t item =
     (if validateAction i (oa_Action item) t \<noteq> None then
        Some (at_index ''rollout operation action'' i ''does not match its target'')
      else if act_ID (oa_Action item) = [] \<or> \<not> digest_pattern (oa_WriteKey item) \<or>
              \<not> validActionStatus (oa_Status item) \<or> oa_Attempts item < 0 then
        Some (at_index ''rollout operation action'' i ''is invalid'')
      else if (case oa_LastError item of None \<Rightarrow> False | Some err \<Rightarrow> error_Validate err \<noteq> None) then
        Some (at_index ''rollout operation action'' i ''error is invalid'')
      else if oa_LastAttemptAt item \<noteq> [] \<and>
              (canonicalTime (oa_LastAttemptAt item) = None \<or> oa_Attempts item = 0) then
        Some (at_index ''rollout operation action'' i ''attempt is invalid'')
      else if oa_Status item = ActionPending \<and> oa_WriteEvidence item \<noteq> None \<or>
              done_status (oa_Status item) \<and> oa_VerifyEvidence item = None \<or>
              committed_status (oa_Status item) \<and> oa_WriteEvidence item = None then
        Some (at_index ''rollout operation action'' i ''evidence is invalid'')
      else if (case oa_WriteEvidence item of None \<Rightarrow> False
               | Some e \<Rightarrow> write_evidence_Validate e \<noteq> None) then
        Some (at_index ''rollout operation action'' i ''write evidence is invalid'')
      else if (case oa_VerifyEvidence item of None \<Rightarrow> False
               | Some e \<Rightarrow> verify_evidence_Validate e \<noteq> None \<or>
                   oa_Status item = ActionVerified \<and> ev_Result e \<noteq> VerificationVerified \<or>
                   oa_Status item = ActionLimited \<and> ev_Result e \<noteq> VerificationLimited) then
        Some (at_index ''rollout operation action'' i ''verification is invalid'')
      else None)"

fun validate_items ::
  "nat \<Rightarrow> string list \<Rightarrow> target_binding \<Rightarrow> operation_action list \<Rightarrow> string option" where
  "validate_items i seen t [] = None"
| "validate_items i seen t (item # items) =
     (if act_ID (oa_Action item) \<in> set seen then
        Some (at_index ''rollout operation action'' i ''is duplicated'')
      else (case validate_item i t item of
              Some err \<Rightarrow> Some err
            | None \<Rightarrow> validate_items (Suc i) (act_ID (oa_Action item) # seen) t items))"

definition terminal_status :: "operation_status \<Rightarrow> bool" where
  "terminal_status s \<longleftrightarrow> s = StatusReady \<or> s = StatusLimited \<or> s = StatusPromoted \<or> s = StatusRolledBack"

fun incomplete_action :: "nat \<Rightarrow> operation_action list \<Rightarrow> string option" where
  "incomplete_action i [] = None"
| "incomplete_action i (item # items) =
     (if \<not> done_status (oa_Status item) then
        Some (at_index ''terminal rollout operation action'' i ''is incomplete'')
      else incomplete_action (Suc i) items)"

definition limited_action :: "operation_action list \<Rightarrow> bool" where
  "limited_action items \<longleftrightarrow> list_ex (\<lambda>item. oa_Status item = ActionLimited) items"

definition validate_terminal :: "operation \<Rightarrow> string option" where
  "validate_terminal op =
     (if terminal_status (op_Status op) then
        (case incomplete_action 0 (op_Actions op) of
           Some err \<Rightarrow> Some err
         | None \<Rightarrow>
             if limited_action (op_Actions op) \<noteq> (op_Status op = StatusLimited) then
               Some ''terminal rollout operation status is inconsistent''
             else None)
      else None)"

definition operation_Validate :: "operation \<Rightarrow> string option" where
  "operation_Validate op =
     (case operation_header op of Some err \<Rightarrow> Some err | None \<Rightarrow>
      case validate_items 0 [] (op_Target op) (op_Actions op) of Some err \<Rightarrow> Some err | None \<Rightarrow>
      validate_terminal op)"

section \<open>What validation establishes\<close>

definition item_ok :: "target_binding \<Rightarrow> operation_action \<Rightarrow> bool" where
  "item_ok t item \<longleftrightarrow> (\<forall>i. validate_item i t item = None)"

lemma validate_item_ok: "validate_item i t item = None \<longleftrightarrow> item_ok t item"
  unfolding item_ok_def validate_item_def validateAction_ok by (auto split: if_splits)

lemma validate_items_None:
  "validate_items i seen t items = None \<longleftrightarrow>
     (\<forall>item \<in> set items. item_ok t item \<and> act_ID (oa_Action item) \<notin> set seen) \<and>
     distinct (map (act_ID \<circ> oa_Action) items)"
proof (induction items arbitrary: i seen)
  case Nil
  then show ?case by simp
next
  case (Cons item items)
  show ?case
  proof (cases "item_ok t item")
    case True
    then have "validate_item i t item = None" by (simp add: validate_item_ok)
    with True show ?thesis by (auto simp: Cons.IH not_image_iff)
  next
    case False
    then obtain err where "validate_item i t item = Some err"
      using validate_item_ok [of i t item] by auto
    with False show ?thesis by simp
  qed
qed

lemma incomplete_action_None:
  "incomplete_action i items = None \<longleftrightarrow> (\<forall>item \<in> set items. done_status (oa_Status item))"
  by (induction items arbitrary: i) auto

lemma item_okD:
  assumes "item_ok t item"
  shows "action_ok t (oa_Action item)" "digest_pattern (oa_WriteKey item)"
    "validActionStatus (oa_Status item)" "0 \<le> oa_Attempts item"
    "oa_Status item = ActionPending \<Longrightarrow> oa_WriteEvidence item = None"
    "committed_status (oa_Status item) \<Longrightarrow>
       \<exists>e. oa_WriteEvidence item = Some e \<and> write_evidence_Validate e = None"
    "oa_Status item = ActionVerified \<Longrightarrow>
       \<exists>e. oa_VerifyEvidence item = Some e \<and> ev_Result e = VerificationVerified"
  using assms
  by (auto simp: item_ok_def validate_item_def validateAction_ok done_status_def
      committed_status_def split: if_splits option.splits)

lemma operation_ValidateD:
  assumes "operation_Validate op = None"
  shows "operation_header op = None" "validate_terminal op = None"
    "\<And>item. item \<in> set (op_Actions op) \<Longrightarrow> item_ok (op_Target op) item"
    "distinct (map (act_ID \<circ> oa_Action) (op_Actions op))"
  using assms by (auto simp: operation_Validate_def validate_items_None split: option.splits)

text \<open>A terminal operation has every action proven, and says whether a proof is limited.\<close>

lemma terminal_operation:
  assumes "operation_Validate op = None" "terminal_status (op_Status op)" "item \<in> set (op_Actions op)"
  shows "\<exists>w v. oa_WriteEvidence item = Some w \<and> write_evidence_Validate w = None \<and>
      oa_VerifyEvidence item = Some v \<and> verify_evidence_Validate v = None \<and>
      (if op_Status op \<noteq> StatusLimited then ev_Result v = VerificationVerified
       else ev_Result v = VerificationVerified \<or> ev_Result v = VerificationLimited)"
proof -
  have t: "validate_terminal op = None" and i: "item_ok (op_Target op) item"
    using operation_ValidateD [OF assms(1)] assms(3) by blast+
  have d: "done_status (oa_Status item)"
    using t assms(2,3) by (auto simp: validate_terminal_def incomplete_action_None split: option.splits)
  have l: "op_Status op \<noteq> StatusLimited \<Longrightarrow> oa_Status item \<noteq> ActionLimited"
    using t assms(2,3)
    by (auto simp: validate_terminal_def limited_action_def list_ex_iff split: option.splits if_splits)
  from i d l show ?thesis
    by (auto simp: item_ok_def validate_item_def validateAction_ok done_status_def
        committed_status_def split: if_splits option.splits)
qed

end
