(* ===== verification/Bundle_Snapshot.thy ===== *)
theory Bundle_Snapshot
  imports Secure_Keys Provider Go_Json
begin

text \<open>
  Bundle snapshots, \<^verbatim>\<open>internal/bundle/snapshot.go\<close>, and the physical names of a bundle's
  records, \<^verbatim>\<open>PhysicalName\<close> of \<^verbatim>\<open>internal/bundle/prepare.go\<close>. A Go map is the list of its
  entries, in the order one iteration over it takes; \<open>None\<close> is the nil map.
\<close>

definition SnapshotVersion :: int where "SnapshotVersion = 1"

record source_status =
  ss_Source :: string
  ss_Status :: string
  ss_Sensitivity :: string

record snapshot =
  sn_Version :: int
  sn_Bundle :: string
  sn_ManifestDigest :: string
  PhysicalToLogical :: "string_map option"
  sn_Sources :: "(string \<times> source_status) list option"
  RecordRevisions :: "(string \<times> int) list option"
  PreviousRecordRevisions :: "(string \<times> int list) list"
  sn_CreatedAt :: string

text \<open>A read of a map of integers: 0 for a missing key.\<close>

definition lookup_int :: "(string \<times> int) list \<Rightarrow> string \<Rightarrow> int" where
  "lookup_int m k = (case map_of m k of None \<Rightarrow> 0 | Some v \<Rightarrow> v)"

definition record_revision :: "snapshot \<Rightarrow> string \<Rightarrow> int" where
  "record_revision sn name =
     (case RecordRevisions sn of None \<Rightarrow> 0 | Some m \<Rightarrow> lookup_int m name)"

section \<open>Validation\<close>

definition about :: "string \<Rightarrow> string \<Rightarrow> string \<Rightarrow> string" where
  "about before name after = before @ '' '' @ name @ '' '' @ after"

fun check_mapping :: "string list \<Rightarrow> string_map \<Rightarrow> string + string list" where
  "check_mapping logical [] = Inr logical"
| "check_mapping logical ((physical, name) # m) =
     (if physical = [] \<or> name = [] then Inl ''bundle snapshot record mapping is invalid''
      else if name \<in> set logical then
        Inl (about ''bundle snapshot logical record'' name ''is duplicated'')
      else check_mapping (name # logical) m)"

fun check_sources :: "string list \<Rightarrow> (string \<times> source_status) list \<Rightarrow> string option" where
  "check_sources logical [] = None"
| "check_sources logical ((name, status) # m) =
     (if name \<notin> set logical \<or> ss_Source status = [] \<or> ss_Status status = [] then
        Some (about ''bundle snapshot source'' name ''is invalid'')
      else check_sources logical m)"

fun check_revisions :: "string list \<Rightarrow> (string \<times> int) list \<Rightarrow> string option" where
  "check_revisions logical [] = None"
| "check_revisions logical ((name, revision) # m) =
     (if name \<notin> set logical \<or> revision < 1 then
        Some (about ''bundle snapshot record revision'' name ''is invalid'')
      else check_revisions logical m)"

fun check_previous_of :: "snapshot \<Rightarrow> string \<Rightarrow> int list \<Rightarrow> int list \<Rightarrow> string option" where
  "check_previous_of sn name seen [] = None"
| "check_previous_of sn name seen (revision # revisions) =
     (if revision < 1 \<or> revision = record_revision sn name then
        Some (about ''bundle snapshot previous record revision'' name ''is invalid'')
      else if revision \<in> set seen then
        Some (about ''bundle snapshot previous record revision'' name ''is duplicated'')
      else check_previous_of sn name (revision # seen) revisions)"

fun check_previous :: "snapshot \<Rightarrow> string list \<Rightarrow> (string \<times> int list) list \<Rightarrow> string option" where
  "check_previous sn logical [] = None"
| "check_previous sn logical ((name, revisions) # m) =
     (if name \<notin> set logical then
        Some (about ''bundle snapshot previous record revision'' name ''is invalid'')
      else (case check_previous_of sn name [] revisions of
              Some err \<Rightarrow> Some err | None \<Rightarrow> check_previous sn logical m))"

fun check_complete ::
  "(string \<times> source_status) list \<Rightarrow> (string \<times> int) list \<Rightarrow> string list \<Rightarrow> string option" where
  "check_complete sources revisions [] = None"
| "check_complete sources revisions (name # names) =
     (if name \<notin> fst ` set sources then Some (about ''bundle snapshot source'' name ''is missing'')
      else if name \<notin> fst ` set revisions then
        Some (about ''bundle snapshot record revision'' name ''is missing'')
      else check_complete sources revisions names)"

definition check_maps ::
  "snapshot \<Rightarrow> string_map \<Rightarrow> (string \<times> source_status) list \<Rightarrow> (string \<times> int) list \<Rightarrow> string option" where
  "check_maps sn physical sources revisions =
     (case check_mapping [] physical of
        Inl err \<Rightarrow> Some err
      | Inr logical \<Rightarrow>
          (case check_sources logical sources of Some err \<Rightarrow> Some err | None \<Rightarrow>
           case check_revisions logical revisions of Some err \<Rightarrow> Some err | None \<Rightarrow>
           case check_previous sn logical (PreviousRecordRevisions sn) of
             Some err \<Rightarrow> Some err | None \<Rightarrow>
           check_complete sources revisions logical))"

definition snapshot_Validate :: "snapshot \<Rightarrow> string option" where
  "snapshot_Validate sn =
     (if sn_Version sn \<noteq> SnapshotVersion then
        Some (''unsupported bundle snapshot version '' @ show_int (sn_Version sn))
      else if sn_Bundle sn = [] \<or> \<not> digest_pattern (sn_ManifestDigest sn) then
        Some ''bundle snapshot identity is invalid''
      else if parse_canonical (sn_CreatedAt sn) = None then
        Some ''bundle snapshot creation time is invalid''
      else (case (PhysicalToLogical sn, sn_Sources sn, RecordRevisions sn) of
          (Some physical, Some sources, Some revisions) \<Rightarrow>
            check_maps sn physical sources revisions
        | _ \<Rightarrow> Some ''bundle snapshot mappings are required''))"

text \<open>\<^verbatim>\<open>LogicalNames\<close>: the logical names in byte order.\<close>

definition LogicalNames :: "snapshot \<Rightarrow> string list" where
  "LogicalNames sn =
     sort_strings (case PhysicalToLogical sn of None \<Rightarrow> [] | Some m \<Rightarrow> map snd m)"

section \<open>Physical names\<close>

text \<open>\<^verbatim>\<open>base32.StdEncoding\<close> without padding: groups of five bits, the last filled with zeros.\<close>

definition byte_bits :: "char \<Rightarrow> bool list" where
  "byte_bits c = map (\<lambda>i. odd (byte c div 2 ^ i)) [7, 6, 5, 4, 3, 2, 1, 0]"

definition base32_char :: "bool list \<Rightarrow> char" where
  "base32_char bs =
     (let n = foldl (\<lambda>n b. 2 * n + (if b then 1 else 0)) 0 bs :: nat
      in if n < 26 then char_of (65 + n) else char_of (24 + n))"

function base32_bits :: "bool list \<Rightarrow> string" where
  "base32_bits bs =
     (if bs = [] then []
      else base32_char (take 5 (bs @ [False, False, False, False])) # base32_bits (drop 5 bs))"
  by pat_completeness auto
termination
  by (relation "measure length") auto

declare base32_bits.simps [simp del]

definition base32_encode :: "bytes \<Rightarrow> string" where
  "base32_encode bs = base32_bits (concat (map byte_bits bs))"

definition PhysicalName :: "'c crypto_scheme \<Rightarrow> string \<Rightarrow> string \<Rightarrow> string" where
  "PhysicalName c bundleID logicalName =
     ''ENVBANK_B1_'' @ base32_encode (sha256 c bundleID) @ ''_'' @ logicalName"

section \<open>What validation establishes\<close>

lemma check_mapping_Inr:
  "check_mapping logical m = Inr names \<longleftrightarrow>
     names = rev (map snd m) @ logical \<and> (\<forall>(p, n) \<in> set m. p \<noteq> [] \<and> n \<noteq> []) \<and>
     distinct (map snd m) \<and> set (map snd m) \<inter> set logical = {}"
  by (induction logical m rule: check_mapping.induct) auto

lemma check_sources_None:
  "check_sources logical m = None \<longleftrightarrow>
     (\<forall>(n, s) \<in> set m. n \<in> set logical \<and> ss_Source s \<noteq> [] \<and> ss_Status s \<noteq> [])"
  by (induction logical m rule: check_sources.induct) auto

lemma check_revisions_None:
  "check_revisions logical m = None \<longleftrightarrow> (\<forall>(n, r) \<in> set m. n \<in> set logical \<and> 1 \<le> r)"
  by (induction logical m rule: check_revisions.induct) auto

lemma check_previous_of_None:
  "check_previous_of sn name seen rs = None \<longleftrightarrow>
     (\<forall>r \<in> set rs. 1 \<le> r \<and> r \<noteq> record_revision sn name \<and> r \<notin> set seen) \<and> distinct rs"
  by (induction sn name seen rs rule: check_previous_of.induct) auto

lemma check_previous_None:
  "check_previous sn logical m = None \<longleftrightarrow>
     (\<forall>(n, rs) \<in> set m. n \<in> set logical \<and> (\<forall>r \<in> set rs. 1 \<le> r \<and> r \<noteq> record_revision sn n) \<and> distinct rs)"
proof (induction sn logical m rule: check_previous.induct)
  case (1 sn logical)
  then show ?case by simp
next
  case (2 sn logical name revisions m)
  then show ?case using check_previous_of_None [of sn name "[]" revisions]
    by (cases "check_previous_of sn name [] revisions") auto
qed

lemma check_complete_None:
  "check_complete sources revisions names = None \<longleftrightarrow>
     set names \<subseteq> fst ` set sources \<and> set names \<subseteq> fst ` set revisions"
  by (induction sources revisions names rule: check_complete.induct) auto

text \<open>
  A valid snapshot has exactly one source and one positive revision per logical record, and
  its history of a record neither repeats a revision nor holds the current one.
\<close>

lemma snapshot_ValidateD:
  assumes "snapshot_Validate sn = None"
  obtains physical sources revisions
  where "PhysicalToLogical sn = Some physical" "sn_Sources sn = Some sources"
    "RecordRevisions sn = Some revisions" "distinct (map snd physical)"
    "fst ` set sources = snd ` set physical" "fst ` set revisions = snd ` set physical"
    "\<And>n r. (n, r) \<in> set revisions \<Longrightarrow> 1 \<le> r"
    "\<And>n rs. (n, rs) \<in> set (PreviousRecordRevisions sn) \<Longrightarrow>
       n \<in> snd ` set physical \<and> distinct rs \<and> (\<forall>r \<in> set rs. 1 \<le> r \<and> r \<noteq> record_revision sn n)"
proof -
  have "(case (PhysicalToLogical sn, sn_Sources sn, RecordRevisions sn) of
      (Some physical, Some sources, Some revisions) \<Rightarrow> check_maps sn physical sources revisions
    | _ \<Rightarrow> Some ''bundle snapshot mappings are required'') = None"
    using assms unfolding snapshot_Validate_def by (simp only: split: if_split_asm) simp_all
  then obtain physical sources revisions
    where some: "PhysicalToLogical sn = Some physical" "sn_Sources sn = Some sources"
      "RecordRevisions sn = Some revisions" and c: "check_maps sn physical sources revisions = None"
    by (simp split: option.split_asm)
  obtain logical where m1: "check_mapping [] physical = Inr logical"
    using c by (cases "check_mapping [] physical") (simp_all add: check_maps_def)
  have m: "check_sources logical sources = None" "check_revisions logical revisions = None"
      "check_previous sn logical (PreviousRecordRevisions sn) = None"
      "check_complete sources revisions logical = None"
    using c by (auto simp: check_maps_def m1 split: option.split_asm)
  have l: "set logical = snd ` set physical" and d: "distinct (map snd physical)"
    using m1 by (auto simp: check_mapping_Inr)
  have "fst ` set sources \<subseteq> set logical" "fst ` set revisions \<subseteq> set logical"
    using m(1,2) unfolding check_sources_None check_revisions_None by auto
  moreover have "set logical \<subseteq> fst ` set sources" "set logical \<subseteq> fst ` set revisions"
    using m(4) unfolding check_complete_None by auto
  ultimately have sets: "fst ` set sources = snd ` set physical" "fst ` set revisions = snd ` set physical"
    using l by auto
  have pos: "1 \<le> r" if "(n, r) \<in> set revisions" for n r
    using m(2) that by (auto simp: check_revisions_None)
  have prev: "n \<in> snd ` set physical \<and> distinct rs \<and> (\<forall>r \<in> set rs. 1 \<le> r \<and> r \<noteq> record_revision sn n)"
    if "(n, rs) \<in> set (PreviousRecordRevisions sn)" for n rs
    using m(3) l that by (auto simp: check_previous_None)
  show ?thesis by (rule that [OF some d sets pos prev])
qed

end
