(* ===== verification/Rollout_Store.thy ===== *)
theory Rollout_Store
  imports Rollout_State Bundle_Snapshot
begin

text \<open>
  \<^verbatim>\<open>EncryptedStore\<close> of \<^verbatim>\<open>internal/rollout/store.go\<close> and the world a rollout runs in.

  The world holds the plans and operations the vault stores under their keys with their sync
  revisions, a step counter, and the history of effects, latest first. A vault object keeps
  the value it was given: encryption and the JSON of payloads are left out, and an object that
  cannot be read is a failure. The outside is a \<open>rollout_env\<close> indexed by the step counter:
  \<open>fault\<close> says which request to the vault fails, \<open>lost_reply\<close> which write is performed although
  its answer is lost, \<open>vault_snapshot\<close> and \<open>vault_records\<close> what the vault holds besides, and
  the \<open>ad_\<close> fields what the adapter answers. Results hold for every environment.
\<close>

record secret_record =
  sr_Name :: string
  sr_Value :: bytes
  sr_CreatedAt :: string
  sr_RotatedAt :: string
  sr_RotateEveryDays :: int
  sr_Revision :: int
  sr_AllowedOrigins :: "string list"

record confirmation =
  cf_Kind :: string
  cf_Provider :: string
  cf_Bundle :: string
  ActionCount :: nat
  Destructive :: bool

datatype effect =
    Plan_Saved provider_plan
  | Confirmed confirmation
  | Saved operation
  | Wrote write_request
  | Staged "write_request list"
  | Verify_Asked verify_request

record rollout_world =
  saved_plans :: "string \<Rightarrow> (provider_plan \<times> int) option"
  saved_operations :: "string \<Rightarrow> (operation \<times> int) option"
  rtick :: nat
  effects :: "effect list"

record rollout_env = crypto +
  unlocked :: bool
  lost_reply :: "nat \<Rightarrow> bool"
  vault_snapshot :: "nat \<Rightarrow> string \<Rightarrow> (snapshot option \<times> int) option"
  vault_records :: "nat \<Rightarrow> secret_record list option"
  ad_atomic :: bool
  ad_Capabilities :: "nat \<Rightarrow> capabilities"
  ad_Identity :: "nat \<Rightarrow> adapter_error + identity"
  ad_Inspect :: "nat \<Rightarrow> target \<Rightarrow> adapter_error + metadata_state"
  ad_Write :: "nat \<Rightarrow> write_request \<Rightarrow> adapter_error + write_evidence"
  ad_Stage :: "nat \<Rightarrow> write_request list \<Rightarrow> adapter_error + write_evidence"
  ad_Verify :: "nat \<Rightarrow> verify_request \<Rightarrow> adapter_error + verify_evidence"

datatype rollout_error =
    Message string
  | Provider_Error provider_error
  | Storage_Error
  | Wrapped string rollout_error
  | ErrReconciliationRequired

type_synonym 'a rollout = "(rollout_world, 'a) state"

section \<open>Primitive steps\<close>

text \<open>A question to the outside.\<close>

definition ask :: "(nat \<Rightarrow> 'a) \<Rightarrow> 'a rollout" where
  "ask f = State (\<lambda>s. (f (rtick s), s\<lparr>rtick := Suc (rtick s)\<rparr>))"

text \<open>A call to the adapter that may change the provider: it is recorded, then answered.\<close>

definition call :: "effect \<Rightarrow> (nat \<Rightarrow> 'a) \<Rightarrow> 'a rollout" where
  "call ef f = State (\<lambda>s. (f (rtick s), s\<lparr>rtick := Suc (rtick s), effects := ef # effects s\<rparr>))"

definition MaxKeyBytes :: nat where "MaxKeyBytes = 512"

definition key_ok :: "string \<Rightarrow> bool" where
  "key_ok key \<longleftrightarrow> key \<noteq> [] \<and> length key \<le> MaxKeyBytes"

definition revision_of :: "('a \<times> int) option \<Rightarrow> int" where
  "revision_of r = (case r of None \<Rightarrow> 0 | Some (_, n) \<Rightarrow> n)"

text \<open>
  \<^verbatim>\<open>API.PutObject\<close>: refused for an unusable key, by the vault for a revision that is not the
  current one, or by a failure; else the object gets the next revision.
\<close>

definition put_plan :: "'o rollout_env_scheme \<Rightarrow> provider_plan \<Rightarrow> int \<Rightarrow> (rollout_error + int) rollout" where
  "put_plan e plan expected = State (\<lambda>s.
     let s' = s\<lparr>rtick := Suc (rtick s)\<rparr>; key = plan_ID plan in
     if fault e (rtick s) \<or> \<not> key_ok key \<or> revision_of (saved_plans s key) \<noteq> expected
     then (Inl Storage_Error, s')
     else (if lost_reply e (rtick s) then Inl Storage_Error else Inr (expected + 1),
           s'\<lparr>saved_plans := (saved_plans s)(key \<mapsto> (plan, expected + 1)),
              effects := Plan_Saved plan # effects s\<rparr>))"

definition put_operation :: "'o rollout_env_scheme \<Rightarrow> operation \<Rightarrow> int \<Rightarrow> (rollout_error + int) rollout" where
  "put_operation e op expected = State (\<lambda>s.
     let s' = s\<lparr>rtick := Suc (rtick s)\<rparr>; key = op_ID op in
     if fault e (rtick s) \<or> \<not> key_ok key \<or> revision_of (saved_operations s key) \<noteq> expected
     then (Inl Storage_Error, s')
     else (if lost_reply e (rtick s) then Inl Storage_Error else Inr (expected + 1),
           s'\<lparr>saved_operations := (saved_operations s)(key \<mapsto> (op, expected + 1)),
              effects := Saved op # effects s\<rparr>))"

definition get_plan :: "'o rollout_env_scheme \<Rightarrow> string \<Rightarrow> (provider_plan \<times> int) option rollout" where
  "get_plan e key = State (\<lambda>s.
     (if fault e (rtick s) then None else saved_plans s key, s\<lparr>rtick := Suc (rtick s)\<rparr>))"

definition get_operation :: "'o rollout_env_scheme \<Rightarrow> string \<Rightarrow> (operation \<times> int) option rollout" where
  "get_operation e key = State (\<lambda>s.
     (if fault e (rtick s) then None else saved_operations s key, s\<lparr>rtick := Suc (rtick s)\<rparr>))"

section \<open>The store\<close>

definition store_ready :: "'o rollout_env_scheme \<Rightarrow> rollout_error option" where
  "store_ready e = (if unlocked e then None else Some (Message ''rollout store is not unlocked''))"

text \<open>The plan is valid at the time it was created.\<close>

definition valid_when_created :: "'c crypto_scheme \<Rightarrow> provider_plan \<Rightarrow> bool" where
  "valid_when_created c plan \<longleftrightarrow>
     (case parse_canonical (plan_CreatedAt plan) of
        None \<Rightarrow> False
      | Some created \<Rightarrow> plan_Validate c plan (created * second) = None)"

definition SavePlan :: "'o rollout_env_scheme \<Rightarrow> provider_plan \<Rightarrow> int \<Rightarrow> (rollout_error + int) rollout" where
  "SavePlan e plan expected =
     (case store_ready e of Some err \<Rightarrow> State_Monad.return (Inl err) | None \<Rightarrow>
      if \<not> valid_when_created e plan
      then State_Monad.return (Inl (Message ''provider plan is invalid''))
      else put_plan e plan expected)"

definition LoadPlan :: "'o rollout_env_scheme \<Rightarrow> string \<Rightarrow> (rollout_error + provider_plan \<times> int) rollout" where
  "LoadPlan e ident =
     (case store_ready e of Some err \<Rightarrow> State_Monad.return (Inl err) | None \<Rightarrow> do {
        r \<leftarrow> get_plan e ident;
        case r of
          None \<Rightarrow> State_Monad.return (Inl Storage_Error)
        | Some (plan, revision) \<Rightarrow>
            if plan_ID plan \<noteq> ident \<or> \<not> valid_when_created e plan
            then State_Monad.return (Inl (Message ''encrypted provider plan is invalid''))
            else State_Monad.return (Inr (plan, revision)) })"

definition SaveOperation :: "'o rollout_env_scheme \<Rightarrow> operation \<Rightarrow> int \<Rightarrow> (rollout_error + int) rollout" where
  "SaveOperation e op expected =
     (case store_ready e of Some err \<Rightarrow> State_Monad.return (Inl err) | None \<Rightarrow>
      case operation_Validate op of
        Some err \<Rightarrow> State_Monad.return (Inl (Message err))
      | None \<Rightarrow> put_operation e op expected)"

definition LoadOperation :: "'o rollout_env_scheme \<Rightarrow> string \<Rightarrow> (rollout_error + operation \<times> int) rollout" where
  "LoadOperation e ident =
     (case store_ready e of Some err \<Rightarrow> State_Monad.return (Inl err) | None \<Rightarrow> do {
        r \<leftarrow> get_operation e ident;
        case r of
          None \<Rightarrow> State_Monad.return (Inl Storage_Error)
        | Some (op, revision) \<Rightarrow>
            if op_ID op \<noteq> ident \<or> operation_Validate op \<noteq> None
            then State_Monad.return (Inl (Message ''encrypted rollout operation is invalid''))
            else State_Monad.return (Inr (op, revision)) })"

section \<open>Snapshot bindings\<close>

definition is_stale :: "string \<Rightarrow> rollout_error" where
  "is_stale name = Message (''provider plan record '' @ name @ '' is stale'')"

definition current_revisions :: "secret_record list \<Rightarrow> string \<Rightarrow> int" where
  "current_revisions records name =
     lookup_int (rev (map (\<lambda>r. (sr_Name r, sr_Revision r)) records)) name"

text \<open>The record names with their expected revisions, in the order the checks visit them.\<close>

definition bound_records :: "provider_plan \<Rightarrow> (string \<times> int) list" where
  "bound_records plan =
     filter (\<lambda>b. fst b \<noteq> [])
       (map (\<lambda>a. (act_Record a, act_ExpectedRecordRevision a)) (plan_Actions plan) @
        map (\<lambda>n. (pn_Record n, pn_ExpectedRecordRevision n)) (plan_Names plan))"

definition validateSnapshotBindings ::
  "'c crypto_scheme \<Rightarrow> provider_plan \<Rightarrow> int \<Rightarrow> snapshot \<Rightarrow> secret_record list \<Rightarrow> rollout_error option" where
  "validateSnapshotBindings c plan objectRevision sn records =
     (if objectRevision \<noteq> plan_SnapshotRevision plan \<or> sn_Bundle sn \<noteq> plan_Bundle plan \<or>
         sn_ManifestDigest sn \<noteq> plan_ManifestDigest plan
      then Some (Message ''provider plan does not match the current bundle snapshot'')
      else case find (\<lambda>(name, expected). record_revision sn name \<noteq> expected) (bound_records plan) of
        Some (name, _) \<Rightarrow> Some (is_stale name)
      | None \<Rightarrow>
          (case find (\<lambda>(name, expected).
               current_revisions records (PhysicalName c (plan_Bundle plan) name) \<noteq> expected)
             (bound_records plan) of
             Some (name, _) \<Rightarrow> Some (is_stale name)
           | None \<Rightarrow> None))"

definition ValidateSnapshot :: "'o rollout_env_scheme \<Rightarrow> provider_plan \<Rightarrow> rollout_error option rollout" where
  "ValidateSnapshot e plan =
     (case store_ready e of Some err \<Rightarrow> State_Monad.return (Some err) | None \<Rightarrow> do {
        object \<leftarrow> ask (\<lambda>t. vault_snapshot e t (plan_Bundle plan));
        case object of
          None \<Rightarrow> State_Monad.return (Some Storage_Error)
        | Some (payload, revision) \<Rightarrow>
            (case payload of
               None \<Rightarrow> State_Monad.return (Some (Message ''encrypted bundle snapshot is invalid''))
             | Some sn \<Rightarrow>
                 if snapshot_Validate sn \<noteq> None
                 then State_Monad.return (Some (Message ''encrypted bundle snapshot is invalid''))
                 else do {
                   records \<leftarrow> ask (vault_records e);
                   State_Monad.return (case records of
                     None \<Rightarrow> Some Storage_Error
                   | Some rs \<Rightarrow> validateSnapshotBindings e plan revision sn rs) }) })"

definition LoadRecord ::
  "'o rollout_env_scheme \<Rightarrow> string \<Rightarrow> string \<Rightarrow> int \<Rightarrow> (rollout_error + bytes) rollout" where
  "LoadRecord e bundleID logical expected =
     (case store_ready e of Some err \<Rightarrow> State_Monad.return (Inl err) | None \<Rightarrow> do {
        records \<leftarrow> ask (vault_records e);
        State_Monad.return (case records of
          None \<Rightarrow> Inl Storage_Error
        | Some rs \<Rightarrow>
            (case find (\<lambda>r. sr_Name r = PhysicalName e bundleID logical) rs of
               None \<Rightarrow> Inl (Message (''provider plan record '' @ logical @ '' is missing''))
             | Some r \<Rightarrow> if sr_Revision r \<noteq> expected then Inl (is_stale logical)
                         else Inr (sr_Value r))) })"

end
