(* ===== verification/Rollout_Engine.thy ===== *)
theory Rollout_Engine
  imports Rollout_Store
begin

text \<open>
  The rollout engine, \<^verbatim>\<open>internal/rollout/engine.go\<close>: planning, applying and resuming. The
  functions follow the code step by step; a result \<open>(op, Some err)\<close> is the pair Go returns
  together with an error. A program that stops early returns \<open>Inl\<close>, one that goes on \<open>Inr\<close>.
\<close>

record plan_input =
  in_Bundle :: string
  in_ManifestDigest :: string
  in_SnapshotRevision :: int
  in_Target :: target_binding
  in_Kind :: string
  in_Names :: "planned_name list"
  in_Actions :: "action list"

section \<open>Pure helpers\<close>

definition cloneStrings :: "string_map option \<Rightarrow> string_map option" where
  "cloneStrings m = Some (case m of None \<Rightarrow> [] | Some kvs \<Rightarrow> kvs)"

definition cloneBinding :: "target_binding \<Rightarrow> target_binding" where
  "cloneBinding b = b\<lparr>tb_ServiceIDs := cloneStrings (tb_ServiceIDs b)\<rparr>"

definition providerTarget :: "target_binding \<Rightarrow> target" where
  "providerTarget b = \<lparr>ProjectID = tb_ProjectID b, EnvironmentID = tb_EnvironmentID b,
     ServiceIDs = cloneStrings (tb_ServiceIDs b)\<rparr>"

definition entries :: "string_map option \<Rightarrow> string_map" where
  "entries m = (case m of None \<Rightarrow> [] | Some kvs \<Rightarrow> kvs)"

definition sameStrings :: "string_map option \<Rightarrow> string_map option \<Rightarrow> bool" where
  "sameStrings left right \<longleftrightarrow>
     length (entries left) = length (entries right) \<and>
     list_all (\<lambda>(k, v). lookup_string (entries right) k = v) (entries left)"

definition sameProviderTarget :: "target \<Rightarrow> target \<Rightarrow> bool" where
  "sameProviderTarget left right \<longleftrightarrow> ProjectID left = ProjectID right \<and>
     EnvironmentID left = EnvironmentID right \<and> sameStrings (ServiceIDs left) (ServiceIDs right)"

definition sameBinding :: "target_binding \<Rightarrow> target_binding \<Rightarrow> bool" where
  "sameBinding left right \<longleftrightarrow> tb_ProjectID left = tb_ProjectID right \<and>
     tb_EnvironmentID left = tb_EnvironmentID right \<and>
     sameStrings (tb_ServiceIDs left) (tb_ServiceIDs right)"

definition action_supported :: "capabilities \<Rightarrow> action \<Rightarrow> bool" where
  "action_supported caps a =
     (if act_Operation a = ''create'' then can_Create caps
      else if act_Operation a = ''update'' then can_Update caps
      else if act_Operation a = ''upsert'' then can_Create caps \<and> can_Update caps
      else if act_Operation a = ''revoke'' then can_Revoke caps
      else False)"

definition actionsSupported :: "action list \<Rightarrow> capabilities \<Rightarrow> rollout_error option" where
  "actionsSupported as caps =
     (case find (\<lambda>a. \<not> action_supported caps a) as of
        None \<Rightarrow> None
      | Some a \<Rightarrow> Some (Message (''provider does not support action '' @ act_ID a)))"

definition retriableWrite :: "capabilities \<Rightarrow> bool" where
  "retriableWrite caps \<longleftrightarrow> SupportsIdempotencyKey caps \<or> SupportsIdempotentWrite caps"

definition operationMatchesPlan :: "operation \<Rightarrow> provider_plan \<Rightarrow> bool" where
  "operationMatchesPlan op plan \<longleftrightarrow>
     op_PlanDigest op = plan_Digest plan \<and> op_Bundle op = plan_Bundle plan \<and>
     op_ManifestDigest op = plan_ManifestDigest plan \<and>
     op_SnapshotRevision op = plan_SnapshotRevision plan \<and>
     op_Provider op = plan_Provider plan \<and> op_ProviderIdentity op = plan_ProviderIdentity plan \<and>
     op_ProviderRevision op = plan_ProviderRevision plan \<and>
     sameBinding (op_Target op) (plan_Target plan) \<and>
     map oa_Action (op_Actions op) = plan_Actions plan"

definition destructiveCount :: "action list \<Rightarrow> nat" where
  "destructiveCount as = length (filter (\<lambda>a. act_Operation a = ''revoke'') as)"

definition hasDestructive :: "action list \<Rightarrow> bool" where
  "hasDestructive as \<longleftrightarrow> destructiveCount as \<noteq> 0"

definition lookup_variable :: "metadata_state \<Rightarrow> string \<Rightarrow> string \<Rightarrow> variable_metadata option" where
  "lookup_variable md service name =
     (case map_of (md_Variables md) service of None \<Rightarrow> None | Some vs \<Rightarrow> map_of vs name)"

text \<open>\<open>None\<close>: the outcome cannot be told from the metadata and the item is unchanged.\<close>

definition reconcileAction :: "operation_action \<Rightarrow> metadata_state \<Rightarrow> string \<Rightarrow> operation_action option" where
  "reconcileAction item md now =
     (let a = oa_Action item;
          variable = (case lookup_variable md (act_Service a) (act_Name a) of
             None \<Rightarrow> \<lparr>vm_Presence = PresenceUnknown, LastWriteKey = []\<rparr> | Some v \<Rightarrow> v);
          blank = \<lparr>ProviderOperationID = [], CommittedAt = []\<rparr> in
      if LastWriteKey variable \<noteq> [] \<and> LastWriteKey variable = oa_WriteKey item then
        Some (item\<lparr>oa_Status := ActionCommitted, oa_WriteEvidence :=
          Some ((case oa_WriteEvidence item of None \<Rightarrow> blank | Some w \<Rightarrow> w)\<lparr>CommittedAt := now\<rparr>)\<rparr>)
      else if act_Operation a = ''revoke'' \<and> vm_Presence variable = PresenceAbsent then
        Some (item\<lparr>oa_Status := ActionCommitted, oa_WriteEvidence := Some (blank\<lparr>CommittedAt := now\<rparr>)\<rparr>)
      else if act_Operation a \<noteq> ''revoke'' \<and> vm_Presence variable = PresenceAbsent then
        Some (item\<lparr>oa_Status := ActionPending\<rparr>)
      else None)"

text \<open>\<^verbatim>\<open>StableActionOrder\<close>: a stable sort by service, then name.\<close>

definition action_less :: "action \<Rightarrow> action \<Rightarrow> bool" where
  "action_less a b =
     (if act_Service a = act_Service b then less_string (act_Name a) (act_Name b)
      else less_string (act_Service a) (act_Service b))"

fun insert_action :: "action \<Rightarrow> action list \<Rightarrow> action list" where
  "insert_action x [] = [x]"
| "insert_action x (y # ys) = (if action_less y x then y # insert_action x ys else x # y # ys)"

definition StableActionOrder :: "action list \<Rightarrow> action list" where
  "StableActionOrder as = foldr insert_action as []"

section \<open>The engine's clock and confirmations\<close>

definition now_seconds :: "'o rollout_env_scheme \<Rightarrow> int rollout" where
  "now_seconds e = ask (\<lambda>t. to_secs (clock e t))"

definition nowString :: "'o rollout_env_scheme \<Rightarrow> string rollout" where
  "nowString e = ask (\<lambda>t. format_rfc3339 (to_secs (clock e t)))"

text \<open>An accepted confirmation is recorded.\<close>

definition ask_confirm :: "(nat \<Rightarrow> confirmation \<Rightarrow> bool) \<Rightarrow> confirmation \<Rightarrow> bool rollout" where
  "ask_confirm f cf = State (\<lambda>s. (f (rtick s) cf,
     s\<lparr>rtick := Suc (rtick s),
       effects := (if f (rtick s) cf then Confirmed cf # effects s else effects s)\<rparr>))"

section \<open>Planning\<close>

text \<open>The state of a name in a plan of kind \<open>binding-names\<close>.\<close>

definition observe_name :: "metadata_state \<Rightarrow> planned_name \<Rightarrow> planned_name" where
  "observe_name md n =
     (case lookup_variable md (pn_Service n) (pn_Name n) of
        Some v \<Rightarrow> n\<lparr>pn_State := if vm_Presence v = PresencePresent then ''present'' else ''absent''\<rparr>
      | None \<Rightarrow> n\<lparr>pn_State := ''absent''\<rparr>)"

definition build_plan ::
  "'c crypto_scheme \<Rightarrow> plan_input \<Rightarrow> planned_name list \<Rightarrow> identity \<Rightarrow> metadata_state \<Rightarrow> int \<Rightarrow> provider_plan" where
  "build_plan c input names ident md now =
     (let plan = \<lparr>plan_Version = PlanVersion, plan_Bundle = in_Bundle input,
        plan_ManifestDigest = in_ManifestDigest input,
        plan_SnapshotRevision = in_SnapshotRevision input, plan_Provider = id_Provider ident,
        plan_ProviderIdentity = id_ID ident, plan_ProviderRevision = md_Revision md,
        plan_Target = cloneBinding (in_Target input), plan_Kind = in_Kind input,
        plan_Names = names, plan_Actions = in_Actions input,
        plan_CreatedAt = format_rfc3339 now, plan_ExpiresAt = format_rfc3339 (now + PlanTTL),
        plan_Digest = []\<rparr>
      in plan\<lparr>plan_Digest := ComputeDigest c plan\<rparr>)"

definition finish_plan ::
  "'o rollout_env_scheme \<Rightarrow> provider_plan \<Rightarrow> int \<Rightarrow> (rollout_error + provider_plan) rollout" where
  "finish_plan e plan now =
     (case plan_Validate e plan (now * second) of
        Some err \<Rightarrow> State_Monad.return (Inl (Message err))
      | None \<Rightarrow> do {
          err \<leftarrow> ValidateSnapshot e plan;
          case err of
            Some x \<Rightarrow> State_Monad.return (Inl x)
          | None \<Rightarrow> do {
              saved \<leftarrow> SavePlan e plan 0;
              case saved of
                Inl x \<Rightarrow> State_Monad.return (Inl (Wrapped ''save encrypted provider plan'' x))
              | Inr _ \<Rightarrow> State_Monad.return (Inr plan) } })"

definition Plan :: "'o rollout_env_scheme \<Rightarrow> plan_input \<Rightarrow> (rollout_error + provider_plan) rollout" where
  "Plan e input = do {
     caps \<leftarrow> ask (ad_Capabilities e);
     if \<not> can_ReadMetadata caps
     then State_Monad.return (Inl (Message ''provider does not support metadata inspection''))
     else do {
       ident \<leftarrow> ask (ad_Identity e);
       case ident of
         Inl err \<Rightarrow> State_Monad.return (Inl (Provider_Error (SanitizeError ''identity'' err)))
       | Inr ident \<Rightarrow>
           if id_Provider ident = [] \<or> id_ID ident = []
           then State_Monad.return (Inl (Message ''provider returned an invalid identity''))
           else do {
             md \<leftarrow> ask (\<lambda>t. ad_Inspect e t (providerTarget (in_Target input)));
             case md of
               Inl err \<Rightarrow> State_Monad.return (Inl (Provider_Error (SanitizeError ''inspect'' err)))
             | Inr md \<Rightarrow>
                 if \<not> sameProviderTarget (md_Target md) (providerTarget (in_Target input))
                 then State_Monad.return (Inl (Message
                   ''provider target identity does not match the requested binding''))
                 else (case actionsSupported (in_Actions input) caps of
                     Some err \<Rightarrow> State_Monad.return (Inl err)
                   | None \<Rightarrow> do {
                       now \<leftarrow> now_seconds e;
                       let names = (if in_Kind input = PlanKindBindingNames
                                    then map (observe_name md) (in_Names input) else in_Names input);
                       finish_plan e (build_plan e input names ident md now) now }) } } }"

section \<open>The plan's context\<close>

definition check_context ::
  "'o rollout_env_scheme \<Rightarrow> provider_plan \<Rightarrow> rollout_error option rollout" where
  "check_context e plan = do {
     err \<leftarrow> ValidateSnapshot e plan;
     case err of Some x \<Rightarrow> State_Monad.return (Some x) | None \<Rightarrow> do {
       ident \<leftarrow> ask (ad_Identity e);
       case ident of
         Inl err \<Rightarrow> State_Monad.return (Some (Provider_Error (SanitizeError ''identity'' err)))
       | Inr ident \<Rightarrow>
           if id_Provider ident \<noteq> plan_Provider plan \<or> id_ID ident \<noteq> plan_ProviderIdentity plan
           then State_Monad.return (Some (Message ''provider identity does not match the plan''))
           else do {
             md \<leftarrow> ask (\<lambda>t. ad_Inspect e t (providerTarget (plan_Target plan)));
             case md of
               Inl err \<Rightarrow> State_Monad.return (Some (Provider_Error (SanitizeError ''inspect'' err)))
             | Inr md \<Rightarrow>
                 if \<not> sameProviderTarget (md_Target md) (providerTarget (plan_Target plan))
                 then State_Monad.return (Some (Message ''provider target does not match the plan''))
                 else if plan_ProviderRevision plan \<noteq> [] \<and> md_Revision md \<noteq> plan_ProviderRevision plan
                 then State_Monad.return (Some (Message
                   ''provider deployed revision does not match the plan''))
                 else do {
                   caps \<leftarrow> ask (ad_Capabilities e);
                   State_Monad.return (actionsSupported (plan_Actions plan) caps) } } } }"

definition validatePlanContext ::
  "'o rollout_env_scheme \<Rightarrow> provider_plan \<Rightarrow> bool \<Rightarrow> rollout_error option rollout" where
  "validatePlanContext e plan enforceExpiry = do {
     now \<leftarrow> now_seconds e;
     case (if enforceExpiry then Some now else parse_canonical (plan_CreatedAt plan)) of
       None \<Rightarrow> State_Monad.return (Some (Message ''provider plan creation time is invalid''))
     | Some validationTime \<Rightarrow>
         (case plan_Validate e plan (validationTime * second) of
            Some err \<Rightarrow> State_Monad.return (Some (Message err))
          | None \<Rightarrow> check_context e plan) }"

section \<open>Starting an operation\<close>

definition write_key :: "'c crypto_scheme \<Rightarrow> string \<Rightarrow> action \<Rightarrow> string" where
  "write_key c ident a =
     hex_encode (sha256 c (''envbank.rollout.write.v1'' @ nul @ ident @ nul @ act_ID a))"

definition pending_action :: "'c crypto_scheme \<Rightarrow> string \<Rightarrow> action \<Rightarrow> operation_action" where
  "pending_action c ident a =
     \<lparr>oa_Action = a, oa_Status = ActionPending, oa_Attempts = 0, oa_WriteKey = write_key c ident a,
      oa_LastAttemptAt = [], oa_WriteEvidence = None, oa_VerifyEvidence = None,
      oa_LastError = None\<rparr>"

definition confirmed_operation :: "'c crypto_scheme \<Rightarrow> provider_plan \<Rightarrow> string \<Rightarrow> string \<Rightarrow> operation" where
  "confirmed_operation c plan ident now =
     \<lparr>op_Version = OperationVersion, op_ID = ident, op_PlanID = plan_ID plan,
      op_PlanDigest = plan_Digest plan, op_Bundle = plan_Bundle plan,
      op_ManifestDigest = plan_ManifestDigest plan,
      op_SnapshotRevision = plan_SnapshotRevision plan, op_Provider = plan_Provider plan,
      op_ProviderIdentity = plan_ProviderIdentity plan,
      op_ProviderRevision = plan_ProviderRevision plan, op_Target = cloneBinding (plan_Target plan),
      op_Status = StatusConfirmed, op_Actions = map (pending_action c ident) (plan_Actions plan),
      op_CreatedAt = now, op_UpdatedAt = now, op_DeploymentID = [], op_DeployedVersion = [],
      op_PromotedAt = [], op_RollbackID = [], op_RolledBackAt = []\<rparr>"

definition newOperation :: "'o rollout_env_scheme \<Rightarrow> provider_plan \<Rightarrow> (rollout_error + operation) rollout" where
  "newOperation e plan = do {
     raw \<leftarrow> ask (rand e);
     case raw of
       None \<Rightarrow> State_Monad.return (Inl (Message ''rollout operation ID generation failed''))
     | Some bytes \<Rightarrow> do {
         now \<leftarrow> nowString e;
         let op = confirmed_operation e plan (hex_encode bytes) now;
         State_Monad.return (case operation_Validate op of
           Some err \<Rightarrow> Inl (Message err) | None \<Rightarrow> Inr op) } }"

end
