(* ===== verification/Rollout_Advance.thy ===== *)
theory Rollout_Advance
  imports Rollout_Engine
begin

text \<open>
  The part of \<^verbatim>\<open>internal/rollout/engine.go\<close> that writes: \<^verbatim>\<open>advance\<close>, \<^verbatim>\<open>advanceAtomicBatch\<close>,
  \<^verbatim>\<open>Apply\<close> and \<^verbatim>\<open>Resume\<close>. A step over an operation and its revision gives \<open>Inl (op, err)\<close> when
  the code returns and \<open>Inr\<close> when it goes on with the next step.
\<close>

type_synonym stopped = "operation \<times> rollout_error"

definition put_item :: "nat \<Rightarrow> operation_action \<Rightarrow> operation \<Rightarrow> operation" where
  "put_item i item op = op\<lparr>op_Actions := (op_Actions op)[i := item]\<rparr>"

text \<open>Set the update time and save; a failed save ends the run.\<close>

definition save_at ::
  "'o rollout_env_scheme \<Rightarrow> string \<Rightarrow> operation \<Rightarrow> int \<Rightarrow> (stopped + operation \<times> int) rollout" where
  "save_at e now op revision = (let op = op\<lparr>op_UpdatedAt := now\<rparr> in do {
     r \<leftarrow> SaveOperation e op revision;
     State_Monad.return (case r of Inl err \<Rightarrow> Inl (op, err) | Inr revision \<Rightarrow> Inr (op, revision)) })"

definition save_now ::
  "'o rollout_env_scheme \<Rightarrow> operation \<Rightarrow> int \<Rightarrow> (stopped + operation \<times> int) rollout" where
  "save_now e op revision = do { now \<leftarrow> nowString e; save_at e now op revision }"

text \<open>Save, then return with an error of the provider.\<close>

definition stop_with ::
  "'o rollout_env_scheme \<Rightarrow> operation \<Rightarrow> int \<Rightarrow> rollout_error \<Rightarrow> stopped rollout" where
  "stop_with e op revision err = do {
     r \<leftarrow> save_now e op revision;
     State_Monad.return (case r of Inl x \<Rightarrow> x | Inr (op, _) \<Rightarrow> (op, err)) }"

definition action_value :: "'o rollout_env_scheme \<Rightarrow> provider_plan \<Rightarrow> action \<Rightarrow> (rollout_error + bytes) rollout" where
  "action_value e plan a =
     (if act_Record a \<noteq> [] then LoadRecord e (plan_Bundle plan) (act_Record a) (act_ExpectedRecordRevision a)
      else State_Monad.return (Inr (act_PublicValue a)))"

definition write_request_of :: "provider_plan \<Rightarrow> operation_action \<Rightarrow> bytes \<Rightarrow> write_request" where
  "write_request_of plan item value =
     (let a = oa_Action item in
      NewWriteRequest (act_Operation a) (providerTarget (plan_Target plan)) (act_Service a)
        (act_ServiceID a) (act_Name a) (oa_WriteKey item) value)"

definition attempt :: "string \<Rightarrow> operation_action \<Rightarrow> operation_action" where
  "attempt now item = item\<lparr>oa_Status := ActionInFlight, oa_Attempts := oa_Attempts item + 1,
     oa_LastAttemptAt := now, oa_LastError := None\<rparr>"

section \<open>One write\<close>

text \<open>The state of an action and of the operation after a failed write.\<close>

definition failed_item :: "provider_error \<Rightarrow> operation_action \<Rightarrow> operation_action" where
  "failed_item safe item = item\<lparr>oa_LastError := Some safe, oa_Status :=
     (if pe_Retry safe = RetrySafe \<or> pe_Retry safe = RetryNever then ActionPending else ActionInFlight)\<rparr>"

definition failed_status :: "capabilities \<Rightarrow> provider_error \<Rightarrow> operation_status" where
  "failed_status caps safe =
     (if pe_Retry safe = RetryNever then StatusFailed
      else if pe_Retry safe = RetryAmbiguous \<and> \<not> retriableWrite caps then StatusReconciliation
      else StatusRetryable)"

definition finish_write ::
  "'o rollout_env_scheme \<Rightarrow> nat \<Rightarrow> operation \<Rightarrow> int \<Rightarrow> write_evidence \<Rightarrow> (stopped + operation \<times> int) rollout" where
  "finish_write e i op revision evidence = do {
     evidence \<leftarrow> (if CommittedAt evidence = []
                  then do { now \<leftarrow> nowString e; State_Monad.return (evidence\<lparr>CommittedAt := now\<rparr>) }
                  else State_Monad.return evidence);
     if write_evidence_Validate evidence \<noteq> None
     then State_Monad.return (Inl (op, Message ''provider returned invalid write evidence''))
     else save_now e (put_item i ((op_Actions op ! i)\<lparr>oa_WriteEvidence := Some evidence,
            oa_Status := ActionCommitted\<rparr>) op) revision }"

definition perform_write ::
  "'o rollout_env_scheme \<Rightarrow> provider_plan \<Rightarrow> capabilities \<Rightarrow> nat \<Rightarrow> operation \<Rightarrow> int \<Rightarrow>
    (stopped + operation \<times> int) rollout" where
  "perform_write e plan caps i op revision = do {
     let item = op_Actions op ! i;
     value \<leftarrow> action_value e plan (oa_Action item);
     case value of
       Inl err \<Rightarrow> State_Monad.return (Inl (op, err))
     | Inr bytes \<Rightarrow> do {
         now \<leftarrow> nowString e;
         r \<leftarrow> save_at e now (put_item i (attempt now item) (op\<lparr>op_Status := StatusWriting\<rparr>)) revision;
         case r of
           Inl x \<Rightarrow> State_Monad.return (Inl x)
         | Inr (op, revision) \<Rightarrow> do {
             let request = write_request_of plan item bytes;
             answer \<leftarrow> call (Wrote request) (\<lambda>t. ad_Write e t request);
             case answer of
               Inl err \<Rightarrow> do {
                 let safe = SanitizeError ''write'' err;
                 let op = put_item i (failed_item safe (op_Actions op ! i)) op;
                 x \<leftarrow> stop_with e (op\<lparr>op_Status := failed_status caps safe\<rparr>) revision (Provider_Error safe);
                 State_Monad.return (Inl x) }
             | Inr evidence \<Rightarrow> finish_write e i op revision evidence } } }"

text \<open>\<open>Inr (op, revision, written)\<close>: go on, with the write unless it is known to have happened.\<close>

definition reconcile ::
  "'o rollout_env_scheme \<Rightarrow> capabilities \<Rightarrow> metadata_state \<Rightarrow> nat \<Rightarrow> operation \<Rightarrow> int \<Rightarrow>
    (stopped + operation \<times> int \<times> bool) rollout" where
  "reconcile e caps md i op revision =
     (let item = op_Actions op ! i in
      if oa_Status item = ActionInFlight \<and> \<not> retriableWrite caps then do {
        now \<leftarrow> nowString e;
        case reconcileAction item md now of
          None \<Rightarrow> do {
            x \<leftarrow> stop_with e (op\<lparr>op_Status := StatusReconciliation\<rparr>) revision ErrReconciliationRequired;
            State_Monad.return (Inl x) }
        | Some item' \<Rightarrow> do {
            r \<leftarrow> save_now e (put_item i item' op) revision;
            State_Monad.return (case r of
              Inl x \<Rightarrow> Inl x
            | Inr (op, revision) \<Rightarrow> Inr (op, revision, oa_Status item' = ActionCommitted)) } }
      else State_Monad.return (Inr (op, revision, False)))"

definition write_action ::
  "'o rollout_env_scheme \<Rightarrow> provider_plan \<Rightarrow> capabilities \<Rightarrow> metadata_state \<Rightarrow> nat \<Rightarrow> operation \<Rightarrow> int \<Rightarrow>
    (stopped + operation \<times> int) rollout" where
  "write_action e plan caps md i op revision =
     (if committed_status (oa_Status (op_Actions op ! i)) then State_Monad.return (Inr (op, revision))
      else do {
        r \<leftarrow> reconcile e caps md i op revision;
        case r of
          Inl x \<Rightarrow> State_Monad.return (Inl x)
        | Inr (op, revision, written) \<Rightarrow>
            if written then State_Monad.return (Inr (op, revision))
            else perform_write e plan caps i op revision })"

fun write_actions ::
  "'o rollout_env_scheme \<Rightarrow> provider_plan \<Rightarrow> capabilities \<Rightarrow> metadata_state \<Rightarrow> nat list \<Rightarrow> operation \<Rightarrow> int \<Rightarrow>
    (stopped + operation \<times> int) rollout" where
  "write_actions e plan caps md [] op revision = State_Monad.return (Inr (op, revision))"
| "write_actions e plan caps md (i # is) op revision = do {
     r \<leftarrow> write_action e plan caps md i op revision;
     case r of
       Inl x \<Rightarrow> State_Monad.return (Inl x)
     | Inr (op, revision) \<Rightarrow> write_actions e plan caps md is op revision }"

section \<open>One verification\<close>

definition verify_request_of :: "provider_plan \<Rightarrow> operation_action \<Rightarrow> verify_request" where
  "verify_request_of plan item =
     (let a = oa_Action item in
      \<lparr>vr_Target = providerTarget (plan_Target plan), vr_Service = act_Service a,
       vr_ServiceID = act_ServiceID a, vr_Name = act_Name a, vr_WriteKey = oa_WriteKey item,
       vr_ProviderOperationID =
         (case oa_WriteEvidence item of None \<Rightarrow> [] | Some w \<Rightarrow> ProviderOperationID w),
       ExpectedPresence = (if act_Operation a = ''revoke'' then PresenceAbsent else PresencePresent)\<rparr>)"

text \<open>The evidence for an action, or the reason to stop.\<close>

definition verify_evidence_of ::
  "'o rollout_env_scheme \<Rightarrow> provider_plan \<Rightarrow> capabilities \<Rightarrow> nat \<Rightarrow> operation \<Rightarrow> int \<Rightarrow>
    (stopped + verify_evidence) rollout" where
  "verify_evidence_of e plan caps i op revision =
     (let item = op_Actions op ! i in
      if \<not> can_Validate caps then do {
        now \<leftarrow> nowString e;
        State_Monad.return (Inr \<lparr>ev_Result = VerificationLimited, ev_Presence = PresenceUnknown,
          VerifiedAt = now, ev_Reason = ''validation-unsupported''\<rparr>) }
      else do {
        let request = verify_request_of plan item;
        answer \<leftarrow> call (Verify_Asked request) (\<lambda>t. ad_Verify e t request);
        case answer of
          Inl err \<Rightarrow> do {
            let safe = SanitizeError ''verify'' err;
            let op = put_item i (item\<lparr>oa_LastError := Some safe\<rparr>) op;
            x \<leftarrow> stop_with e (op\<lparr>op_Status :=
                   (if pe_Retry safe = RetryNever then StatusFailed else StatusRetryable)\<rparr>)
                   revision (Provider_Error safe);
            State_Monad.return (Inl x) }
        | Inr evidence \<Rightarrow> do {
            evidence \<leftarrow> (if VerifiedAt evidence = []
                         then do { now \<leftarrow> nowString e; State_Monad.return (evidence\<lparr>VerifiedAt := now\<rparr>) }
                         else State_Monad.return evidence);
            if verify_evidence_Validate evidence \<noteq> None
            then State_Monad.return (Inl (op, Message ''provider returned invalid verification evidence''))
            else State_Monad.return (Inr evidence) } })"

definition verify_action ::
  "'o rollout_env_scheme \<Rightarrow> provider_plan \<Rightarrow> capabilities \<Rightarrow> nat \<Rightarrow> bool \<Rightarrow> operation \<Rightarrow> int \<Rightarrow>
    (stopped + bool \<times> operation \<times> int) rollout" where
  "verify_action e plan caps i limited op revision =
     (let item = op_Actions op ! i in
      if oa_Status item = ActionVerified then State_Monad.return (Inr (limited, op, revision))
      else do {
        r \<leftarrow> verify_evidence_of e plan caps i op revision;
        case r of
          Inl x \<Rightarrow> State_Monad.return (Inl x)
        | Inr evidence \<Rightarrow> do {
            let verified = (ev_Result evidence = VerificationVerified);
            r \<leftarrow> save_now e (put_item i (item\<lparr>oa_VerifyEvidence := Some evidence,
                   oa_Status := (if verified then ActionVerified else ActionLimited)\<rparr>) op) revision;
            State_Monad.return (case r of
              Inl x \<Rightarrow> Inl x
            | Inr (op, revision) \<Rightarrow> Inr (limited \<or> \<not> verified, op, revision)) } })"

fun verify_actions ::
  "'o rollout_env_scheme \<Rightarrow> provider_plan \<Rightarrow> capabilities \<Rightarrow> nat list \<Rightarrow> bool \<Rightarrow> operation \<Rightarrow> int \<Rightarrow>
    (stopped + bool \<times> operation \<times> int) rollout" where
  "verify_actions e plan caps [] limited op revision = State_Monad.return (Inr (limited, op, revision))"
| "verify_actions e plan caps (i # is) limited op revision = do {
     r \<leftarrow> verify_action e plan caps i limited op revision;
     case r of
       Inl x \<Rightarrow> State_Monad.return (Inl x)
     | Inr (limited, op, revision) \<Rightarrow> verify_actions e plan caps is limited op revision }"

section \<open>The atomic batch\<close>

text \<open>The requests of all actions and the operation with every action in flight.\<close>

fun stage_requests ::
  "'o rollout_env_scheme \<Rightarrow> provider_plan \<Rightarrow> nat list \<Rightarrow> write_request list \<Rightarrow> operation \<Rightarrow>
    (stopped + write_request list \<times> operation) rollout" where
  "stage_requests e plan [] requests op = State_Monad.return (Inr (requests, op))"
| "stage_requests e plan (i # is) requests op = do {
     let item = op_Actions op ! i;
     value \<leftarrow> action_value e plan (oa_Action item);
     case value of
       Inl err \<Rightarrow> State_Monad.return (Inl (op, err))
     | Inr bytes \<Rightarrow> do {
         now \<leftarrow> nowString e;
         stage_requests e plan is (requests @ [write_request_of plan item bytes])
           (put_item i (attempt now item) op) } }"

definition staged_failure :: "provider_error \<Rightarrow> operation_action \<Rightarrow> operation_action" where
  "staged_failure safe item =
     (let item = item\<lparr>oa_LastError := Some safe\<rparr> in
      if pe_Retry safe = RetrySafe \<or> pe_Retry safe = RetryNever
      then item\<lparr>oa_Status := ActionPending\<rparr> else item)"

definition staged_failure_status :: "provider_error \<Rightarrow> operation_status" where
  "staged_failure_status safe =
     (if pe_Retry safe = RetryNever then StatusFailed
      else if pe_Retry safe = RetryAmbiguous then StatusReconciliation else StatusRetryable)"

definition finish_stage ::
  "'o rollout_env_scheme \<Rightarrow> operation \<Rightarrow> int \<Rightarrow> write_evidence \<Rightarrow> (stopped + operation \<times> int) rollout" where
  "finish_stage e op revision evidence = do {
     evidence \<leftarrow> (if CommittedAt evidence = []
                  then do { now \<leftarrow> nowString e; State_Monad.return (evidence\<lparr>CommittedAt := now\<rparr>) }
                  else State_Monad.return evidence);
     if ProviderOperationID evidence = [] \<or> write_evidence_Validate evidence \<noteq> None
     then State_Monad.return (Inl (op, Message ''provider returned invalid atomic stage evidence''))
     else save_now e (op\<lparr>op_Status := StatusWritten, op_Actions :=
            map (\<lambda>item. item\<lparr>oa_WriteEvidence := Some evidence, oa_Status := ActionCommitted\<rparr>)
              (op_Actions op)\<rparr>) revision }"

definition advanceAtomicBatch ::
  "'o rollout_env_scheme \<Rightarrow> provider_plan \<Rightarrow> operation \<Rightarrow> int \<Rightarrow> (stopped + operation \<times> int) rollout" where
  "advanceAtomicBatch e plan op revision =
     (if list_all (\<lambda>item. committed_status (oa_Status item)) (op_Actions op)
      then State_Monad.return (Inr (op, revision))
      else if list_ex (\<lambda>item. committed_status (oa_Status item)) (op_Actions op)
      then State_Monad.return (Inl (op, Message ''atomic rollout operation has partial commit evidence''))
      else do {
        r \<leftarrow> stage_requests e plan [0..<length (op_Actions op)] [] op;
        case r of
          Inl x \<Rightarrow> State_Monad.return (Inl x)
        | Inr (requests, op) \<Rightarrow> do {
            r \<leftarrow> save_now e (op\<lparr>op_Status := StatusWriting\<rparr>) revision;
            case r of
              Inl x \<Rightarrow> State_Monad.return (Inl x)
            | Inr (op, revision) \<Rightarrow> do {
                answer \<leftarrow> call (Staged requests) (\<lambda>t. ad_Stage e t requests);
                case answer of
                  Inl err \<Rightarrow> do {
                    let safe = SanitizeError ''stage'' err;
                    x \<leftarrow> stop_with e (op\<lparr>op_Status := staged_failure_status safe, op_Actions :=
                           map (staged_failure safe) (op_Actions op)\<rparr>) revision (Provider_Error safe);
                    State_Monad.return (Inl x) }
                | Inr evidence \<Rightarrow> finish_stage e op revision evidence } } })"

section \<open>Advance, apply, resume\<close>

definition finish_advance ::
  "'o rollout_env_scheme \<Rightarrow> bool \<Rightarrow> operation \<Rightarrow> int \<Rightarrow> (operation \<times> rollout_error option) rollout" where
  "finish_advance e limited op revision = do {
     r \<leftarrow> save_now e (op\<lparr>op_Status := (if limited then StatusLimited else StatusReady)\<rparr>) revision;
     State_Monad.return (case r of
       Inl (op, err) \<Rightarrow> (op, Some err) | Inr (op, _) \<Rightarrow> (op, None)) }"

definition verify_phase ::
  "'o rollout_env_scheme \<Rightarrow> provider_plan \<Rightarrow> capabilities \<Rightarrow> operation \<Rightarrow> int \<Rightarrow>
    (operation \<times> rollout_error option) rollout" where
  "verify_phase e plan caps op revision = do {
     r \<leftarrow> save_now e (op\<lparr>op_Status := StatusWritten\<rparr>) revision;
     case r of Inl (op, err) \<Rightarrow> State_Monad.return (op, Some err) | Inr (op, revision) \<Rightarrow> do {
     r \<leftarrow> save_now e (op\<lparr>op_Status := StatusVerifying\<rparr>) revision;
     case r of Inl (op, err) \<Rightarrow> State_Monad.return (op, Some err) | Inr (op, revision) \<Rightarrow> do {
     r \<leftarrow> verify_actions e plan caps [0..<length (op_Actions op)] False op revision;
     case r of
       Inl (op, err) \<Rightarrow> State_Monad.return (op, Some err)
     | Inr (limited, op, revision) \<Rightarrow> finish_advance e limited op revision } } }"

definition advance ::
  "'o rollout_env_scheme \<Rightarrow> provider_plan \<Rightarrow> operation \<Rightarrow> int \<Rightarrow> (operation \<times> rollout_error option) rollout" where
  "advance e plan op revision = do {
     caps \<leftarrow> ask (ad_Capabilities e);
     md \<leftarrow> ask (\<lambda>t. ad_Inspect e t (providerTarget (plan_Target plan)));
     case md of
       Inl err \<Rightarrow> State_Monad.return (op, Some (Provider_Error (SanitizeError ''inspect'' err)))
     | Inr md \<Rightarrow> do {
         r \<leftarrow> (if ad_atomic e then advanceAtomicBatch e plan op revision
               else State_Monad.return (Inr (op, revision)));
         case r of Inl (op, err) \<Rightarrow> State_Monad.return (op, Some err) | Inr (op, revision) \<Rightarrow> do {
         r \<leftarrow> write_actions e plan caps md [0..<length (op_Actions op)] op revision;
         case r of
           Inl (op, err) \<Rightarrow> State_Monad.return (op, Some err)
         | Inr (op, revision) \<Rightarrow> verify_phase e plan caps op revision } } }"

definition start_operation ::
  "'o rollout_env_scheme \<Rightarrow> provider_plan \<Rightarrow> (rollout_error + operation \<times> rollout_error option) rollout" where
  "start_operation e plan = do {
     op \<leftarrow> newOperation e plan;
     case op of
       Inl err \<Rightarrow> State_Monad.return (Inl err)
     | Inr op \<Rightarrow> do {
         saved \<leftarrow> SaveOperation e op 0;
         case saved of
           Inl err \<Rightarrow> State_Monad.return (Inl (Wrapped ''save confirmed rollout operation'' err))
         | Inr revision \<Rightarrow> do { r \<leftarrow> advance e plan op revision; State_Monad.return (Inr r) } } }"

definition confirmation_of :: "string \<Rightarrow> provider_plan \<Rightarrow> confirmation" where
  "confirmation_of kind plan =
     \<lparr>cf_Kind = kind, cf_Provider = plan_Provider plan, cf_Bundle = plan_Bundle plan,
      ActionCount = (if kind = ''destructive'' then destructiveCount (plan_Actions plan)
                     else length (plan_Actions plan)),
      Destructive = hasDestructive (plan_Actions plan)\<rparr>"

text \<open>\<open>Inl\<close>: the empty operation with an error.\<close>

definition Apply ::
  "'o rollout_env_scheme \<Rightarrow> string \<Rightarrow> (nat \<Rightarrow> confirmation \<Rightarrow> bool) option \<Rightarrow>
    (rollout_error + operation \<times> rollout_error option) rollout" where
  "Apply e planID confirm = do {
     loaded \<leftarrow> LoadPlan e planID;
     case loaded of
       Inl err \<Rightarrow> State_Monad.return (Inl err)
     | Inr (plan, _) \<Rightarrow>
         if plan_Actions plan = []
         then State_Monad.return (Inl (Message ''provider plan has no confirmed writes''))
         else do {
           err \<leftarrow> validatePlanContext e plan True;
           case err of Some err \<Rightarrow> State_Monad.return (Inl err) | None \<Rightarrow>
           (case confirm of
              None \<Rightarrow> State_Monad.return (Inl (Message ''interactive rollout confirmation is required''))
            | Some f \<Rightarrow> do {
                ok \<leftarrow> ask_confirm f (confirmation_of ''apply'' plan);
                if \<not> ok
                then State_Monad.return (Inl (Message ''rollout cancelled before provider writes''))
                else if hasDestructive (plan_Actions plan) then do {
                  ok \<leftarrow> ask_confirm f (confirmation_of ''destructive'' plan);
                  if \<not> ok
                  then State_Monad.return (Inl (Message ''rollout cancelled before provider writes''))
                  else start_operation e plan }
                else start_operation e plan }) } }"

definition first_error :: "operation_action list \<Rightarrow> rollout_error" where
  "first_error items =
     (case List.find (\<lambda>item. oa_LastError item \<noteq> None) items of
        Some item \<Rightarrow> Provider_Error (the (oa_LastError item))
      | None \<Rightarrow> Message ''rollout operation failed'')"

definition Resume :: "'o rollout_env_scheme \<Rightarrow> string \<Rightarrow> (rollout_error + operation \<times> rollout_error option) rollout" where
  "Resume e operationID = do {
     loaded \<leftarrow> LoadOperation e operationID;
     case loaded of
       Inl err \<Rightarrow> State_Monad.return (Inl err)
     | Inr (op, revision) \<Rightarrow>
         if terminal_status (op_Status op) then State_Monad.return (Inr (op, None))
         else if op_Status op = StatusFailed
         then State_Monad.return (Inr (op, Some (first_error (op_Actions op))))
         else do {
           loaded \<leftarrow> LoadPlan e (op_PlanID op);
           case loaded of
             Inl err \<Rightarrow> State_Monad.return (Inr (op, Some err))
           | Inr (plan, _) \<Rightarrow>
               if \<not> operationMatchesPlan op plan
               then State_Monad.return (Inr (op, Some (Message
                 ''rollout operation does not match its provider plan'')))
               else do {
                 err \<leftarrow> validatePlanContext e plan False;
                 case err of
                   Some err \<Rightarrow> State_Monad.return (Inr (op, Some err))
                 | None \<Rightarrow> do {
                     r \<leftarrow> advance e plan op revision; State_Monad.return (Inr r) } } } }"

end
