(* ===== verification/Rollout_Effects.thy ===== *)
theory Rollout_Effects
  imports Rollout_Advance
begin

text \<open>
  What a run of the engine can do to the vault and to the provider, as an interface. The locale
  \<open>rollout_effects\<close> lists the effects with what the engine has established when it performs
  them; a preorder \<open>R\<close> on worlds that contains them contains every run of \<^verbatim>\<open>Plan\<close>, \<^verbatim>\<open>Apply\<close>
  and \<^verbatim>\<open>Resume\<close>, for every environment and every placement of failures.
\<close>

section \<open>How an operation may change\<close>

definition item_follows :: "operation_action \<Rightarrow> operation_action \<Rightarrow> bool" where
  "item_follows a b \<longleftrightarrow> oa_Action b = oa_Action a \<and> oa_WriteKey b = oa_WriteKey a \<and>
     oa_Attempts a \<le> oa_Attempts b \<and>
     (committed_status (oa_Status a) \<longrightarrow>
        committed_status (oa_Status b) \<and> oa_WriteEvidence b = oa_WriteEvidence a \<and>
        oa_Attempts b = oa_Attempts a) \<and>
     (oa_Status a = ActionVerified \<longrightarrow> oa_Status b = ActionVerified \<and> oa_VerifyEvidence b = oa_VerifyEvidence a)"

definition follows :: "operation \<Rightarrow> operation \<Rightarrow> bool" where
  "follows x y \<longleftrightarrow> op_ID y = op_ID x \<and> op_PlanID y = op_PlanID x \<and> op_Target y = op_Target x \<and>
     op_CreatedAt y = op_CreatedAt x \<and> list_all2 item_follows (op_Actions x) (op_Actions y)"

definition final_status :: "operation_status \<Rightarrow> bool" where
  "final_status s \<longleftrightarrow> terminal_status s \<or> s = StatusFailed"

lemma item_follows_refl [simp]: "item_follows a a"
  by (simp add: item_follows_def)

lemma item_follows_trans: "item_follows a b \<Longrightarrow> item_follows b c \<Longrightarrow> item_follows a c"
  by (auto simp: item_follows_def)

lemma follows_refl [simp]: "follows x x"
  by (simp add: follows_def list_all2_refl)

lemma follows_trans: "follows x y \<Longrightarrow> follows y z \<Longrightarrow> follows x z"
  unfolding follows_def using list_all2_trans [of item_follows item_follows item_follows]
  by (metis item_follows_trans)

lemma follows_update [simp]:
  "follows x (y\<lparr>op_Status := st\<rparr>) = follows x y" "follows x (y\<lparr>op_UpdatedAt := t\<rparr>) = follows x y"
  by (simp_all add: follows_def)

lemma follows_actions: "follows x y \<Longrightarrow> map oa_Action (op_Actions y) = map oa_Action (op_Actions x)"
  unfolding follows_def by (auto simp: list_all2_conv_all_nth item_follows_def intro: nth_equalityI)

lemma follows_length: "follows x y \<Longrightarrow> length (op_Actions y) = length (op_Actions x)"
  by (auto simp: follows_def dest: list_all2_lengthD)

lemma put_item_simps [simp]:
  "op_ID (put_item i item op) = op_ID op" "op_Status (put_item i item op) = op_Status op"
  "length (op_Actions (put_item i item op)) = length (op_Actions op)"
  "op_Actions (put_item i item op) = (op_Actions op)[i := item]"
  by (simp_all add: put_item_def)

lemma follows_put_item:
  "item_follows (op_Actions op ! i) item \<Longrightarrow> follows op (put_item i item op)"
proof -
  assume "item_follows (op_Actions op ! i) item"
  then have "item_follows (op_Actions op ! j) ((op_Actions op)[i := item] ! j)"
    if "j < length (op_Actions op)" for j
    using that by (cases "i = j") simp_all
  then show ?thesis by (simp add: follows_def put_item_def list_all2_conv_all_nth)
qed

lemma follows_map_items:
  "(\<And>item. item \<in> set (op_Actions op) \<Longrightarrow> item_follows item (f item)) \<Longrightarrow>
    follows op (op\<lparr>op_Actions := map f (op_Actions op)\<rparr>)"
  by (auto simp: follows_def list_all2_conv_all_nth)

section \<open>Saving\<close>

definition store_operation :: "operation \<Rightarrow> int \<Rightarrow> rollout_world \<Rightarrow> rollout_world" where
  "store_operation op n s = s\<lparr>rtick := Suc (rtick s),
     saved_operations := (saved_operations s)(op_ID op \<mapsto> (op, n)), effects := Saved op # effects s\<rparr>"

definition store_plan :: "provider_plan \<Rightarrow> int \<Rightarrow> rollout_world \<Rightarrow> rollout_world" where
  "store_plan plan n s = s\<lparr>rtick := Suc (rtick s),
     saved_plans := (saved_plans s)(plan_ID plan \<mapsto> (plan, n)), effects := Plan_Saved plan # effects s\<rparr>"

lemma wp_ask [wp_rules]: "Q (f (rtick s)) (s\<lparr>rtick := Suc (rtick s)\<rparr>) \<Longrightarrow> wp (ask f) Q s"
  by (simp add: wp_def ask_def)

lemma wp_nowString [wp_rules]:
  "(\<And>now. Q now (s\<lparr>rtick := Suc (rtick s)\<rparr>)) \<Longrightarrow> wp (nowString e) Q s"
  by (simp add: wp_def nowString_def ask_def)

lemma wp_now_seconds [wp_rules]:
  "Q (to_secs (clock e (rtick s))) (s\<lparr>rtick := Suc (rtick s)\<rparr>) \<Longrightarrow> wp (now_seconds e) Q s"
  by (simp add: wp_def now_seconds_def ask_def)

lemma wp_call:
  "Q (f (rtick s)) (s\<lparr>rtick := Suc (rtick s), effects := ef # effects s\<rparr>) \<Longrightarrow> wp (call ef f) Q s"
  by (simp add: wp_def call_def)

lemma wp_SaveOperation:
  assumes "\<And>err n. rtick s \<le> n \<Longrightarrow> Q (Inl err) (s\<lparr>rtick := n\<rparr>)"
    and "operation_Validate op = None \<Longrightarrow> revision_of (saved_operations s (op_ID op)) = expected \<Longrightarrow>
      Q (Inl Storage_Error) (store_operation op (expected + 1) s)"
    and "operation_Validate op = None \<Longrightarrow> revision_of (saved_operations s (op_ID op)) = expected \<Longrightarrow>
      Q (Inr (expected + 1)) (store_operation op (expected + 1) s)"
  shows "wp (SaveOperation e op expected) Q s"
proof -
  have s: "s = s\<lparr>rtick := rtick s\<rparr>" by simp
  then have "Q (Inl err) s" for err using assms(1) [of "rtick s" err] by simp
  with assms show ?thesis
    by (auto simp: SaveOperation_def store_ready_def put_operation_def wp_def store_operation_def
        Let_def split: option.splits)
qed

lemma wp_LoadOperation:
  assumes "\<And>err n. rtick s \<le> n \<Longrightarrow> Q (Inl err) (s\<lparr>rtick := n\<rparr>)"
    and "\<And>op rev. saved_operations s ident = Some (op, rev) \<Longrightarrow> op_ID op = ident \<Longrightarrow>
      operation_Validate op = None \<Longrightarrow> Q (Inr (op, rev)) (s\<lparr>rtick := Suc (rtick s)\<rparr>)"
  shows "wp (LoadOperation e ident) Q s"
proof -
  have "s = s\<lparr>rtick := rtick s\<rparr>" by simp
  then have "Q (Inl err) s" for err using assms(1) [of "rtick s" err] by simp
  with assms show ?thesis
    by (auto simp: LoadOperation_def store_ready_def get_operation_def wp_def split: option.splits)
qed

lemma wp_LoadPlan:
  assumes "\<And>err n. rtick s \<le> n \<Longrightarrow> Q (Inl err) (s\<lparr>rtick := n\<rparr>)"
    and "\<And>plan rev. saved_plans s ident = Some (plan, rev) \<Longrightarrow> plan_ID plan = ident \<Longrightarrow>
      valid_when_created e plan \<Longrightarrow> Q (Inr (plan, rev)) (s\<lparr>rtick := Suc (rtick s)\<rparr>)"
  shows "wp (LoadPlan e ident) Q s"
proof -
  have "s = s\<lparr>rtick := rtick s\<rparr>" by simp
  then have "Q (Inl err) s" for err using assms(1) [of "rtick s" err] by simp
  with assms show ?thesis
    by (auto simp: LoadPlan_def store_ready_def get_plan_def wp_def split: option.splits)
qed

lemma wp_SavePlan:
  assumes "\<And>err n. rtick s \<le> n \<Longrightarrow> Q (Inl err) (s\<lparr>rtick := n\<rparr>)"
    and "valid_when_created e plan \<Longrightarrow> revision_of (saved_plans s (plan_ID plan)) = expected \<Longrightarrow>
      Q (Inl Storage_Error) (store_plan plan (expected + 1) s)"
    and "valid_when_created e plan \<Longrightarrow> revision_of (saved_plans s (plan_ID plan)) = expected \<Longrightarrow>
      Q (Inr (expected + 1)) (store_plan plan (expected + 1) s)"
  shows "wp (SavePlan e plan expected) Q s"
proof -
  have "s = s\<lparr>rtick := rtick s\<rparr>" by simp
  then have "Q (Inl err) s" for err using assms(1) [of "rtick s" err] by simp
  with assms show ?thesis
    by (auto simp: SavePlan_def store_ready_def put_plan_def wp_def store_plan_def
        Let_def split: option.splits)
qed

text \<open>Programs that only ask leave everything but the step counter.\<close>

lemma wp_ValidateSnapshot:
  "(\<And>r n. rtick s \<le> n \<Longrightarrow> Q r (s\<lparr>rtick := n\<rparr>)) \<Longrightarrow> wp (ValidateSnapshot e plan) Q s"
proof -
  assume Q: "\<And>r n. rtick s \<le> n \<Longrightarrow> Q r (s\<lparr>rtick := n\<rparr>)"
  have "Q r s" for r using Q [of "rtick s" r] by simp
  with Q show ?thesis
    by (auto simp: ValidateSnapshot_def store_ready_def ask_def wp_def split: option.splits prod.splits)
qed

lemma wp_check_context:
  assumes "\<And>r n. rtick s \<le> n \<Longrightarrow> Q r (s\<lparr>rtick := n\<rparr>)"
  shows "wp (check_context e plan) Q s"
  unfolding check_context_def
  by (rule wp_bind wp_ValidateSnapshot wp_rules | simp add: assms)+

lemma wp_validatePlanContext:
  assumes "\<And>r n. rtick s \<le> n \<Longrightarrow> (r = None \<Longrightarrow> \<exists>now. plan_Validate e plan now = None) \<Longrightarrow>
      (r = None \<Longrightarrow> b \<Longrightarrow> plan_Validate e plan (to_secs (clock e (rtick s)) * second) = None) \<Longrightarrow>
      Q r (s\<lparr>rtick := n\<rparr>)"
  shows "wp (validatePlanContext e plan b) Q s"
  unfolding validatePlanContext_def
  by (rule wp_bind wp_now_seconds)+
    (auto intro!: wp_case_option wp_return wp_check_context assms split: if_splits)

lemma wp_LoadRecord:
  "(\<And>r n. rtick s \<le> n \<Longrightarrow> Q r (s\<lparr>rtick := n\<rparr>)) \<Longrightarrow> wp (LoadRecord e b l x) Q s"
proof -
  assume Q: "\<And>r n. rtick s \<le> n \<Longrightarrow> Q r (s\<lparr>rtick := n\<rparr>)"
  have "Q r s" for r using Q [of "rtick s" r] by simp
  with Q show ?thesis
    by (auto simp: LoadRecord_def store_ready_def ask_def wp_def split: option.splits)
qed

lemma wp_action_value:
  assumes "\<And>r n. rtick s \<le> n \<Longrightarrow> Q r (s\<lparr>rtick := n\<rparr>)"
  shows "wp (action_value e plan a) Q s"
proof -
  have "Q r s" for r using assms [of "rtick s" r] by simp
  with assms show ?thesis
    unfolding action_value_def by (auto intro!: wp_if wp_return wp_LoadRecord)
qed

section \<open>The interface\<close>

text \<open>The confirmations a run has asked for and received before it starts an operation.\<close>

definition confirmations :: "provider_plan \<Rightarrow> effect list" where
  "confirmations plan =
     (if hasDestructive (plan_Actions plan) then [Confirmed (confirmation_of ''destructive'' plan)] else []) @
     [Confirmed (confirmation_of ''apply'' plan)]"

definition distinct_targets :: "operation \<Rightarrow> bool" where
  "distinct_targets op \<longleftrightarrow> distinct (map (action_key \<circ> oa_Action) (op_Actions op))"

definition add_effect :: "effect \<Rightarrow> rollout_world \<Rightarrow> rollout_world" where
  "add_effect ef s = s\<lparr>rtick := Suc (rtick s), effects := ef # effects s\<rparr>"

locale rollout_effects =
  fixes R :: "rollout_world \<Rightarrow> rollout_world \<Rightarrow> bool" and e :: "'o rollout_env_scheme"
  assumes R_time: "rtick s \<le> k \<Longrightarrow> R s (s\<lparr>rtick := k\<rparr>)"
    and R_trans: "R x y \<Longrightarrow> R y z \<Longrightarrow> R x z"
    and R_plan: "valid_when_created e plan \<Longrightarrow> revision_of (saved_plans s (plan_ID plan)) = 0 \<Longrightarrow>
      R s (store_plan plan 1 s)"
    and R_confirm: "R s (add_effect (Confirmed cf) s)"
    and R_start: "operation_Validate op = None \<Longrightarrow> op = confirmed_operation e plan ident now \<Longrightarrow>
      revision_of (saved_operations s (op_ID op)) = 0 \<Longrightarrow> distinct_targets op \<Longrightarrow>
      effects s = confirmations plan @ h \<Longrightarrow> R s (store_operation op 1 s)"
    and R_save: "operation_Validate op = None \<Longrightarrow> saved_operations s (op_ID op) = Some (op0, n) \<Longrightarrow>
      follows op0 op \<Longrightarrow> \<not> final_status (op_Status op0) \<Longrightarrow> distinct_targets op \<Longrightarrow>
      R s (store_operation op (n + 1) s)"
    and R_write: "effects s = Saved op # h \<Longrightarrow> saved_operations s (op_ID op) = Some (op, n) \<Longrightarrow>
      op_Status op = StatusWriting \<Longrightarrow> i < length (op_Actions op) \<Longrightarrow> distinct_targets op \<Longrightarrow>
      oa_Status (op_Actions op ! i) = ActionInFlight \<Longrightarrow>
      R s (add_effect (Wrote (write_request_of plan (op_Actions op ! i) value)) s)"
    and R_stage: "effects s = Saved op # h \<Longrightarrow> saved_operations s (op_ID op) = Some (op, n) \<Longrightarrow>
      op_Status op = StatusWriting \<Longrightarrow> distinct_targets op \<Longrightarrow>
      (\<And>item. item \<in> set (op_Actions op) \<Longrightarrow> oa_Status item = ActionInFlight) \<Longrightarrow>
      length vals = length (op_Actions op) \<Longrightarrow>
      R s (add_effect (Staged (map2 (write_request_of plan) (op_Actions op) vals)) s)"
    and R_verify: "saved_operations s (op_ID op) = Some (op, n) \<Longrightarrow> i < length (op_Actions op) \<Longrightarrow>
      committed_status (oa_Status (op_Actions op ! i)) \<Longrightarrow>
      R s (add_effect (Verify_Asked (verify_request_of plan (op_Actions op ! i))) s)"
begin

lemma R_tick: "R s0 s \<Longrightarrow> rtick s \<le> n \<Longrightarrow> R s0 (s\<lparr>rtick := n\<rparr>)"
  using R_time R_trans by blast

lemma R_refl: "R s s"
  using R_time [of s "rtick s"] by simp

end

text \<open>The vault holds the operation as it was when it was saved last, under its revision.\<close>

definition in_vault :: "operation \<Rightarrow> int \<Rightarrow> rollout_world \<Rightarrow> bool" where
  "in_vault op n s \<longleftrightarrow> (\<exists>op0. saved_operations s (op_ID op) = Some (op0, n) \<and>
     \<not> final_status (op_Status op0) \<and> follows op0 op)"

lemma in_vault_tick [simp]: "in_vault op n (s\<lparr>rtick := k\<rparr>) = in_vault op n s"
  "in_vault op n (add_effect ef s) = in_vault op n s"
  by (simp_all add: in_vault_def add_effect_def)

lemma in_vault_follows: "in_vault op n s \<Longrightarrow> follows op op' \<Longrightarrow> in_vault op' n s"
  unfolding in_vault_def using follows_trans by (metis follows_def)

lemma in_vault_status [simp]: "in_vault (op\<lparr>op_Status := st\<rparr>) n s = in_vault op n s"
  by (simp add: in_vault_def)

definition running :: "operation \<Rightarrow> int \<Rightarrow> rollout_world \<Rightarrow> bool" where
  "running op n s \<longleftrightarrow> in_vault op n s \<and> \<not> final_status (op_Status op) \<and> distinct_targets op"

lemma distinct_targets_simps [simp]:
  "distinct_targets (op\<lparr>op_Status := st\<rparr>) = distinct_targets op"
  "distinct_targets (op\<lparr>op_UpdatedAt := t\<rparr>) = distinct_targets op"
  by (simp_all add: distinct_targets_def)

lemma distinct_targets_follows: "follows x y \<Longrightarrow> distinct_targets y = distinct_targets x"
  using follows_actions [of x y] by (simp add: distinct_targets_def flip: map_map)

lemma running_tick [simp]: "running op n (s\<lparr>rtick := k\<rparr>) = running op n s"
  "running op n (add_effect ef s) = running op n s"
  by (simp_all add: running_def)

lemma running_follows:
  "running op n s \<Longrightarrow> follows op op' \<Longrightarrow> \<not> final_status (op_Status op') \<Longrightarrow> running op' n s"
  by (auto simp: running_def in_vault_follows distinct_targets_follows)

section \<open>Runs of the engine\<close>

context rollout_effects
begin

lemma wp_save_at:
  assumes "in_vault op n s" "distinct_targets op" "R s0 s"
    and err: "\<And>err s'. R s0 s' \<Longrightarrow> Q (Inl (op\<lparr>op_UpdatedAt := now\<rparr>, err)) s'"
    and ok: "\<And>s'. R s0 s' \<Longrightarrow> saved_operations s' (op_ID op) = Some (op\<lparr>op_UpdatedAt := now\<rparr>, n + 1) \<Longrightarrow>
      effects s' = Saved (op\<lparr>op_UpdatedAt := now\<rparr>) # effects s \<Longrightarrow>
      operation_Validate (op\<lparr>op_UpdatedAt := now\<rparr>) = None \<Longrightarrow>
      Q (Inr (op\<lparr>op_UpdatedAt := now\<rparr>, n + 1)) s'"
  shows "wp (save_at e now op n) Q s"
proof -
  let ?op = "op\<lparr>op_UpdatedAt := now\<rparr>"
  obtain op0 where op0: "saved_operations s (op_ID op) = Some (op0, n)"
      "\<not> final_status (op_Status op0)" "follows op0 op"
    using assms(1) by (auto simp: in_vault_def)
  have R: "R s0 (store_operation ?op (n + 1) s)" if "operation_Validate ?op = None"
    using R_trans [OF assms(3) R_save] op0 that assms(2) by simp
  have stored: "saved_operations (store_operation ?op (n + 1) s) (op_ID op) = Some (?op, n + 1)"
      "effects (store_operation ?op (n + 1) s) = Saved ?op # effects s"
    by (simp_all add: store_operation_def)
  show ?thesis
    unfolding save_at_def Let_def
  proof (rule wp_bind, rule wp_SaveOperation)
    fix x k assume "rtick s \<le> k"
    then show "wp (State_Monad.return (case Inl x of Inl err \<Rightarrow> Inl (?op, err) | Inr n \<Rightarrow> Inr (?op, n))) Q (s\<lparr>rtick := k\<rparr>)"
      by (auto intro!: wp_return err R_tick [OF assms(3)])
  next
    assume v: "operation_Validate ?op = None"
    show "wp (State_Monad.return (case Inl Storage_Error of Inl err \<Rightarrow> Inl (?op, err) | Inr n \<Rightarrow> Inr (?op, n))) Q
        (store_operation ?op (n + 1) s)"
      by (auto intro!: wp_return err R v)
    show "wp (State_Monad.return (case Inr (n + 1) of Inl err \<Rightarrow> Inl (?op, err) | Inr n \<Rightarrow> Inr (?op, n))) Q
        (store_operation ?op (n + 1) s)"
      by (auto intro!: wp_return ok R v simp: stored)
  qed
qed

lemma wp_save_now:
  assumes "in_vault op n s" "distinct_targets op" "R s0 s"
    and "\<And>err s' now. R s0 s' \<Longrightarrow> Q (Inl (op\<lparr>op_UpdatedAt := now\<rparr>, err)) s'"
    and "\<And>s' now. R s0 s' \<Longrightarrow> saved_operations s' (op_ID op) = Some (op\<lparr>op_UpdatedAt := now\<rparr>, n + 1) \<Longrightarrow>
      effects s' = Saved (op\<lparr>op_UpdatedAt := now\<rparr>) # effects s \<Longrightarrow>
      operation_Validate (op\<lparr>op_UpdatedAt := now\<rparr>) = None \<Longrightarrow>
      Q (Inr (op\<lparr>op_UpdatedAt := now\<rparr>, n + 1)) s'"
  shows "wp (save_now e op n) Q s"
  unfolding save_now_def
  by (rule wp_bind, rule wp_nowString, rule wp_save_at [where ?s0.0 = s0])
    (use assms in \<open>auto intro!: R_tick\<close>)

lemma wp_stop_with:
  assumes "in_vault op n s" "distinct_targets op" "R s0 s"
    and "\<And>op' err s'. R s0 s' \<Longrightarrow> Q (op', err) s'"
  shows "wp (stop_with e op n x) Q s"
  unfolding stop_with_def
  by (rule wp_bind, rule wp_save_now [OF assms(1-3)]) (auto intro!: wp_return assms(4))

end

end
