(* ===== verification/Rollout_Runs.thy ===== *)
theory Rollout_Runs
  imports Rollout_Effects
begin

text \<open>
  Every run of the engine consists of the effects listed in \<open>rollout_effects\<close>: the steps of
  \<^verbatim>\<open>advance\<close> one after the other, then \<^verbatim>\<open>Plan\<close>, \<^verbatim>\<open>Apply\<close> and \<^verbatim>\<open>Resume\<close>.
\<close>

section \<open>Facts about single items\<close>

lemma final_status_simps [simp]:
  "\<not> final_status StatusWriting" "\<not> final_status StatusWritten" "\<not> final_status StatusVerifying"
  "\<not> final_status StatusConfirmed" "final_status StatusReady" "final_status StatusLimited"
  by (simp_all add: final_status_def terminal_status_def)

lemma committed_status_simps [simp]:
  "committed_status ActionCommitted" "committed_status ActionVerified" "committed_status ActionLimited"
  "\<not> committed_status ActionPending" "\<not> committed_status ActionInFlight"
  by (simp_all add: committed_status_def)

lemma follows_committed:
  "follows x y \<Longrightarrow> i < length (op_Actions x) \<Longrightarrow> committed_status (oa_Status (op_Actions x ! i)) \<Longrightarrow>
    committed_status (oa_Status (op_Actions y ! i))"
  by (auto simp: follows_def list_all2_conv_all_nth item_follows_def)

lemma item_follows_uncommitted:
  "\<not> committed_status (oa_Status a) \<Longrightarrow> oa_Action b = oa_Action a \<Longrightarrow> oa_WriteKey b = oa_WriteKey a \<Longrightarrow>
    oa_Attempts a \<le> oa_Attempts b \<Longrightarrow> item_follows a b"
  by (auto simp: item_follows_def)

lemma write_request_of_attempt [simp]:
  "write_request_of plan (attempt now item) v = write_request_of plan item v"
  by (simp add: write_request_of_def attempt_def)

lemma attempt_simps [simp]:
  "oa_Status (attempt now item) = ActionInFlight" "oa_Action (attempt now item) = oa_Action item"
  "oa_WriteKey (attempt now item) = oa_WriteKey item"
  "oa_Attempts (attempt now item) = oa_Attempts item + 1"
  by (simp_all add: attempt_def)

lemma reconcileAction_follows:
  "reconcileAction item md now = Some item' \<Longrightarrow> oa_Status item = ActionInFlight \<Longrightarrow> item_follows item item'"
  by (auto simp: reconcileAction_def Let_def item_follows_def split: if_splits)

lemma reconcileAction_status:
  "reconcileAction item md now = Some item' \<Longrightarrow>
    oa_Status item' = ActionCommitted \<or> oa_Status item' = ActionPending"
  by (auto simp: reconcileAction_def Let_def split: if_splits)

section \<open>Going on\<close>

definition go_on ::
  "(operation \<Rightarrow> bool) \<Rightarrow> operation \<Rightarrow> 'x + operation \<times> int \<Rightarrow> rollout_world \<Rightarrow> bool" where
  "go_on P op r s' \<longleftrightarrow>
     (case r of Inl _ \<Rightarrow> True | Inr (op', n) \<Rightarrow> running op' n s' \<and> follows op op' \<and> P op')"

lemma go_on_simps [simp]:
  "go_on P op (Inl x) s'" "go_on P op (Inr (op', n)) s' \<longleftrightarrow> running op' n s' \<and> follows op op' \<and> P op'"
  by (simp_all add: go_on_def)

lemma running_saved:
  "saved_operations s (op_ID op) = Some (op, n) \<Longrightarrow> \<not> final_status (op_Status op) \<Longrightarrow>
    distinct_targets op \<Longrightarrow> running op n s"
  by (auto simp: running_def in_vault_def)

lemma runningD:
  "running op n s \<Longrightarrow> in_vault op n s" "running op n s \<Longrightarrow> distinct_targets op"
  "running op n s \<Longrightarrow> \<not> final_status (op_Status op)"
  by (simp_all add: running_def)

context rollout_effects
begin

lemma wp_save_go_on:
  assumes "in_vault op' n s" "distinct_targets op'" "R s0 s" "follows op op'"
    "\<not> final_status (op_Status op')" "\<And>now. P (op'\<lparr>op_UpdatedAt := now\<rparr>)"
  shows "wp (save_now e op' n) (\<lambda>r s'. R s0 s' \<and> go_on P op r s') s"
  by (rule wp_save_now [OF assms(1-3)]) (use assms in \<open>auto intro!: running_saved\<close>)

lemma R_add_effect:
  "R s0 s \<Longrightarrow> R s (add_effect ef s) \<Longrightarrow>
    R s0 (s\<lparr>rtick := Suc (rtick s), effects := ef # effects s\<rparr>)"
  using R_trans by (simp add: add_effect_def)

section \<open>Writes\<close>

lemma wp_finish_write:
  assumes run: "running op n s" and R: "R s0 s" and i: "i < length (op_Actions op)"
    and fl: "oa_Status (op_Actions op ! i) = ActionInFlight"
  shows "wp (finish_write e i op n evidence)
    (\<lambda>r s'. R s0 s' \<and> go_on (\<lambda>op'. committed_status (oa_Status (op_Actions op' ! i))) op r s') s"
proof -
  have save: "wp (save_now e (put_item i ((op_Actions op ! i)\<lparr>oa_WriteEvidence := Some ev,
            oa_Status := ActionCommitted\<rparr>) op) n)
      (\<lambda>r s'. R s0 s' \<and> go_on (\<lambda>op'. committed_status (oa_Status (op_Actions op' ! i))) op r s') t"
    if "running op n t" "R s0 t" for ev t
  proof -
    have f: "follows op (put_item i ((op_Actions op ! i)\<lparr>oa_WriteEvidence := Some ev,
            oa_Status := ActionCommitted\<rparr>) op)"
      using fl by (intro follows_put_item item_follows_uncommitted) simp_all
    show ?thesis
      using runningD [OF that(1)] i that(2)
      by (intro wp_save_go_on in_vault_follows [OF _ f] f)
        (simp_all add: distinct_targets_follows [OF f])
  qed
  show ?thesis
    unfolding finish_write_def
    by (auto intro!: wp_bind wp_if wp_return wp_nowString save run R R_tick)
qed

lemma wp_perform_write:
  assumes run: "running op n s" and R: "R s0 s" and i: "i < length (op_Actions op)"
    and nc: "\<not> committed_status (oa_Status (op_Actions op ! i))"
  shows "wp (perform_write e plan caps i op n)
    (\<lambda>r s'. R s0 s' \<and> go_on (\<lambda>op'. committed_status (oa_Status (op_Actions op' ! i))) op r s') s"
proof -
  let ?post = "\<lambda>r s'. R s0 s' \<and> go_on (\<lambda>op'. committed_status (oa_Status (op_Actions op' ! i))) op r s'"
  let ?item = "op_Actions op ! i"
  have after: "wp (do {
        answer \<leftarrow> call (Wrote (write_request_of plan ?item bytes))
          (\<lambda>t. ad_Write e t (write_request_of plan ?item bytes));
        case answer of
          Inl err \<Rightarrow> do {
            let safe = SanitizeError ''write'' err;
            let op = put_item i (failed_item safe (op_Actions op' ! i)) op';
            x \<leftarrow> stop_with e (op\<lparr>op_Status := failed_status caps safe\<rparr>) (n + 1) (Provider_Error safe);
            State_Monad.return (Inl x) }
        | Inr evidence \<Rightarrow> finish_write e i op' (n + 1) evidence }) ?post t"
    if op': "op' = put_item i (attempt now ?item) (op\<lparr>op_Status := StatusWriting\<rparr>)\<lparr>op_UpdatedAt := now\<rparr>"
      and t: "R s0 t" "saved_operations t (op_ID op) = Some (op', n + 1)" "effects t = Saved op' # h"
    for bytes op' now t h
  proof -
    have item: "op_Actions op' ! i = attempt now ?item" and len: "i < length (op_Actions op')"
      and ident: "op_ID op' = op_ID op" and st: "op_Status op' = StatusWriting"
      using i by (simp_all add: op')
    have f: "follows op op'"
    proof -
      have "follows (op\<lparr>op_Status := StatusWriting\<rparr>) (put_item i (attempt now ?item) (op\<lparr>op_Status := StatusWriting\<rparr>))"
        using nc by (intro follows_put_item item_follows_uncommitted) simp_all
      then show ?thesis by (simp add: op' follows_def put_item_def)
    qed
    have d: "distinct_targets op'"
      using distinct_targets_follows [OF f] runningD(2) [OF run] by simp
    let ?ef = "Wrote (write_request_of plan ?item bytes)"
    have W: "R s0 (add_effect ?ef t)"
      using R_write [OF t(3) _ st len d, of "n + 1" plan bytes] t(1,2) ident item R_trans by simp
    have run': "running op' (n + 1) (add_effect ?ef t)"
      using running_saved [of t op' "n + 1"] t(2) ident st d by simp
    have stop: "wp (stop_with e (put_item i (failed_item safe (op_Actions op' ! i)) op'\<lparr>op_Status := st'\<rparr>)
        (n + 1) x) (\<lambda>x s'. ?post (Inl x) s') (add_effect ?ef t)" for safe st' x
    proof -
      have g: "follows op' (put_item i (failed_item safe (op_Actions op' ! i)) op')"
        using item by (intro follows_put_item item_follows_uncommitted) (simp_all add: failed_item_def)
      show ?thesis
        using runningD [OF run'] W
        by (intro wp_stop_with [where ?s0.0 = s0])
          (simp_all add: in_vault_follows [OF _ g] distinct_targets_follows [OF g])
    qed
    have fin: "wp (finish_write e i op' (n + 1) ev) ?post (add_effect ?ef t)" for ev
    proof (rule wp_mono [OF wp_finish_write [OF run' W len]])
      show "oa_Status (op_Actions op' ! i) = ActionInFlight" by (simp add: item)
    next
      fix r s' assume *: "R s0 s' \<and> go_on (\<lambda>op'. committed_status (oa_Status (op_Actions op' ! i))) op' r s'"
      then show "?post r s'"
        using follows_trans [OF f] by (cases r) auto
    qed
    show ?thesis
      by (rule wp_bind, rule wp_call)
        (auto simp: Let_def add_effect_def [symmetric] intro!: wp_case_sum wp_bind wp_return fin
          wp_mono [OF stop])
  qed
  have f0: "follows (op\<lparr>op_Status := StatusWriting\<rparr>)
      (put_item i (attempt now ?item) (op\<lparr>op_Status := StatusWriting\<rparr>))" for now
    using nc by (intro follows_put_item item_follows_uncommitted) simp_all
  show ?thesis
    unfolding perform_write_def Let_def
  proof (rule wp_bind, rule wp_action_value, rule wp_case_sum, goal_cases)
    case (1 r k err)
    then show ?case by (auto intro!: wp_return R_tick R)
  next
    case (2 r k bytes)
    show ?case
    proof (rule wp_bind, rule wp_nowString, rule wp_bind, rule wp_save_at [where ?s0.0 = s0], goal_cases)
      case (1 now)
      have "in_vault (op\<lparr>op_Status := StatusWriting\<rparr>) n s" using runningD(1) [OF run] by simp
      from in_vault_follows [OF this f0] show ?case by simp
    next
      case (2 now)
      then show ?case using runningD(2) [OF run] by (simp add: distinct_targets_follows [OF f0])
    next
      case (3 now)
      then show ?case using 2 by (auto intro!: R_tick R)
    next
      case (4 now err s')
      then show ?case by (auto intro!: wp_return)
    next
      case (5 now s')
      then show ?case using after [OF refl, of s' now "effects s" bytes] by (simp add: Let_def)
    qed
  qed
qed

lemma wp_reconcile:
  assumes run: "running op n s" and R: "R s0 s" and i: "i < length (op_Actions op)"
    and nc: "\<not> committed_status (oa_Status (op_Actions op ! i))"
  shows "wp (reconcile e caps md i op n)
    (\<lambda>r s'. R s0 s' \<and> (case r of Inl _ \<Rightarrow> True
       | Inr (op', n', written) \<Rightarrow> running op' n' s' \<and> follows op op' \<and>
           committed_status (oa_Status (op_Actions op' ! i)) = written)) s"
proof (cases "oa_Status (op_Actions op ! i) = ActionInFlight \<and> \<not> retriableWrite caps")
  case False
  then show ?thesis using run R nc by (auto simp: reconcile_def Let_def intro!: wp_return)
next
  case True
  let ?item = "op_Actions op ! i"
  have stop: "wp (stop_with e (op\<lparr>op_Status := StatusReconciliation\<rparr>) n ErrReconciliationRequired)
      (\<lambda>_ s'. R s0 s') (s\<lparr>rtick := k\<rparr>)" if "rtick s \<le> k" for k
    using runningD [OF run] R_tick [OF R that] by (intro wp_stop_with [where ?s0.0 = s0]) simp_all
  have save: "wp (save_now e (put_item i item' op) n)
      (\<lambda>r s'. R s0 s' \<and> go_on (\<lambda>op'. op_Actions op' ! i = item') op r s') (s\<lparr>rtick := k\<rparr>)"
    if "reconcileAction ?item md now = Some item'" "rtick s \<le> k" for item' now k
  proof -
    have f: "follows op (put_item i item' op)"
      using reconcileAction_follows [OF that(1)] True by (intro follows_put_item) simp
    show ?thesis
      using runningD [OF run] R_tick [OF R that(2)] i
      by (intro wp_save_go_on f) (simp_all add: in_vault_follows [OF _ f] distinct_targets_follows [OF f])
  qed
  have "wp (case reconcileAction ?item md now of
          None \<Rightarrow> do {
            x \<leftarrow> stop_with e (op\<lparr>op_Status := StatusReconciliation\<rparr>) n ErrReconciliationRequired;
            State_Monad.return (Inl x) }
        | Some item' \<Rightarrow> do {
            r \<leftarrow> save_now e (put_item i item' op) n;
            State_Monad.return (case r of
              Inl x \<Rightarrow> Inl x
            | Inr (op, revision) \<Rightarrow> Inr (op, revision, oa_Status item' = ActionCommitted)) })
      (\<lambda>r s'. R s0 s' \<and> (case r of Inl _ \<Rightarrow> True
       | Inr (op', n', written) \<Rightarrow> running op' n' s' \<and> follows op op' \<and>
           committed_status (oa_Status (op_Actions op' ! i)) = written)) (s\<lparr>rtick := Suc (rtick s)\<rparr>)" for now
  proof (rule wp_case_option, rule wp_bind, rule wp_mono [OF stop], goal_cases)
    case (3 item')
    have st: "oa_Status item' = ActionCommitted \<or> oa_Status item' = ActionPending"
      using reconcileAction_status [OF 3] .
    show ?case
      by (rule wp_bind, rule wp_mono [OF save [OF 3]])
        (use st in \<open>auto intro!: wp_return split: sum.splits\<close>)
  qed (auto intro!: wp_return)
  with True show ?thesis
    unfolding reconcile_def Let_def by (auto intro!: wp_bind wp_nowString)
qed

lemma wp_write_action:
  assumes run: "running op n s" and R: "R s0 s" and i: "i < length (op_Actions op)"
  shows "wp (write_action e plan caps md i op n)
    (\<lambda>r s'. R s0 s' \<and> go_on (\<lambda>op'. committed_status (oa_Status (op_Actions op' ! i))) op r s') s"
proof (cases "committed_status (oa_Status (op_Actions op ! i))")
  case True
  with run R show ?thesis by (auto simp: write_action_def intro!: wp_return)
next
  case False
  show ?thesis
    unfolding write_action_def if_not_P [OF False]
  proof (rule wp_bind, rule wp_mono [OF wp_reconcile [OF run R i False]], goal_cases)
    case (1 r s')
    show ?case
    proof (cases r)
      case (Inl x)
      with 1 show ?thesis by (auto intro!: wp_return)
    next
      case (Inr y)
      obtain op' n' written where y: "y = (op', n', written)" by (cases y) auto
      have h: "R s0 s'" "running op' n' s'" "follows op op'"
          "committed_status (oa_Status (op_Actions op' ! i)) = written"
        using 1 by (simp_all add: Inr y)
      show ?thesis
      proof (cases written)
        case True
        with h show ?thesis by (auto simp: Inr y intro!: wp_return)
      next
        case F: False
        have "i < length (op_Actions op')" using follows_length [OF h(3)] i by simp
        then have "wp (perform_write e plan caps i op' n')
          (\<lambda>r s'. R s0 s' \<and> go_on (\<lambda>op'. committed_status (oa_Status (op_Actions op' ! i))) op' r s') s'"
          using h F by (intro wp_perform_write) simp_all
        then have "wp (perform_write e plan caps i op' n')
          (\<lambda>r s'. R s0 s' \<and> go_on (\<lambda>op'. committed_status (oa_Status (op_Actions op' ! i))) op r s') s'"
          by (rule wp_mono) (use follows_trans [OF h(3)] in \<open>auto simp: go_on_def split: sum.splits\<close>)
        with F show ?thesis by (simp add: Inr y)
      qed
    qed
  qed
qed

lemma wp_write_actions:
  assumes "running op n s" "R s0 s" "\<forall>i \<in> set is. i < length (op_Actions op)"
  shows "wp (write_actions e plan caps md is op n)
    (\<lambda>r s'. R s0 s' \<and> go_on (\<lambda>op'. \<forall>i \<in> set is. committed_status (oa_Status (op_Actions op' ! i))) op r s') s"
  using assms
proof (induction "is" arbitrary: op n s)
  case Nil
  then show ?case by (auto intro!: wp_return)
next
  case (Cons i "is")
  show ?case
    unfolding write_actions.simps
  proof (rule wp_bind, rule wp_mono [OF wp_write_action [OF Cons.prems(1,2)]], goal_cases)
    case 1
    then show ?case using Cons.prems(3) by simp
  next
    case (2 r s')
    show ?case
    proof (cases r)
      case (Inl x)
      with 2 show ?thesis by (auto intro!: wp_return)
    next
      case (Inr y)
      obtain op' n' where y: "y = (op', n')" by (cases y) auto
      have h: "R s0 s'" "running op' n' s'" "follows op op'"
          "committed_status (oa_Status (op_Actions op' ! i))"
        using 2 by (simp_all add: Inr y)
      have len: "length (op_Actions op') = length (op_Actions op)" by (rule follows_length [OF h(3)])
      have "wp (write_actions e plan caps md is op' n')
        (\<lambda>r s'. R s0 s' \<and> go_on (\<lambda>op'. \<forall>i \<in> set is. committed_status (oa_Status (op_Actions op' ! i))) op' r s') s'"
        using h(1,2) len Cons.prems(3) by (intro Cons.IH) auto
      then have "wp (write_actions e plan caps md is op' n')
        (\<lambda>r s'. R s0 s' \<and> go_on (\<lambda>op'. \<forall>i \<in> set (i # is). committed_status (oa_Status (op_Actions op' ! i))) op r s') s'"
        by (rule wp_mono)
          (use follows_trans [OF h(3)] follows_committed [of op' _ i] h(4) len Cons.prems(3) in
            \<open>auto simp: go_on_def split: sum.splits\<close>)
      then show ?thesis by (simp add: Inr y)
    qed
  qed
qed

section \<open>Verification\<close>

lemma item_follows_verified:
  "committed_status (oa_Status item) \<Longrightarrow> oa_Status item \<noteq> ActionVerified \<Longrightarrow>
    st = ActionVerified \<or> st = ActionLimited \<Longrightarrow>
    item_follows item (item\<lparr>oa_VerifyEvidence := Some ev, oa_Status := st\<rparr>)"
  by (auto simp: item_follows_def)

lemma wp_verify_evidence_of:
  assumes run: "running op n s" and R: "R s0 s" and i: "i < length (op_Actions op)"
    and c: "committed_status (oa_Status (op_Actions op ! i))"
    and stored: "saved_operations s (op_ID op) = Some (op, n)"
  shows "wp (verify_evidence_of e plan caps i op n)
    (\<lambda>r s'. R s0 s' \<and> (case r of Inl _ \<Rightarrow> True | Inr _ \<Rightarrow> running op n s')) s"
proof (cases "can_Validate caps")
  case False
  then show ?thesis
    unfolding verify_evidence_of_def Let_def
    using run R by (auto intro!: wp_bind wp_nowString wp_return R_tick)
next
  case True
  let ?item = "op_Actions op ! i" and ?ef = "Verify_Asked (verify_request_of plan (op_Actions op ! i))"
  have W: "R s0 (add_effect ?ef s)"
    using R_trans [OF R R_verify [OF stored i c]] .
  have run': "running op n (add_effect ?ef s)" using run by simp
  have stop: "wp (stop_with e (put_item i (?item\<lparr>oa_LastError := Some safe\<rparr>) op\<lparr>op_Status := st\<rparr>) n x)
      (\<lambda>_ s'. R s0 s') (add_effect ?ef s)" for safe st x
  proof -
    have f: "follows op (put_item i (?item\<lparr>oa_LastError := Some safe\<rparr>) op)"
      by (intro follows_put_item) (simp add: item_follows_def)
    show ?thesis
      using runningD [OF run'] W
      by (intro wp_stop_with [where ?s0.0 = s0])
        (simp_all add: in_vault_follows [OF _ f] distinct_targets_follows [OF f])
  qed
  show ?thesis
    unfolding verify_evidence_of_def Let_def
  proof (subst if_not_P, simp add: True, rule wp_bind, rule wp_call, fold add_effect_def,
      rule wp_case_sum, goal_cases)
    case (1 err)
    show ?case by (rule wp_bind, rule wp_mono [OF stop]) (auto intro!: wp_return)
  next
    case (2 evidence)
    show ?case
      using run' W by (auto intro!: wp_bind wp_if wp_nowString wp_return R_tick)
  qed
qed

lemma wp_verify_action:
  assumes run: "running op n s" and R: "R s0 s" and i: "i < length (op_Actions op)"
    and c: "committed_status (oa_Status (op_Actions op ! i))"
    and stored: "saved_operations s (op_ID op) = Some (op, n)"
  shows "wp (verify_action e plan caps i limited op n)
    (\<lambda>r s'. R s0 s' \<and> (case r of Inl _ \<Rightarrow> True | Inr (limited', op', n') \<Rightarrow>
       running op' n' s' \<and> follows op op' \<and> saved_operations s' (op_ID op') = Some (op', n'))) s"
proof (cases "oa_Status (op_Actions op ! i) = ActionVerified")
  case True
  with run R stored show ?thesis by (auto simp: verify_action_def intro!: wp_return)
next
  case False
  let ?item = "op_Actions op ! i"
  show ?thesis
    unfolding verify_action_def Let_def if_not_P [OF False]
  proof (rule wp_bind, rule wp_mono [OF wp_verify_evidence_of [OF run R i c stored]],
      rule wp_case_sum, goal_cases)
    case (1 r s' x)
    then show ?case by (auto intro!: wp_return)
  next
    case (2 r s' evidence)
    let ?st = "if ev_Result evidence = VerificationVerified then ActionVerified else ActionLimited"
    let ?op = "put_item i (?item\<lparr>oa_VerifyEvidence := Some evidence, oa_Status := ?st\<rparr>) op"
    have run': "running op n s'" and R': "R s0 s'" using 2 by simp_all
    have f: "follows op ?op"
      using c False by (intro follows_put_item item_follows_verified) simp_all
    have d: "distinct_targets ?op" using runningD(2) [OF run] by (simp add: distinct_targets_follows [OF f])
    have nf: "\<not> final_status (op_Status ?op)" using runningD(3) [OF run] by simp
    show ?case
      by (rule wp_bind, rule wp_save_now [OF in_vault_follows [OF runningD(1) [OF run'] f] d R'])
        (use f d nf in \<open>auto intro!: wp_return running_saved\<close>)
  qed
qed

lemma wp_verify_actions:
  assumes "running op n s" "R s0 s" "\<forall>i \<in> set is. i < length (op_Actions op)"
    "\<forall>i < length (op_Actions op). committed_status (oa_Status (op_Actions op ! i))"
    "saved_operations s (op_ID op) = Some (op, n)"
  shows "wp (verify_actions e plan caps is limited op n)
    (\<lambda>r s'. R s0 s' \<and> (case r of Inl _ \<Rightarrow> True | Inr (limited', op', n') \<Rightarrow>
       running op' n' s' \<and> follows op op')) s"
  using assms
proof (induction "is" arbitrary: op n s limited)
  case Nil
  then show ?case by (auto intro!: wp_return)
next
  case (Cons i "is")
  have i: "i < length (op_Actions op)" "committed_status (oa_Status (op_Actions op ! i))"
    using Cons.prems by simp_all
  show ?case
    unfolding verify_actions.simps
  proof (rule wp_bind, rule wp_mono [OF wp_verify_action [OF Cons.prems(1,2) i Cons.prems(5)]], goal_cases)
    case (1 r s')
    show ?case
    proof (cases r)
      case (Inl x)
      with 1 show ?thesis by (auto intro!: wp_return)
    next
      case (Inr y)
      obtain limited' op' n' where y: "y = (limited', op', n')" by (cases y) auto
      have h: "R s0 s'" "running op' n' s'" "follows op op'"
          "saved_operations s' (op_ID op') = Some (op', n')"
        using 1 by (simp_all add: Inr y)
      have len: "length (op_Actions op') = length (op_Actions op)" by (rule follows_length [OF h(3)])
      have "wp (verify_actions e plan caps is limited' op' n')
        (\<lambda>r s'. R s0 s' \<and> (case r of Inl _ \<Rightarrow> True | Inr (limited', op'', n') \<Rightarrow>
           running op'' n' s' \<and> follows op' op'')) s'"
        using h Cons.prems(3,4) len follows_committed [OF h(3)] by (intro Cons.IH) auto
      then show ?thesis
        unfolding Inr y sum.case prod.case
        by (rule wp_mono) (use follows_trans [OF h(3)] in \<open>auto split: sum.splits\<close>)
    qed
  qed
qed

section \<open>The atomic batch\<close>

lemma wp_stage_requests:
  assumes "R s0 s" "\<forall>i \<in> set is. i < length (op_Actions op)" "distinct is"
    "\<forall>i \<in> set is. \<not> committed_status (oa_Status (op_Actions op ! i))"
  shows "wp (stage_requests e plan is requests op)
    (\<lambda>r s'. R s0 s' \<and> saved_operations s' = saved_operations s \<and> (case r of Inl _ \<Rightarrow> True
      | Inr (requests', op') \<Rightarrow> follows op op' \<and> op_Status op' = op_Status op \<and>
          (\<exists>vals. length vals = length is \<and>
            requests' = requests @ map2 (\<lambda>i. write_request_of plan (op_Actions op ! i)) is vals) \<and>
          (\<forall>i \<in> set is. oa_Status (op_Actions op' ! i) = ActionInFlight) \<and>
          (\<forall>j < length (op_Actions op). j \<notin> set is \<longrightarrow> op_Actions op' ! j = op_Actions op ! j))) s"
  using assms
proof (induction "is" arbitrary: requests op s)
  case Nil
  then show ?case by (auto intro!: wp_return)
next
  case (Cons i "is")
  let ?item = "op_Actions op ! i"
  show ?case
    unfolding stage_requests.simps Let_def
  proof (rule wp_bind, rule wp_action_value, rule wp_case_sum, goal_cases)
    case (1 r k err)
    then show ?case using Cons.prems(1) by (auto intro!: wp_return R_tick)
  next
    case (2 r k bytes)
    have f: "follows op (put_item i (attempt now ?item) op)" for now
      using Cons.prems(4) by (intro follows_put_item item_follows_uncommitted) simp_all
    show ?case
    proof (rule wp_bind, rule wp_nowString, goal_cases)
      case (1 now)
      let ?op = "put_item i (attempt now ?item) op"
      have R': "R s0 (s\<lparr>rtick := k, rtick := Suc (rtick (s\<lparr>rtick := k\<rparr>))\<rparr>)"
        using 2 Cons.prems(1) by (auto intro!: R_tick)
      have same: "op_Actions ?op ! j = op_Actions op ! j" if "j \<in> set is" for j
        using that Cons.prems(3) by (cases "j = i") simp_all
      have "wp (stage_requests e plan is (requests @ [write_request_of plan ?item bytes]) ?op)
          (\<lambda>r s'. R s0 s' \<and> saved_operations s' = saved_operations s \<and> (case r of Inl _ \<Rightarrow> True
            | Inr (requests', op') \<Rightarrow> follows ?op op' \<and> op_Status op' = op_Status ?op \<and>
              (\<exists>vals. length vals = length is \<and> requests' =
                 (requests @ [write_request_of plan ?item bytes]) @
                 map2 (\<lambda>i. write_request_of plan (op_Actions ?op ! i)) is vals) \<and>
              (\<forall>i \<in> set is. oa_Status (op_Actions op' ! i) = ActionInFlight) \<and>
              (\<forall>j < length (op_Actions ?op). j \<notin> set is \<longrightarrow> op_Actions op' ! j = op_Actions ?op ! j)))
          (s\<lparr>rtick := k, rtick := Suc (rtick (s\<lparr>rtick := k\<rparr>))\<rparr>)"
        by (rule wp_mono [OF Cons.IH [OF R']]) (use Cons.prems same in \<open>auto split: sum.splits\<close>)
      then show ?case
      proof (rule wp_mono, goal_cases)
        case (1 r s')
        show ?case
        proof (cases r)
          case (Inl x)
          with 1 show ?thesis by simp
        next
          case (Inr y)
          obtain requests' op' where y: "y = (requests', op')" by (cases y) auto
          obtain vals where v: "length vals = length is"
              "requests' = (requests @ [write_request_of plan ?item bytes]) @
                 map2 (\<lambda>i. write_request_of plan (op_Actions ?op ! i)) is vals"
            using 1 by (auto simp: Inr y)
          have "map2 (\<lambda>i. write_request_of plan (op_Actions ?op ! i)) is vals =
              map2 (\<lambda>i. write_request_of plan (op_Actions op ! i)) is vals"
            using same by (intro map_cong) (auto dest: set_zip_leftD)
          with v have "\<exists>vals. length vals = length (i # is) \<and>
              requests' = requests @ map2 (\<lambda>i. write_request_of plan (op_Actions op ! i)) (i # is) vals"
            by (intro exI [of _ "bytes # vals"]) simp
          moreover have "oa_Status (op_Actions op' ! i) = ActionInFlight"
            using 1 Cons.prems(2,3) by (auto simp: Inr y)
          moreover have "op_Actions op' ! j = op_Actions op ! j"
            if "j < length (op_Actions op)" "j \<notin> set (i # is)" for j
            using 1 that by (auto simp: Inr y)
          ultimately show ?thesis
            using 1 follows_trans [OF f] by (auto simp: Inr y)
        qed
      qed
    qed
  qed
qed

end

lemma map2_requests:
  "length vals = length items \<Longrightarrow>
    map2 (\<lambda>i. write_request_of plan (items ! i)) [0..<length items] vals =
      map2 (write_request_of plan) items vals"
  by (rule nth_equalityI) simp_all

lemma write_request_of_follows:
  "item_follows a b \<Longrightarrow> write_request_of plan b v = write_request_of plan a v"
  by (simp add: item_follows_def write_request_of_def)

lemma map2_requests_follows:
  assumes "follows x y" "length vals = length (op_Actions x)"
  shows "map2 (write_request_of plan) (op_Actions y) vals = map2 (write_request_of plan) (op_Actions x) vals"
  using assms write_request_of_follows
  by (intro nth_equalityI) (auto simp: follows_def list_all2_conv_all_nth)

context rollout_effects
begin

lemma wp_finish_stage:
  assumes run: "running op n s" and R: "R s0 s"
    and fl: "\<And>item. item \<in> set (op_Actions op) \<Longrightarrow> oa_Status item = ActionInFlight"
  shows "wp (finish_stage e op n evidence) (\<lambda>r s'. R s0 s' \<and> go_on (\<lambda>_. True) op r s') s"
proof -
  let ?done = "\<lambda>ev item. item\<lparr>oa_WriteEvidence := Some ev, oa_Status := ActionCommitted\<rparr>"
  have save: "wp (save_now e (op\<lparr>op_Status := StatusWritten, op_Actions := map (?done ev) (op_Actions op)\<rparr>) n)
      (\<lambda>r s'. R s0 s' \<and> go_on (\<lambda>_. True) op r s') t" if "running op n t" "R s0 t" for ev t
  proof -
    have f: "follows op (op\<lparr>op_Actions := map (?done ev) (op_Actions op)\<rparr>)"
      using fl by (intro follows_map_items item_follows_uncommitted) simp_all
    have f': "follows op (op\<lparr>op_Status := StatusWritten, op_Actions := map (?done ev) (op_Actions op)\<rparr>)"
      using f by (simp add: follows_def)
    show ?thesis
      using runningD [OF that(1)] that(2)
      by (intro wp_save_go_on in_vault_follows [OF _ f'] f') (simp_all add: distinct_targets_follows [OF f'])
  qed
  show ?thesis
    unfolding finish_stage_def
    by (auto intro!: wp_bind wp_if wp_return wp_nowString save run R R_tick)
qed

lemma wp_stage_call:
  assumes t: "R s0 t" "saved_operations t (op_ID op) = Some (op, n)" "effects t = Saved op # h"
    and op: "op_Status op = StatusWriting" "distinct_targets op" "follows op0 op"
      "\<And>item. item \<in> set (op_Actions op) \<Longrightarrow> oa_Status item = ActionInFlight"
    and req: "length vals = length (op_Actions op)"
      "requests = map2 (write_request_of plan) (op_Actions op) vals"
  shows "wp (do {
      answer \<leftarrow> call (Staged requests) (\<lambda>t. ad_Stage e t requests);
      case answer of
        Inl err \<Rightarrow> do {
          x \<leftarrow> stop_with e (op\<lparr>op_Status := staged_failure_status (SanitizeError ''stage'' err),
                 op_Actions := map (staged_failure (SanitizeError ''stage'' err)) (op_Actions op)\<rparr>)
                 n (Provider_Error (SanitizeError ''stage'' err));
          State_Monad.return (Inl x) }
      | Inr evidence \<Rightarrow> finish_stage e op n evidence })
    (\<lambda>r s'. R s0 s' \<and> go_on (\<lambda>_. True) op0 r s') t"
proof -
  have W: "R s0 (add_effect (Staged requests) t)"
    using R_trans [OF t(1) R_stage [OF t(3,2) op(1,2,4) req(1)]] req(2) by simp
  have run: "running op n (add_effect (Staged requests) t)"
    using running_saved [OF t(2)] op by simp
  have stop: "wp (stop_with e (op\<lparr>op_Status := st, op_Actions := map (staged_failure safe) (op_Actions op)\<rparr>) n x)
      (\<lambda>_ s'. R s0 s') (add_effect (Staged requests) t)" for st safe x
  proof -
    have f: "follows op (op\<lparr>op_Actions := map (staged_failure safe) (op_Actions op)\<rparr>)"
      using op(4) by (intro follows_map_items item_follows_uncommitted) (simp_all add: staged_failure_def Let_def)
    have f': "follows op (op\<lparr>op_Status := st, op_Actions := map (staged_failure safe) (op_Actions op)\<rparr>)"
      using f by (simp add: follows_def)
    show ?thesis
      using runningD [OF run] W
      by (intro wp_stop_with [where ?s0.0 = s0])
        (simp_all add: in_vault_follows [OF _ f'] distinct_targets_follows [OF f'])
  qed
  show ?thesis
  proof (rule wp_bind, rule wp_call, fold add_effect_def, rule wp_case_sum, goal_cases)
    case (1 err)
    show ?case by (rule wp_bind, rule wp_mono [OF stop]) (auto intro!: wp_return)
  next
    case (2 evidence)
    show ?case
      by (rule wp_mono [OF wp_finish_stage [OF run W op(4)]])
        (use follows_trans [OF op(3)] in \<open>auto simp: go_on_def split: sum.splits\<close>)
  qed
qed

lemma wp_advanceAtomicBatch:
  assumes run: "running op n s" and R: "R s0 s"
  shows "wp (advanceAtomicBatch e plan op n) (\<lambda>r s'. R s0 s' \<and> go_on (\<lambda>_. True) op r s') s"
proof -
  have stage: "wp (do {
        r \<leftarrow> stage_requests e plan [0..<length (op_Actions op)] [] op;
        case r of
          Inl x \<Rightarrow> State_Monad.return (Inl x)
        | Inr (requests, op) \<Rightarrow> do {
            r \<leftarrow> save_now e (op\<lparr>op_Status := StatusWriting\<rparr>) n;
            case r of
              Inl x \<Rightarrow> State_Monad.return (Inl x)
            | Inr (op, revision) \<Rightarrow> do {
                answer \<leftarrow> call (Staged requests) (\<lambda>t. ad_Stage e t requests);
                case answer of
                  Inl err \<Rightarrow> do {
                    x \<leftarrow> stop_with e (op\<lparr>op_Status := staged_failure_status (SanitizeError ''stage'' err),
                           op_Actions := map (staged_failure (SanitizeError ''stage'' err)) (op_Actions op)\<rparr>)
                           revision (Provider_Error (SanitizeError ''stage'' err));
                    State_Monad.return (Inl x) }
                | Inr evidence \<Rightarrow> finish_stage e op revision evidence } } })
      (\<lambda>r s'. R s0 s' \<and> go_on (\<lambda>_. True) op r s') s"
    if nc: "\<forall>item \<in> set (op_Actions op). \<not> committed_status (oa_Status item)"
  proof (rule wp_bind, rule wp_mono [OF wp_stage_requests [OF R]], goal_cases)
    case (4 r s')
    show ?case
    proof (cases r)
      case (Inl x)
      with 4 show ?thesis by (auto intro!: wp_return)
    next
      case (Inr y)
      obtain requests op' where y: "y = (requests, op')" by (cases y) auto
      obtain vals where h: "R s0 s'" "saved_operations s' = saved_operations s" "follows op op'"
          "op_Status op' = op_Status op" "length vals = length (op_Actions op)"
          "requests = map2 (\<lambda>i. write_request_of plan (op_Actions op ! i)) [0..<length (op_Actions op)] vals"
          "\<forall>i < length (op_Actions op). oa_Status (op_Actions op' ! i) = ActionInFlight"
        using 4 by (auto simp: Inr y)
      have len: "length (op_Actions op') = length (op_Actions op)" by (rule follows_length [OF h(3)])
      have fl: "oa_Status item = ActionInFlight" if "item \<in> set (op_Actions op')" for item
        using that h(7) len by (auto simp: in_set_conv_nth)
      have req: "requests = map2 (write_request_of plan) (op_Actions op') vals"
        using h(5,6) map2_requests map2_requests_follows [OF h(3)] by simp
      have v: "in_vault (op'\<lparr>op_Status := StatusWriting\<rparr>) n s'"
        using in_vault_follows [OF runningD(1) [OF run] h(3)] h(2) by (simp add: in_vault_def)
      have d: "distinct_targets (op'\<lparr>op_Status := StatusWriting\<rparr>)"
        using runningD(2) [OF run] distinct_targets_follows [OF h(3)] by simp
      have "wp (do {
            r \<leftarrow> save_now e (op'\<lparr>op_Status := StatusWriting\<rparr>) n;
            case r of
              Inl x \<Rightarrow> State_Monad.return (Inl x)
            | Inr (op, revision) \<Rightarrow> do {
                answer \<leftarrow> call (Staged requests) (\<lambda>t. ad_Stage e t requests);
                case answer of
                  Inl err \<Rightarrow> do {
                    x \<leftarrow> stop_with e (op\<lparr>op_Status := staged_failure_status (SanitizeError ''stage'' err),
                           op_Actions := map (staged_failure (SanitizeError ''stage'' err)) (op_Actions op)\<rparr>)
                           revision (Provider_Error (SanitizeError ''stage'' err));
                    State_Monad.return (Inl x) }
                | Inr evidence \<Rightarrow> finish_stage e op revision evidence } })
          (\<lambda>r s'. R s0 s' \<and> go_on (\<lambda>_. True) op r s') s'"
      proof (rule wp_bind, rule wp_save_now [OF v d h(1)], goal_cases)
        case (1 err t now)
        then show ?case by (auto intro!: wp_return)
      next
        case (2 t now)
        let ?op = "op'\<lparr>op_Status := StatusWriting, op_UpdatedAt := now\<rparr>"
        have "wp (do {
            answer \<leftarrow> call (Staged requests) (\<lambda>t. ad_Stage e t requests);
            case answer of
              Inl err \<Rightarrow> do {
                x \<leftarrow> stop_with e (?op\<lparr>op_Status := staged_failure_status (SanitizeError ''stage'' err),
                       op_Actions := map (staged_failure (SanitizeError ''stage'' err)) (op_Actions ?op)\<rparr>)
                       (n + 1) (Provider_Error (SanitizeError ''stage'' err));
                State_Monad.return (Inl x) }
            | Inr evidence \<Rightarrow> finish_stage e ?op (n + 1) evidence })
          (\<lambda>r s'. R s0 s' \<and> go_on (\<lambda>_. True) op r s') t"
          using 2 d h(3,5) len fl req
          by (intro wp_stage_call [where h = "effects s'" and vals = vals and plan = plan]) simp_all
        then show ?case unfolding sum.case prod.case .
      qed
      then show ?thesis by (simp add: Inr y)
    qed
  qed (auto simp: nc [rule_format])
  show ?thesis
    unfolding advanceAtomicBatch_def Let_def
    using run R stage by (auto intro!: wp_if wp_return simp: list_ex_iff)
qed

end

section \<open>Advance\<close>

text \<open>What a run without an error leaves in the vault.\<close>

definition completed :: "operation \<Rightarrow> rollout_world \<Rightarrow> bool" where
  "completed op s \<longleftrightarrow> (\<exists>n. saved_operations s (op_ID op) = Some (op, n)) \<and>
     operation_Validate op = None \<and> terminal_status (op_Status op)"

definition ended :: "operation \<times> rollout_error option \<Rightarrow> rollout_world \<Rightarrow> bool" where
  "ended r s \<longleftrightarrow> (snd r = None \<longrightarrow> completed (fst r) s)"

lemma ended_simps [simp]:
  "ended (op, Some err) s" "ended (op, None) s \<longleftrightarrow> completed op s"
  by (simp_all add: ended_def)

context rollout_effects
begin

lemma wp_finish_advance:
  assumes run: "running op n s" and R: "R s0 s"
  shows "wp (finish_advance e limited op n) (\<lambda>r s'. R s0 s' \<and> ended r s') s"
  unfolding finish_advance_def
  by (rule wp_bind, rule wp_save_now [where ?s0.0 = s0])
    (use runningD [OF run] R in \<open>auto intro!: wp_return simp: completed_def terminal_status_def\<close>)

lemma wp_verify_phase:
  assumes run: "running op n s" and R: "R s0 s"
    and c: "\<forall>i < length (op_Actions op). committed_status (oa_Status (op_Actions op ! i))"
  shows "wp (verify_phase e plan caps op n) (\<lambda>r s'. R s0 s' \<and> ended r s') s"
  unfolding verify_phase_def
proof (rule wp_bind, rule wp_save_now [where ?s0.0 = s0], goal_cases)
  case (5 s1 now)
  let ?op1 = "op\<lparr>op_Status := StatusWritten, op_UpdatedAt := now\<rparr>"
  from 5 have run1: "running ?op1 (n + 1) s1"
    using runningD [OF run] by (intro running_saved) simp_all
  have "wp (do {
     r \<leftarrow> save_now e (?op1\<lparr>op_Status := StatusVerifying\<rparr>) (n + 1);
     case r of Inl (op, err) \<Rightarrow> State_Monad.return (op, Some err) | Inr (op, revision) \<Rightarrow> do {
     r \<leftarrow> verify_actions e plan caps [0..<length (op_Actions op)] False op revision;
     case r of
       Inl (op, err) \<Rightarrow> State_Monad.return (op, Some err)
     | Inr (limited, op, revision) \<Rightarrow> finish_advance e limited op revision } })
    (\<lambda>r s'. R s0 s' \<and> ended r s') s1"
  proof (rule wp_bind, rule wp_save_now [where ?s0.0 = s0], goal_cases)
    case 1
    then show ?case using runningD(1) [OF run1] by (simp add: in_vault_def follows_def)
  next
    case 2
    then show ?case using runningD(2) [OF run1] by simp
  next
    case 3
    then show ?case using 5 by simp
  next
    case (4 err s' now')
    then show ?case by (auto intro!: wp_return)
  next
    case (5 s2 now')
    let ?op = "?op1\<lparr>op_Status := StatusVerifying, op_UpdatedAt := now'\<rparr>"
    have run2: "running ?op (n + 1 + 1) s2"
      using 5 runningD [OF run] by (intro running_saved) simp_all
    have "wp (do {
        r \<leftarrow> verify_actions e plan caps [0..<length (op_Actions ?op)] False ?op (n + 1 + 1);
        case r of
          Inl (op, err) \<Rightarrow> State_Monad.return (op, Some err)
        | Inr (limited, op, revision) \<Rightarrow> finish_advance e limited op revision })
      (\<lambda>r s'. R s0 s' \<and> ended r s') s2"
    proof (rule wp_bind, rule wp_mono [OF wp_verify_actions [OF run2, where ?s0.0 = s0]], goal_cases)
      case (5 r s')
      then show ?case
        by (cases r) (auto intro!: wp_return wp_finish_advance)
    qed (use 5 c in auto)
    then show ?case unfolding sum.case prod.case .
  qed
  then show ?case unfolding sum.case prod.case .
qed (use runningD [OF run] R in \<open>auto intro!: wp_return\<close>)

lemma wp_advance:
  assumes run: "running op n s" and R: "R s0 s"
  shows "wp (advance e plan op n) (\<lambda>r s'. R s0 s' \<and> ended r s') s"
proof -
  have rest: "wp (do {
         r \<leftarrow> write_actions e plan caps md [0..<length (op_Actions op)] op n;
         case r of
           Inl (op, err) \<Rightarrow> State_Monad.return (op, Some err)
         | Inr (op, revision) \<Rightarrow> verify_phase e plan caps op revision })
      (\<lambda>r s'. R s0 s' \<and> ended r s') t"
    if "running op n t" "R s0 t" for caps md op n t
  proof (rule wp_bind, rule wp_mono [OF wp_write_actions [OF that]], goal_cases)
    case (2 r s')
    show ?case
    proof (cases r)
      case (Inl x)
      with 2 show ?thesis by (cases x) (auto intro!: wp_return)
    next
      case (Inr y)
      obtain op' n' where y: "y = (op', n')" by (cases y) auto
      have h: "R s0 s'" "running op' n' s'" "follows op op'"
          "\<forall>i < length (op_Actions op). committed_status (oa_Status (op_Actions op' ! i))"
        using 2 by (auto simp: Inr y)
      then show ?thesis
        using follows_length [OF h(3)] by (auto simp: Inr y intro!: wp_verify_phase)
    qed
  qed simp
  let ?t = "s\<lparr>rtick := Suc (rtick s), rtick := Suc (rtick (s\<lparr>rtick := Suc (rtick s)\<rparr>))\<rparr>"
  have t: "running op n ?t" "R s0 ?t"
    using run R by (auto intro!: R_tick)
  show ?thesis
    unfolding advance_def
  proof (rule wp_bind, rule wp_ask, rule wp_bind, rule wp_ask, rule wp_case_sum, goal_cases)
    case (1 err)
    show ?case using t(2) by (auto intro!: wp_return)
  next
    case (2 md)
    have batch: "wp (if ad_atomic e then advanceAtomicBatch e plan op n else State_Monad.return (Inr (op, n)))
        (\<lambda>r s'. R s0 s' \<and> go_on (\<lambda>_. True) op r s') ?t"
    proof (rule wp_if)
      show "wp (advanceAtomicBatch e plan op n) (\<lambda>r s'. R s0 s' \<and> go_on (\<lambda>_. True) op r s') ?t"
        by (rule wp_advanceAtomicBatch [OF t])
      show "wp (State_Monad.return (Inr (op, n))) (\<lambda>r s'. R s0 s' \<and> go_on (\<lambda>_. True) op r s') ?t"
        by (rule wp_return) (use t in auto)
    qed
    show ?case
    proof (rule wp_bind, rule wp_mono [OF batch], goal_cases)
      case (1 r s')
      then show ?case
        by (cases r) (auto intro!: wp_return rest)
    qed
  qed
qed

section \<open>Apply, Resume and Plan\<close>

lemma wp_start_operation:
  assumes R: "R s0 s" and h: "effects s = confirmations plan @ h"
    and v: "plan_Validate e plan now = None"
  shows "wp (start_operation e plan)
    (\<lambda>r s'. R s0 s' \<and> (case r of Inl _ \<Rightarrow> True | Inr x \<Rightarrow> ended x s')) s"
proof -
  have keys: "distinct (map action_key (plan_Actions plan))"
    using plan_ValidateD(2) [OF v] by (simp add: plan_ok_def)
  have start: "wp (do {
        saved \<leftarrow> SaveOperation e op 0;
        case saved of
          Inl err \<Rightarrow> State_Monad.return (Inl (Wrapped ''save confirmed rollout operation'' err))
        | Inr revision \<Rightarrow> do { r \<leftarrow> advance e plan op revision; State_Monad.return (Inr r) } })
      (\<lambda>r s'. R s0 s' \<and> (case r of Inl _ \<Rightarrow> True | Inr x \<Rightarrow> ended x s')) t"
    if op: "op = confirmed_operation e plan ident now" and t: "R s0 t" "effects t = confirmations plan @ h"
    for op ident now t
  proof -
    have d: "distinct_targets op"
      using keys by (simp add: op distinct_targets_def confirmed_operation_def pending_action_def comp_def)
    have st: "op_Status op = StatusConfirmed" by (simp add: op confirmed_operation_def)
    have S: "R s0 (store_operation op 1 t)"
      if "operation_Validate op = None" "revision_of (saved_operations t (op_ID op)) = 0"
      using R_trans [OF t(1) R_start [OF that(1) op that(2) d t(2)]] .
    have run: "running op 1 (store_operation op 1 t)"
      using d st by (intro running_saved) (simp_all add: store_operation_def)
    show ?thesis
    proof (rule wp_bind, rule wp_SaveOperation, goal_cases)
      case (1 err k)
      then show ?case using t(1) by (auto intro!: wp_return R_tick)
    next
      case 2
      then show ?case using S by (auto intro!: wp_return)
    next
      case 3
      then have "wp (advance e plan op 1) (\<lambda>r s'. R s0 s' \<and> ended r s') (store_operation op 1 t)"
        using S run by (intro wp_advance) simp_all
      then show ?case by (auto intro!: wp_bind wp_return elim: wp_mono)
    qed
  qed
  show ?thesis
    unfolding start_operation_def newOperation_def Let_def
  proof (rule wp_bind, rule wp_bind, rule wp_ask, rule wp_case_option, goal_cases)
    case 1
    then show ?case using R by (auto intro!: wp_return R_tick)
  next
    case (2 bytes)
    show ?case
    proof (rule wp_bind, rule wp_nowString, rule wp_return, goal_cases)
      case (1 now)
      let ?op = "confirmed_operation e plan (hex_encode bytes) now"
      have t: "R s0 (s\<lparr>rtick := Suc (rtick s), rtick := Suc (rtick (s\<lparr>rtick := Suc (rtick s)\<rparr>))\<rparr>)"
        using R by (auto intro!: R_tick)
      show ?case
      proof (cases "operation_Validate ?op")
        case None
        show ?thesis
          unfolding None option.case sum.case by (rule start [OF refl t]) (simp add: h)
      next
        case (Some err)
        show ?thesis unfolding Some option.case sum.case by (rule wp_return) (use t in simp)
      qed
    qed
  qed
qed

lemma wp_ask_confirm:
  assumes "R s0 s"
    and "\<And>s'. R s0 s' \<Longrightarrow> effects s' = Confirmed cf # effects s \<Longrightarrow> Q True s'"
    and "\<And>s'. R s0 s' \<Longrightarrow> Q False s'"
  shows "wp (ask_confirm f cf) Q s"
proof (cases "f (rtick s) cf")
  case True
  then show ?thesis
    using assms(2) [OF R_trans [OF assms(1) R_confirm, of cf]]
    by (simp add: wp_def ask_confirm_def add_effect_def)
next
  case False
  then show ?thesis
    using assms(3) [OF R_tick [OF assms(1), of "Suc (rtick s)"]]
    by (simp add: wp_def ask_confirm_def)
qed

lemma wp_Apply:
  "wp (Apply e ident confirm) (\<lambda>r s'. R s s' \<and> (case r of Inl _ \<Rightarrow> True | Inr x \<Rightarrow> ended x s')) s"
  unfolding Apply_def
proof (rule wp_bind, rule wp_LoadPlan, goal_cases)
  case (1 err k)
  then show ?case by (auto intro!: wp_return R_time)
next
  case (2 plan rev)
  have R1: "R s (s\<lparr>rtick := Suc (rtick s)\<rparr>)" by (intro R_time) simp
  show ?case
    unfolding sum.case prod.case
  proof (rule wp_if, goal_cases)
    case 1
    then show ?case using R1 by (auto intro!: wp_return)
  next
    case 2
    show ?case
    proof (rule wp_bind, rule wp_validatePlanContext, goal_cases)
      case (1 r k)
      let ?t = "s\<lparr>rtick := Suc (rtick s), rtick := k\<rparr>"
      have Rt: "R s ?t" using R_tick [OF R1] 1(1) by simp
      show ?case
      proof (cases r)
        case (Some err)
        then show ?thesis using Rt by (auto intro!: wp_return)
      next
        case None
        obtain now where v: "plan_Validate e plan now = None" using 1(2) None by blast
        show ?thesis
          unfolding None option.case
        proof (rule wp_case_option, goal_cases)
          case 1
          then show ?case using Rt by (auto intro!: wp_return)
        next
          case (2 f)
          have start: "wp (start_operation e plan)
              (\<lambda>r s'. R s s' \<and> (case r of Inl _ \<Rightarrow> True | Inr x \<Rightarrow> ended x s')) t"
            if "R s t" "effects t = confirmations plan @ effects ?t" for t
            using wp_start_operation [OF that v] .
          show ?case
            using Rt
            by (auto intro!: wp_bind wp_ask_confirm [where ?s0.0 = s] wp_if wp_return start
                simp: confirmations_def)
        qed
      qed
    qed
  qed
qed

lemma wp_Resume:
  "wp (Resume e ident) (\<lambda>r s'. R s s' \<and> (case r of Inl _ \<Rightarrow> True | Inr x \<Rightarrow> ended x s')) s"
  unfolding Resume_def
proof (rule wp_bind, rule wp_LoadOperation, goal_cases)
  case (1 err k)
  then show ?case by (auto intro!: wp_return R_time)
next
  case (2 op rev)
  let ?t = "s\<lparr>rtick := Suc (rtick s)\<rparr>"
  have Rt: "R s ?t" by (intro R_time) simp
  have fin: "ended (op, None) ?t" if "terminal_status (op_Status op)"
    using 2 that by (auto simp: completed_def)
  have go: "wp (do { r \<leftarrow> advance e plan op rev; State_Monad.return (Inr r) })
      (\<lambda>r s'. R s s' \<and> (case r of Inl _ \<Rightarrow> True | Inr x \<Rightarrow> ended x s')) (?t\<lparr>rtick := k\<rparr>)"
    if "\<not> terminal_status (op_Status op)" "op_Status op \<noteq> StatusFailed" "operationMatchesPlan op plan"
      "plan_Validate e plan now = None" "Suc (rtick s) \<le> k" for plan now k
  proof -
    have "distinct (map action_key (plan_Actions plan))"
      using plan_ValidateD(2) [OF that(4)] by (simp add: plan_ok_def)
    then have "distinct_targets op"
      using that(3) by (simp add: operationMatchesPlan_def distinct_targets_def flip: map_map)
    then have "running op rev (?t\<lparr>rtick := k\<rparr>)"
      using 2 that(1,2) by (intro running_saved) (simp_all add: final_status_def)
    then have "wp (advance e plan op rev) (\<lambda>r s'. R s s' \<and> ended r s') (?t\<lparr>rtick := k\<rparr>)"
      using R_tick [OF Rt, of k] that(5) by (intro wp_advance) simp_all
    then show ?thesis by (auto intro!: wp_bind wp_return elim: wp_mono)
  qed
  show ?case
    unfolding sum.case prod.case
  proof (rule wp_if, goal_cases)
    case 1
    then show ?case using Rt fin by (auto intro!: wp_return)
  next
    case 2
    note nt = 2
    show ?case
    proof (rule wp_if, goal_cases)
      case 1
      then show ?case using Rt by (auto intro!: wp_return)
    next
      case 2
      note nf = 2
      show ?case
      proof (rule wp_bind, rule wp_LoadPlan, goal_cases)
        case (1 err k)
        then show ?case using R_tick [OF Rt] by (auto intro!: wp_return)
      next
        case (2 plan m)
        have Rt2: "R s (?t\<lparr>rtick := Suc (rtick ?t)\<rparr>)" using R_tick [OF Rt] by simp
        show ?case
          unfolding sum.case prod.case
        proof (rule wp_if, goal_cases)
          case 1
          then show ?case using Rt2 by (auto intro!: wp_return)
        next
          case 2
          show ?case
          proof (rule wp_bind, rule wp_validatePlanContext, goal_cases)
            case (1 r k)
            show ?case
            proof (cases r)
              case (Some err)
              then show ?thesis using R_tick [OF Rt, of k] 1(1) by (auto intro!: wp_return)
            next
              case None
              then obtain now where "plan_Validate e plan now = None" using 1(2) by blast
              then have "wp (do { r \<leftarrow> advance e plan op rev; State_Monad.return (Inr r) })
                (\<lambda>r s'. R s s' \<and> (case r of Inl _ \<Rightarrow> True | Inr x \<Rightarrow> ended x s')) (?t\<lparr>rtick := k\<rparr>)"
                using nt nf 2 1(1) by (intro go) simp_all
              then show ?thesis by (simp add: None)
            qed
          qed
        qed
      qed
    qed
  qed
qed

lemma wp_finish_plan:
  assumes "R s0 s"
  shows "wp (finish_plan e plan now) (\<lambda>r s'. R s0 s') s"
proof -
  have sp: "R s0 (store_plan plan 1 t)"
    if "valid_when_created e plan" "revision_of (saved_plans t (plan_ID plan)) = 0" "R s0 t" for t
    using R_trans [OF that(3) R_plan [OF that(1,2)]] .
  show ?thesis
    unfolding finish_plan_def
    using assms by (auto intro!: wp_case_option wp_return wp_bind wp_ValidateSnapshot wp_SavePlan R_tick sp)
qed

lemma wp_Plan: "wp (Plan e input) (\<lambda>r s'. R s s') s"
  unfolding Plan_def Let_def
  by (auto intro!: wp_bind wp_ask wp_if wp_return wp_case_sum wp_case_option wp_now_seconds
      wp_finish_plan R_tick R_refl)

end

end
