(* ===== verification/Rollout_Invariant.thy ===== *)
theory Rollout_Invariant
  imports Rollout_Runs
begin

text \<open>
  What holds of the vault and of the history of effects after any sequence of engine calls.
  \<open>history_ok\<close> says of every effect what stood before it: a provider write follows directly the
  save of the operation with that action in flight, an operation starts after its
  confirmations, and every later version of it follows the one before. \<open>world_ok\<close> ties the
  vault to the history; the interpretation \<open>inv\<close> of \<open>rollout_effects\<close> shows that every run
  keeps it.
\<close>

section \<open>Histories\<close>

fun latest :: "string \<Rightarrow> effect list \<Rightarrow> operation option" where
  "latest ident [] = None"
| "latest ident (Saved op # h) = (if op_ID op = ident then Some op else latest ident h)"
| "latest ident (_ # h) = latest ident h"

definition started_after :: "operation \<Rightarrow> effect list \<Rightarrow> bool" where
  "started_after op h \<longleftrightarrow> (\<exists>plan h'. h = confirmations plan @ h' \<and> op_PlanID op = plan_ID plan \<and>
     map oa_Action (op_Actions op) = plan_Actions plan \<and>
     (\<forall>item \<in> set (op_Actions op). oa_Status item = ActionPending))"

definition write_checkpoint :: "write_request \<Rightarrow> operation \<Rightarrow> bool" where
  "write_checkpoint req op \<longleftrightarrow> op_Status op = StatusWriting \<and>
     (\<exists>item \<in> set (op_Actions op). oa_Status item = ActionInFlight \<and>
        (\<exists>plan v. req = write_request_of plan item v))"

definition stage_checkpoint :: "write_request list \<Rightarrow> operation \<Rightarrow> bool" where
  "stage_checkpoint reqs op \<longleftrightarrow> op_Status op = StatusWriting \<and>
     (\<forall>item \<in> set (op_Actions op). oa_Status item = ActionInFlight) \<and>
     (\<exists>plan vals. length vals = length (op_Actions op) \<and>
        reqs = map2 (write_request_of plan) (op_Actions op) vals)"

fun history_ok :: "effect list \<Rightarrow> bool" where
  "history_ok [] = True"
| "history_ok (Saved op # h) =
     (history_ok h \<and> operation_Validate op = None \<and> distinct_targets op \<and>
      (case latest (op_ID op) h of
         None \<Rightarrow> started_after op h
       | Some op0 \<Rightarrow> follows op0 op \<and> \<not> final_status (op_Status op0)))"
| "history_ok (Wrote req # h) =
     (history_ok h \<and> (case h of Saved op # _ \<Rightarrow> write_checkpoint req op | _ \<Rightarrow> False))"
| "history_ok (Staged reqs # h) =
     (history_ok h \<and> (case h of Saved op # _ \<Rightarrow> stage_checkpoint reqs op | _ \<Rightarrow> False))"
| "history_ok (Verify_Asked v # h) =
     (history_ok h \<and> (\<exists>op plan. latest (op_ID op) h = Some op \<and>
        (\<exists>item \<in> set (op_Actions op). committed_status (oa_Status item) \<and> v = verify_request_of plan item)))"
| "history_ok (Plan_Saved plan # h) = history_ok h"
| "history_ok (Confirmed cf # h) = history_ok h"

definition operations_ok :: "rollout_world \<Rightarrow> bool" where
  "operations_ok s \<longleftrightarrow> (\<forall>ident. map_option fst (saved_operations s ident) = latest ident (effects s)) \<and>
     (\<forall>ident op n. saved_operations s ident = Some (op, n) \<longrightarrow>
        op_ID op = ident \<and> operation_Validate op = None \<and> 1 \<le> n)"

definition plans_ok :: "'c crypto_scheme \<Rightarrow> rollout_world \<Rightarrow> bool" where
  "plans_ok c s \<longleftrightarrow> (\<forall>ident plan n. saved_plans s ident = Some (plan, n) \<longrightarrow>
     plan_ID plan = ident \<and> valid_when_created c plan \<and> n = 1)"

definition world_ok :: "'c crypto_scheme \<Rightarrow> rollout_world \<Rightarrow> bool" where
  "world_ok c s \<longleftrightarrow> history_ok (effects s) \<and> operations_ok s \<and> plans_ok c s"

lemma world_ok_tick [simp]: "world_ok c (s\<lparr>rtick := n\<rparr>) = world_ok c s"
  by (simp add: world_ok_def operations_ok_def plans_ok_def)

lemma operations_ok_latest:
  "operations_ok s \<Longrightarrow> saved_operations s ident = Some (op, n) \<Longrightarrow> latest ident (effects s) = Some op"
  unfolding operations_ok_def by (metis fst_conv option.simps(9))

lemma operations_ok_unsaved:
  assumes "operations_ok s" "revision_of (saved_operations s ident) = 0"
  shows "saved_operations s ident = None \<and> latest ident (effects s) = None"
proof (cases "saved_operations s ident")
  case None
  with assms(1) show ?thesis unfolding operations_ok_def by (metis option.simps(8))
next
  case (Some x)
  with assms show ?thesis by (cases x) (force simp: operations_ok_def revision_of_def)
qed

lemma world_ok_store:
  assumes "world_ok c s" "operation_Validate op = None" "1 \<le> n" "history_ok (Saved op # effects s)"
  shows "world_ok c (store_operation op n s)"
  using assms
  by (auto simp: world_ok_def operations_ok_def plans_ok_def store_operation_def
      simp del: history_ok.simps)

lemma world_ok_effect:
  assumes "world_ok c s" "history_ok (ef # effects s)" "\<And>op. ef \<noteq> Saved op"
  shows "world_ok c (add_effect ef s)"
proof -
  have "latest ident (ef # h) = latest ident h" for ident h
    using assms(3) by (cases ef) auto
  with assms(1,2) show ?thesis
    by (simp add: world_ok_def operations_ok_def plans_ok_def add_effect_def)
qed

interpretation inv: rollout_effects "\<lambda>s s'. world_ok e s \<longrightarrow> world_ok e s'" e
  for e :: "'o rollout_env_scheme"
proof (unfold_locales, goal_cases)
  case (1 s k)
  then show ?case by simp
next
  case (2 x y z)
  then show ?case by simp
next
  case (3 plan s)
  show ?case
  proof
    assume s: "world_ok e s"
    have "saved_plans s (plan_ID plan) = None"
    proof (cases "saved_plans s (plan_ID plan)")
      case (Some x)
      then have "snd x = 1" using s by (cases x) (simp add: world_ok_def plans_ok_def)
      with Some 3(2) show ?thesis by (cases x) (simp add: revision_of_def)
    qed
    with s 3(1) show "world_ok e (store_plan plan 1 s)"
      by (auto simp: world_ok_def operations_ok_def plans_ok_def store_plan_def)
  qed
next
  case (4 s cf)
  show ?case
  proof
    assume s: "world_ok e s"
    then have "history_ok (Confirmed cf # effects s)" by (simp add: world_ok_def)
    with s show "world_ok e (add_effect (Confirmed cf) s)" by (intro world_ok_effect) simp_all
  qed
next
  case (5 op plan ident now s h)
  show ?case
  proof
    assume s: "world_ok e s"
    have "latest (op_ID op) (effects s) = None"
      using operations_ok_unsaved 5(3) s by (auto simp: world_ok_def)
    moreover have "started_after op (effects s)"
      unfolding started_after_def 5(5)
      by (rule exI [of _ plan]) (simp add: 5(2) confirmed_operation_def pending_action_def comp_def)
    ultimately show "world_ok e (store_operation op 1 s)"
      using s 5(1,4) by (intro world_ok_store) (simp_all add: world_ok_def)
  qed
next
  case (6 op s op0 n)
  show ?case
  proof
    assume s: "world_ok e s"
    have l: "latest (op_ID op) (effects s) = Some op0" and n: "1 \<le> n"
      using s operations_ok_latest [OF _ 6(2)] 6(2) by (auto simp: world_ok_def operations_ok_def)
    then show "world_ok e (store_operation op (n + 1) s)"
      using s 6 by (intro world_ok_store) (simp_all add: world_ok_def)
  qed
next
  case (7 s op h n i plan v)
  show ?case
  proof
    assume s: "world_ok e s"
    have "write_checkpoint (write_request_of plan (op_Actions op ! i) v) op"
      using 7(3-6) unfolding write_checkpoint_def by (metis nth_mem)
    then have "history_ok (Wrote (write_request_of plan (op_Actions op ! i) v) # effects s)"
      using s 7(1) by (simp add: world_ok_def)
    with s show "world_ok e (add_effect (Wrote (write_request_of plan (op_Actions op ! i) v)) s)"
      by (intro world_ok_effect) simp_all
  qed
next
  case (8 s op h n vals plan)
  show ?case
  proof
    assume s: "world_ok e s"
    have "stage_checkpoint (map2 (write_request_of plan) (op_Actions op) vals) op"
      using 8 by (auto simp: stage_checkpoint_def)
    then have "history_ok (Staged (map2 (write_request_of plan) (op_Actions op) vals) # effects s)"
      using s 8(1) by (simp add: world_ok_def)
    with s show "world_ok e (add_effect (Staged (map2 (write_request_of plan) (op_Actions op) vals)) s)"
      by (intro world_ok_effect) simp_all
  qed
next
  case (9 s op n i plan)
  show ?case
  proof
    assume s: "world_ok e s"
    have "latest (op_ID op) (effects s) = Some op"
      using s operations_ok_latest [OF _ 9(1)] by (simp add: world_ok_def)
    then have "history_ok (Verify_Asked (verify_request_of plan (op_Actions op ! i)) # effects s)"
      using s 9(2,3) unfolding world_ok_def history_ok.simps by (metis nth_mem)
    with s show "world_ok e (add_effect (Verify_Asked (verify_request_of plan (op_Actions op ! i))) s)"
      by (intro world_ok_effect) simp_all
  qed
qed

section \<open>Reachable worlds\<close>

definition no_rollouts :: rollout_world where
  "no_rollouts = \<lparr>saved_plans = \<lambda>_. None, saved_operations = \<lambda>_. None, rtick = 0, effects = []\<rparr>"

text \<open>
  Any sequence of engine calls, each with an outside of its own. Only the hash function stays.
\<close>

inductive rollouts :: "(bytes \<Rightarrow> bytes) \<Rightarrow> rollout_world \<Rightarrow> bool" for hash where
  start: "rollouts hash no_rollouts"
| plan: "rollouts hash s \<Longrightarrow> sha256 (e :: rollout_env) = hash \<Longrightarrow>
    run_state (Plan e input) s = (r, s') \<Longrightarrow> rollouts hash s'"
| applied: "rollouts hash s \<Longrightarrow> sha256 (e :: rollout_env) = hash \<Longrightarrow>
    run_state (Apply e ident confirm) s = (r', s') \<Longrightarrow> rollouts hash s'"
| resumed: "rollouts hash s \<Longrightarrow> sha256 (e :: rollout_env) = hash \<Longrightarrow>
    run_state (Resume e ident) s = (r', s') \<Longrightarrow> rollouts hash s'"

lemma plan_Validate_hash:
  "sha256 c = sha256 d \<Longrightarrow> plan_Validate c plan now = plan_Validate d plan now"
proof -
  assume "sha256 c = sha256 d"
  then have "ComputeDigest c plan = ComputeDigest d plan" by (simp add: ComputeDigest_def)
  then show ?thesis by (simp add: plan_Validate_def)
qed

lemma valid_when_created_hash:
  "sha256 c = sha256 d \<Longrightarrow> valid_when_created c plan = valid_when_created d plan"
proof -
  assume "sha256 c = sha256 d"
  from plan_Validate_hash [OF this] have "plan_Validate c = plan_Validate d" by (intro ext)
  then show ?thesis
    by (cases "parse_canonical (plan_CreatedAt plan)") (simp_all add: valid_when_created_def)
qed

lemma world_ok_hash: "sha256 c = sha256 d \<Longrightarrow> world_ok c s = world_ok d s"
  using valid_when_created_hash by (simp add: world_ok_def plans_ok_def) blast

lemma rollouts_ok: "rollouts (sha256 c) s \<Longrightarrow> world_ok (c :: 'c crypto_scheme) s"
proof (induction rule: rollouts.induct)
  case start
  then show ?case by (simp add: no_rollouts_def world_ok_def operations_ok_def plans_ok_def)
next
  case (plan s e input r s')
  then show ?case using wpD [OF inv.wp_Plan plan.hyps(3)] world_ok_hash [of c e] by simp
next
  case (applied s e ident confirm r s')
  then show ?case using wpD [OF inv.wp_Apply applied.hyps(3)] world_ok_hash [of c e] by simp
next
  case (resumed s e ident r s')
  then show ?case using wpD [OF inv.wp_Resume resumed.hyps(3)] world_ok_hash [of c e] by simp
qed

section \<open>Reading a history\<close>

lemma history_ok_suffix: "history_ok (h1 @ h2) \<Longrightarrow> history_ok h2"
proof (induction h1)
  case (Cons ef h1)
  then show ?case by (cases ef) auto
qed simp

lemma latest_ID: "latest ident h = Some op \<Longrightarrow> op_ID op = ident \<and> Saved op \<in> set h"
  by (induction ident h rule: latest.induct) (auto split: if_splits)

lemma latest_some: "Saved op \<in> set h \<Longrightarrow> \<exists>op'. latest (op_ID op) h = Some op'"
  by (induction "op_ID op" h rule: latest.induct) auto

lemma follows_latest:
  "history_ok h \<Longrightarrow> Saved op0 \<in> set h \<Longrightarrow> latest (op_ID op0) h = Some op \<Longrightarrow> follows op0 op"
proof (induction h arbitrary: op)
  case (Cons ef h)
  show ?case
  proof (cases "\<exists>x. ef = Saved x \<and> op_ID x = op_ID op0")
    case False
    then have "latest (op_ID op0) (ef # h) = latest (op_ID op0) h" "Saved op0 \<in> set h"
      using Cons.prems(2) by (cases ef; auto)+
    moreover have "history_ok h" using history_ok_suffix [of "[ef]" h] Cons.prems(1) by simp
    ultimately show ?thesis using Cons by simp
  next
    case True
    then have ef: "ef = Saved op" using Cons.prems(3) by auto
    show ?thesis
    proof (cases "Saved op0 \<in> set h")
      case F: False
      then show ?thesis using Cons.prems(2) ef by simp
    next
      case T: True
      then obtain op' where op': "latest (op_ID op0) h = Some op'" using latest_some by blast
      have "op_ID op = op_ID op0" using True ef by simp
      then have "history_ok h" "follows op' op" using Cons.prems(1) op' by (simp_all add: ef)
      with Cons.IH [OF _ T op'] follows_trans show ?thesis by blast
    qed
  qed
qed simp

text \<open>A save follows the earlier saves of the same operation.\<close>

lemma saved_follows:
  assumes "history_ok (h1 @ Saved op # h2)" "Saved op0 \<in> set h2" "op_ID op0 = op_ID op"
  shows "follows op0 op"
proof -
  have "history_ok (Saved op # h2)" using history_ok_suffix [OF assms(1)] .
  then show ?thesis using follows_latest [of "Saved op # h2" op0 op] assms(2,3) by simp
qed

lemma saved_started:
  assumes "history_ok h" "Saved op \<in> set h"
  shows "\<exists>h1 op0 h2. h = h1 @ Saved op0 # h2 \<and> op_ID op0 = op_ID op \<and> started_after op0 h2 \<and>
    follows op0 op"
  using assms
proof (induction h arbitrary: op)
  case (Cons ef h)
  have h: "history_ok h" using history_ok_suffix [of "[ef]" h] Cons.prems(1) by simp
  show ?case
  proof (cases "Saved op \<in> set h")
    case True
    with Cons.IH [OF h] show ?thesis by (metis append_Cons)
  next
    case False
    then have ef: "ef = Saved op" using Cons.prems(2) by simp
    show ?thesis
    proof (cases "latest (op_ID op) h")
      case None
      then have "started_after op h" using Cons.prems(1) ef by simp
      then show ?thesis using ef by (metis append_Nil follows_refl)
    next
      case (Some op')
      then have op': "follows op' op" "op_ID op' = op_ID op" "Saved op' \<in> set h"
        using Cons.prems(1) ef latest_ID [OF Some] by simp_all
      then obtain h1 op0 h2 where "h = h1 @ Saved op0 # h2" "op_ID op0 = op_ID op'"
          "started_after op0 h2" "follows op0 op'"
        using Cons.IH [OF h] by blast
      then show ?thesis using op' follows_trans by (metis append_Cons)
    qed
  qed
qed simp

end
