(* ===== verification/Rollout_Demo.thy ===== *)
theory Rollout_Demo
  imports Rollout_Invariant
begin

text \<open>
  A concrete rollout, for the witnesses: a plan with two public constants is made, applied and
  verified. The environment never fails, its clock stands still and its hash is constant.
\<close>

section \<open>Environments without failures\<close>

definition steady :: "'o rollout_env_scheme \<Rightarrow> bool" where
  "steady e \<longleftrightarrow> (\<forall>n. \<not> fault e n \<and> \<not> lost_reply e n) \<and> unlocked e"

lemma run_ask: "run_state (ask f) s = (f (rtick s), s\<lparr>rtick := Suc (rtick s)\<rparr>)"
  by (simp add: ask_def)

lemma run_call: "run_state (call ef f) s = (f (rtick s), add_effect ef s)"
  by (simp add: call_def add_effect_def)

lemma run_SaveOperation:
  "steady e \<Longrightarrow> operation_Validate op = None \<Longrightarrow> key_ok (op_ID op) \<Longrightarrow>
    revision_of (saved_operations s (op_ID op)) = n \<Longrightarrow>
    run_state (SaveOperation e op n) s = (Inr (n + 1), store_operation op (n + 1) s)"
  by (simp add: SaveOperation_def store_ready_def steady_def put_operation_def store_operation_def Let_def)

lemma run_LoadOperation:
  "steady e \<Longrightarrow> saved_operations s ident = Some (op, n) \<Longrightarrow> op_ID op = ident \<Longrightarrow>
    operation_Validate op = None \<Longrightarrow>
    run_state (LoadOperation e ident) s = (Inr (op, n), s\<lparr>rtick := Suc (rtick s)\<rparr>)"
  by (simp add: LoadOperation_def store_ready_def steady_def get_operation_def)

lemma run_SavePlan:
  "steady e \<Longrightarrow> valid_when_created e plan \<Longrightarrow> key_ok (plan_ID plan) \<Longrightarrow>
    revision_of (saved_plans s (plan_ID plan)) = n \<Longrightarrow>
    run_state (SavePlan e plan n) s = (Inr (n + 1), store_plan plan (n + 1) s)"
  by (simp add: SavePlan_def store_ready_def steady_def put_plan_def store_plan_def Let_def)

lemma run_LoadPlan:
  "steady e \<Longrightarrow> saved_plans s ident = Some (plan, n) \<Longrightarrow> plan_ID plan = ident \<Longrightarrow>
    valid_when_created e plan \<Longrightarrow>
    run_state (LoadPlan e ident) s = (Inr (plan, n), s\<lparr>rtick := Suc (rtick s)\<rparr>)"
  by (simp add: LoadPlan_def store_ready_def steady_def get_plan_def)

lemma run_nowString:
  "run_state (nowString e) s = (format_rfc3339 (to_secs (clock e (rtick s))), s\<lparr>rtick := Suc (rtick s)\<rparr>)"
  by (simp add: nowString_def run_ask)

lemma run_now_seconds:
  "run_state (now_seconds e) s = (to_secs (clock e (rtick s)), s\<lparr>rtick := Suc (rtick s)\<rparr>)"
  by (simp add: now_seconds_def run_ask)

lemma run_save_at:
  "steady e \<Longrightarrow> operation_Validate (op\<lparr>op_UpdatedAt := now\<rparr>) = None \<Longrightarrow> key_ok (op_ID op) \<Longrightarrow>
    revision_of (saved_operations s (op_ID op)) = n \<Longrightarrow>
    run_state (save_at e now op n) s =
      (Inr (op\<lparr>op_UpdatedAt := now\<rparr>, n + 1), store_operation (op\<lparr>op_UpdatedAt := now\<rparr>) (n + 1) s)"
  by (simp add: save_at_def Let_def run_SaveOperation)

section \<open>The environment\<close>

definition trial_time :: int where
  "trial_time = 1700000000"

definition trial_now :: string where
  "trial_now = ''2023-11-14T22:13:20Z''"

definition trial_digest :: string where
  "trial_digest = concat (replicate 32 ''68'')"

definition trial_target :: target_binding where
  "trial_target = \<lparr>tb_ProjectID = ''proj'', tb_EnvironmentID = ''prod'',
     tb_ServiceIDs = Some [(''web'', ''svc'')]\<rparr>"

definition trial_action :: "string \<Rightarrow> action" where
  "trial_action name = \<lparr>act_ID = name, act_Operation = ''upsert'', act_Service = ''web'',
     act_ServiceID = ''svc'', act_Name = name, act_Record = [], act_ValueSource = ''public-constant'',
     act_PublicValue = ''v'', act_ExpectedRecordRevision = 0\<rparr>"

abbreviation "first_action \<equiv> trial_action ''KEY''"
abbreviation "second_action \<equiv> trial_action ''URL''"

definition trial_snapshot :: snapshot where
  "trial_snapshot = \<lparr>sn_Version = 1, sn_Bundle = ''app'', sn_ManifestDigest = trial_digest,
     PhysicalToLogical = Some [], sn_Sources = Some [], RecordRevisions = Some [],
     PreviousRecordRevisions = [], sn_CreatedAt = trial_now\<rparr>"

definition trial_caps :: capabilities where
  "trial_caps = \<lparr>can_Create = True, can_ReadMetadata = True, can_Update = True, can_Validate = True,
     can_Revoke = True, SupportsIdempotencyKey = False, SupportsIdempotentWrite = False,
     SupportsMaskedPresence = False\<rparr>"

definition trial_metadata :: metadata_state where
  "trial_metadata = \<lparr>md_Target = providerTarget trial_target, md_Variables = [], md_Revision = []\<rparr>"

definition trial_evidence :: write_evidence where
  "trial_evidence = \<lparr>ProviderOperationID = ''op1'', CommittedAt = trial_now\<rparr>"

definition trial_verified :: verify_evidence where
  "trial_verified = \<lparr>ev_Result = VerificationVerified, ev_Presence = PresencePresent,
     VerifiedAt = trial_now, ev_Reason = []\<rparr>"

definition trial_env :: rollout_env where
  "trial_env = \<lparr>fault = (\<lambda>_. False), clock = (\<lambda>_. trial_time * second),
     rand = (\<lambda>_. Some (replicate 18 (CHR ''r''))), sha256 = (\<lambda>_. replicate 32 (CHR ''h'')),
     ed25519_verify = (\<lambda>_ _ _. True), x25519_nonzero = (\<lambda>_. True), unlocked = True,
     lost_reply = (\<lambda>_. False), vault_snapshot = (\<lambda>_ _. Some (Some trial_snapshot, 1)),
     vault_records = (\<lambda>_. Some []), ad_atomic = False, ad_Capabilities = (\<lambda>_. trial_caps),
     ad_Identity = (\<lambda>_. Inr \<lparr>id_Provider = ''acme'', id_ID = ''acct''\<rparr>),
     ad_Inspect = (\<lambda>_ _. Inr trial_metadata), ad_Write = (\<lambda>_ _. Inr trial_evidence),
     ad_Stage = (\<lambda>_ _. Inl Other_Error), ad_Verify = (\<lambda>_ _. Inr trial_verified)\<rparr>"

definition trial_input :: plan_input where
  "trial_input = \<lparr>in_Bundle = ''app'', in_ManifestDigest = trial_digest, in_SnapshotRevision = 1,
     in_Target = trial_target, in_Kind = [], in_Names = [], in_Actions = [first_action, second_action]\<rparr>"

definition trial_plan :: provider_plan where
  "trial_plan = \<lparr>plan_Version = 1, plan_Bundle = ''app'', plan_ManifestDigest = trial_digest,
     plan_SnapshotRevision = 1, plan_Provider = ''acme'', plan_ProviderIdentity = ''acct'',
     plan_ProviderRevision = [], plan_Target = trial_target, plan_Kind = [], plan_Names = [],
     plan_Actions = [first_action, second_action], plan_CreatedAt = trial_now,
     plan_ExpiresAt = ''2023-11-14T22:28:20Z'', plan_Digest = trial_digest\<rparr>"

lemma trial_env_sel [simp]:
  "clock trial_env n = trial_time * second" "rand trial_env n = Some (replicate 18 (CHR ''r''))"
  "sha256 trial_env = (\<lambda>_. replicate 32 (CHR ''h''))"
  "vault_snapshot trial_env n b = Some (Some trial_snapshot, 1)" "vault_records trial_env n = Some []"
  "\<not> ad_atomic trial_env" "ad_Capabilities trial_env n = trial_caps"
  "ad_Identity trial_env n = Inr \<lparr>id_Provider = ''acme'', id_ID = ''acct''\<rparr>"
  "ad_Inspect trial_env n tg = Inr trial_metadata" "ad_Write trial_env n req = Inr trial_evidence"
  "ad_Verify trial_env n vr = Inr trial_verified" "steady trial_env" "unlocked trial_env"
  by (simp_all add: trial_env_def steady_def)

lemma trial_clock [simp]: "to_secs (trial_time * second) = trial_time"
  by (simp add: to_secs_def second_def trial_time_def)

lemma trial_format [simp]: "format_rfc3339 trial_time = trial_now"
  "format_rfc3339 (trial_time + PlanTTL) = ''2023-11-14T22:28:20Z''"
  by code_simp+

lemma trial_hash: "hex_encode (replicate 32 (CHR ''h'')) = trial_digest"
  by code_simp

lemma trial_ComputeDigest [simp]: "ComputeDigest trial_env p = trial_digest"
  by (simp add: ComputeDigest_def trial_hash)

lemma trial_write_key [simp]: "write_key trial_env ident a = trial_digest"
  by (simp add: write_key_def trial_hash)

section \<open>Planning\<close>

lemma trial_cloneBinding [simp]: "cloneBinding trial_target = trial_target"
  by (simp add: cloneBinding_def cloneStrings_def trial_target_def)

lemma trial_build: "build_plan trial_env trial_input []
    \<lparr>id_Provider = ''acme'', id_ID = ''acct''\<rparr> trial_metadata trial_time = trial_plan"
  by (simp add: build_plan_def Let_def trial_plan_def trial_input_def trial_metadata_def PlanVersion_def)

lemma trial_header: "plan_header trial_plan (trial_time * second) = None"
  by code_simp

lemma trial_actions: "validate_actions 0 [] [] (plan_Target trial_plan) (plan_Actions trial_plan) = None"
  by code_simp

lemma trial_plan_valid [simp]: "plan_Validate trial_env trial_plan (trial_time * second) = None"
  by (simp add: plan_Validate_def trial_header trial_actions)
    (simp add: trial_plan_def named_kind_def PlanKindNamesOnly_def PlanKindBindingNames_def MaxActions_def)

lemma trial_created: "parse_canonical trial_now = Some trial_time"
  by code_simp

lemma trial_valid_when_created [simp]: "valid_when_created trial_env trial_plan"
  by (simp add: valid_when_created_def trial_plan_def trial_created)
    (simp add: trial_plan_def [symmetric])

lemma trial_key_ok: "key_ok trial_digest"
  by code_simp

lemma trial_snapshot_valid: "snapshot_Validate trial_snapshot = None"
  by code_simp

lemma trial_bindings: "validateSnapshotBindings trial_env trial_plan 1 trial_snapshot [] = None"
  by (simp add: validateSnapshotBindings_def trial_plan_def trial_snapshot_def bound_records_def
      trial_action_def)

lemma trial_ValidateSnapshot:
  "run_state (ValidateSnapshot trial_env trial_plan) s = (None, s\<lparr>rtick := rtick s + 2\<rparr>)"
  by (simp add: ValidateSnapshot_def store_ready_def run_ask trial_snapshot_valid trial_bindings)

lemma trial_same_target: "sameProviderTarget (md_Target trial_metadata) (providerTarget trial_target)"
  by (simp add: trial_metadata_def sameProviderTarget_def sameStrings_def providerTarget_def
      trial_target_def cloneStrings_def entries_def lookup_string_def)

lemma trial_supported: "actionsSupported [first_action, second_action] trial_caps = None"
  by (simp add: actionsSupported_def action_supported_def trial_action_def trial_caps_def)

definition trial_planned :: rollout_world where
  "trial_planned = \<lparr>saved_plans = (\<lambda>_. None)(trial_digest \<mapsto> (trial_plan, 1)),
     saved_operations = (\<lambda>_. None), rtick = 7, effects = [Plan_Saved trial_plan]\<rparr>"

lemma trial_Plan: "run_state (Plan trial_env trial_input) no_rollouts = (Inr trial_plan, trial_planned)"
proof -
  have i: "in_Target trial_input = trial_target" "in_Actions trial_input = [first_action, second_action]"
    "in_Kind trial_input = []" "in_Names trial_input = []"
    by (simp_all add: trial_input_def)
  have d: "plan_ID trial_plan = trial_digest" by (simp add: plan_ID_def trial_plan_def)
  have c: "can_ReadMetadata trial_caps" by (simp add: trial_caps_def)
  show ?thesis
    by (simp add: Plan_def run_ask run_now_seconds i c trial_same_target trial_supported trial_build
        PlanKindBindingNames_def finish_plan_def trial_ValidateSnapshot run_SavePlan d trial_key_ok
        no_rollouts_def revision_of_def store_plan_def trial_planned_def)
qed

section \<open>Applying\<close>

definition trial_id :: string where
  "trial_id = concat (replicate 18 ''72'')"

definition trial_item :: "action \<Rightarrow> operation_action" where
  "trial_item a = \<lparr>oa_Action = a, oa_Status = ActionPending, oa_Attempts = 0,
     oa_WriteKey = trial_digest, oa_LastAttemptAt = [], oa_WriteEvidence = None,
     oa_VerifyEvidence = None, oa_LastError = None\<rparr>"

definition trial_op :: "operation_status \<Rightarrow> operation_action list \<Rightarrow> operation" where
  "trial_op st items = \<lparr>op_Version = 1, op_ID = trial_id, op_PlanID = trial_digest,
     op_PlanDigest = trial_digest, op_Bundle = ''app'', op_ManifestDigest = trial_digest,
     op_SnapshotRevision = 1, op_Provider = ''acme'', op_ProviderIdentity = ''acct'',
     op_ProviderRevision = [], op_Target = trial_target, op_Status = st, op_Actions = items,
     op_CreatedAt = trial_now, op_UpdatedAt = trial_now, op_DeploymentID = [],
     op_DeployedVersion = [], op_PromotedAt = [], op_RollbackID = [], op_RolledBackAt = []\<rparr>"

definition trial_flying :: "action \<Rightarrow> operation_action" where
  "trial_flying a = attempt trial_now (trial_item a)"

definition trial_committed :: "action \<Rightarrow> operation_action" where
  "trial_committed a = (trial_flying a)\<lparr>oa_WriteEvidence := Some trial_evidence, oa_Status := ActionCommitted\<rparr>"

definition trial_done :: "action \<Rightarrow> operation_action" where
  "trial_done a = (trial_committed a)\<lparr>oa_VerifyEvidence := Some trial_verified, oa_Status := ActionVerified\<rparr>"

lemma trial_op_simps [simp]:
  "op_ID (trial_op st items) = trial_id" "op_Status (trial_op st items) = st"
  "op_Actions (trial_op st items) = items"
  "(trial_op st items)\<lparr>op_Status := st'\<rparr> = trial_op st' items"
  "(trial_op st items)\<lparr>op_UpdatedAt := trial_now\<rparr> = trial_op st items"
  "put_item i item' (trial_op st items) = trial_op st (items[i := item'])"
  by (simp_all add: trial_op_def put_item_def)

text \<open>The versions of the operation, in the order they are saved.\<close>

definition op_confirmed :: operation where
  "op_confirmed = trial_op StatusConfirmed [trial_item first_action, trial_item second_action]"
definition op_writing :: operation where
  "op_writing = trial_op StatusWriting [trial_flying first_action, trial_item second_action]"
definition op_half :: operation where
  "op_half = trial_op StatusWriting [trial_committed first_action, trial_item second_action]"
definition op_writing2 :: operation where
  "op_writing2 = trial_op StatusWriting [trial_committed first_action, trial_flying second_action]"
definition op_written :: operation where
  "op_written = trial_op StatusWriting [trial_committed first_action, trial_committed second_action]"
definition op_checked :: operation where
  "op_checked = trial_op StatusWritten [trial_committed first_action, trial_committed second_action]"
definition op_verifying :: operation where
  "op_verifying = trial_op StatusVerifying [trial_committed first_action, trial_committed second_action]"
definition op_verifying2 :: operation where
  "op_verifying2 = trial_op StatusVerifying [trial_done first_action, trial_committed second_action]"
definition op_verified :: operation where
  "op_verified = trial_op StatusVerifying [trial_done first_action, trial_done second_action]"
definition op_ready :: operation where
  "op_ready = trial_op StatusReady [trial_done first_action, trial_done second_action]"

lemmas op_defs = op_confirmed_def op_writing_def op_half_def op_writing2_def op_written_def op_checked_def
  op_verifying_def op_verifying2_def op_verified_def op_ready_def

lemma trial_valid1: "operation_Validate op_confirmed = None" "operation_Validate op_writing = None"
  "operation_Validate op_half = None" by code_simp+

lemma trial_valid2: "operation_Validate op_writing2 = None" "operation_Validate op_written = None"
  "operation_Validate op_checked = None" by code_simp+

lemma trial_valid3: "operation_Validate op_verifying = None" "operation_Validate op_verifying2 = None"
  "operation_Validate op_verified = None" "operation_Validate op_ready = None" by code_simp+

lemmas trial_ops_valid [simp] = trial_valid1 [unfolded op_defs] trial_valid2 [unfolded op_defs]
  trial_valid3 [unfolded op_defs]

lemma op_IDs [simp]: "op_ID op_confirmed = trial_id" "op_ID op_half = trial_id"
  "op_ID op_writing2 = trial_id" "op_ID op_ready = trial_id"
  by (simp_all add: op_defs)

lemma trial_keys [simp]: "key_ok trial_id" "hex_encode (replicate 18 (CHR ''r'')) = trial_id"
  by code_simp+

lemma trial_save:
  assumes "operation_Validate (trial_op st items) = None" "revision_of (saved_operations s trial_id) = n"
  shows "run_state (save_now trial_env (trial_op st items) n) s =
    (Inr (trial_op st items, n + 1), store_operation (trial_op st items) (n + 1) (s\<lparr>rtick := Suc (rtick s)\<rparr>))"
  using assms by (simp add: save_now_def run_nowString run_save_at)

lemma trial_confirmed: "confirmed_operation trial_env trial_plan trial_id trial_now = op_confirmed"
  by (simp add: confirmed_operation_def op_confirmed_def trial_op_def trial_plan_def pending_action_def
      trial_item_def OperationVersion_def plan_ID_def)

definition trial_request :: "action \<Rightarrow> write_request" where
  "trial_request a = write_request_of trial_plan (trial_item a) ''v''"

definition trial_check :: "action \<Rightarrow> verify_request" where
  "trial_check a = verify_request_of trial_plan (trial_committed a)"

definition trial_effects :: "effect list" where
  "trial_effects = [Saved op_ready, Saved op_verified, Verify_Asked (trial_check second_action),
     Saved op_verifying2, Verify_Asked (trial_check first_action), Saved op_verifying,
     Saved op_checked, Saved op_written, Wrote (trial_request second_action), Saved op_writing2,
     Saved op_half, Wrote (trial_request first_action), Saved op_writing,
     Saved op_confirmed, Confirmed (confirmation_of ''apply'' trial_plan), Plan_Saved trial_plan]"

lemma trial_item_facts:
  "oa_Status (trial_item a) = ActionPending" "oa_Action (trial_item a) = a"
  "oa_Status (trial_flying a) = ActionInFlight" "oa_Status (trial_committed a) = ActionCommitted"
  "attempt trial_now (trial_item a) = trial_flying a"
  "(trial_flying a)\<lparr>oa_WriteEvidence := Some trial_evidence, oa_Status := ActionCommitted\<rparr> = trial_committed a"
  "(trial_committed a)\<lparr>oa_VerifyEvidence := Some trial_verified, oa_Status := ActionVerified\<rparr> = trial_done a"
  by (simp_all add: trial_item_def trial_flying_def trial_committed_def trial_done_def attempt_def)

lemma trial_evidence_facts:
  "write_evidence_Validate trial_evidence = None" "verify_evidence_Validate trial_verified = None"
  "CommittedAt trial_evidence \<noteq> []" "VerifiedAt trial_verified \<noteq> []"
  by code_simp+

lemma trial_advance:
  assumes "saved_operations s = (\<lambda>_. None)(trial_id \<mapsto> (op_confirmed, 1))"
  shows "\<exists>n. run_state (advance trial_env trial_plan op_confirmed 1) s =
    ((op_ready, None),
     s\<lparr>rtick := n, saved_operations := (\<lambda>_. None)(trial_id \<mapsto> (op_ready, 10)),
       effects := take 13 trial_effects @ effects s\<rparr>)"
proof -
  have caps: "\<not> retriableWrite trial_caps" "can_Validate trial_caps"
    by (simp_all add: retriableWrite_def trial_caps_def)
  have act: "act_Record (trial_action a) = []" "act_PublicValue (trial_action a) = ''v''" for a
    by (simp_all add: trial_action_def)
  have res: "ev_Result trial_verified = VerificationVerified" by (simp add: trial_verified_def)
  have upt: "[0..<Suc (Suc 0)] = [0, 1]" by simp
  show ?thesis
    using assms unfolding op_confirmed_def op_ready_def
    by (simp add: advance_def run_ask run_call run_nowString write_action_def reconcile_def Let_def
        trial_item_facts trial_evidence_facts perform_write_def action_value_def act caps res upt
        run_save_at finish_write_def trial_save verify_phase_def verify_action_def verify_evidence_of_def
        finish_advance_def revision_of_def store_operation_def add_effect_def
        trial_request_def [symmetric] trial_check_def [symmetric] trial_effects_def op_defs)
      (rule exI, rule refl)
qed

definition trial_applied :: rollout_world where
  "trial_applied = snd (run_state (Apply trial_env trial_digest (Some (\<lambda>_ _. True))) trial_planned)"

lemma trial_Apply:
  "run_state (Apply trial_env trial_digest (Some (\<lambda>_ _. True))) trial_planned =
     (Inr (op_ready, None), trial_applied)"
  "effects trial_applied = trial_effects"
  "saved_operations trial_applied = (\<lambda>_. None)(trial_id \<mapsto> (op_ready, 10))"
proof -
  have acts: "plan_Actions trial_plan = [first_action, second_action]" and tgt: "plan_Target trial_plan = trial_target"
    and prov: "plan_Provider trial_plan = ''acme''" "plan_ProviderIdentity trial_plan = ''acct''"
      "plan_ProviderRevision trial_plan = []"
    by (simp_all add: trial_plan_def)
  have nd: "\<not> hasDestructive [first_action, second_action]"
    by (simp add: hasDestructive_def destructiveCount_def trial_action_def)
  have d: "plan_ID trial_plan = trial_digest" by (simp add: plan_ID_def trial_plan_def)
  define s where "s = store_operation op_confirmed 1 (add_effect
    (Confirmed (confirmation_of ''apply'' trial_plan)) (trial_planned\<lparr>rtick := 16\<rparr>))"
  have s: "saved_operations s = (\<lambda>_. None)(trial_id \<mapsto> (op_confirmed, 1))"
    by (simp add: s_def store_operation_def add_effect_def trial_planned_def)
  obtain n where adv: "run_state (advance trial_env trial_plan op_confirmed 1) s =
    ((op_ready, None),
     s\<lparr>rtick := n, saved_operations := (\<lambda>_. None)(trial_id \<mapsto> (op_ready, 10)),
       effects := take 13 trial_effects @ effects s\<rparr>)"
    using trial_advance [OF s] by blast
  have load: "run_state (LoadPlan trial_env trial_digest) trial_planned =
      (Inr (trial_plan, 1), trial_planned\<lparr>rtick := 8\<rparr>)"
    by (subst run_LoadPlan) (simp_all add: trial_planned_def d)
  have ctx: "run_state (validatePlanContext trial_env trial_plan True) (trial_planned\<lparr>rtick := 8\<rparr>) =
      (None, trial_planned\<lparr>rtick := 14\<rparr>)"
    by (simp add: validatePlanContext_def run_now_seconds check_context_def trial_ValidateSnapshot
        run_ask prov tgt acts trial_same_target trial_supported)
  have valid: "run_state (newOperation trial_env trial_plan) t =
      (Inr op_confirmed, t\<lparr>rtick := rtick t + 2\<rparr>)" for t
    by (simp add: newOperation_def run_ask run_nowString Let_def trial_confirmed trial_valid1)
  have saved: "run_state (SaveOperation trial_env op_confirmed 0)
      (trial_planned\<lparr>effects := Confirmed (confirmation_of ''apply'' trial_plan) # effects trial_planned, rtick := 17\<rparr>)
      = (Inr 1, s)"
    by (subst run_SaveOperation)
      (simp_all add: trial_valid1 revision_of_def trial_planned_def s_def store_operation_def add_effect_def)
  have run: "run_state (Apply trial_env trial_digest (Some (\<lambda>_ _. True))) trial_planned =
     (Inr (op_ready, None),
      s\<lparr>rtick := n, saved_operations := (\<lambda>_. None)(trial_id \<mapsto> (op_ready, 10)),
       effects := take 13 trial_effects @ effects s\<rparr>)"
    by (simp add: Apply_def load acts ctx nd ask_confirm_def start_operation_def valid saved adv)
  show "run_state (Apply trial_env trial_digest (Some (\<lambda>_ _. True))) trial_planned =
     (Inr (op_ready, None), trial_applied)"
    by (simp add: trial_applied_def run)
  show "effects trial_applied = trial_effects"
    unfolding trial_applied_def run
    by (simp add: s_def store_operation_def add_effect_def trial_planned_def trial_effects_def)
  show "saved_operations trial_applied = (\<lambda>_. None)(trial_id \<mapsto> (op_ready, 10))"
    by (simp add: trial_applied_def run)
qed

lemma trial_rollouts: "rollouts (sha256 trial_env) trial_planned" "rollouts (sha256 trial_env) trial_applied"
proof -
  show p: "rollouts (sha256 trial_env) trial_planned"
    by (rule rollouts.plan [OF rollouts.start refl trial_Plan])
  show "rollouts (sha256 trial_env) trial_applied"
    by (rule rollouts.applied [OF p refl trial_Apply(1)])
qed

end
