(* ===== verification/Rollout_Theorems.thy ===== *)
theory Rollout_Theorems
  imports Rollout_Demo "HOL-Library.List_Lexorder" "HOL-Library.Product_Lexorder"
begin

text \<open>
  The properties of provider plans and rollouts, each with a witness on the trial rollout of
  \<open>Rollout_Demo\<close>.
\<close>

section \<open>Histories of rollouts\<close>

fun requests_of :: "effect \<Rightarrow> write_request list" where
  "requests_of (Wrote req) = [req]"
| "requests_of (Staged reqs) = reqs"
| "requests_of _ = []"

text \<open>The request is the one for this item of an operation.\<close>

definition request_for :: "write_request \<Rightarrow> operation_action \<Rightarrow> bool" where
  "request_for req item \<longleftrightarrow> wr_Operation req = act_Operation (oa_Action item) \<and>
     wr_Service req = act_Service (oa_Action item) \<and> wr_ServiceID req = act_ServiceID (oa_Action item) \<and>
     wr_Name req = act_Name (oa_Action item) \<and> IdempotencyKey req = oa_WriteKey item"

lemma request_for_item: "request_for (write_request_of plan item v) item"
  by (simp add: request_for_def write_request_of_def NewWriteRequest_def Let_def)

lemma in_map2_requests:
  "req \<in> set (map2 (write_request_of plan) items vals) \<Longrightarrow> \<exists>item \<in> set items. request_for req item"
  using request_for_item by (auto dest!: set_zip_leftD)

lemma provider_request_saved:
  assumes "history_ok (h1 @ ef # h2)" "req \<in> set (requests_of ef)"
  obtains op h item where "h2 = Saved op # h" "op_Status op = StatusWriting" "operation_Validate op = None"
    "distinct_targets op" "item \<in> set (op_Actions op)" "oa_Status item = ActionInFlight" "request_for req item"
    "history_ok (Saved op # h)"
proof -
  have h: "history_ok (ef # h2)" using history_ok_suffix [OF assms(1)] .
  have "\<exists>op h. h2 = Saved op # h \<and> history_ok (Saved op # h) \<and> op_Status op = StatusWriting \<and>
    (\<exists>item \<in> set (op_Actions op). oa_Status item = ActionInFlight \<and> request_for req item)"
  proof (cases ef)
    case (Wrote r)
    then obtain op t where t: "h2 = Saved op # t"
      using h by (auto split: list.splits effect.splits)
    with h Wrote assms(2) request_for_item show ?thesis
      by (fastforce simp: write_checkpoint_def simp del: history_ok.simps(2))
  next
    case (Staged rs)
    then obtain op t where t: "h2 = Saved op # t"
      using h by (auto split: list.splits effect.splits)
    then have c: "stage_checkpoint rs op" "history_ok (Saved op # t)"
      using h Staged by (simp_all del: history_ok.simps(2))
    then have "\<exists>item \<in> set (op_Actions op). request_for req item"
      using assms(2) Staged in_map2_requests by (force simp: stage_checkpoint_def)
    with c t show ?thesis by (auto simp: stage_checkpoint_def simp del: history_ok.simps)
  qed (use assms(2) in auto)
  then obtain op h item where o: "h2 = Saved op # h" "history_ok (Saved op # h)" "op_Status op = StatusWriting"
    "item \<in> set (op_Actions op)" "oa_Status item = ActionInFlight" "request_for req item"
    by blast
  moreover have "operation_Validate op = None" "distinct_targets op" using o(2) by simp_all
  ultimately show ?thesis using that by blast
qed

text \<open>C18. Every operation a rollout keeps in the vault has passed the engine's validation, is
  stored under its own identifier, and goes back to a first version that was saved directly
  after its plan had been confirmed, separately once more when the plan revokes something; its
  actions are the plan's, unchanged, and every version since only moved them forward.
\<close>

theorem rollout_vault_ok:
  assumes "rollouts (sha256 c) s" and "saved_operations s ident = Some (op, n)"
  shows "op_ID op = ident \<and> operation_Validate op = None \<and> 1 \<le> n \<and>
    (\<exists>plan h1 op0 h2. effects s = h1 @ Saved op0 # confirmations plan @ h2 \<and> follows op0 op \<and>
       map oa_Action (op_Actions op) = plan_Actions plan)"
proof -
  have w: "world_ok c s" by (rule rollouts_ok [OF assms(1)])
  then have l: "latest ident (effects s) = Some op" and h: "history_ok (effects s)"
    and ok: "op_ID op = ident" "operation_Validate op = None" "1 \<le> n"
    using operations_ok_latest [OF _ assms(2)] assms(2) by (auto simp: world_ok_def operations_ok_def)
  obtain h1 op0 h2 where s: "effects s = h1 @ Saved op0 # h2" "started_after op0 h2" "follows op0 op"
    using saved_started [OF h] latest_ID [OF l] by blast
  then show ?thesis using ok follows_actions [OF s(3)] by (auto simp: started_after_def)
qed

theorem rollout_vault_ok_witness:
  "op_ID op_ready = trial_id \<and>
    operation_Validate op_ready = None"
  using rollout_vault_ok [OF trial_rollouts(2), of trial_id op_ready 10]
  by (simp add: trial_Apply(3))

text \<open>C19. No write reaches the provider without a checkpoint: directly before any write or staged
  batch, the operation was saved in status \<open>writing\<close>, valid, with the action of the request in
  flight under the idempotency key the request carries.
\<close>

theorem write_checkpointed:
  assumes "rollouts (sha256 c) s" and "effects s = h1 @ ef # h2" and "req \<in> set (requests_of ef)"
  shows "\<exists>op h. h2 = Saved op # h \<and> op_Status op = StatusWriting \<and> operation_Validate op = None \<and>
    (\<exists>item \<in> set (op_Actions op). oa_Status item = ActionInFlight \<and> request_for req item)"
proof -
  have "history_ok (h1 @ ef # h2)" using rollouts_ok [OF assms(1)] assms(2) by (simp add: world_ok_def)
  then show ?thesis by (rule provider_request_saved [OF _ assms(3)]) blast
qed

theorem write_checkpointed_witness:
  "\<exists>op h. drop 9 trial_effects = Saved op # h \<and> op_Status op = StatusWriting \<and> operation_Validate op = None \<and>
    (\<exists>item \<in> set (op_Actions op). oa_Status item = ActionInFlight \<and> request_for (trial_request second_action) item)"
  by (rule write_checkpointed [OF trial_rollouts(2), of "take 8 trial_effects" "Wrote (trial_request second_action)"])
    (simp_all add: trial_Apply(2) trial_effects_def)

text \<open>C20. Committed work is never written again: once a version of an operation with a committed
  (or verified, or limited) action has been saved, no later write or batch of this operation,
  in the same run or after any number of resumes, carries the target of that action.
\<close>

theorem committed_never_rewritten:
  assumes "rollouts (sha256 c) s" and "effects s = h1 @ ef # Saved op # h2"
    and "req \<in> set (requests_of ef)" and "Saved op0 \<in> set h2" and "op_ID op0 = op_ID op"
    and "item \<in> set (op_Actions op0)" and "committed_status (oa_Status item)"
  shows "(wr_Service req, wr_Name req) \<noteq> (act_Service (oa_Action item), act_Name (oa_Action item))"
proof
  assume same: "(wr_Service req, wr_Name req) = (act_Service (oa_Action item), act_Name (oa_Action item))"
  have h: "history_ok (h1 @ ef # Saved op # h2)"
    using rollouts_ok [OF assms(1)] assms(2) by (simp add: world_ok_def)
  obtain b where b: "b \<in> set (op_Actions op)" "oa_Status b = ActionInFlight" "request_for req b"
      "distinct_targets op"
    by (rule provider_request_saved [OF h assms(3)]) auto
  have f: "follows op0 op"
    using saved_follows [of "h1 @ [ef]" op h2 op0] h assms(4,5) by simp
  obtain i where i: "i < length (op_Actions op0)" "op_Actions op0 ! i = item"
    using assms(6) by (auto simp: in_set_conv_nth)
  have len: "length (op_Actions op) = length (op_Actions op0)" by (rule follows_length [OF f])
  have "committed_status (oa_Status (op_Actions op ! i))"
    using follows_committed [OF f i(1)] i(2) assms(7) by simp
  then have "op_Actions op ! i \<noteq> b" using b(2) by auto
  moreover have "oa_Action (op_Actions op ! i) = oa_Action item"
    using f i by (auto simp: follows_def list_all2_conv_all_nth item_follows_def)
  then have "action_key (oa_Action (op_Actions op ! i)) = action_key (oa_Action b)"
    using same b(3) by (simp add: request_for_def action_key_def)
  ultimately show False
    using b(1,4) i(1) len unfolding distinct_targets_def
    by (auto simp: in_set_conv_nth distinct_conv_nth)
qed

theorem committed_never_rewritten_witness:
  "(wr_Service (trial_request second_action), wr_Name (trial_request second_action)) \<noteq>
    (act_Service first_action, act_Name first_action)"
  using committed_never_rewritten [OF trial_rollouts(2), of "take 8 trial_effects"
      "Wrote (trial_request second_action)" op_writing2 "drop 10 trial_effects"
      "trial_request second_action" op_half "trial_committed first_action"]
  by (simp add: trial_Apply(2) trial_effects_def trial_item_facts op_half_def)
    (simp add: trial_committed_def trial_flying_def trial_item_def)

text \<open>C21. Nothing is written that was not confirmed: before any write stands, in this order, the
  accepted confirmation of a plan, a second one if the plan revokes something, and the save of
  the operation; the written name, service and operation are those of an action of that plan.
\<close>

theorem write_confirmed:
  assumes "rollouts (sha256 c) s" and "effects s = h1 @ ef # h2" and "req \<in> set (requests_of ef)"
  shows "\<exists>plan h3 op0 h4. h2 = h3 @ Saved op0 # confirmations plan @ h4 \<and>
    (\<exists>a \<in> set (plan_Actions plan). wr_Operation req = act_Operation a \<and> wr_Service req = act_Service a \<and>
       wr_ServiceID req = act_ServiceID a \<and> wr_Name req = act_Name a)"
proof -
  have h: "history_ok (h1 @ ef # h2)"
    using rollouts_ok [OF assms(1)] assms(2) by (simp add: world_ok_def)
  then obtain op t item where o: "h2 = Saved op # t" "item \<in> set (op_Actions op)" "request_for req item"
    using provider_request_saved [OF h assms(3)] by metis
  have "history_ok h2" using history_ok_suffix [of "h1 @ [ef]" h2] h by simp
  then obtain h3 op0 h4 where s: "h2 = h3 @ Saved op0 # h4" "started_after op0 h4" "follows op0 op"
    using saved_started [of h2 op] o(1) by auto
  then obtain plan h' where p: "h4 = confirmations plan @ h'" "plan_Actions plan = map oa_Action (op_Actions op)"
    using follows_actions [OF s(3)] by (auto simp: started_after_def)
  then show ?thesis using s(1) o(2,3) by (fastforce simp: request_for_def)
qed

theorem write_confirmed_witness:
  "\<exists>plan h3 op0 h4. drop 9 trial_effects = h3 @ Saved op0 # confirmations plan @ h4 \<and>
    (\<exists>a \<in> set (plan_Actions plan). wr_Operation (trial_request second_action) = act_Operation a \<and>
       wr_Service (trial_request second_action) = act_Service a \<and> wr_ServiceID (trial_request second_action) = act_ServiceID a \<and>
       wr_Name (trial_request second_action) = act_Name a)"
  by (rule write_confirmed [OF trial_rollouts(2), of "take 8 trial_effects" "Wrote (trial_request second_action)"])
    (simp_all add: trial_Apply(2) trial_effects_def)

text \<open>C22. A run of \<^verbatim>\<open>Apply\<close> or \<^verbatim>\<open>Resume\<close> that returns without an error has left in the vault
  exactly the operation it returns, in a terminal status, and every action of it has valid
  write evidence and valid verification evidence, all of it \<open>verified\<close> unless the status is
  \<open>limited\<close>.
\<close>

theorem run_without_error_proven:
  assumes "run_state (Apply e ident confirm) s = (Inr (op, None), s') \<or>
    run_state (Resume e ident) s = (Inr (op, None), s')"
  shows "(\<exists>n. saved_operations s' (op_ID op) = Some (op, n)) \<and> terminal_status (op_Status op) \<and>
    (\<forall>item \<in> set (op_Actions op). \<exists>w v.
       oa_WriteEvidence item = Some w \<and> write_evidence_Validate w = None \<and>
       oa_VerifyEvidence item = Some v \<and> verify_evidence_Validate v = None \<and>
       (op_Status op \<noteq> StatusLimited \<longrightarrow> ev_Result v = VerificationVerified))"
proof -
  have "completed op s'"
    using assms wpD [OF inv.wp_Apply] wpD [OF inv.wp_Resume] by fastforce
  then have c: "\<exists>n. saved_operations s' (op_ID op) = Some (op, n)" "operation_Validate op = None"
      "terminal_status (op_Status op)"
    by (auto simp: completed_def)
  show ?thesis using c terminal_operation [OF c(2,3)] by metis
qed

theorem run_without_error_proven_witness:
  "\<exists>n. saved_operations trial_applied trial_id = Some (op_ready, n)"
  using run_without_error_proven [OF disjI1 [OF trial_Apply(1)]] by simp

section \<open>Unproven outcomes\<close>

text \<open>The metadata neither shows this write nor shows the variable absent.\<close>

definition outcome_unproven :: "metadata_state \<Rightarrow> operation_action \<Rightarrow> bool" where
  "outcome_unproven md item \<longleftrightarrow>
     (case lookup_variable md (act_Service (oa_Action item)) (act_Name (oa_Action item)) of
        None \<Rightarrow> True
      | Some v \<Rightarrow> (LastWriteKey v = [] \<or> LastWriteKey v \<noteq> oa_WriteKey item) \<and>
          vm_Presence v \<noteq> PresenceAbsent)"

lemma reconcileAction_unproven: "outcome_unproven md item \<Longrightarrow> reconcileAction item md now = None"
  by (auto simp: outcome_unproven_def reconcileAction_def Let_def split: option.splits)

text \<open>C23. When the provider neither takes an idempotency key nor writes idempotently, an action in
  flight whose outcome the metadata does not prove is not written: the step stops, nothing is
  sent, the operation asks for reconciliation, and it is durable when that error is returned.
\<close>

theorem ambiguous_write_stops:
  assumes "oa_Status (op_Actions op ! i) = ActionInFlight" and "\<not> retriableWrite caps"
    and "outcome_unproven md (op_Actions op ! i)"
    and "run_state (write_action e plan caps md i op n) s = (r, s')"
  shows "\<exists>op' err. r = Inl (op', err) \<and> op_Status op' = StatusReconciliation \<and>
    (effects s' = effects s \<or> effects s' = Saved op' # effects s) \<and>
    (err = ErrReconciliationRequired \<longrightarrow> saved_operations s' (op_ID op) = Some (op', n + 1))"
proof -
  let ?Q = "\<lambda>r s'. \<exists>op' err. r = Inl (op', err) \<and> op_Status op' = StatusReconciliation \<and>
    (effects s' = effects s \<or> effects s' = Saved op' # effects s) \<and>
    (err = ErrReconciliationRequired \<longrightarrow> saved_operations s' (op_ID op) = Some (op', n + 1))"
  let ?op = "\<lambda>now. op\<lparr>op_Status := StatusReconciliation, op_UpdatedAt := now\<rparr>"
  have rec: "reconcileAction (op_Actions op ! i) md now = None" for now
    by (rule reconcileAction_unproven [OF assms(3)])
  have save: "wp (SaveOperation e (?op now) n) (\<lambda>r s'. \<forall>err. case r of
      Inl x \<Rightarrow> x \<noteq> ErrReconciliationRequired \<and> (effects s' = effects s \<or> effects s' = Saved (?op now) # effects s)
    | Inr m \<Rightarrow> effects s' = Saved (?op now) # effects s \<and>
        saved_operations s' (op_ID op) = Some (?op now, n + 1)) (s\<lparr>rtick := k\<rparr>)" for now k
    unfolding SaveOperation_def store_ready_def put_operation_def Let_def
    by (auto simp: wp_def split: option.splits)
  have "wp (write_action e plan caps md i op n) ?Q s"
    using assms(1,2)
    unfolding write_action_def reconcile_def Let_def stop_with_def save_now_def save_at_def
    by (auto simp: rec intro!: wp_bind wp_nowString wp_return wp_mono [OF save] split: sum.splits)
  then show ?thesis using assms(4) by (rule wpD)
qed

theorem ambiguous_write_stops_witness:
  "\<exists>op' err s'. run_state (write_action trial_env trial_plan trial_caps trial_metadata 0 op_writing 2)
      trial_applied = (Inl (op', err), s') \<and> op_Status op' = StatusReconciliation"
proof -
  obtain r s' where run: "run_state (write_action trial_env trial_plan trial_caps trial_metadata 0 op_writing 2)
      trial_applied = (r, s')" by (cases "run_state (write_action trial_env trial_plan trial_caps
        trial_metadata 0 op_writing 2) trial_applied")
  have "oa_Status (op_Actions op_writing ! 0) = ActionInFlight"
    by (simp add: op_writing_def trial_item_facts)
  moreover have "\<not> retriableWrite trial_caps" by (simp add: retriableWrite_def trial_caps_def)
  moreover have "outcome_unproven trial_metadata (op_Actions op_writing ! 0)"
    by (simp add: outcome_unproven_def lookup_variable_def trial_metadata_def)
  ultimately show ?thesis using ambiguous_write_stops [OF _ _ _ run] run by auto
qed

section \<open>Atomic batches\<close>

definition lost_stage :: provider_error where
  "lost_stage = \<lparr>pe_Operation = ''stage'', pe_Status = 0, pe_Code = [], pe_Retry = RetryAmbiguous\<rparr>"

text \<open>The trial environment with an atomic adapter whose batches have an unknown outcome.\<close>

definition batch_env :: rollout_env where
  "batch_env = trial_env\<lparr>ad_atomic := True, ad_Stage := (\<lambda>_ _. Inl (Error_Value lost_stage))\<rparr>"

definition lost_item :: "action \<Rightarrow> operation_action" where
  "lost_item a = (trial_flying a)\<lparr>oa_LastError := Some lost_stage\<rparr>"

definition op_lost :: operation where
  "op_lost = trial_op StatusReconciliation [lost_item first_action, lost_item second_action]"

lemma batch_env_sel [simp]:
  "clock batch_env n = trial_time * second" "rand batch_env n = Some (replicate 18 (CHR ''r''))"
  "vault_snapshot batch_env n b = Some (Some trial_snapshot, 1)" "vault_records batch_env n = Some []"
  "ad_atomic batch_env" "ad_Capabilities batch_env n = trial_caps"
  "ad_Identity batch_env n = Inr \<lparr>id_Provider = ''acme'', id_ID = ''acct''\<rparr>"
  "ad_Inspect batch_env n tg = Inr trial_metadata"
  "ad_Stage batch_env n rs = Inl (Error_Value lost_stage)" "steady batch_env" "unlocked batch_env"
  by (simp_all add: batch_env_def steady_def trial_env_def)

lemma batch_hash: "sha256 batch_env = sha256 trial_env"
  by (simp add: batch_env_def)

lemma batch_plan_valid [simp]: "plan_Validate batch_env trial_plan (trial_time * second) = None"
  using trial_plan_valid plan_Validate_hash [OF batch_hash] by metis

lemma batch_created [simp]: "valid_when_created batch_env trial_plan"
  using trial_valid_when_created valid_when_created_hash [OF batch_hash] by blast

lemma batch_confirmed: "confirmed_operation batch_env trial_plan trial_id trial_now = op_confirmed"
proof -
  have "pending_action batch_env trial_id = pending_action trial_env trial_id"
    by (rule ext) (simp add: pending_action_def write_key_def batch_hash)
  then show ?thesis using trial_confirmed by (simp add: confirmed_operation_def)
qed

lemma batch_ValidateSnapshot:
  "run_state (ValidateSnapshot batch_env trial_plan) s = (None, s\<lparr>rtick := rtick s + 2\<rparr>)"
proof -
  have "validateSnapshotBindings batch_env trial_plan 1 trial_snapshot [] = None"
    by (simp add: validateSnapshotBindings_def trial_plan_def trial_snapshot_def bound_records_def trial_action_def)
  then show ?thesis
    by (simp add: ValidateSnapshot_def store_ready_def run_ask trial_snapshot_valid)
qed

lemma lost_sanitized: "SanitizeError ''stage'' (Error_Value lost_stage) = lost_stage"
proof -
  have "safe_code ''stage''" "sanitizeCode [] = []" by code_simp+
  then show ?thesis
    by (simp add: SanitizeError_def lost_stage_def safeOperation_def trim_space_safe boundedStatus_def Let_def)
qed

lemma lost_valid: "error_Validate lost_stage = None"
  using SanitizeError_valid lost_sanitized by metis

lemma validate_item_error:
  assumes "error_Validate err = None" "oa_LastError item = None"
  shows "validate_item i t (item\<lparr>oa_LastError := Some err\<rparr>) = validate_item i t item"
proof -
  have sel: "oa_Action (z\<lparr>oa_LastError := w\<rparr>) = oa_Action z" "oa_Status (z\<lparr>oa_LastError := w\<rparr>) = oa_Status z"
    "oa_Attempts (z\<lparr>oa_LastError := w\<rparr>) = oa_Attempts z" "oa_WriteKey (z\<lparr>oa_LastError := w\<rparr>) = oa_WriteKey z"
    "oa_LastAttemptAt (z\<lparr>oa_LastError := w\<rparr>) = oa_LastAttemptAt z"
    "oa_WriteEvidence (z\<lparr>oa_LastError := w\<rparr>) = oa_WriteEvidence z"
    "oa_VerifyEvidence (z\<lparr>oa_LastError := w\<rparr>) = oa_VerifyEvidence z"
    "oa_LastError (z\<lparr>oa_LastError := w\<rparr>) = w" for z w
    by simp_all
  show ?thesis unfolding validate_item_def sel assms option.case simp_thms ..
qed

lemma trial_op_errors:
  assumes "error_Validate err = None" "oa_LastError x = None" "oa_LastError y = None"
  shows "operation_Validate (trial_op st [x\<lparr>oa_LastError := Some err\<rparr>, y\<lparr>oa_LastError := Some err\<rparr>]) =
    operation_Validate (trial_op st [x, y])"
proof -
  have h: "operation_header (trial_op st [a, b]) = operation_header (trial_op st [c, d])" for a b c d
    unfolding operation_header_def operation_identity_def deployment_evidence_def
      deployment_complete_def trial_op_def operation.simps by simp
  have a: "oa_Action (z\<lparr>oa_LastError := w\<rparr>) = oa_Action z" for z w by simp
  have v: "validate_items 0 [] t [x\<lparr>oa_LastError := Some err\<rparr>, y\<lparr>oa_LastError := Some err\<rparr>] =
      validate_items 0 [] t [x, y]" for t
    unfolding validate_items.simps a validate_item_error [OF assms(1,2)]
      validate_item_error [OF assms(1,3)] ..
  have l: "validate_terminal (trial_op st [x\<lparr>oa_LastError := Some err\<rparr>, y\<lparr>oa_LastError := Some err\<rparr>]) =
      validate_terminal (trial_op st [x, y])"
    by (simp add: validate_terminal_def limited_action_def)
  have t: "op_Target (trial_op st items) = trial_target" for items by (simp add: trial_op_def)
  show ?thesis
    unfolding operation_Validate_def l t trial_op_simps v
    using h [of "x\<lparr>oa_LastError := Some err\<rparr>" "y\<lparr>oa_LastError := Some err\<rparr>" x y] by simp
qed

text \<open>The second attempt.\<close>

definition again :: "action \<Rightarrow> operation_action" where
  "again a = attempt trial_now (lost_item a)"

lemma batch_valid1:
  "operation_Validate (trial_op StatusWriting [trial_flying first_action, trial_flying second_action]) = None"
  "operation_Validate (trial_op StatusReconciliation [trial_flying first_action, trial_flying second_action]) = None"
  by code_simp+

lemma batch_valid2:
  "operation_Validate (trial_op StatusWriting [again first_action, again second_action]) = None"
  "operation_Validate (trial_op StatusReconciliation [again first_action, again second_action]) = None"
  by code_simp+

lemma no_errors: "oa_LastError (trial_flying a) = None" "oa_LastError (again a) = None"
  by (simp_all add: trial_flying_def again_def attempt_def)

lemmas batch_valid3 = batch_valid1(2) [folded trial_op_errors [OF lost_valid no_errors(1) no_errors(1)]]
  batch_valid2(2) [folded trial_op_errors [OF lost_valid no_errors(2) no_errors(2)]]

lemma batch_save:
  assumes "operation_Validate (trial_op st items) = None" "revision_of (saved_operations s trial_id) = n"
  shows "run_state (save_now batch_env (trial_op st items) n) s =
    (Inr (trial_op st items, n + 1), store_operation (trial_op st items) (n + 1) (s\<lparr>rtick := Suc (rtick s)\<rparr>))"
  using assms by (simp add: save_now_def run_nowString run_save_at)

lemma batch_advance:
  assumes "saved_operations s = (\<lambda>_. None)(trial_id \<mapsto> (trial_op st [x, y], n))"
    and "\<not> committed_status (oa_Status x)" "\<not> committed_status (oa_Status y)"
    and "oa_Action x = first_action" "oa_Action y = second_action"
    and "operation_Validate (trial_op StatusWriting [attempt trial_now x, attempt trial_now y]) = None"
    and "operation_Validate (trial_op StatusReconciliation
      [(attempt trial_now x)\<lparr>oa_LastError := Some lost_stage\<rparr>,
       (attempt trial_now y)\<lparr>oa_LastError := Some lost_stage\<rparr>]) = None"
  shows "\<exists>k reqs. run_state (advance batch_env trial_plan (trial_op st [x, y]) n) s =
    ((trial_op StatusReconciliation [(attempt trial_now x)\<lparr>oa_LastError := Some lost_stage\<rparr>,
        (attempt trial_now y)\<lparr>oa_LastError := Some lost_stage\<rparr>], Some (Provider_Error lost_stage)),
     s\<lparr>rtick := k, saved_operations := (\<lambda>_. None)(trial_id \<mapsto>
         (trial_op StatusReconciliation [(attempt trial_now x)\<lparr>oa_LastError := Some lost_stage\<rparr>,
            (attempt trial_now y)\<lparr>oa_LastError := Some lost_stage\<rparr>], n + 1 + 1)),
       effects := [Saved (trial_op StatusReconciliation [(attempt trial_now x)\<lparr>oa_LastError := Some lost_stage\<rparr>,
            (attempt trial_now y)\<lparr>oa_LastError := Some lost_stage\<rparr>]), Staged reqs,
          Saved (trial_op StatusWriting [attempt trial_now x, attempt trial_now y])] @ effects s\<rparr>)"
proof -
  have act: "act_Record (trial_action a) = []" for a by (simp add: trial_action_def)
  have lost: "pe_Retry lost_stage = RetryAmbiguous" by (simp add: lost_stage_def)
  have upt: "[0..<Suc (Suc 0)] = [0, 1]" by simp
  have upd: "(trial_op st items)\<lparr>op_Actions := items'\<rparr> = trial_op st items'" for st items items'
    by (simp add: trial_op_def)
  show ?thesis
    using assms
    by (simp add: advance_def run_ask run_call run_nowString advanceAtomicBatch_def Let_def
        action_value_def act upt batch_save stop_with_def lost_sanitized lost upd
        staged_failure_def staged_failure_status_def store_operation_def add_effect_def revision_of_def)
      (rule exI, rule exI, rule refl)
qed

lemma batch_applied:
  "\<exists>r s. run_state (Apply batch_env trial_digest (Some (\<lambda>_ _. True))) trial_planned = (r, s) \<and>
     saved_operations s = (\<lambda>_. None)(trial_id \<mapsto> (op_lost, 3)) \<and>
     saved_plans s = saved_plans trial_planned"
proof -
  have acts: "plan_Actions trial_plan = [first_action, second_action]" and tgt: "plan_Target trial_plan = trial_target"
    and prov: "plan_Provider trial_plan = ''acme''" "plan_ProviderIdentity trial_plan = ''acct''"
      "plan_ProviderRevision trial_plan = []" and d: "plan_ID trial_plan = trial_digest"
    by (simp_all add: trial_plan_def plan_ID_def)
  have nd: "\<not> hasDestructive [first_action, second_action]"
    by (simp add: hasDestructive_def destructiveCount_def trial_action_def)
  have load: "run_state (LoadPlan batch_env trial_digest) trial_planned =
      (Inr (trial_plan, 1), trial_planned\<lparr>rtick := 8\<rparr>)"
    by (subst run_LoadPlan) (simp_all add: trial_planned_def d)
  have ctx: "run_state (validatePlanContext batch_env trial_plan True) (trial_planned\<lparr>rtick := 8\<rparr>) =
      (None, trial_planned\<lparr>rtick := 14\<rparr>)"
    by (simp add: validatePlanContext_def run_now_seconds check_context_def batch_ValidateSnapshot
        run_ask prov tgt acts trial_same_target trial_supported)
  have new: "run_state (newOperation batch_env trial_plan) t = (Inr op_confirmed, t\<lparr>rtick := rtick t + 2\<rparr>)" for t
    by (simp add: newOperation_def run_ask run_nowString Let_def batch_confirmed trial_valid1)
  define t where "t = trial_planned\<lparr>effects := Confirmed (confirmation_of ''apply'' trial_plan) # effects trial_planned,
      rtick := 17\<rparr>"
  define s where "s = store_operation op_confirmed 1 t"
  have saved: "run_state (SaveOperation batch_env op_confirmed 0) t = (Inr 1, s)"
    by (subst run_SaveOperation) (simp_all add: s_def t_def revision_of_def trial_planned_def trial_valid1)
  have s: "saved_operations s = (\<lambda>_. None)(trial_id \<mapsto> (op_confirmed, 1))"
      "saved_plans s = saved_plans trial_planned"
    by (simp_all add: s_def t_def store_operation_def trial_planned_def)
  obtain k reqs where adv: "run_state (advance batch_env trial_plan op_confirmed 1) s =
    ((op_lost, Some (Provider_Error lost_stage)),
     s\<lparr>rtick := k, saved_operations := (\<lambda>_. None)(trial_id \<mapsto> (op_lost, 3)),
       effects := [Saved op_lost, Staged reqs, Saved (trial_op StatusWriting
         [trial_flying first_action, trial_flying second_action])] @ effects s\<rparr>)"
    using batch_advance [of s StatusConfirmed "trial_item first_action" "trial_item second_action" 1]
      s(1) batch_valid1 batch_valid3
    by (auto simp: op_confirmed_def op_lost_def lost_item_def trial_item_facts)
  show ?thesis
    by (simp add: Apply_def load acts ctx nd ask_confirm_def start_operation_def new
        t_def [symmetric] saved adv s(2))
qed

lemma batch_resumed:
  assumes "saved_operations s = (\<lambda>_. None)(trial_id \<mapsto> (op_lost, 3))" "saved_plans s = saved_plans trial_planned"
  shows "\<exists>r s' op reqs op'. run_state (Resume batch_env trial_id) s = (r, s') \<and>
    effects s' = [Saved op', Staged reqs, Saved op] @ effects s"
proof -
  have acts: "plan_Actions trial_plan = [first_action, second_action]" and tgt: "plan_Target trial_plan = trial_target"
    and prov: "plan_Provider trial_plan = ''acme''" "plan_ProviderIdentity trial_plan = ''acct''"
      "plan_ProviderRevision trial_plan = []" and d: "plan_ID trial_plan = trial_digest"
      "plan_CreatedAt trial_plan = trial_now"
    by (simp_all add: trial_plan_def plan_ID_def)
  have item: "\<not> committed_status (oa_Status (lost_item a))" "oa_Action (lost_item a) = a" for a
    by (simp_all add: lost_item_def trial_item_facts) (simp add: trial_flying_def trial_item_def)
  have op: "op_Status op_lost = StatusReconciliation" "op_PlanID op_lost = trial_digest" "op_ID op_lost = trial_id"
    by (simp_all add: op_lost_def) (simp add: trial_op_def)
  have match: "operationMatchesPlan op_lost trial_plan"
    by (simp add: operationMatchesPlan_def op_lost_def acts item)
      (simp add: trial_op_def trial_plan_def sameBinding_def sameStrings_def trial_target_def entries_def
        lookup_string_def)
  have valid: "operation_Validate op_lost = None"
    using batch_valid3(1) by (simp add: op_lost_def lost_item_def)
  have load: "run_state (LoadOperation batch_env trial_id) s = (Inr (op_lost, 3), s\<lparr>rtick := Suc (rtick s)\<rparr>)"
    by (rule run_LoadOperation) (simp_all add: assms op valid)
  have plan: "run_state (LoadPlan batch_env trial_digest) t = (Inr (trial_plan, 1), t\<lparr>rtick := Suc (rtick t)\<rparr>)"
    if "saved_plans t = saved_plans trial_planned" for t
    by (rule run_LoadPlan) (simp_all add: that d trial_planned_def)
  have ctx: "run_state (validatePlanContext batch_env trial_plan False) t = (None, t\<lparr>rtick := rtick t + 6\<rparr>)" for t
    by (simp add: validatePlanContext_def run_now_seconds check_context_def batch_ValidateSnapshot
        run_ask prov tgt acts trial_same_target trial_supported d trial_created)
  have adv: "\<exists>r k op reqs op' m. run_state (advance batch_env trial_plan op_lost 3) (s\<lparr>rtick := j\<rparr>) =
     (r, s\<lparr>rtick := k, saved_operations := m,
        effects := [Saved op', Staged reqs, Saved op] @ effects s\<rparr>)" for j
    using batch_advance [of "s\<lparr>rtick := j\<rparr>" StatusReconciliation "lost_item first_action" "lost_item second_action" 3]
      batch_valid2(1) batch_valid3(2)
    by (simp add: assms(1) item op_lost_def [symmetric] again_def [symmetric]) blast
  obtain r k op reqs op' m where
    "run_state (advance batch_env trial_plan op_lost 3) (s\<lparr>rtick := 8 + rtick s\<rparr>) =
     (r, s\<lparr>rtick := k, saved_operations := m,
        effects := [Saved op', Staged reqs, Saved op] @ effects s\<rparr>)"
    using adv by blast
  then have "run_state (Resume batch_env trial_id) s = (Inr r, s\<lparr>rtick := k, saved_operations := m,
        effects := [Saved op', Staged reqs, Saved op] @ effects s\<rparr>)"
    by (simp add: Resume_def load op terminal_status_def plan assms(2) match ctx)
  then show ?thesis
    by (intro exI [of _ "Inr r"] exI [of _ "s\<lparr>rtick := k, saved_operations := m,
        effects := [Saved op', Staged reqs, Saved op] @ effects s\<rparr>"] exI [of _ op] exI [of _ reqs]
        exI [of _ op'] conjI) simp_all
qed

text \<open>C24. \<^verbatim>\<open>advanceAtomicBatch\<close> does not look at the outcome of an earlier batch: an operation that
  waits for reconciliation, all of whose actions are in flight at a provider that is not
  idempotent and whose metadata proves nothing, is staged again by \<^verbatim>\<open>Resume\<close>.
\<close>

theorem ambiguous_stage_repeated:
  "\<exists>(e :: rollout_env) s ident op n r s' h reqs.
     (\<forall>k. ad_atomic e \<and> \<not> retriableWrite (ad_Capabilities e k)) \<and>
     rollouts (sha256 e) s \<and> saved_operations s ident = Some (op, n) \<and>
     op_Status op = StatusReconciliation \<and>
     list_all (\<lambda>item. oa_Status item = ActionInFlight \<and>
        (\<forall>k t. \<exists>md. ad_Inspect e k t = Inr md \<and> outcome_unproven md item)) (op_Actions op) \<and>
     run_state (Resume e ident) s = (r, s') \<and> effects s' = h @ effects s \<and> Staged reqs \<in> set h"
proof -
  obtain r s where a: "run_state (Apply batch_env trial_digest (Some (\<lambda>_ _. True))) trial_planned = (r, s)"
    "saved_operations s = (\<lambda>_. None)(trial_id \<mapsto> (op_lost, 3))" "saved_plans s = saved_plans trial_planned"
    using batch_applied by blast
  have reach: "rollouts (sha256 batch_env) s"
    using rollouts.applied [OF trial_rollouts(1) batch_hash a(1)] by (simp add: batch_hash)
  obtain r' s' op reqs op' where res: "run_state (Resume batch_env trial_id) s = (r', s')"
    "effects s' = [Saved op', Staged reqs, Saved op] @ effects s"
    using batch_resumed [OF a(2,3)] by blast
  have items: "list_all (\<lambda>item. oa_Status item = ActionInFlight \<and>
      (\<forall>k t. \<exists>md. ad_Inspect batch_env k t = Inr md \<and> outcome_unproven md item)) (op_Actions op_lost)"
    by (auto simp: list_all_iff op_lost_def lost_item_def trial_item_facts outcome_unproven_def
        lookup_variable_def trial_metadata_def)
  have "\<not> retriableWrite (ad_Capabilities batch_env k)" for k
    by (simp add: retriableWrite_def trial_caps_def)
  moreover have "op_Status op_lost = StatusReconciliation" by (simp add: op_lost_def)
  moreover have "saved_operations s trial_id = Some (op_lost, 3)" by (simp add: a(2))
  moreover have "Staged reqs \<in> set [Saved op', Staged reqs, Saved op]" by simp
  ultimately show ?thesis
    using reach items res batch_env_sel(5) by blast
qed

end
