(* ===== verification/Rollout_Reliable.thy ===== *)
theory Rollout_Reliable
  imports Rollout_Theorems
begin

text \<open>
  Environments in which nothing fails any more, and the steps of the engine in them: its questions
  are answered, its saves succeed, and the operation stays one that passes validation.
\<close>

section \<open>A dependable environment\<close>

definition good_write :: "write_evidence \<Rightarrow> bool" where
  "good_write w \<longleftrightarrow> (ProviderOperationID w \<noteq> [] \<longrightarrow>
       length (ProviderOperationID w) \<le> 128 \<and> safe_code (ProviderOperationID w)) \<and>
     (CommittedAt w = [] \<or> canonicalTimestamp (CommittedAt w))"

definition good_verification :: "verify_evidence \<Rightarrow> bool" where
  "good_verification v \<longleftrightarrow> (\<exists>now. verify_evidence_Validate (v\<lparr>VerifiedAt := now\<rparr>) = None) \<and>
     (VerifiedAt v = [] \<or> canonicalTimestamp (VerifiedAt v))"

text \<open>Nothing fails any more; the clock is not before the operation's creation.\<close>

definition reliable :: "'o rollout_env_scheme \<Rightarrow> int \<Rightarrow> bool" where
  "reliable e created \<longleftrightarrow> steady e \<and>
     (\<forall>t. four_digit_year (to_secs (clock e t)) \<and> created \<le> to_secs (clock e t))"

text \<open>The adapter is the one of the plan, takes actions one by one, and answers with evidence.\<close>

definition cooperative :: "'o rollout_env_scheme \<Rightarrow> provider_plan \<Rightarrow> bool" where
  "cooperative e plan \<longleftrightarrow> \<not> ad_atomic e \<and> (\<forall>t.
     actionsSupported (plan_Actions plan) (ad_Capabilities e t) = None \<and>
     (\<exists>ident. ad_Identity e t = Inr ident \<and> id_Provider ident = plan_Provider plan \<and>
        id_ID ident = plan_ProviderIdentity plan) \<and>
     (\<exists>md. ad_Inspect e t (providerTarget (plan_Target plan)) = Inr md \<and>
        sameProviderTarget (md_Target md) (providerTarget (plan_Target plan)) \<and>
        (plan_ProviderRevision plan \<noteq> [] \<longrightarrow> md_Revision md = plan_ProviderRevision plan)) \<and>
     (\<forall>req. \<exists>w. ad_Write e t req = Inr w \<and> good_write w) \<and>
     (\<forall>req. \<exists>v. ad_Verify e t req = Inr v \<and> good_verification v))"

text \<open>The vault still holds the records and the snapshot that the plan was made for.\<close>

definition unchanged :: "'o rollout_env_scheme \<Rightarrow> provider_plan \<Rightarrow> bool" where
  "unchanged e plan \<longleftrightarrow> (\<exists>sn rs. snapshot_Validate sn = None \<and> distinct (map sr_Name rs) \<and>
     validateSnapshotBindings e plan (plan_SnapshotRevision plan) sn rs = None \<and>
     (\<forall>t. vault_snapshot e t (plan_Bundle plan) = Some (Some sn, plan_SnapshotRevision plan) \<and>
        vault_records e t = Some rs))"

section \<open>The context holds and the values are there\<close>

lemma unchanged_context:
  assumes "steady e" "unchanged e plan" "cooperative e plan" "valid_when_created e plan"
  shows "wp (validatePlanContext e plan False) (\<lambda>r s'. r = None \<and> (\<exists>k. s' = s\<lparr>rtick := k\<rparr>)) s"
proof -
  obtain sn rs where v: "snapshot_Validate sn = None"
      "validateSnapshotBindings e plan (plan_SnapshotRevision plan) sn rs = None"
      "\<And>t. vault_snapshot e t (plan_Bundle plan) = Some (Some sn, plan_SnapshotRevision plan)"
      "\<And>t. vault_records e t = Some rs"
    using assms(2) by (auto simp: unchanged_def)
  have snap: "run_state (ValidateSnapshot e plan) s = (None, s\<lparr>rtick := rtick s + 2\<rparr>)" for s
    using assms(1) by (simp add: ValidateSnapshot_def store_ready_def steady_def run_ask v)
  obtain t where t: "parse_canonical (plan_CreatedAt plan) = Some t" "plan_Validate e plan (t * second) = None"
    using assms(4) by (auto simp: valid_when_created_def split: option.splits)
  let ?t = "rtick s + 3"
  obtain ident md where "ad_Identity e ?t = Inr ident" "id_Provider ident = plan_Provider plan"
      "id_ID ident = plan_ProviderIdentity plan"
      "ad_Inspect e (Suc ?t) (providerTarget (plan_Target plan)) = Inr md"
      "sameProviderTarget (md_Target md) (providerTarget (plan_Target plan))"
      "plan_ProviderRevision plan \<noteq> [] \<longrightarrow> md_Revision md = plan_ProviderRevision plan"
      "actionsSupported (plan_Actions plan) (ad_Capabilities e (Suc (Suc ?t))) = None"
    using assms(3) unfolding cooperative_def by metis
  then show ?thesis
    by (simp add: wp_def validatePlanContext_def run_now_seconds t check_context_def snap run_ask
        eval_nat_numeral) (metis surjective)
qed

lemma current_record:
  assumes "distinct (map sr_Name rs)" "current_revisions rs name = n" "n \<noteq> 0"
  shows "\<exists>r. find (\<lambda>r. sr_Name r = name) rs = Some r \<and> sr_Revision r = n"
proof -
  let ?m = "map (\<lambda>r. (sr_Name r, sr_Revision r)) rs"
  have d: "distinct (map fst ?m)" using assms(1) by (simp add: comp_def)
  then have "map_of (rev ?m) = map_of ?m" by (rule map_of_rev_distinct)
  then have "map_of ?m name = Some n"
    using assms(2,3) by (simp add: current_revisions_def lookup_int_def rev_map split: option.splits)
  then obtain r where r: "r \<in> set rs" "sr_Name r = name" "sr_Revision r = n"
    using map_of_SomeD [of ?m name n] by auto
  then obtain r' where r': "find (\<lambda>r. sr_Name r = name) rs = Some r'"
    by (cases "find (\<lambda>r. sr_Name r = name) rs") (auto simp: find_None_iff)
  then have "r' \<in> set rs" "sr_Name r' = name" by (auto dest: find_SomeD)
  with r assms(1) have "r' = r" by (auto simp: distinct_map dest: inj_onD)
  with r r' show ?thesis by simp
qed

lemma unchanged_value:
  assumes "steady e" "unchanged e plan" "valid_when_created e plan" "a \<in> set (plan_Actions plan)"
  shows "wp (action_value e plan a) (\<lambda>r s'. (\<exists>v. r = Inr v) \<and> (\<exists>k. s' = s\<lparr>rtick := k\<rparr>)) s"
proof (cases "act_Record a = []")
  case True
  then show ?thesis
    by (auto simp: action_value_def intro!: wp_return exI [of _ "rtick s"])
next
  case False
  obtain t where "plan_Validate e plan (t * second) = None"
    using assms(3) by (auto simp: valid_when_created_def split: option.splits)
  then have "plan_ok plan (t * second)" by (rule plan_ValidateD)
  then have "action_ok (plan_Target plan) a" using assms(4) by (simp add: plan_ok_def)
  with False have pos: "act_ExpectedRecordRevision a \<noteq> 0"
    using action_okD(4,5) [of "plan_Target plan" a] by (cases "act_Operation a = ''revoke''") (auto simp: record_backed_def public_constant_def)
  obtain sn rs where v: "distinct (map sr_Name rs)"
      "validateSnapshotBindings e plan (plan_SnapshotRevision plan) sn rs = None"
      "\<And>t. vault_records e t = Some rs"
    using assms(2) by (auto simp: unchanged_def)
  have "(act_Record a, act_ExpectedRecordRevision a) \<in> set (bound_records plan)"
    using assms(4) False by (auto simp: bound_records_def)
  then have "current_revisions rs (PhysicalName e (plan_Bundle plan) (act_Record a)) = act_ExpectedRecordRevision a"
    using v(2) by (auto simp: validateSnapshotBindings_def find_None_iff split: if_splits option.splits)
  from current_record [OF v(1) this pos] show ?thesis
    using assms(1) False by (auto simp: wp_def action_value_def LoadRecord_def store_ready_def steady_def run_ask v(3))
qed

section \<open>Saving\<close>

text \<open>The engine works on an operation that would pass its validation at any moment.\<close>

definition sound :: "operation \<Rightarrow> bool" where
  "sound op \<longleftrightarrow> operation_header op = None \<and>
     (\<forall>item \<in> set (op_Actions op). item_ok (op_Target op) item) \<and>
     distinct (map (act_ID \<circ> oa_Action) (op_Actions op))"

definition held :: "operation \<Rightarrow> int \<Rightarrow> rollout_world \<Rightarrow> bool" where
  "held op n s \<longleftrightarrow> key_ok (op_ID op) \<and> revision_of (saved_operations s (op_ID op)) = n"

lemma held_tick [simp]: "held op n (s\<lparr>rtick := k\<rparr>) = held op n s"
  "held op n (add_effect ef s) = held op n s"
  "held op n (s\<lparr>effects := h\<rparr>) = held op n s"
  by (simp_all add: held_def add_effect_def)

lemma held_update [simp]: "held (op\<lparr>op_Status := st\<rparr>) n s = held op n s"
  "held (op\<lparr>op_UpdatedAt := t\<rparr>) n s = held op n s" "held (put_item i item op) n s = held op n s"
  by (simp_all add: held_def put_item_def)

definition created_at :: "operation \<Rightarrow> int \<Rightarrow> bool" where
  "created_at op t \<longleftrightarrow> canonicalTime (op_CreatedAt op) = Some t"

lemma created_at_update [simp]: "created_at (op\<lparr>op_Status := st\<rparr>) c = created_at op c"
  "created_at (op\<lparr>op_UpdatedAt := t\<rparr>) c = created_at op c" "created_at (put_item i item op) c = created_at op c"
  by (simp_all add: created_at_def put_item_def)

lemma check_None:
  "(if b then Some x else y) = None \<longleftrightarrow> \<not> b \<and> y = None"
  "(case v of None \<Rightarrow> Some x | Some c \<Rightarrow> f c) = None \<longleftrightarrow> (\<exists>c. v = Some c \<and> f c = None)"
  by (simp_all split: option.split)

lemma operation_header_None:
  "operation_header op = None \<longleftrightarrow> operation_identity op \<and>
     \<not> (op_ProviderRevision op \<noteq> [] \<and> \<not> evidence_pattern (op_ProviderRevision op)) \<and>
     deployment_evidence op \<and>
     \<not> (op_PromotedAt op \<noteq> [] \<and> canonicalTime (op_PromotedAt op) = None) \<and>
     \<not> (op_RolledBackAt op \<noteq> [] \<and> canonicalTime (op_RolledBackAt op) = None) \<and>
     deployment_complete op \<and> validOperationStatus (op_Status op) \<and> op_Actions op \<noteq> [] \<and>
     length (op_Actions op) \<le> MaxActions \<and> tb_ProjectID (op_Target op) \<noteq> [] \<and>
     tb_EnvironmentID (op_Target op) \<noteq> [] \<and> tb_ServiceIDs (op_Target op) \<noteq> None \<and>
     (\<exists>c u. canonicalTime (op_CreatedAt op) = Some c \<and> canonicalTime (op_UpdatedAt op) = Some u \<and> c \<le> u)"
  unfolding operation_header_def check_None by auto

lemma header_parts [simp]:
  "operation_identity (op\<lparr>op_Status := st\<rparr>) = operation_identity op"
  "operation_identity (op\<lparr>op_UpdatedAt := t\<rparr>) = operation_identity op"
  "operation_identity (put_item i item op) = operation_identity op"
  "deployment_evidence (op\<lparr>op_Status := st\<rparr>) = deployment_evidence op"
  "deployment_evidence (op\<lparr>op_UpdatedAt := t\<rparr>) = deployment_evidence op"
  "deployment_evidence (put_item i item op) = deployment_evidence op"
  "deployment_complete (op\<lparr>op_UpdatedAt := t\<rparr>) = deployment_complete op"
  "deployment_complete (put_item i item op) = deployment_complete op"
  "st \<noteq> StatusPromoted \<Longrightarrow> st \<noteq> StatusRolledBack \<Longrightarrow> deployment_complete (op\<lparr>op_Status := st\<rparr>)"
  by (simp_all add: operation_identity_def deployment_evidence_def deployment_complete_def put_item_def)

lemma header_update:
  assumes "operation_header op = None" "created_at op c" "canonicalTime now = Some t" "c \<le> t"
    and "validOperationStatus st" "st \<noteq> StatusPromoted" "st \<noteq> StatusRolledBack"
  shows "operation_header (op\<lparr>op_Status := st, op_UpdatedAt := now\<rparr>) = None"
  using assms by (simp add: operation_header_None created_at_def)

lemma header_put_item: "operation_header op = None \<Longrightarrow> operation_header (put_item i item op) = None"
  unfolding operation_header_None by (simp, simp add: put_item_def)

lemma sound_update:
  assumes "sound op" "created_at op c" "canonicalTime now = Some t" "c \<le> t"
    and "validOperationStatus st" "st \<noteq> StatusPromoted" "st \<noteq> StatusRolledBack"
  shows "sound (op\<lparr>op_Status := st, op_UpdatedAt := now\<rparr>)"
  using assms header_update [OF _ assms(2-)] by (simp add: sound_def)

lemma sound_put_item:
  assumes "sound op" "i < length (op_Actions op)" "item_ok (op_Target op) item"
    and "oa_Action item = oa_Action (op_Actions op ! i)"
  shows "sound (put_item i item op)"
proof -
  have "operation_header (put_item i item op) = None"
    using assms(1) by (simp add: sound_def header_put_item)
  moreover have "map (act_ID \<circ> oa_Action) ((op_Actions op)[i := item]) = map (act_ID \<circ> oa_Action) (op_Actions op)"
    using assms(2,4) by (simp add: map_update list_update_same_conv)
  moreover have "\<forall>x \<in> set ((op_Actions op)[i := item]). item_ok (op_Target op) x"
    using assms(1,3) set_update_subset_insert [of "op_Actions op" i item] by (auto simp: sound_def)
  ultimately show ?thesis using assms(1) by (simp add: sound_def put_item_def)
qed

lemma sound_valid:
  "sound op \<Longrightarrow> validate_terminal op = None \<Longrightarrow> operation_Validate op = None"
  by (simp add: sound_def operation_Validate_def iffD2 [OF validate_items_None])

lemma reliable_now: "reliable e c \<Longrightarrow> now = format_rfc3339 (to_secs (clock e t)) \<Longrightarrow>
    \<exists>u. canonicalTime now = Some u \<and> c \<le> u"
  by (auto simp: reliable_def canonicalTime_def parse_format_rfc3339)

text \<open>A save succeeds, whatever status it sets, if a terminal status is earned.\<close>

lemma wp_save_at_reliable:
  assumes "reliable e c" "sound op" "created_at op c" "held op n s"
    and "validOperationStatus st" "st \<noteq> StatusPromoted" "st \<noteq> StatusRolledBack"
    and "validate_terminal (op\<lparr>op_Status := st\<rparr>) = None" "canonicalTime now = Some t" "c \<le> t"
    and Q: "\<And>s'. sound (op\<lparr>op_Status := st, op_UpdatedAt := now\<rparr>) \<Longrightarrow>
      held op (n + 1) s' \<Longrightarrow>
      saved_operations s' (op_ID op) = Some (op\<lparr>op_Status := st, op_UpdatedAt := now\<rparr>, n + 1) \<Longrightarrow>
      Q (Inr (op\<lparr>op_Status := st, op_UpdatedAt := now\<rparr>, n + 1)) s'"
  shows "wp (save_at e now (op\<lparr>op_Status := st\<rparr>) n) Q s"
proof -
  let ?op = "op\<lparr>op_Status := st, op_UpdatedAt := now\<rparr>"
  have s: "sound ?op" by (rule sound_update [OF assms(2,3,9,10,5-7)])
  have "validate_terminal ?op = validate_terminal (op\<lparr>op_Status := st\<rparr>)"
    unfolding validate_terminal_def by simp
  then have "validate_terminal ?op = None" using assms(8) by (rule trans)
  with s have v: "operation_Validate ?op = None" by (rule sound_valid)
  have "run_state (save_at e now (op\<lparr>op_Status := st\<rparr>) n) s = (Inr (?op, n + 1), store_operation ?op (n + 1) s)"
    using run_save_at [where op = "op\<lparr>op_Status := st\<rparr>" and now = now and e = e and s = s and n = n] v assms(1,4)
    by (simp add: reliable_def held_def)
  moreover have "Q (Inr (?op, n + 1)) (store_operation ?op (n + 1) s)"
    using assms(4) by (intro Q s) (simp_all add: held_def store_operation_def revision_of_def)
  ultimately show ?thesis by (simp add: wp_def)
qed

lemma wp_save_now_reliable:
  assumes "reliable e c" "sound op" "created_at op c" "held op n s"
    and "validOperationStatus st" "st \<noteq> StatusPromoted" "st \<noteq> StatusRolledBack"
    and "validate_terminal (op\<lparr>op_Status := st\<rparr>) = None"
    and Q: "\<And>s' now. sound (op\<lparr>op_Status := st, op_UpdatedAt := now\<rparr>) \<Longrightarrow>
      held op (n + 1) s' \<Longrightarrow>
      saved_operations s' (op_ID op) = Some (op\<lparr>op_Status := st, op_UpdatedAt := now\<rparr>, n + 1) \<Longrightarrow>
      Q (Inr (op\<lparr>op_Status := st, op_UpdatedAt := now\<rparr>, n + 1)) s'"
  shows "wp (save_now e (op\<lparr>op_Status := st\<rparr>) n) Q s"
proof -
  let ?now = "format_rfc3339 (to_secs (clock e (rtick s)))"
  obtain t where t: "canonicalTime ?now = Some t" "c \<le> t" using reliable_now [OF assms(1) refl] by blast
  have "wp (save_at e ?now (op\<lparr>op_Status := st\<rparr>) n) Q (s\<lparr>rtick := Suc (rtick s)\<rparr>)"
    by (rule wp_save_at_reliable [OF assms(1-3) _ assms(5-8) t]) (use assms(4) Q in simp_all)
  then show ?thesis by (simp add: wp_def save_now_def run_nowString)
qed

section \<open>Items\<close>

lemma item_ok_attempt:
  "item_ok t item \<Longrightarrow> canonicalTime now = Some u \<Longrightarrow> item_ok t (attempt now item)"
  by (auto simp: item_ok_def validate_item_def validateAction_ok attempt_def done_status_def
      committed_status_def split: if_splits option.splits)

lemma item_ok_commit:
  "item_ok t item \<Longrightarrow> write_evidence_Validate w = None \<Longrightarrow> oa_Status item = ActionInFlight \<Longrightarrow>
    item_ok t (item\<lparr>oa_WriteEvidence := Some w, oa_Status := ActionCommitted\<rparr>)"
  by (auto simp: item_ok_def validate_item_def validateAction_ok done_status_def
      committed_status_def split: if_splits option.splits)

lemma item_ok_verify:
  assumes "item_ok t item" "committed_status (oa_Status item)" "verify_evidence_Validate v = None"
  shows "item_ok t (item\<lparr>oa_VerifyEvidence := Some v, oa_Status :=
    (if ev_Result v = VerificationVerified then ActionVerified else ActionLimited)\<rparr>)"
  using assms
  by (auto simp: item_ok_def validate_item_def validateAction_ok done_status_def
      committed_status_def verify_evidence_Validate_def split: if_splits option.splits)

end
