(* ===== verification/Rollout_Liveness.thy ===== *)
theory Rollout_Liveness
  imports Rollout_Reliable
begin

text \<open>
  Interrupted rollouts can be finished: in an environment that answers from now on, one
  \<^verbatim>\<open>Resume\<close> takes an operation from whatever state it was left in to a terminal one.
\<close>

section \<open>The operation on its way\<close>

definition afloat :: "provider_plan \<Rightarrow> int \<Rightarrow> operation \<Rightarrow> int \<Rightarrow> rollout_world \<Rightarrow> bool" where
  "afloat plan c op n s \<longleftrightarrow> sound op \<and> created_at op c \<and> held op n s \<and> \<not> final_status (op_Status op) \<and>
     map oa_Action (op_Actions op) = plan_Actions plan"

text \<open>The two operations differ at most in their status, their time and one action.\<close>

definition touched :: "nat \<Rightarrow> operation \<Rightarrow> operation \<Rightarrow> bool" where
  "touched i op op' \<longleftrightarrow> op_ID op' = op_ID op \<and> length (op_Actions op') = length (op_Actions op) \<and>
     (\<forall>j. j \<noteq> i \<longrightarrow> op_Actions op' ! j = op_Actions op ! j)"

lemma afloat_tick [simp]: "afloat plan c op n (s\<lparr>rtick := k\<rparr>) = afloat plan c op n s"
  "afloat plan c op n (add_effect ef s) = afloat plan c op n s"
  "afloat plan c op n (s\<lparr>effects := h\<rparr>) = afloat plan c op n s"
  by (simp_all add: afloat_def)





lemma same_status [simp]: "op\<lparr>op_Status := op_Status op\<rparr> = op"
  by simp



section \<open>Writing\<close>





lemma touched_refl [simp]: "touched i op op"
  by (simp add: touched_def)



section \<open>Verifying\<close>






section \<open>To the end\<close>







definition repeating_env :: rollout_env where
  "repeating_env = trial_env\<lparr>ad_Capabilities := \<lambda>_. trial_caps\<lparr>SupportsIdempotencyKey := True\<rparr>\<rparr>"

lemma repeating_env_sel [simp]:
  "clock repeating_env n = trial_time * second" "sha256 repeating_env = sha256 trial_env"
  "vault_snapshot repeating_env n b = Some (Some trial_snapshot, 1)" "vault_records repeating_env n = Some []"
  "\<not> ad_atomic repeating_env" "ad_Capabilities repeating_env n = trial_caps\<lparr>SupportsIdempotencyKey := True\<rparr>"
  "ad_Identity repeating_env n = Inr \<lparr>id_Provider = ''acme'', id_ID = ''acct''\<rparr>"
  "ad_Inspect repeating_env n tg = Inr trial_metadata" "ad_Write repeating_env n req = Inr trial_evidence"
  "ad_Verify repeating_env n vr = Inr trial_verified" "steady repeating_env"
  by (simp_all add: repeating_env_def trial_env_def steady_def)



end
