(* ===== verification/Plan_Theorems.thy ===== *)
theory Plan_Theorems
  imports Rollout_Demo "HOL-Library.List_Lexorder" "HOL-Library.Product_Lexorder"
begin

text \<open>
  The properties of provider plans, their validation and digests, of the helpers the engine
  compares and orders plans with, of provider errors and of bundle snapshots.
\<close>

section \<open>Plans\<close>

text \<open>C25. The digest of a plan binds all its fields: two plans made of valid UTF-8 with the same
  digest are equal but for the digest field, or their canonical texts are two different
  preimages of the same SHA-256 value.
\<close>

theorem plan_digest_binds:
  assumes "plan_utf8 p" and "plan_utf8 q" and "ComputeDigest c p = ComputeDigest c q"
  shows "p\<lparr>plan_Digest := []\<rparr> = q\<lparr>plan_Digest := []\<rparr> \<or>
    digest_text p \<noteq> digest_text q \<and> sha256 c (digest_text p) = sha256 c (digest_text q)"
  using digest_text_inject [OF assms(1,2)] ComputeDigest_collision [OF assms(3)] by blast

theorem plan_digest_binds_witness:
  "trial_plan\<lparr>plan_Digest := []\<rparr> = (trial_plan\<lparr>plan_Digest := ''d''\<rparr>)\<lparr>plan_Digest := []\<rparr> \<or>
    digest_text trial_plan \<noteq> digest_text (trial_plan\<lparr>plan_Digest := ''d''\<rparr>) \<and>
    sha256 trial_env (digest_text trial_plan) = sha256 trial_env (digest_text (trial_plan\<lparr>plan_Digest := ''d''\<rparr>))"
proof (rule plan_digest_binds)
  show "plan_utf8 trial_plan" "plan_utf8 (trial_plan\<lparr>plan_Digest := ''d''\<rparr>)" by code_simp+
  show "ComputeDigest trial_env trial_plan = ComputeDigest trial_env (trial_plan\<lparr>plan_Digest := ''d''\<rparr>)" by simp
qed

text \<open>C26. What a valid plan guarantees at the time of the check: it is within the fifteen minutes
  after its creation; no two actions share an identifier or write the same variable; every
  action is one of the four operations on a service the target binds; a write takes its value
  from a record at a positive revision or from a public constant, a revocation from nothing;
  and the digest is the plan's own.
\<close>

theorem valid_plan_contents:
  assumes "plan_Validate c plan now = None"
  shows "(\<exists>created. parse_canonical (plan_CreatedAt plan) = Some created \<and>
      created * second \<le> now \<and> now < (created + 15 * 60) * second) \<and>
    distinct (map act_ID (plan_Actions plan)) \<and>
    distinct (map (\<lambda>a. (act_Service a, act_Name a)) (plan_Actions plan)) \<and>
    length (plan_Actions plan) \<le> 512 \<and> plan_Digest plan = ComputeDigest c plan \<and>
    (\<forall>a \<in> set (plan_Actions plan).
       act_Operation a \<in> {''create'', ''update'', ''upsert'', ''revoke''} \<and>
       act_ServiceID a \<noteq> [] \<and> service_id_of (plan_Target plan) (act_Service a) = act_ServiceID a \<and>
       (if act_Operation a = ''revoke'' then act_Record a = [] \<and> act_PublicValue a = []
        else (act_Record a \<noteq> [] \<and> 0 < act_ExpectedRecordRevision a \<and> act_PublicValue a = []) \<noteq>
          (act_ValueSource a = ''public-constant'' \<and> act_Record a = [])))"
proof -
  note ok = plan_ValidateD [OF assms]
  have inj: "distinct (map (\<lambda>a. (act_Service a, act_Name a)) as)" if "distinct (map action_key as)" for as
    using that by (auto simp: distinct_map inj_on_def action_key_def)
  have act: "act_Operation a \<in> {''create'', ''update'', ''upsert'', ''revoke''} \<and>
       act_ServiceID a \<noteq> [] \<and> service_id_of (plan_Target plan) (act_Service a) = act_ServiceID a \<and>
       (if act_Operation a = ''revoke'' then act_Record a = [] \<and> act_PublicValue a = []
        else (act_Record a \<noteq> [] \<and> 0 < act_ExpectedRecordRevision a \<and> act_PublicValue a = []) \<noteq>
          (act_ValueSource a = ''public-constant'' \<and> act_Record a = []))"
    if "a \<in> set (plan_Actions plan)" for a
  proof -
    have "action_ok (plan_Target plan) a" using ok(2) that by (simp add: plan_ok_def)
    note a = action_okD [OF this]
    show ?thesis
    proof (cases "act_Operation a = ''revoke''")
      case True
      with a show ?thesis by (simp add: action_incomplete_def)
    next
      case False
      with a(1-4) show ?thesis
        by (auto simp: action_incomplete_def record_backed_def public_constant_def)
    qed
  qed
  show ?thesis
    using ok inj act by (auto simp: plan_ok_def PlanTTL_def MaxActions_def)
qed

theorem valid_plan_contents_witness:
  "distinct (map (\<lambda>a. (act_Service a, act_Name a)) (plan_Actions trial_plan))"
  using valid_plan_contents [OF trial_plan_valid] by blast

section \<open>Starting an operation\<close>

lemma hex_digit_pattern:
  "n < 16 \<Longrightarrow> is_digit (hex_digit n) \<or> CHR ''a'' \<le> hex_digit n \<and> hex_digit n \<le> CHR ''f''"
  by (auto simp: hex_digit_def is_digit_def less_eq_char_def)

lemma digest_pattern_hex:
  assumes "length bs = 32"
  shows "digest_pattern (hex_encode bs)"
proof -
  have lt: "(of_char x :: nat) div 16 < 16" for x :: char
  proof -
    have "(of_char x :: nat) < 256" by (metis of_char_mod_256 mod_less_divisor zero_less_numeral)
    then show ?thesis by (simp add: less_mult_imp_div_less)
  qed
  have "length (hex_encode bs) = 64"
    using assms by (simp add: hex_encode_def length_concat comp_def sum_list_triv)
  moreover have "is_digit x \<or> CHR ''a'' \<le> x \<and> x \<le> CHR ''f''" if member: "x \<in> set (hex_encode bs)" for x
  proof -
    obtain c where "x \<in> {hex_digit (of_char c div 16), hex_digit (of_char c mod 16)}"
      using member by (auto simp: hex_encode_def)
    moreover have "(of_char c :: nat) mod 16 < 16" by simp
    ultimately show ?thesis using hex_digit_pattern [OF lt [of c]] hex_digit_pattern by blast
  qed
  ultimately show ?thesis by (auto simp: digest_pattern_def list_all_iff)
qed

lemma service_id_of_clone [simp]: "service_id_of (cloneBinding t) s = service_id_of t s"
  by (cases "tb_ServiceIDs t")
    (simp_all add: service_id_of_def cloneBinding_def cloneStrings_def lookup_string_def)

lemma action_ok_clone: "action_ok t a \<Longrightarrow> action_ok (cloneBinding t) a"
  unfolding action_ok_def validateAction_def service_id_of_clone .

lemma pending_item_ok:
  assumes "action_ok t a" "\<And>x. length (sha256 c x) = 32"
  shows "item_ok (cloneBinding t) (pending_action c ident a)"
proof -
  have "digest_pattern (write_key c ident a)"
    by (simp add: write_key_def digest_pattern_hex assms(2))
  moreover have "act_ID a \<noteq> []" using action_okD(1) [OF assms(1)] by (simp add: action_incomplete_def)
  moreover have "validateAction i a (cloneBinding t) = None" for i
    using action_ok_clone [OF assms(1)] by (simp add: validateAction_ok)
  ultimately show ?thesis
    by (simp add: item_ok_def validate_item_def pending_action_def done_status_def committed_status_def)
qed

text \<open>C27. The engine's own validation never refuses the operation it builds: for a valid plan with
  actions, a random identifier, a hash of 32 bytes and a clock within four-digit years,
  \<^verbatim>\<open>newOperation\<close> returns the confirmed operation with every action pending.
\<close>

theorem new_operation_accepted:
  assumes "plan_Validate e plan now = None" and "plan_Actions plan \<noteq> []"
    and "rand e (rtick s) = Some bytes" and "bytes \<noteq> []" and "\<And>x. length (sha256 e x) = 32"
    and "four_digit_year (to_secs (clock e (Suc (rtick s))))"
  shows "\<exists>op s'. run_state (newOperation e plan) s = (Inr op, s') \<and> operation_Validate op = None \<and>
    op_ID op = hex_encode bytes \<and> op_Status op = StatusConfirmed \<and>
    map oa_Action (op_Actions op) = plan_Actions plan \<and>
    (\<forall>item \<in> set (op_Actions op). oa_Status item = ActionPending)"
proof -
  let ?now = "format_rfc3339 (to_secs (clock e (Suc (rtick s))))"
  let ?op = "confirmed_operation e plan (hex_encode bytes) ?now"
  note ok = plan_ValidateD [OF assms(1)]
  note h = plan_headerD [OF ok(1)]
  have time: "parse_canonical ?now = Some (to_secs (clock e (Suc (rtick s))))"
    by (rule parse_format_rfc3339 [OF assms(6)])
  have ident: "hex_encode bytes \<noteq> []" using assms(4) by (cases bytes) (simp_all add: hex_encode_def)
  have digest: "digest_pattern (plan_Digest plan)"
    unfolding ok(3) ComputeDigest_def by (rule digest_pattern_hex [OF assms(5)])
  then have "plan_Digest plan \<noteq> []" by (auto simp: digest_pattern_def)
  moreover have "tb_ServiceIDs (cloneBinding (plan_Target plan)) \<noteq> None"
    "tb_ProjectID (cloneBinding (plan_Target plan)) = tb_ProjectID (plan_Target plan)"
    "tb_EnvironmentID (cloneBinding (plan_Target plan)) = tb_EnvironmentID (plan_Target plan)"
    by (simp_all add: cloneBinding_def cloneStrings_def)
  moreover have "length (plan_Actions plan) \<le> MaxActions" using ok(2) by (simp add: plan_ok_def)
  ultimately have header: "operation_header ?op = None"
    using h digest ident assms(2) time
    by (auto simp: operation_header_def operation_identity_def confirmed_operation_def
        deployment_evidence_def deployment_complete_def canonicalTime_def plan_ID_def)
  have items: "validate_items 0 [] (op_Target ?op) (op_Actions ?op) = None"
    using ok(2) pending_item_ok [OF _ assms(5)]
    by (auto simp: validate_items_None confirmed_operation_def plan_ok_def comp_def pending_action_def)
  have final: "validate_terminal ?op = None"
    by (simp add: validate_terminal_def terminal_status_def confirmed_operation_def)
  have v: "operation_Validate ?op = None" by (simp add: operation_Validate_def header items final)
  have "run_state (newOperation e plan) s = (Inr ?op, s\<lparr>rtick := Suc (Suc (rtick s))\<rparr>)"
    by (simp add: newOperation_def run_ask run_nowString assms(3) Let_def v)
  then show ?thesis
    using v by (auto simp: confirmed_operation_def pending_action_def comp_def)
qed

theorem new_operation_accepted_witness:
  "\<exists>op s'. run_state (newOperation trial_env trial_plan) no_rollouts = (Inr op, s') \<and> operation_Validate op = None"
proof -
  have y: "four_digit_year trial_time" by code_simp
  have "\<exists>op s'. run_state (newOperation trial_env trial_plan) no_rollouts = (Inr op, s') \<and> operation_Validate op = None \<and>
      op_ID op = hex_encode (replicate 18 (CHR ''r'')) \<and> op_Status op = StatusConfirmed \<and>
      map oa_Action (op_Actions op) = plan_Actions trial_plan \<and>
      (\<forall>item \<in> set (op_Actions op). oa_Status item = ActionPending)"
    by (rule new_operation_accepted [OF trial_plan_valid]) (simp_all add: y, simp add: trial_plan_def)
  then show ?thesis by blast
qed

section \<open>Comparing and ordering\<close>

text \<open>Comparing two string maps: on maps that bind no key to the empty string,
  \<^verbatim>\<open>sameStrings\<close> is equality of the maps.
\<close>

theorem same_strings_exact:
  assumes "distinct (map fst l)" and "distinct (map fst r)" and "\<forall>(k, v) \<in> set l. v \<noteq> []"
  shows "sameStrings (Some l) (Some r) \<longleftrightarrow> map_of l = map_of r"
proof
  assume same: "sameStrings (Some l) (Some r)"
  then have len: "length l = length r" and look: "\<And>k v. (k, v) \<in> set l \<Longrightarrow> lookup_string r k = v"
    by (auto simp: sameStrings_def entries_def list_all_iff)
  have sub: "(k, v) \<in> set r" if "(k, v) \<in> set l" for k v
  proof -
    have "lookup_string r k = v" "v \<noteq> []" using look that assms(3) by auto
    then show ?thesis by (auto simp: lookup_string_def map_of_SomeD split: option.splits)
  qed
  have "card (set l) = card (set r)"
    using assms(1,2) len by (simp add: distinct_map distinct_card)
  then have "set l = set r" using sub by (intro card_subset_eq) auto
  then show "map_of l = map_of r" using assms(1,2) by (simp add: map_of_inject_set)
next
  assume "map_of l = map_of r"
  then have "set l = set r" using assms(1,2) by (simp add: map_of_inject_set)
  moreover from this have "length l = length r"
    using assms(1,2) by (metis distinct_card distinct_map)
  ultimately show "sameStrings (Some l) (Some r)"
    using assms(2) by (auto simp: sameStrings_def entries_def list_all_iff lookup_string_def)
qed

theorem same_strings_exact_witness:
  "sameStrings (Some [(''web'', ''s1''), (''api'', ''s2'')]) (Some [(''api'', ''s2''), (''web'', ''s1'')])"
  by (subst same_strings_exact) auto

text \<open>Without that premise it is not: a key bound to the empty string compares equal to an
  absent key, so two different service maps can pass for the same.
\<close>

theorem same_strings_confuses:
  "\<exists>l r. distinct (map fst l) \<and> distinct (map fst r) \<and> map_of l \<noteq> map_of r \<and>
    sameStrings (Some l) (Some r)"
proof (intro exI conjI)
  let ?l = "[(''web'', ''svc''), (''api'', [])]" and ?r = "[(''web'', ''svc''), (''job'', ''x'')]"
  show "sameStrings (Some ?l) (Some ?r)" by code_simp
  have "map_of ?l ''job'' \<noteq> map_of ?r ''job''" by simp
  then show "map_of ?l \<noteq> map_of ?r" by metis
qed simp_all

lemma less_string_list_less: "less_string s t \<longleftrightarrow> s < t"
  by (induction s t rule: less_string.induct) (auto simp: less_char_def)

lemma insert_action_insort:
  "insert_action x ys = insort_key (\<lambda>a. (act_Service a, act_Name a)) x ys"
  by (induction ys) (auto simp: action_less_def less_string_list_less less_prod_def)

text \<open>\<^verbatim>\<open>StableActionOrder\<close> is the stable sort of the actions by the pair of service and name in
  byte order.
\<close>

theorem stable_action_order:
  "StableActionOrder as = sort_key (\<lambda>a. (act_Service a, act_Name a)) as"
  by (simp add: StableActionOrder_def sort_key_def insert_action_insort [abs_def])

section \<open>Errors and evidence\<close>

text \<open>Whatever an adapter reports, the sanitised error is valid and safe to print: a bounded
  operation and code in a small alphabet, a status that is 0 or an HTTP status, a known retry
  class; an untyped failure of a write counts as ambiguous, of anything else as final.
\<close>

theorem sanitized_error_safe:
  "error_Validate (SanitizeError op err) = None \<and>
   safe_code (pe_Operation (SanitizeError op err)) \<and> length (pe_Operation (SanitizeError op err)) \<le> 48 \<and>
   (pe_Code (SanitizeError op err) = [] \<or> safe_code (pe_Code (SanitizeError op err))) \<and>
   length (pe_Code (SanitizeError op err)) \<le> 96 \<and>
   (pe_Status (SanitizeError op err) = 0 \<or> pe_Status (SanitizeError op err) \<in> {100..599}) \<and>
   pe_Retry (SanitizeError op err) \<in> {RetryNever, RetrySafe, RetryAmbiguous} \<and>
   pe_Retry (SanitizeError ''write'' Other_Error) = RetryAmbiguous \<and>
   pe_Retry (SanitizeError ''stage'' Other_Error) = RetryNever"
proof -
  obtain status code retry where n: "SanitizeError op err = NewError op status code retry"
    using SanitizeError_NewError by blast
  have "safe_code ''write''" "safe_code ''stage''" by code_simp+
  then have w: "safeOperation ''write'' = ''write''" "safeOperation ''stage'' = ''stage''"
    by (simp_all add: safeOperation_def trim_space_safe)
  have code: "pe_Code (SanitizeError op err) = [] \<or> safe_code (pe_Code (SanitizeError op err))"
    "length (pe_Code (SanitizeError op err)) \<le> 96"
    using sanitizeCode_safe [of code] by (auto simp: n NewError_def MaxProviderCodeBytes_def)
  have status: "pe_Status (SanitizeError op err) = 0 \<or> pe_Status (SanitizeError op err) \<in> {100..599}"
    by (simp add: n NewError_def boundedStatus_def)
  have operation: "safe_code (pe_Operation (SanitizeError op err))"
    "length (pe_Operation (SanitizeError op err)) \<le> 48"
    using safeOperation_safe [of op] by (simp_all add: n NewError_def)
  have untyped: "pe_Retry (SanitizeError ''write'' Other_Error) = RetryAmbiguous"
    "pe_Retry (SanitizeError ''stage'' Other_Error) = RetryNever"
    by (simp_all add: SanitizeError_def NewError_def Let_def w)
  show ?thesis
    using SanitizeError_valid SanitizeError_retry_cases code status operation untyped by blast
qed

text \<open>A final operation stays as it is: \<^verbatim>\<open>Resume\<close> of an operation that is ready, limited,
  promoted, rolled back or failed calls no adapter, saves nothing, and reports an error exactly
  when it has failed or cannot be loaded.
\<close>

theorem final_operation_kept:
  assumes "saved_operations s ident = Some (op, n)" and "final_status (op_Status op)"
    and "run_state (Resume e ident) s = (r, s')"
  shows "effects s' = effects s \<and> saved_operations s' = saved_operations s \<and>
    (case r of Inl _ \<Rightarrow> True | Inr (op', err) \<Rightarrow> op' = op \<and> (err \<noteq> None \<longleftrightarrow> op_Status op = StatusFailed))"
proof -
  let ?Q = "\<lambda>r s'. effects s' = effects s \<and> saved_operations s' = saved_operations s \<and>
    (case r of Inl _ \<Rightarrow> True | Inr (op', err) \<Rightarrow> op' = op \<and> (err \<noteq> None \<longleftrightarrow> op_Status op = StatusFailed))"
  have "wp (Resume e ident) ?Q s"
    unfolding Resume_def
    apply (rule wp_bind, rule wp_LoadOperation)
    subgoal unfolding sum.case by (rule wp_return) simp
    subgoal for op' n' unfolding sum.case prod.case
      using assms(1,2) by (cases "terminal_status (op_Status op)") (auto intro!: wp_return simp: final_status_def terminal_status_def)
    done
  then show ?thesis using assms(3) by (rule wpD)
qed

theorem final_operation_kept_witness:
  "effects (snd (run_state (Resume trial_env trial_id) trial_applied)) = trial_effects"
proof -
  obtain r s' where run: "run_state (Resume trial_env trial_id) trial_applied = (r, s')" by force
  have "final_status (op_Status op_ready)" by (simp add: op_ready_def)
  then show ?thesis using final_operation_kept [OF _ _ run, of op_ready 10] run
    by (simp add: trial_Apply)
qed

section \<open>Snapshots\<close>

text \<open>A valid bundle snapshot describes each logical record once: the physical names map to
  distinct logical names, each of which has a source and a positive revision, no other name
  has, and the revisions kept from before are positive, distinct and not the current one.
\<close>

theorem valid_snapshot_consistent:
  assumes "snapshot_Validate sn = None"
  shows "\<exists>physical sources revisions. PhysicalToLogical sn = Some physical \<and>
    sn_Sources sn = Some sources \<and> RecordRevisions sn = Some revisions \<and>
    distinct (map snd physical) \<and> fst ` set sources = snd ` set physical \<and>
    fst ` set revisions = snd ` set physical \<and> (\<forall>(n, r) \<in> set revisions. 1 \<le> r) \<and>
    (\<forall>(n, rs) \<in> set (PreviousRecordRevisions sn). n \<in> snd ` set physical \<and> distinct rs \<and>
       (\<forall>r \<in> set rs. 1 \<le> r \<and> r \<noteq> record_revision sn n))"
proof -
  obtain physical sources revisions
    where maps: "PhysicalToLogical sn = Some physical" "sn_Sources sn = Some sources"
      "RecordRevisions sn = Some revisions" "distinct (map snd physical)"
      "fst ` set sources = snd ` set physical" "fst ` set revisions = snd ` set physical"
    and rev: "\<And>n r. (n, r) \<in> set revisions \<Longrightarrow> 1 \<le> r"
    and prev: "\<And>n rs. (n, rs) \<in> set (PreviousRecordRevisions sn) \<Longrightarrow>
      n \<in> snd ` set physical \<and> distinct rs \<and> (\<forall>r \<in> set rs. 1 \<le> r \<and> r \<noteq> record_revision sn n)"
    by (rule snapshot_ValidateD [OF assms], rule that)
  have "\<forall>(n, r) \<in> set revisions. 1 \<le> r" using rev by auto
  moreover have "\<forall>(n, rs) \<in> set (PreviousRecordRevisions sn). n \<in> snd ` set physical \<and> distinct rs \<and>
      (\<forall>r \<in> set rs. 1 \<le> r \<and> r \<noteq> record_revision sn n)"
    by (rule ballI, simp only: split_paired_all prod.case) (rule prev)
  ultimately show ?thesis using maps by (intro exI conjI)
qed

theorem valid_snapshot_consistent_witness:
  "\<exists>physical. PhysicalToLogical trial_snapshot = Some physical \<and> distinct (map snd physical)"
  using valid_snapshot_consistent [OF trial_snapshot_valid] by blast

end
