(* ===== verification/Go_Strings.thy ===== *)
theory Go_Strings
  imports Go_Text
begin

text \<open>
  Searching in strings: \<^verbatim>\<open>strings.Index\<close>, \<^verbatim>\<open>strings.IndexByte\<close>, \<^verbatim>\<open>strings.Contains\<close>,
  \<^verbatim>\<open>strings.TrimPrefix\<close> and \<^verbatim>\<open>strings.ToUpper\<close> on ASCII, on byte lists.
\<close>

fun index_of :: "string \<Rightarrow> string \<Rightarrow> nat option" where
  "index_of p [] = (if p = [] then Some 0 else None)"
| "index_of p (c # s) = (if has_prefix p (c # s) then Some 0 else map_option Suc (index_of p s))"

definition str_contains :: "string \<Rightarrow> string \<Rightarrow> bool" where
  "str_contains p s \<longleftrightarrow> index_of p s \<noteq> None"

definition trim_prefix :: "string \<Rightarrow> string \<Rightarrow> string" where
  "trim_prefix p s = (if has_prefix p s then drop (length p) s else s)"

lemma trim_prefix_append [simp]: "trim_prefix p (p @ s) = s"
  by (simp add: trim_prefix_def)

lemma has_prefix_Nil [simp]: "has_prefix p [] \<longleftrightarrow> p = []"
  by (auto simp: has_prefix_iff)

lemma has_prefix_Cons [simp]: "has_prefix (x # p) (c # s) \<longleftrightarrow> x = c \<and> has_prefix p s"
  by (auto simp: has_prefix_iff)

lemma has_prefix_empty [simp]: "has_prefix [] s"
  by (simp add: has_prefix_iff)

lemma index_of_None_iff:
  "index_of p s = None \<longleftrightarrow> (\<forall>j \<le> length s. \<not> has_prefix p (drop j s))"
proof (induction s)
  case (Cons c s)
  have "(\<forall>j \<le> length (c # s). \<not> has_prefix p (drop j (c # s))) \<longleftrightarrow>
      \<not> has_prefix p (c # s) \<and> (\<forall>j \<le> length s. \<not> has_prefix p (drop j s))"
    by (metis (no_types, opaque_lifting) Suc_le_mono bot_nat_0.extremum drop0 drop_Suc_Cons length_Cons old.nat.exhaust)
  with Cons show ?case by simp
qed simp

lemma index_of_Some_iff:
  "index_of p s = Some i \<longleftrightarrow> i \<le> length s \<and> has_prefix p (drop i s) \<and> (\<forall>j < i. \<not> has_prefix p (drop j s))"
proof (induction s arbitrary: i)
  case Nil
  then show ?case by auto
next
  case (Cons c s)
  show ?case
  proof (cases i)
    case 0
    then show ?thesis by (auto split: option.splits)
  next
    case (Suc k)
    have "(\<forall>j < Suc k. \<not> has_prefix p (drop j (c # s))) \<longleftrightarrow>
        \<not> has_prefix p (c # s) \<and> (\<forall>j < k. \<not> has_prefix p (drop j s))"
      by (metis (no_types, opaque_lifting) Suc_less_eq drop0 drop_Suc_Cons old.nat.exhaust zero_less_Suc)
    with Cons [of k] Suc show ?thesis by auto
  qed
qed

lemma index_of_split:
  "index_of p s = Some i \<Longrightarrow> s = take i s @ p @ drop (i + length p) s"
proof -
  assume "index_of p s = Some i"
  then obtain t where t: "drop i s = p @ t" by (auto simp: index_of_Some_iff has_prefix_iff)
  have "drop (i + length p) s = drop (length p) (drop i s)" by (simp add: add.commute)
  then have "p @ drop (i + length p) s = drop i s" using t by simp
  then show ?thesis by simp
qed

lemma has_prefix_take: "has_prefix p (drop j (take i s)) \<Longrightarrow> has_prefix p (drop j s)"
  unfolding drop_take has_prefix_iff by (metis append.assoc append_take_drop_id)

lemma index_of_take:
  assumes "index_of p s = Some i" and "p \<noteq> []"
  shows "index_of p (take i s) = None"
proof -
  have "\<not> has_prefix p (drop j (take i s))" for j
  proof (cases "j < i")
    case True
    then show ?thesis using assms(1) has_prefix_take [of p j i s] by (auto simp: index_of_Some_iff)
  next
    case False
    then show ?thesis using assms(2) by simp
  qed
  then show ?thesis by (simp add: index_of_None_iff)
qed

text \<open>\<^verbatim>\<open>strings.ToUpper\<close> of ASCII text.\<close>

definition upper_char :: "char \<Rightarrow> char" where
  "upper_char c = (if is_lower c then char_of ((of_char c :: nat) - 32) else c)"

definition ascii_upper :: "string \<Rightarrow> string" where
  "ascii_upper s = map upper_char s"

text \<open>\<^verbatim>\<open>^[A-Z_][A-Z0-9_]*$\<close>, environment variable names.\<close>

definition name_start :: "char \<Rightarrow> bool" where
  "name_start c \<longleftrightarrow> is_upper c \<or> c = CHR ''_''"

definition name_pattern :: "string \<Rightarrow> bool" where
  "name_pattern s \<longleftrightarrow> (case s of [] \<Rightarrow> False
     | c # cs \<Rightarrow> name_start c \<and> list_all (\<lambda>c. name_start c \<or> is_digit c) cs)"

end
