(* ===== verification/Contract_Types.thy ===== *)
theory Contract_Types
  imports Go_Strings Go_Json
begin

text \<open>
  The public bundle manifest, \<^verbatim>\<open>internal/contract/manifest.go\<close>: its types, the checks of names
  and values, and the inspection of the YAML tree it is read from. A Go map is the list of its
  entries. What the checks take from Go's \<^verbatim>\<open>net/url\<close>, \<^verbatim>\<open>time.ParseDuration\<close>,
  \<^verbatim>\<open>strings.ToUpper\<close> and the format \<^verbatim>\<open>%q\<close> is the record \<open>go_std\<close>, a parameter.
\<close>

section \<open>Types\<close>

record url =
  url_Scheme :: string
  url_Host :: string
  url_Path :: string
  url_RawQuery :: string
  url_Fragment :: string
  url_has_user :: bool

record go_std =
  url_parse :: "string \<Rightarrow> url option"
  parse_duration :: "string \<Rightarrow> int option"
  to_upper :: "string \<Rightarrow> string"
  quoted :: "string \<Rightarrow> string"

record credential =
  cr_Provider :: string
  cr_Type :: string
  cr_Mode :: string
  cr_Record :: string
  cr_Validation :: string
  cr_Revoke :: string
  cr_Actions :: "string list"

record rotation_policy =
  rp_Credentials :: "string list"
  rp_Targets :: "string list"
  Schedule :: string
  GracePeriod :: string
  RetryLimit :: int
  ActivationOrder :: "string list"
  AllowedActions :: "string list"
  rp_Rollback :: string

record configuration_recipe =
  cfg_Provider :: string
  cfg_Operation :: string
  cfg_Resource :: string
  cfg_Fields :: "(string \<times> string) list"

record browser_recipe =
  br_Provider :: string
  br_Origin :: string
  br_Route :: string
  br_Selector :: string
  br_Strategy :: string
  br_ValuePrefix :: string
  br_Record :: string

record password_policy =
  pp_Type :: string
  pp_Length :: int
  pp_Lowercase :: bool
  pp_Uppercase :: bool
  pp_Digits :: bool
  pp_Symbols :: bool

record manifest_record =
  mr_Source :: string
  mr_Policy :: string
  mr_Template :: string
  mr_Sensitivity :: string

record health_check =
  hc_URL :: string
  hc_Method :: string
  ExpectedStatus :: int
  Successes :: int
  MinimumDuration :: string
  hc_Timeout :: string

record variable =
  va_Source :: string
  va_Value :: string
  va_Record :: string
  va_Sensitivity :: string

record service =
  sv_ID :: string
  sv_Order :: int
  sv_Variables :: "(string \<times> variable) list"
  sv_Absent :: "string list"

record manifest_target =
  mt_Provider :: string
  mt_Project :: string
  mt_ProjectID :: string
  mt_Environment :: string
  mt_EnvironmentID :: string
  mt_Services :: "(string \<times> service) list"
  mt_Stage :: string
  mt_Activation :: string
  mt_HealthChecks :: "health_check list"
  mt_Promotion :: string
  mt_Rollback :: string

record manifest =
  mf_Version :: int
  mf_Bundle :: string
  mf_Environment :: string
  mf_Policies :: "(string \<times> password_policy) list"
  mf_Records :: "(string \<times> manifest_record) list"
  mf_Targets :: "(string \<times> manifest_target) list"
  mf_Credentials :: "(string \<times> credential) list"
  mf_RotationPolicies :: "(string \<times> rotation_policy) list"
  mf_Configurations :: "configuration_recipe list"
  mf_BrowserRecipes :: "browser_recipe list"

section \<open>Limits and patterns\<close>

definition maxYAMLDepth :: nat where "maxYAMLDepth = 20"
definition maxYAMLNodes :: nat where "maxYAMLNodes = 10000"
definition maxBundleLength :: nat where "maxBundleLength = 128"
definition maxRecordName :: nat where "maxRecordName = 128"
definition maxPolicies :: nat where "maxPolicies = 128"
definition maxRecords :: nat where "maxRecords = 256"
definition maxTargets :: nat where "maxTargets = 8"
definition maxServices :: nat where "maxServices = 64"
definition maxVariables :: nat where "maxVariables = 512"
definition maxDependencies :: nat where "maxDependencies = 64"
definition maxTemplateBytes :: nat where "maxTemplateBytes = 16384"
definition maxCredentials :: nat where "maxCredentials = 128"
definition maxRecipes :: nat where "maxRecipes = 128"

lemmas contract_limits = maxYAMLDepth_def maxYAMLNodes_def maxBundleLength_def maxRecordName_def
  maxPolicies_def maxRecords_def maxTargets_def maxServices_def maxVariables_def
  maxDependencies_def maxTemplateBytes_def maxCredentials_def maxRecipes_def

definition bundlePattern :: "string \<Rightarrow> bool" where
  "bundlePattern s \<longleftrightarrow> s \<noteq> [] \<and> (is_lower (hd s) \<or> is_digit (hd s)) \<and>
     (is_lower (last s) \<or> is_digit (last s)) \<and>
     list_all (\<lambda>c. is_lower c \<or> is_digit c \<or> c \<in> set ''._/-'') s"

definition dashed_name :: "string \<Rightarrow> bool" where
  "dashed_name s \<longleftrightarrow> s \<noteq> [] \<and> is_lower (hd s) \<and>
     list_all (\<lambda>c. is_lower c \<or> is_digit c \<or> c = CHR ''-'') s"

definition providerPattern :: "string \<Rightarrow> bool" where
  "providerPattern s \<longleftrightarrow> dashed_name s"

definition lifecycleNamePattern :: "string \<Rightarrow> bool" where
  "lifecycleNamePattern s \<longleftrightarrow> dashed_name s \<and> length s \<le> 64"

definition sortedMapKeys :: "(string \<times> 'v) list \<Rightarrow> string list" where
  "sortedMapKeys m = sort_strings (map fst m)"

text \<open>A loop that returns the first error.\<close>

fun first_of :: "('a \<Rightarrow> string option) \<Rightarrow> 'a list \<Rightarrow> string option" where
  "first_of f [] = None"
| "first_of f (x # xs) = (case f x of Some err \<Rightarrow> Some err | None \<Rightarrow> first_of f xs)"

text \<open>A loop over the entries of a map in the order of its keys.\<close>

definition each_key :: "(string \<times> 'v) list \<Rightarrow> (string \<Rightarrow> 'v \<Rightarrow> string option) \<Rightarrow> string option" where
  "each_key m f =
     first_of (\<lambda>k. case map_of m k of None \<Rightarrow> None | Some v \<Rightarrow> f k v) (sortedMapKeys m)"

lemma first_of_None: "first_of f xs = None \<longleftrightarrow> (\<forall>x \<in> set xs. f x = None)"
  by (induction xs) (auto split: option.splits)

lemma each_key_None:
  "each_key m f = None \<longleftrightarrow> (\<forall>k v. map_of m k = Some v \<longrightarrow> f k v = None)"
proof -
  have "each_key m f = None \<longleftrightarrow> (\<forall>k \<in> fst ` set m. (case map_of m k of None \<Rightarrow> None | Some v \<Rightarrow> f k v) = None)"
    by (simp add: each_key_def first_of_None sortedMapKeys_def)
  also have "\<dots> \<longleftrightarrow> (\<forall>k v. map_of m k = Some v \<longrightarrow> f k v = None)"
  proof (intro iffI allI impI ballI)
    fix k v
    assume a: "\<forall>k \<in> fst ` set m. (case map_of m k of None \<Rightarrow> None | Some v \<Rightarrow> f k v) = None"
      and k: "map_of m k = Some v"
    then have "k \<in> fst ` set m" by (force dest: map_of_SomeD)
    with a k show "f k v = None" by (metis option.case(2))
  next
    fix k
    assume a: "\<forall>k v. map_of m k = Some v \<longrightarrow> f k v = None" and "k \<in> fst ` set m"
    then show "(case map_of m k of None \<Rightarrow> None | Some v \<Rightarrow> f k v) = None" by (cases "map_of m k") simp_all
  qed
  finally show ?thesis .
qed

definition at_path :: "string \<Rightarrow> string \<Rightarrow> string" where
  "at_path path message = path @ '': '' @ message"

definition between :: "string \<Rightarrow> nat \<Rightarrow> string" where
  "between what n = what @ '': must contain between 1 and '' @ show_nat n @ '' entries''"

section \<open>Secrets in public values\<close>

definition suspiciousSecretName :: "string \<Rightarrow> bool" where
  "suspiciousSecretName name =
     (let parts = split_on (CHR ''_'') name in
      if list_ex (\<lambda>p. p \<in> set [''SECRET'', ''PASSWORD'', ''TOKEN'', ''PRIVATE'', ''CREDENTIAL'']) parts
      then True
      else list_ex (\<lambda>p. p \<in> set [''DATABASE'', ''DB'']) parts \<and>
             list_ex (\<lambda>p. p \<in> set [''URL'', ''URI'', ''DSN'']) parts \<or>
           has_suffix ''_KEY'' name \<and> \<not> str_contains ''PUBLISHABLE'' name \<and> \<not> str_contains ''PUBLIC'' name)"

definition containsURLCredentials :: "'s go_std_scheme \<Rightarrow> string \<Rightarrow> bool" where
  "containsURLCredentials g v =
     (case url_parse g v of None \<Rightarrow> False | Some u \<Rightarrow> url_Scheme u \<noteq> [] \<and> url_has_user u)"

definition validateVariable ::
  "'s go_std_scheme \<Rightarrow> string \<Rightarrow> variable \<Rightarrow> (string \<times> manifest_record) list \<Rightarrow> string option" where
  "validateVariable g name v records =
     (if va_Source v = ''constant'' then
        (if va_Record v \<noteq> [] \<or> va_Sensitivity v \<noteq> [] then Some ''constant requires only value''
         else if suspiciousSecretName name \<or> containsURLCredentials g (va_Value v)
         then Some ''secret-shaped names and credential-bearing URLs cannot use public constants''
         else None)
      else if va_Source v = ''import'' then
        (if va_Value v \<noteq> [] \<or> va_Record v \<noteq> [] \<or> va_Sensitivity v \<noteq> ''public''
         then Some ''destination import requires sensitivity public'' else None)
      else if va_Source v = ''record'' then
        (if va_Value v \<noteq> [] \<or> va_Sensitivity v \<noteq> [] \<or> va_Record v = []
         then Some ''record source requires only record''
         else if map_of records (va_Record v) = None
         then Some (''record '' @ va_Record v @ '' does not exist'') else None)
      else Some ''source must be constant, import, or record'')"

section \<open>The YAML tree\<close>

datatype yaml_kind = DocumentNode | SequenceNode | MappingNode | ScalarNode | AliasNode

datatype yaml_node = Yaml_Node (yn_kind: yaml_kind) (yn_tag: string) (yn_value: string)
  (yn_anchor: string) (yn_alias: bool) (yn_line: nat) (yn_column: nat) (yn_content: "yaml_node list")

definition allowedTag :: "string \<Rightarrow> bool" where
  "allowedTag tag \<longleftrightarrow>
     tag \<in> set [[], ''!!map'', ''!!seq'', ''!!str'', ''!!int'', ''!!bool'', ''!!null'', ''!!float'']"

definition locationError :: "yaml_node \<Rightarrow> string \<Rightarrow> string" where
  "locationError node message = ''invalid manifest at line '' @ show_nat (yn_line node) @
     '', column '' @ show_nat (yn_column node) @ '': '' @ message"

fun keys_of :: "'a list \<Rightarrow> 'a list" where
  "keys_of [] = []"
| "keys_of [x] = [x]"
| "keys_of (x # y # zs) = x # keys_of zs"

fun inspect_keys :: "'s go_std_scheme \<Rightarrow> string list \<Rightarrow> yaml_node list \<Rightarrow> string option" where
  "inspect_keys g seen [] = None"
| "inspect_keys g seen (key # keys) =
     (if yn_kind key \<noteq> ScalarNode \<or> yn_tag key \<noteq> ''!!str''
      then Some (locationError key ''mapping keys must be plain strings'')
      else if yn_value key = ''<<'' \<or> yn_tag key = ''!!merge''
      then Some (locationError key ''YAML merge keys are not allowed'')
      else if yn_value key \<in> set seen
      then Some (locationError key (''duplicate field '' @ quoted g (yn_value key)))
      else inspect_keys g (yn_value key # seen) keys)"

text \<open>The node count is a state that the whole traversal shares.\<close>

fun inspectNode :: "'s go_std_scheme \<Rightarrow> yaml_node \<Rightarrow> nat \<Rightarrow> nat \<Rightarrow> string + nat"
  and inspect_children :: "'s go_std_scheme \<Rightarrow> yaml_node list \<Rightarrow> nat \<Rightarrow> nat \<Rightarrow> string + nat" where
  "inspectNode g (Yaml_Node kind tag val anchor alias line column content) depth count =
     (let node = Yaml_Node kind tag val anchor alias line column content; count = count + 1 in
      if maxYAMLNodes < count then Inl (''manifest exceeds '' @ show_nat maxYAMLNodes @ '' YAML nodes'')
      else if maxYAMLDepth < depth then Inl (''manifest exceeds YAML depth '' @ show_nat maxYAMLDepth)
      else if kind = AliasNode \<or> alias \<or> anchor \<noteq> []
      then Inl (locationError node ''YAML aliases and anchors are not allowed'')
      else if \<not> allowedTag tag then Inl (locationError node ''custom YAML tags are not allowed'')
      else case (if kind = MappingNode then inspect_keys g [] (keys_of content) else None) of
          Some err \<Rightarrow> Inl err
        | None \<Rightarrow> inspect_children g content (depth + 1) count)"
| "inspect_children g [] depth count = Inr count"
| "inspect_children g (child # children) depth count =
     (case inspectNode g child depth count of
        Inl err \<Rightarrow> Inl err
      | Inr count \<Rightarrow> inspect_children g children depth count)"

end
