(* ===== verification/Contract_Template.thy ===== *)
theory Contract_Template
  imports Go_Strings Go_Json
begin

text \<open>
  Derivation templates, \<^verbatim>\<open>internal/contract/template.go\<close>: literal text with placeholders
  \<^verbatim>\<open>${secret:NAME}\<close>.
\<close>

record template_node =
  Literal :: string
  Reference :: string

record template =
  Nodes :: "template_node list"
  References :: "string list"

definition literal :: "string \<Rightarrow> template_node list" where
  "literal s = (if s = [] then [] else [\<lparr>Literal = s, Reference = []\<rparr>])"

text \<open>The loop: \<open>offset\<close> bytes of the template have been read, \<open>rest\<close> is left.\<close>

function parse_from :: "nat \<Rightarrow> string \<Rightarrow> template \<Rightarrow> string + template" where
  "parse_from offset rest parsed =
     (if rest = [] then Inr parsed
      else case index_of ''${'' rest of
        None \<Rightarrow> Inr (parsed\<lparr>Nodes := Nodes parsed @ literal rest\<rparr>)
      | Some start \<Rightarrow>
          (let nodes = Nodes parsed @ literal (take start rest);
               after = drop (start + 2) rest in
           case index_of ''}'' after of
             None \<Rightarrow> Inl ''unterminated placeholder''
           | Some end_body \<Rightarrow>
               (let body = take end_body after; reference = trim_prefix ''secret:'' body in
                if \<not> has_prefix ''secret:'' body
                then Inl (''unsupported placeholder at byte '' @ show_nat (offset + start))
                else if \<not> name_pattern reference
                then Inl (''invalid secret reference at byte '' @ show_nat (offset + start))
                else parse_from (offset + start + 2 + end_body + 1) (drop (end_body + 1) after)
                  \<lparr>Nodes = nodes @ [\<lparr>Literal = [], Reference = reference\<rparr>],
                   References = References parsed @ [reference]\<rparr>)))"
  by pat_completeness auto
termination
proof (relation "measure (\<lambda>(_, rest, _). length rest)")
qed (auto simp: neq_Nil_conv)

declare parse_from.simps [simp del]

definition ParseTemplate :: "string \<Rightarrow> string + template" where
  "ParseTemplate t = parse_from 0 t \<lparr>Nodes = [], References = []\<rparr>"

section \<open>The grammar\<close>

definition placeholder :: "string \<Rightarrow> string" where
  "placeholder name = ''${secret:'' @ name @ ''}''"

definition node_text :: "template_node \<Rightarrow> string" where
  "node_text n = (if Reference n = [] then Literal n else placeholder (Reference n))"

definition template_text :: "template_node list \<Rightarrow> string" where
  "template_text ns = concat (map node_text ns)"

definition references :: "template_node list \<Rightarrow> string list" where
  "references ns = filter (\<lambda>r. r \<noteq> []) (map Reference ns)"

text \<open>References are names, literals are not empty, hold no opening and do not stand together.\<close>

fun nodes_ok :: "template_node list \<Rightarrow> bool" where
  "nodes_ok [] \<longleftrightarrow> True"
| "nodes_ok (n # ns) \<longleftrightarrow> nodes_ok ns \<and>
     (if Reference n \<noteq> [] then Literal n = [] \<and> name_pattern (Reference n)
      else Literal n \<noteq> [] \<and> index_of ''${'' (Literal n) = None \<and>
        (case ns of [] \<Rightarrow> True | m # _ \<Rightarrow> Reference m \<noteq> []))"

lemma literal_simps [simp]: "literal [] = []"
  "s \<noteq> [] \<Longrightarrow> literal s = [\<lparr>Literal = s, Reference = []\<rparr>]"
  by (simp_all add: literal_def)

lemma template_text_simps [simp]: "template_text [] = []"
  "template_text (n # ns) = node_text n @ template_text ns"
  "template_text (ms @ ns) = template_text ms @ template_text ns"
  "template_text (literal s) = s"
  by (simp_all add: template_text_def node_text_def literal_def)

lemma references_simps [simp]: "references [] = []"
  "references (n # ns) = (if Reference n = [] then references ns else Reference n # references ns)"
  "references (ms @ ns) = references ms @ references ns"
  "references (literal s) = []"
  by (simp_all add: references_def literal_def)

lemma node_text_reference [simp]:
  "r \<noteq> [] \<Longrightarrow> node_text \<lparr>Literal = [], Reference = r\<rparr> = placeholder r"
  by (simp add: node_text_def)

lemma name_pattern_nonempty: "name_pattern r \<Longrightarrow> r \<noteq> []"
  by (auto simp: name_pattern_def)

lemma name_pattern_no_brace: "name_pattern r \<Longrightarrow> CHR ''}'' \<notin> set r"
  by (auto simp: name_pattern_def name_start_def list_all_iff is_upper_def is_digit_def
      less_eq_char_def split: list.splits)

lemma index_of_open:
  assumes "index_of ''${'' s = None"
  shows "index_of ''${'' (s @ ''${'' @ t) = Some (length s)"
proof -
  have "\<not> has_prefix ''${'' (drop j (s @ ''${'' @ t))" if j: "j < length s" for j
  proof
    assume p: "has_prefix ''${'' (drop j (s @ ''${'' @ t))"
    have "drop j (s @ ''${'' @ t) = drop j s @ ''${'' @ t" using that by simp
    moreover obtain c cs where d: "drop j s = c # cs" using j by (cases "drop j s") simp_all
    ultimately have "has_prefix ''${'' (c # cs)" using p by (cases cs) simp_all
    then have "has_prefix ''${'' (drop j s)" using d by simp
    then show False using assms that by (simp add: index_of_None_iff)
  qed
  then show ?thesis by (simp add: index_of_Some_iff)
qed

lemma index_of_brace: "CHR ''}'' \<notin> set s \<Longrightarrow> index_of ''}'' (s @ ''}'' @ t) = Some (length s)"
  by (induction s) auto

text \<open>The first literal, if any, and the first reference of a well-formed text.\<close>

lemma nodes_ok_cases:
  assumes "nodes_ok ns"
  obtains "ns = []"
  | s where "s \<noteq> []" "index_of ''${'' s = None" "ns = literal s"
  | s r ns' where "index_of ''${'' s = None" "name_pattern r" "nodes_ok ns'"
      "ns = literal s @ \<lparr>Literal = [], Reference = r\<rparr> # ns'"
proof (cases ns)
  case Nil
  then show ?thesis by (rule that(1))
next
  case (Cons n ms)
  show ?thesis
  proof (cases "Reference n = []")
    case False
    then have "n = \<lparr>Literal = [], Reference = Reference n\<rparr>" "name_pattern (Reference n)" "nodes_ok ms"
      using assms Cons by simp_all
    then show ?thesis using that(3) [of "[]" "Reference n" ms] Cons by simp
  next
    case True
    then have n: "n = \<lparr>Literal = Literal n, Reference = []\<rparr>" "Literal n \<noteq> []"
      "index_of ''${'' (Literal n) = None" "nodes_ok ms"
      "(case ms of [] \<Rightarrow> True | m # _ \<Rightarrow> Reference m \<noteq> [])"
      using assms Cons by simp_all
    show ?thesis
    proof (cases ms)
      case Nil
      then show ?thesis using that(2) [of "Literal n"] n Cons by simp
    next
      case (Cons m ms')
      then have "m = \<lparr>Literal = [], Reference = Reference m\<rparr>" "name_pattern (Reference m)" "nodes_ok ms'"
        using n by simp_all
      then show ?thesis using that(3) [of "Literal n" "Reference m" ms'] n Cons \<open>ns = n # ms\<close> by simp
    qed
  qed
qed

lemma nodes_ok_literal: "nodes_ok (literal s) \<longleftrightarrow> index_of ''${'' s = None"
  by (simp add: literal_def)

lemma nodes_ok_reference:
  "nodes_ok (literal s @ \<lparr>Literal = [], Reference = r\<rparr> # ns) \<longleftrightarrow>
    index_of ''${'' s = None \<and> nodes_ok ns \<and>
    (if r = [] then False else name_pattern r)"
  by (cases "s = []") auto

text \<open>One turn of the loop at a placeholder.\<close>

lemma parse_placeholder:
  assumes "index_of ''${'' s = None" and "name_pattern r"
  shows "parse_from offset (s @ placeholder r @ t) parsed =
    parse_from (offset + length s + 10 + length r) t
      \<lparr>Nodes = Nodes parsed @ literal s @ [\<lparr>Literal = [], Reference = r\<rparr>],
       References = References parsed @ [r]\<rparr>"
proof -
  let ?after = "(''secret:'' @ r) @ ''}'' @ t"
  let ?rest = "s @ ''${'' @ ?after"
  have rest: "s @ placeholder r @ t = ?rest" by (simp add: placeholder_def)
  have start: "index_of ''${'' ?rest = Some (length s)" by (rule index_of_open [OF assms(1)])
  have after: "drop (length s + 2) ?rest = ?after" by simp
  have stop: "index_of ''}'' ?after = Some (length (''secret:'' @ r))"
    by (rule index_of_brace) (use name_pattern_no_brace [OF assms(2)] in auto)
  have body: "take (length (''secret:'' @ r)) ?after = ''secret:'' @ r"
    "drop (length (''secret:'' @ r) + 1) ?after = t"
    "take (length s) ?rest = s" by simp_all
  have trim: "has_prefix ''secret:'' (''secret:'' @ r)" "trim_prefix ''secret:'' (''secret:'' @ r) = r"
    by (rule has_prefix_append, rule trim_prefix_append)
  have count: "offset + length s + 2 + length (''secret:'' @ r) + 1 = offset + length s + 10 + length r" by simp
  have nonempty: "?rest \<noteq> []" by simp
  show ?thesis
    unfolding rest
    apply (subst parse_from.simps)
    apply (simp only: start after stop body trim assms(2) option.case Let_def nonempty count
        if_False if_True simp_thms)
    apply simp
    done
qed

lemma parse_from_text:
  "nodes_ok ns \<Longrightarrow> parse_from offset (template_text ns) parsed =
    Inr \<lparr>Nodes = Nodes parsed @ ns, References = References parsed @ references ns\<rparr>"
proof (induction "length ns" arbitrary: ns offset parsed rule: less_induct)
  case less
  from less.prems show ?case
  proof (cases rule: nodes_ok_cases)
    case 1
    then show ?thesis by (subst parse_from.simps) simp
  next
    case (2 s)
    have shape: "template_text ns = s" "references ns = []" "ns = [\<lparr>Literal = s, Reference = []\<rparr>]"
      using 2 by (simp_all add: node_text_def)
    show ?thesis unfolding shape(1,2) by (subst parse_from.simps) (simp add: 2 shape(3))
  next
    case (3 s r ns')
    have r: "r \<noteq> []" using 3(2) by (rule name_pattern_nonempty)
    have shape: "template_text ns = s @ placeholder r @ template_text ns'" using 3(4) r by simp
    have "length ns' < length ns" using 3(4) by simp
    from less.hyps [OF this 3(3)] show ?thesis
      unfolding shape parse_placeholder [OF 3(1,2)] using 3(4) r by simp
  qed
qed

lemma parse_from_nodes:
  "parse_from offset rest parsed = Inr p \<Longrightarrow>
    \<exists>ns. nodes_ok ns \<and> template_text ns = rest \<and>
      p = \<lparr>Nodes = Nodes parsed @ ns, References = References parsed @ references ns\<rparr>"
proof (induction "length rest" arbitrary: offset rest parsed rule: less_induct)
  case less
  show ?case
  proof (cases "rest = []")
    case True
    with less.prems show ?thesis
      by (intro exI [of _ "[]"]) (simp add: parse_from.simps)
  next
    case False
    show ?thesis
    proof (cases "index_of ''${'' rest")
      case None
      with less.prems False have "p = parsed\<lparr>Nodes := Nodes parsed @ literal rest\<rparr>"
        by (subst (asm) parse_from.simps) simp
      with None show ?thesis
        by (intro exI [of _ "literal rest"]) (simp add: nodes_ok_literal)
    next
      case (Some start)
      let ?after = "drop (start + 2) rest"
      have lit: "rest = take start rest @ ''${'' @ ?after" "index_of ''${'' (take start rest) = None"
        using index_of_split [OF Some] index_of_take [OF Some] by simp_all
      obtain stop where stop: "index_of ''}'' ?after = Some stop"
        using less.prems False Some by (subst (asm) parse_from.simps) (auto simp: Let_def split: option.splits)
      let ?body = "take stop ?after"
      have after: "?after = ?body @ ''}'' @ drop (stop + 1) ?after"
        using index_of_split [OF stop] by simp
      have body: "has_prefix ''secret:'' ?body"
      proof (rule ccontr)
        assume "\<not> ?thesis"
        then show False
          using less.prems False by (subst (asm) parse_from.simps)
            (simp only: Some stop Let_def option.case if_True if_False not_False_eq_True sum.distinct simp_thms)
      qed
      then obtain r where r: "?body = ''secret:'' @ r" by (auto simp: has_prefix_iff simp del: has_prefix_Cons)
      have trim: "trim_prefix ''secret:'' ?body = r" unfolding r by (rule trim_prefix_append)
      have name: "name_pattern r"
      proof (rule ccontr)
        assume "\<not> ?thesis"
        then show False
          using less.prems False body by (subst (asm) parse_from.simps)
            (simp only: Some stop Let_def trim option.case if_True if_False not_False_eq_True not_True_eq_False
              sum.distinct simp_thms)
      qed
      have shape: "rest = take start rest @ placeholder r @ drop (stop + 1) ?after"
      proof -
        have "rest = take start rest @ ''${'' @ (''secret:'' @ r) @ ''}'' @ drop (stop + 1) ?after"
          using lit(1) after unfolding r by (rule subst [where P = "\<lambda>x. rest = take start rest @ ''${'' @ x", rotated])
        then show ?thesis by (simp add: placeholder_def)
      qed
      have "length (drop (stop + 1) ?after) < length rest"
        using index_of_Some_iff [of "''${''" rest start] Some False by simp
      moreover have "parse_from (offset + length (take start rest) + 10 + length r) (drop (stop + 1) ?after)
          \<lparr>Nodes = Nodes parsed @ literal (take start rest) @ [\<lparr>Literal = [], Reference = r\<rparr>],
           References = References parsed @ [r]\<rparr> = Inr p"
        using less.prems parse_placeholder [OF lit(2) name] shape by metis
      ultimately obtain ns where ns: "nodes_ok ns" "template_text ns = drop (stop + 1) ?after"
        "p = \<lparr>Nodes = (Nodes parsed @ literal (take start rest) @ [\<lparr>Literal = [], Reference = r\<rparr>]) @ ns,
          References = (References parsed @ [r]) @ references ns\<rparr>"
        using less.hyps by (metis (no_types, lifting) template.select_convs)
      let ?ns = "literal (take start rest) @ \<lparr>Literal = [], Reference = r\<rparr> # ns"
      have "nodes_ok ?ns" unfolding nodes_ok_reference using lit(2) ns(1) name name_pattern_nonempty by simp
      moreover have "template_text ?ns = rest"
        using shape ns(2) name_pattern_nonempty [OF name] by simp
      moreover have "p = \<lparr>Nodes = Nodes parsed @ ?ns, References = References parsed @ references ?ns\<rparr>"
        using ns(3) name_pattern_nonempty [OF name] by simp
      ultimately show ?thesis by blast
    qed
  qed
qed

lemma ParseTemplate_iff:
  "ParseTemplate t = Inr p \<longleftrightarrow>
    nodes_ok (Nodes p) \<and> template_text (Nodes p) = t \<and> References p = references (Nodes p)"
proof
  assume "ParseTemplate t = Inr p"
  then show "nodes_ok (Nodes p) \<and> template_text (Nodes p) = t \<and> References p = references (Nodes p)"
    unfolding ParseTemplate_def by (auto dest!: parse_from_nodes)
next
  assume r: "nodes_ok (Nodes p) \<and> template_text (Nodes p) = t \<and> References p = references (Nodes p)"
  then have "ParseTemplate t = Inr \<lparr>Nodes = Nodes p, References = references (Nodes p)\<rparr>"
    unfolding ParseTemplate_def using parse_from_text [of "Nodes p" 0 "\<lparr>Nodes = [], References = []\<rparr>"] by simp
  with r show "ParseTemplate t = Inr p" by simp
qed

end
