(* ===== verification/Contract_Derive.thy ===== *)
theory Contract_Derive
  imports Go_Text "HOL-Library.Monad_Syntax"
begin

text \<open>
  \<^verbatim>\<open>topologicalDerivations\<close> of \<^verbatim>\<open>internal/contract/manifest.go\<close>: the order in which the
  derived records of a manifest are computed. The recursive closure \<^verbatim>\<open>visit\<close> and the loops
  over it are one partial function on lists of names; that it always returns is a lemma.
\<close>

datatype visit_mark = Unseen | Visiting | Visited

record visit_state =
  mark :: "string \<Rightarrow> visit_mark"
  visit_order :: "string list"

type_synonym dependencies = "(string \<times> string list) list"

text \<open>The references of a derived record that are derived themselves, in byte order.\<close>

definition derived_refs :: "dependencies \<Rightarrow> string \<Rightarrow> string list" where
  "derived_refs deps name =
     filter (\<lambda>ref. map_of deps ref \<noteq> None)
       (sort_strings (case map_of deps name of None \<Rightarrow> [] | Some refs \<Rightarrow> refs))"

definition cycle_error :: "string \<Rightarrow> string" where
  "cycle_error name = ''records.'' @ name @ ''.template: derivation cycle detected''"

definition start_visit :: "string \<Rightarrow> visit_state \<Rightarrow> visit_state" where
  "start_visit name st = st\<lparr>mark := (mark st)(name := Visiting)\<rparr>"

definition end_visit :: "string \<Rightarrow> visit_state \<Rightarrow> visit_state" where
  "end_visit name st = st\<lparr>mark := (mark st)(name := Visited), visit_order := visit_order st @ [name]\<rparr>"

partial_function (option) visit ::
  "dependencies \<Rightarrow> string list \<Rightarrow> visit_state \<Rightarrow> (string + visit_state) option" where
  "visit deps names st =
     (case names of
        [] \<Rightarrow> Some (Inr st)
      | name # names \<Rightarrow>
          (case mark st name of
             Visiting \<Rightarrow> Some (Inl (cycle_error name))
           | Visited \<Rightarrow> visit deps names st
           | Unseen \<Rightarrow>
               Option.bind (visit deps (derived_refs deps name) (start_visit name st))
                 (\<lambda>r. case r of
                    Inl err \<Rightarrow> Some (Inl err)
                  | Inr st \<Rightarrow> visit deps names (end_visit name st))))"

declare visit.simps [code]

definition topologicalDerivations :: "dependencies \<Rightarrow> (string + string list) option" where
  "topologicalDerivations deps =
     Option.bind (visit deps (sort_strings (map fst deps)) \<lparr>mark = (\<lambda>_. Unseen), visit_order = []\<rparr>)
       (\<lambda>r. case r of Inl err \<Rightarrow> Some (Inl err) | Inr st \<Rightarrow> Some (Inr (visit_order st)))"

section \<open>The dependency relation and the invariant of the traversal\<close>

definition derives :: "dependencies \<Rightarrow> (string \<times> string) set" where
  "derives deps = {(name, ref). ref \<in> set (derived_refs deps name)}"

text \<open>Every name stands after its references.\<close>

definition dependency_order :: "dependencies \<Rightarrow> string list \<Rightarrow> bool" where
  "dependency_order deps xs \<longleftrightarrow>
     (\<forall>ys n zs. xs = ys @ n # zs \<longrightarrow> set (derived_refs deps n) \<subseteq> set ys)"

definition visit_ok :: "dependencies \<Rightarrow> visit_state \<Rightarrow> bool" where
  "visit_ok deps st \<longleftrightarrow> distinct (visit_order st) \<and> dependency_order deps (visit_order st) \<and>
     (\<forall>n. n \<in> set (visit_order st) \<longleftrightarrow> mark st n = Visited) \<and>
     set (visit_order st) \<subseteq> fst ` set deps"

definition unseen :: "dependencies \<Rightarrow> visit_state \<Rightarrow> string set" where
  "unseen deps st = {n \<in> fst ` set deps. mark st n = Unseen}"

lemma finite_unseen [simp]: "finite (unseen deps st)"
  by (simp add: unseen_def)

lemma derived_refs_keys: "set (derived_refs deps n) \<subseteq> fst ` set deps"
  by (auto simp: derived_refs_def map_of_eq_None_iff)

lemma derives_keys: "(a, b) \<in> derives deps \<Longrightarrow> a \<in> fst ` set deps \<and> b \<in> fst ` set deps"
proof -
  assume ab: "(a, b) \<in> derives deps"
  then have "map_of deps a \<noteq> None"
    by (cases "map_of deps a") (simp_all add: derives_def derived_refs_def sort_strings_def)
  moreover have "b \<in> fst ` set deps" using ab derived_refs_keys by (auto simp: derives_def)
  ultimately show ?thesis by (simp add: map_of_eq_None_iff)
qed

lemma dependency_order_snoc:
  "dependency_order deps (xs @ [n]) \<longleftrightarrow>
    dependency_order deps xs \<and> set (derived_refs deps n) \<subseteq> set xs"
proof
  assume l: "dependency_order deps (xs @ [n])"
  have "set (derived_refs deps m) \<subseteq> set ys" if "xs = ys @ m # zs" for ys m zs
    using l that by (simp add: dependency_order_def)
  with l show "dependency_order deps xs \<and> set (derived_refs deps n) \<subseteq> set xs"
    by (simp add: dependency_order_def)
next
  assume r: "dependency_order deps xs \<and> set (derived_refs deps n) \<subseteq> set xs"
  have "set (derived_refs deps m) \<subseteq> set ys" if split: "xs @ [n] = ys @ m # zs" for ys m zs
  proof (cases zs rule: rev_cases)
    case Nil
    with split r show ?thesis by simp
  next
    case (snoc zs' z)
    with split have "xs = ys @ m # zs'" by simp
    with r show ?thesis by (simp add: dependency_order_def)
  qed
  then show "dependency_order deps (xs @ [n])" by (simp add: dependency_order_def)
qed

lemma visit_ok_end:
  assumes "visit_ok deps st" and "mark st n = Visiting" and "n \<in> fst ` set deps"
    and "set (derived_refs deps n) \<subseteq> set (visit_order st)"
  shows "visit_ok deps (end_visit n st)"
  using assms by (auto simp: visit_ok_def end_visit_def dependency_order_snoc)

text \<open>What a visit of a list of names achieves.\<close>

definition visited_all :: "dependencies \<Rightarrow> string list \<Rightarrow> visit_state \<Rightarrow> visit_state \<Rightarrow> bool" where
  "visited_all deps names st st' \<longleftrightarrow> visit_ok deps st' \<and>
     {n. mark st' n = Visiting} = {n. mark st n = Visiting} \<and>
     set (visit_order st) \<union> set names \<subseteq> set (visit_order st')"

lemma visited_all_unseen:
  assumes "visited_all deps names st st'" and "visit_ok deps st"
  shows "unseen deps st' \<subseteq> unseen deps st"
proof
  fix n assume n: "n \<in> unseen deps st'"
  then have "mark st' n = Unseen" "n \<in> fst ` set deps" by (simp_all add: unseen_def)
  moreover from this have "mark st n \<noteq> Visiting"
    using assms(1) unfolding visited_all_def by (metis mem_Collect_eq visit_mark.distinct(1))
  moreover have "mark st n \<noteq> Visited"
    using assms calculation(1) unfolding visited_all_def visit_ok_def
    by (metis UnI1 subsetD visit_mark.distinct(3))
  ultimately show "n \<in> unseen deps st" by (cases "mark st n") (auto simp: unseen_def)
qed

text \<open>Every name being visited leads to each name of the list.\<close>

definition leads :: "dependencies \<Rightarrow> visit_state \<Rightarrow> string list \<Rightarrow> bool" where
  "leads deps st names \<longleftrightarrow>
     (\<forall>v n. mark st v = Visiting \<longrightarrow> n \<in> set names \<longrightarrow> (v, n) \<in> (derives deps)\<^sup>+)"

definition visit_result :: "dependencies \<Rightarrow> string list \<Rightarrow> visit_state \<Rightarrow> string + visit_state \<Rightarrow> bool" where
  "visit_result deps names st r = (case r of
     Inl err \<Rightarrow> \<exists>n. err = cycle_error n \<and> (n, n) \<in> (derives deps)\<^sup>+
   | Inr st' \<Rightarrow> visited_all deps names st st')"

lemma visit_returns:
  assumes "visit_ok deps st" and "set names \<subseteq> fst ` set deps" and "leads deps st names"
  shows "\<exists>r. visit deps names st = Some r \<and> visit_result deps names st r"
  using assms
proof (induction "card (unseen deps st)" arbitrary: names st rule: less_induct)
  case less
  note outer = less.hyps
  from less.prems show ?case
  proof (induction names)
    case Nil
    then show ?case
      by (subst visit.simps) (simp add: visit_result_def visited_all_def visit_ok_def)
  next
    case (Cons n ns)
    show ?case
    proof (cases "mark st n")
      case Visiting
      with Cons.prems(3) have "(n, n) \<in> (derives deps)\<^sup>+" by (simp add: leads_def)
      then show ?thesis
        by (subst visit.simps) (auto simp: Visiting visit_result_def)
    next
      case Visited
      have "visit deps (n # ns) st = visit deps ns st"
        by (subst visit.simps) (simp add: Visited)
      moreover obtain r where "visit deps ns st = Some r" "visit_result deps ns st r"
        using Cons by (auto simp: leads_def)
      moreover have "n \<in> set (visit_order st)" using Visited Cons.prems(1) by (simp add: visit_ok_def)
      ultimately show ?thesis
        by (auto simp: visit_result_def visited_all_def split: sum.splits)
    next
      case Unseen
      let ?s1 = "start_visit n st"
      have n: "n \<in> unseen deps st" using Cons.prems(2) by (simp add: unseen_def Unseen)
      have "unseen deps ?s1 = unseen deps st - {n}"
        by (auto simp: unseen_def start_visit_def)
      then have less1: "card (unseen deps ?s1) < card (unseen deps st)"
        by (simp only: card_Diff1_less [OF finite_unseen n])
      have ok1: "visit_ok deps ?s1"
        using Cons.prems(1) Unseen by (auto simp: visit_ok_def start_visit_def)
      have leads1: "leads deps ?s1 (derived_refs deps n)"
        using Cons.prems(3) by (auto simp: leads_def start_visit_def derives_def intro: trancl_into_trancl)
      obtain r where r: "visit deps (derived_refs deps n) ?s1 = Some r"
        "visit_result deps (derived_refs deps n) ?s1 r"
        using outer [OF less1 ok1 derived_refs_keys leads1] by blast
      show ?thesis
      proof (cases r)
        case (Inl err)
        have "visit deps (n # ns) st = Some (Inl err)"
          by (subst visit.simps) (simp add: Unseen r(1) Inl)
        with r(2) Inl show ?thesis by (auto simp: visit_result_def)
      next
        case (Inr s2)
        let ?s3 = "end_visit n s2"
        have v: "visited_all deps (derived_refs deps n) ?s1 s2" using r(2) Inr by (simp add: visit_result_def)
        have vis: "mark s2 m = Visiting \<longleftrightarrow> m = n \<or> mark st m = Visiting" for m
          using v by (auto simp: visited_all_def start_visit_def set_eq_iff)
        have ok3: "visit_ok deps ?s3"
          by (rule visit_ok_end) (use v vis Cons.prems(2) in \<open>auto simp: visited_all_def\<close>)
        have visiting3: "{m. mark ?s3 m = Visiting} = {m. mark st m = Visiting}"
          using vis Unseen by (auto simp: end_visit_def)
        have "unseen deps ?s3 \<subseteq> unseen deps s2" by (auto simp: unseen_def end_visit_def)
        also have "\<dots> \<subseteq> unseen deps ?s1" by (rule visited_all_unseen [OF v ok1])
        finally have less3: "card (unseen deps ?s3) < card (unseen deps st)"
          using less1 by (meson card_mono finite_unseen le_less_trans)
        have leads3: "leads deps ?s3 ns"
          using Cons.prems(3) visiting3 by (auto simp: leads_def)
        obtain r' where r': "visit deps ns ?s3 = Some r'" "visit_result deps ns ?s3 r'"
          using outer [OF less3 ok3 _ leads3] Cons.prems(2) by auto
        have "visit deps (n # ns) st = Some r'"
          by (subst visit.simps) (simp add: Unseen r(1) Inr r'(1))
        moreover have "set (visit_order st) \<union> {n} \<subseteq> set (visit_order ?s3)"
          using v by (auto simp: visited_all_def start_visit_def end_visit_def)
        ultimately show ?thesis
          using r'(2) visiting3 by (auto simp: visit_result_def visited_all_def split: sum.splits)
      qed
    qed
  qed
qed

lemma topologicalDerivations_returns:
  "\<exists>r. topologicalDerivations deps = Some r \<and> (case r of
     Inl err \<Rightarrow> \<exists>n. err = cycle_error n \<and> (n, n) \<in> (derives deps)\<^sup>+
   | Inr order \<Rightarrow> distinct order \<and> set order = fst ` set deps \<and> dependency_order deps order)"
proof -
  let ?st = "\<lparr>mark = (\<lambda>_. Unseen), visit_order = []\<rparr>"
  have "visit_ok deps ?st" by (simp add: visit_ok_def dependency_order_def)
  moreover have "leads deps ?st (sort_strings (map fst deps))" by (simp add: leads_def)
  ultimately obtain r where r: "visit deps (sort_strings (map fst deps)) ?st = Some r"
    "visit_result deps (sort_strings (map fst deps)) ?st r"
    using visit_returns [of deps ?st "sort_strings (map fst deps)"] by auto
  then show ?thesis
    by (cases r) (auto simp: topologicalDerivations_def visit_result_def visited_all_def visit_ok_def)
qed

lemma dependency_order_acyclic:
  assumes "dependency_order deps xs" and "fst ` set deps \<subseteq> set xs"
  shows "acyclic (derives deps)"
proof -
  have before: "\<exists>ys zs. xs = ys @ zs \<and> b \<in> set ys \<and> a \<notin> set ys" if "(a, b) \<in> (derives deps)\<^sup>+" for a b
    using that
  proof (induction rule: trancl_induct)
    case (base b)
    then have "a \<in> set xs" using assms(2) derives_keys by blast
    then obtain ys zs where "xs = ys @ a # zs" "a \<notin> set ys" by (metis split_list_first)
    then show ?case using base assms(1) by (auto simp: dependency_order_def derives_def)
  next
    case (step b c)
    then obtain ys zs where ys: "xs = ys @ zs" "b \<in> set ys" "a \<notin> set ys" by blast
    then obtain us vs where us: "ys = us @ b # vs" by (metis split_list)
    then have "xs = us @ b # (vs @ zs)" using ys(1) by simp
    then have "c \<in> set us" using step(2) assms(1) by (auto simp: dependency_order_def derives_def)
    then show ?case using ys us by auto
  qed
  show ?thesis
    unfolding acyclic_def using before by blast
qed

end
