(* ===== verification/Contract_Manifest.thy ===== *)
theory Contract_Manifest
  imports Contract_Types Contract_Template Contract_Derive
begin

text \<open>
  The validation of a manifest, \<^verbatim>\<open>validate\<close> of \<^verbatim>\<open>internal/contract/manifest.go\<close> and
  \<^verbatim>\<open>validateLifecycle\<close> of \<^verbatim>\<open>internal/contract/lifecycle.go\<close>.
\<close>

section \<open>Policies and records\<close>

definition lifecycle_declared :: "manifest \<Rightarrow> bool" where
  "lifecycle_declared m \<longleftrightarrow> mf_Environment m \<noteq> [] \<or> mf_Credentials m \<noteq> [] \<or>
     mf_RotationPolicies m \<noteq> [] \<or> mf_Configurations m \<noteq> [] \<or> mf_BrowserRecipes m \<noteq> []"

definition check_manifest_head :: "manifest \<Rightarrow> string option" where
  "check_manifest_head m =
     (if mf_Version m \<noteq> 1 \<and> mf_Version m \<noteq> 2
      then Some ''version: only manifest versions 1 and 2 are supported''
      else if mf_Version m = 1 \<and> lifecycle_declared m
      then Some ''version: lifecycle declarations require manifest version 2''
      else if mf_Bundle m = [] \<or> maxBundleLength < length (mf_Bundle m) \<or>
              \<not> bundlePattern (mf_Bundle m) \<or> str_contains ''//'' (mf_Bundle m)
      then Some (''bundle: must be a valid identifier of at most '' @ show_nat maxBundleLength @ '' characters'')
      else if mf_Records m = [] \<or> maxRecords < length (mf_Records m)
      then Some (between ''records'' maxRecords)
      else if mf_Targets m = [] \<or> maxTargets < length (mf_Targets m)
      then Some (between ''targets'' maxTargets)
      else if maxPolicies < length (mf_Policies m)
      then Some (''policies: exceeds '' @ show_nat maxPolicies @ '' entries'')
      else None)"

definition check_password_policy :: "string \<Rightarrow> password_policy \<Rightarrow> string option" where
  "check_password_policy name p =
     (if name = [] \<or> pp_Type p \<noteq> ''password'' \<or> pp_Length p < 16 \<or> 256 < pp_Length p
      then Some (at_path (''policies.'' @ name) ''invalid password policy'')
      else if \<not> pp_Lowercase p \<and> \<not> pp_Uppercase p \<and> \<not> pp_Digits p \<and> \<not> pp_Symbols p
      then Some (at_path (''policies.'' @ name) ''at least one character class is required'')
      else None)"

definition check_template :: "string \<Rightarrow> string \<Rightarrow> string option" where
  "check_template path t =
     (if maxTemplateBytes < length t
      then Some (at_path (path @ ''.template'') (''exceeds '' @ show_nat maxTemplateBytes @ '' bytes''))
      else case ParseTemplate t of
          Inl err \<Rightarrow> Some (at_path (path @ ''.template'') err)
        | Inr parsed \<Rightarrow>
            if maxDependencies < length (References parsed)
            then Some (at_path (path @ ''.template'') (''exceeds '' @ show_nat maxDependencies @ '' dependencies''))
            else None)"

definition check_record :: "(string \<times> password_policy) list \<Rightarrow> string \<Rightarrow> manifest_record \<Rightarrow> string option" where
  "check_record policies name r =
     (let path = ''records.'' @ name in
      if maxRecordName < length name \<or> \<not> name_pattern name
      then Some (at_path path (''invalid environment variable name of at most '' @ show_nat maxRecordName @ '' characters''))
      else if mr_Source r = ''generate'' then
        (if mr_Policy r = [] \<or> mr_Template r \<noteq> [] \<or> mr_Sensitivity r \<noteq> []
         then Some (at_path path ''generate requires only policy'')
         else if map_of policies (mr_Policy r) = None
         then Some (at_path (path @ ''.policy'') ''policy does not exist'') else None)
      else if mr_Source r = ''derive'' then
        (if mr_Template r = [] \<or> mr_Policy r \<noteq> [] \<or> mr_Sensitivity r \<noteq> []
         then Some (at_path path ''derive requires only template'')
         else check_template path (mr_Template r))
      else if mr_Source r = ''import'' then
        (if mr_Policy r \<noteq> [] \<or> mr_Template r \<noteq> [] \<or>
            mr_Sensitivity r \<noteq> ''secret'' \<and> mr_Sensitivity r \<noteq> ''public''
         then Some (at_path path ''import requires sensitivity public or secret'') else None)
      else Some (at_path (path @ ''.source'') ''must be generate, derive, or import''))"

text \<open>The map the record loop fills: the references of the derived records.\<close>

definition template_refs :: "manifest_record \<Rightarrow> string list" where
  "template_refs r = (case ParseTemplate (mr_Template r) of Inl _ \<Rightarrow> [] | Inr parsed \<Rightarrow> References parsed)"

definition manifest_dependencies :: "(string \<times> manifest_record) list \<Rightarrow> dependencies" where
  "manifest_dependencies records =
     map (\<lambda>(name, r). (name, template_refs r)) (filter (\<lambda>(_, r). mr_Source r = ''derive'') records)"

definition check_references :: "(string \<times> manifest_record) list \<Rightarrow> string \<Rightarrow> string list \<Rightarrow> string option" where
  "check_references records name refs =
     first_of (\<lambda>ref. if map_of records ref = None
       then Some (at_path (''records.'' @ name @ ''.template'') (''record '' @ ref @ '' does not exist''))
       else None) refs"

section \<open>Targets\<close>

text \<open>The names a service declares absent.\<close>

fun check_absent :: "string \<Rightarrow> (string \<times> variable) list \<Rightarrow> string list \<Rightarrow> string list \<Rightarrow> string option" where
  "check_absent path variables seen [] = None"
| "check_absent path variables seen (name # names) =
     (if \<not> name_pattern name
      then Some (at_path (path @ ''.absent'') ''invalid environment variable name'')
      else if name \<in> set seen
      then Some (at_path (path @ ''.absent'') (''duplicate name '' @ name))
      else if map_of variables name \<noteq> None
      then Some (at_path path (name @ '' cannot be both present and absent''))
      else check_absent path variables (name # seen) names)"

definition check_variable ::
  "'s go_std_scheme \<Rightarrow> (string \<times> manifest_record) list \<Rightarrow> string \<Rightarrow> string \<Rightarrow> variable \<Rightarrow> string option" where
  "check_variable g records path name v =
     (let path = path @ ''.variables.'' @ name in
      if \<not> name_pattern name then Some (at_path path ''invalid environment variable name'')
      else case validateVariable g name v records of
          Some err \<Rightarrow> Some (at_path path err)
        | None \<Rightarrow> None)"

text \<open>
  The services of a target, in the order of their names: the orders seen, with their services,
  and the number of variables so far.
\<close>

fun check_services ::
  "'s go_std_scheme \<Rightarrow> (string \<times> manifest_record) list \<Rightarrow> string \<Rightarrow> (string \<times> service) list \<Rightarrow>
    (int \<times> string) list \<Rightarrow> nat \<Rightarrow> string list \<Rightarrow> string + nat" where
  "check_services g records path services orders count [] = Inr count"
| "check_services g records path services orders count (name # names) =
     (case map_of services name of
        None \<Rightarrow> check_services g records path services orders count names
      | Some s \<Rightarrow>
          (let servicePath = path @ ''.services.'' @ name in
           if name = [] \<or> sv_Order s < 1
           then Inl (at_path servicePath ''name and positive order are required'')
           else case map_of orders (sv_Order s) of
               Some previous \<Rightarrow> Inl (at_path (servicePath @ ''.order'') (''duplicates service '' @ previous))
             | None \<Rightarrow>
                 (let count = count + length (sv_Variables s) in
                  if maxVariables < count
                  then Inl (''targets: exceeds '' @ show_nat maxVariables @ '' variables'')
                  else case check_absent servicePath (sv_Variables s) [] (sv_Absent s) of
                      Some err \<Rightarrow> Inl err
                    | None \<Rightarrow>
                        (case each_key (sv_Variables s) (check_variable g records servicePath) of
                           Some err \<Rightarrow> Inl err
                         | None \<Rightarrow> check_services g records path services
                             ((sv_Order s, name) # orders) count names))))"

definition deployment_fields :: "manifest_target \<Rightarrow> bool" where
  "deployment_fields t \<longleftrightarrow> mt_Provider t \<noteq> [] \<or> mt_Stage t \<noteq> [] \<or> mt_Activation t \<noteq> [] \<or>
     mt_HealthChecks t \<noteq> [] \<or> mt_Promotion t \<noteq> [] \<or> mt_Rollback t \<noteq> []"

fun check_targets :: "'s go_std_scheme \<Rightarrow> manifest \<Rightarrow> nat \<Rightarrow> string list \<Rightarrow> string option" where
  "check_targets g m count [] = None"
| "check_targets g m count (name # names) =
     (case map_of (mf_Targets m) name of
        None \<Rightarrow> check_targets g m count names
      | Some t \<Rightarrow>
          (let path = ''targets.'' @ name in
           if mf_Version m = 1 \<and> deployment_fields t
           then Some (at_path path ''deployment lifecycle fields require manifest version 2'')
           else if \<not> providerPattern name \<or> mt_Project t = [] \<or> mt_Environment t = []
           then Some (at_path path ''provider, project, and environment names are required'')
           else if mt_Services t = [] \<or> maxServices < length (mt_Services t)
           then Some (between (path @ ''.services'') maxServices)
           else case check_services g (mf_Records m) path (mt_Services t) [] count
                  (sortedMapKeys (mt_Services t)) of
               Inl err \<Rightarrow> Some err
             | Inr count \<Rightarrow> check_targets g m count names))"

section \<open>Lifecycle declarations\<close>

definition capabilityMode :: "(string \<times> (string \<times> string) list) list" where
  "capabilityMode =
     [(''stripe'', [(''webhook-signing-secret'', ''automatic''), (''secret-key'', ''interactive''),
                    (''restricted-key'', ''interactive'')]),
      (''clerk'', [(''application-key'', ''interactive''), (''webhook-signing-secret'', ''interactive'')])]"

definition capabilityOperations :: "(string \<times> (string \<times> string \<times> string) list) list" where
  "capabilityOperations =
     [(''stripe'', [(''webhook-signing-secret'', ''webhook-delivery'', ''delete-endpoint''),
                    (''secret-key'', ''identity'', ''revoke-key''),
                    (''restricted-key'', ''identity'', ''revoke-key'')]),
      (''clerk'', [(''application-key'', ''identity'', ''revoke-key''),
                   (''webhook-signing-secret'', ''webhook-delivery'', ''delete-endpoint'')])]"

definition deploymentProviders :: "string list" where
  "deploymentProviders = [''vercel'', ''railway'']"

text \<open>A read of a map of maps: \<open>None\<close> when either key is missing.\<close>

definition lookup2 :: "(string \<times> (string \<times> 'v) list) list \<Rightarrow> string \<Rightarrow> string \<Rightarrow> 'v option" where
  "lookup2 m a b = (case map_of m a of None \<Rightarrow> None | Some inner \<Rightarrow> map_of inner b)"

fun duplicateStrings :: "string list \<Rightarrow> bool" where
  "duplicateStrings [] = False"
| "duplicateStrings (x # xs) = (x \<in> set xs \<or> duplicateStrings xs)"

definition action_word :: "string \<Rightarrow> bool" where
  "action_word a \<longleftrightarrow> a = ''create'' \<or> a = ''validate'' \<or> a = ''revoke''"

fun unique_actions :: "string list \<Rightarrow> string list \<Rightarrow> bool" where
  "unique_actions seen [] = True"
| "unique_actions seen (a # as) = (action_word a \<and> a \<notin> set seen \<and> unique_actions (a # seen) as)"

definition validateActions :: "string \<Rightarrow> string list \<Rightarrow> string option" where
  "validateActions path as =
     (if as = [] then Some (at_path path ''at least one action is required'')
      else if \<not> unique_actions [] as
      then Some (at_path path ''actions must be unique create, validate, or revoke values'')
      else None)"

definition check_credential :: "manifest \<Rightarrow> string \<Rightarrow> credential \<Rightarrow> string option" where
  "check_credential m name cr =
     (let path = ''credentials.'' @ name in
      if \<not> lifecycleNamePattern name then Some (at_path path ''invalid credential name'')
      else case lookup2 capabilityMode (cr_Provider cr) (cr_Type cr) of
          None \<Rightarrow> Some (at_path path ''unknown provider credential capability'')
        | Some mode \<Rightarrow>
            if cr_Mode cr \<noteq> mode then Some (at_path (path @ ''.mode'') (''capability requires '' @ mode))
            else if map_of (mf_Records m) (cr_Record cr) = None
            then Some (at_path (path @ ''.record'') ''destination record does not exist'')
            else (let (validation, revoke) =
                    (case lookup2 capabilityOperations (cr_Provider cr) (cr_Type cr) of
                       None \<Rightarrow> ([], []) | Some ops \<Rightarrow> ops) in
                  if cr_Validation cr \<noteq> validation \<or> cr_Revoke cr \<noteq> revoke
                  then Some (at_path path ''validation or revoke operation is not a known capability'')
                  else validateActions (path @ ''.actions'') (cr_Actions cr)))"

definition second_ns :: int where "second_ns = 1000000000"

definition validateHealthCheck :: "'s go_std_scheme \<Rightarrow> health_check \<Rightarrow> string option" where
  "validateHealthCheck g hc =
     (if (case url_parse g (hc_URL hc) of None \<Rightarrow> True
          | Some u \<Rightarrow> url_Scheme u \<noteq> ''https'' \<or> url_Host u = [] \<or> url_has_user u \<or> url_Fragment u \<noteq> [])
      then Some ''an HTTPS URL without credentials or fragment is required''
      else if hc_Method hc \<noteq> [] \<and> hc_Method hc \<noteq> ''GET'' \<and> hc_Method hc \<noteq> ''HEAD''
      then Some ''method must be GET or HEAD''
      else if ExpectedStatus hc < 200 \<or> 399 < ExpectedStatus hc \<or> Successes hc < 3
      then Some ''status must be 2xx/3xx and at least three successes are required''
      else case parse_duration g (MinimumDuration hc) of
          None \<Rightarrow> Some ''minimum_duration must be at least 30s''
        | Some least \<Rightarrow>
            if least < 30 * second_ns then Some ''minimum_duration must be at least 30s''
            else (case parse_duration g (hc_Timeout hc) of
                None \<Rightarrow> Some ''timeout must cover minimum_duration and be at most 10m''
              | Some timeout \<Rightarrow>
                  if timeout \<le> 0 \<or> 10 * 60 * second_ns < timeout \<or> timeout < least
                  then Some ''timeout must cover minimum_duration and be at most 10m'' else None))"

fun check_health :: "'s go_std_scheme \<Rightarrow> string \<Rightarrow> nat \<Rightarrow> health_check list \<Rightarrow> string option" where
  "check_health g name i [] = None"
| "check_health g name i (hc # hcs) =
     (case validateHealthCheck g hc of
        Some err \<Rightarrow> Some (at_path (''targets.'' @ name @ ''.health_checks.'' @ show_nat i) err)
      | None \<Rightarrow> check_health g name (i + 1) hcs)"

definition deployment_provider :: "string \<Rightarrow> manifest_target \<Rightarrow> string" where
  "deployment_provider name t = (if mt_Provider t = [] then name else mt_Provider t)"

definition deployment_binding :: "string \<Rightarrow> manifest_target \<Rightarrow> string" where
  "deployment_binding name t = deployment_provider name t @ [CHR 0x00] @ mt_ProjectID t @ [CHR 0x00] @ mt_EnvironmentID t"

text \<open>In the order one iteration over the map of targets takes.\<close>

fun check_deployments ::
  "'s go_std_scheme \<Rightarrow> manifest \<Rightarrow> string list \<Rightarrow> (string \<times> manifest_target) list \<Rightarrow> string option" where
  "check_deployments g m seen [] = None"
| "check_deployments g m seen ((name, t) # ts) =
     (if deployment_provider name t \<notin> set deploymentProviders
      then Some (at_path (''targets.'' @ name) ''unknown deployment provider'')
      else if mt_ProjectID t = [] \<or> mt_EnvironmentID t = []
      then Some (at_path (''targets.'' @ name) ''immutable project_id and environment_id are required'')
      else if deployment_binding name t \<in> set seen
      then Some (at_path (''targets.'' @ name) ''ambiguous duplicate deployment binding'')
      else if mt_Stage t = [] \<or> mt_Activation t = [] \<or> mt_Rollback t = []
      then Some (at_path (''targets.'' @ name) ''stage, activation, and rollback are required'')
      else if mf_Environment m = ''production'' \<and> mt_HealthChecks t = []
      then Some (at_path (''targets.'' @ name @ ''.health_checks'') ''production targets require health checks'')
      else case check_health g name 0 (mt_HealthChecks t) of
          Some err \<Rightarrow> Some err
        | None \<Rightarrow> check_deployments g m (deployment_binding name t # seen) ts)"

definition check_grace :: "'s go_std_scheme \<Rightarrow> string \<Rightarrow> string \<Rightarrow> string \<Rightarrow> string option" where
  "check_grace g environment path period =
     (case parse_duration g period of
        None \<Rightarrow> Some (at_path (path @ ''.grace_period'') ''positive duration is required'')
      | Some grace \<Rightarrow>
          if grace \<le> 0 then Some (at_path (path @ ''.grace_period'') ''positive duration is required'')
          else if environment = ''production'' \<and> grace < 24 * 3600 * second_ns
          then Some (at_path (path @ ''.grace_period'') ''production requires at least 24h'')
          else if environment \<noteq> ''production'' \<and> grace < 15 * 60 * second_ns
          then Some (at_path (path @ ''.grace_period'') ''sandbox and staging require at least 15m'')
          else None)"

definition check_policy_credential :: "manifest \<Rightarrow> string \<Rightarrow> rotation_policy \<Rightarrow> string \<Rightarrow> string option" where
  "check_policy_credential m path p name =
     (case map_of (mf_Credentials m) name of
        None \<Rightarrow> Some (at_path (path @ ''.credentials'') (''unknown credential '' @ name))
      | Some declared \<Rightarrow>
          if cr_Mode declared \<noteq> ''automatic'' \<and> ''create'' \<in> set (AllowedActions p)
          then Some (at_path path (''automatic rotation requested for interactive credential '' @ name))
          else None)"

definition check_policy_targets :: "manifest \<Rightarrow> string \<Rightarrow> rotation_policy \<Rightarrow> string option" where
  "check_policy_targets m path p =
     (case first_of (\<lambda>t. if map_of (mf_Targets m) t = None
         then Some (at_path (path @ ''.targets'') (''unknown target '' @ t)) else None) (rp_Targets p) of
        Some err \<Rightarrow> Some err
      | None \<Rightarrow>
      (case first_of (\<lambda>t. if t \<notin> set (rp_Targets p)
         then Some (at_path (path @ ''.activation_order'') (''target '' @ t @ '' is not selected'')) else None)
         (ActivationOrder p) of
        Some err \<Rightarrow> Some err
      | None \<Rightarrow>
         if length (ActivationOrder p) \<noteq> length (rp_Targets p) \<or> duplicateStrings (ActivationOrder p)
         then Some (at_path (path @ ''.activation_order'') ''must contain every selected target exactly once'')
         else None))"

definition check_rotation_policy :: "'s go_std_scheme \<Rightarrow> manifest \<Rightarrow> string \<Rightarrow> rotation_policy \<Rightarrow> string option" where
  "check_rotation_policy g m name p =
     (let path = ''rotation_policies.'' @ name in
      if \<not> lifecycleNamePattern name \<or> Schedule p = [] \<or> RetryLimit p < 1 \<or> 3 < RetryLimit p \<or> rp_Rollback p = []
      then Some (at_path path ''schedule, bounded retries, and rollback are required'')
      else case check_grace g (mf_Environment m) path (GracePeriod p) of Some err \<Rightarrow> Some err | None \<Rightarrow>
        (if rp_Credentials p = [] \<or> rp_Targets p = [] \<or> ActivationOrder p = []
         then Some (at_path path ''credentials, targets, and activation_order are required'')
         else case first_of (check_policy_credential m path p) (rp_Credentials p) of Some err \<Rightarrow> Some err | None \<Rightarrow>
           (case check_policy_targets m path p of Some err \<Rightarrow> Some err | None \<Rightarrow>
              validateActions (path @ ''.allowed_actions'') (AllowedActions p))))"

definition check_configuration :: "'s go_std_scheme \<Rightarrow> nat \<Rightarrow> configuration_recipe \<Rightarrow> string option" where
  "check_configuration g i r =
     (if map_of capabilityMode (cfg_Provider r) = None \<or> cfg_Operation r = [] \<or> cfg_Resource r = []
      then Some (at_path (''configurations.'' @ show_nat i) ''known provider, operation, and resource are required'')
      else first_of (\<lambda>(name, v).
        if suspiciousSecretName (to_upper g name) \<or> containsURLCredentials g v
        then Some (at_path (''configurations.'' @ show_nat i @ ''.fields'')
               ''secret-bearing public configuration is forbidden'')
        else None) (cfg_Fields r))"

definition check_browser_recipe :: "'s go_std_scheme \<Rightarrow> manifest \<Rightarrow> nat \<Rightarrow> browser_recipe \<Rightarrow> string option" where
  "check_browser_recipe g m i r =
     (if (case url_parse g (br_Origin r) of None \<Rightarrow> True
          | Some u \<Rightarrow> url_Scheme u \<noteq> ''https'' \<or> url_Host u = [] \<or> url_has_user u \<or> url_Path u \<noteq> [] \<or>
              url_RawQuery u \<noteq> [] \<or> url_Fragment u \<noteq> []) \<or>
         map_of capabilityMode (br_Provider r) = None \<or> \<not> has_prefix ''/'' (br_Route r) \<or>
         br_Selector r = [] \<or> br_Strategy r = [] \<or> br_ValuePrefix r = []
      then Some (at_path (''browser_recipes.'' @ show_nat i)
             ''exact HTTPS origin, route, selector, strategy, and known provider are required'')
      else if map_of (mf_Records m) (br_Record r) = None
      then Some (at_path (''browser_recipes.'' @ show_nat i @ ''.record'') ''destination record does not exist'')
      else None)"

text \<open>A loop over a list with its indices.\<close>

definition each_index :: "(nat \<Rightarrow> 'a \<Rightarrow> string option) \<Rightarrow> 'a list \<Rightarrow> string option" where
  "each_index f xs = first_of (\<lambda>(i, x). f i x) (enumerate 0 xs)"

definition check_lifecycle_head :: "manifest \<Rightarrow> string option" where
  "check_lifecycle_head m =
     (if mf_Environment m \<notin> set [''sandbox'', ''staging'', ''production'']
      then Some ''environment: version 2 requires sandbox, staging, or production''
      else if mf_Credentials m = [] \<or> maxCredentials < length (mf_Credentials m)
      then Some (between ''credentials'' maxCredentials) else None)"

definition check_recipes :: "'s go_std_scheme \<Rightarrow> manifest \<Rightarrow> string option" where
  "check_recipes g m =
     (if maxRecipes < length (mf_BrowserRecipes m) \<or> maxRecipes < length (mf_Configurations m)
      then Some ''lifecycle recipes exceed the safety limit''
      else case each_index (check_configuration g) (mf_Configurations m) of
          Some err \<Rightarrow> Some err
        | None \<Rightarrow> each_index (check_browser_recipe g m) (mf_BrowserRecipes m))"

definition validateLifecycle :: "'s go_std_scheme \<Rightarrow> manifest \<Rightarrow> string option" where
  "validateLifecycle g m =
     (case check_lifecycle_head m of Some err \<Rightarrow> Some err | None \<Rightarrow>
     (case each_key (mf_Credentials m) (check_credential m) of Some err \<Rightarrow> Some err | None \<Rightarrow>
     (case check_deployments g m [] (mf_Targets m) of Some err \<Rightarrow> Some err | None \<Rightarrow>
     (if mf_RotationPolicies m = [] \<or> maxPolicies < length (mf_RotationPolicies m)
      then Some (between ''rotation_policies'' maxPolicies)
      else case each_key (mf_RotationPolicies m) (check_rotation_policy g m) of
          Some err \<Rightarrow> Some err
        | None \<Rightarrow> check_recipes g m))))"

section \<open>The whole validation\<close>

definition check_records :: "manifest \<Rightarrow> string option" where
  "check_records m =
     (case each_key (mf_Policies m) check_password_policy of Some err \<Rightarrow> Some err | None \<Rightarrow>
     (case each_key (mf_Records m) (check_record (mf_Policies m)) of Some err \<Rightarrow> Some err | None \<Rightarrow>
        each_key (manifest_dependencies (mf_Records m)) (check_references (mf_Records m))))"

definition check_deployment :: "'s go_std_scheme \<Rightarrow> manifest \<Rightarrow> string option" where
  "check_deployment g m =
     (case check_targets g m 0 (sortedMapKeys (mf_Targets m)) of
        Some err \<Rightarrow> Some err
      | None \<Rightarrow> if mf_Version m = 2 then validateLifecycle g m else None)"

text \<open>\<open>None\<close> would be a validation that does not return.\<close>

definition validate :: "'s go_std_scheme \<Rightarrow> manifest \<Rightarrow> (string + string list) option" where
  "validate g m =
     (case check_manifest_head m of Some err \<Rightarrow> Some (Inl err) | None \<Rightarrow>
     (case check_records m of Some err \<Rightarrow> Some (Inl err) | None \<Rightarrow>
        Option.bind (topologicalDerivations (manifest_dependencies (mf_Records m)))
          (\<lambda>r. case r of
             Inl err \<Rightarrow> Some (Inl err)
           | Inr derived \<Rightarrow>
               (case check_deployment g m of
                  Some err \<Rightarrow> Some (Inl err)
                | None \<Rightarrow> Some (Inr derived)))))"

end
