(* ===== verification/Contract_Checks.thy ===== *)
theory Contract_Checks
  imports Contract_Manifest
begin

text \<open>What the checks of \<^theory_text>\<open>Contract_Manifest\<close> establish when they report no error.\<close>

section \<open>Lists of names and actions\<close>

lemma duplicateStrings_iff [simp]: "duplicateStrings xs \<longleftrightarrow> \<not> distinct xs"
  by (induction xs) auto

lemma unique_actions_iff [simp]:
  "unique_actions seen as \<longleftrightarrow> distinct as \<and> set as \<inter> set seen = {} \<and> (\<forall>a \<in> set as. action_word a)"
  by (induction as arbitrary: seen) auto

lemma validateActions_None:
  "validateActions path as = None \<longleftrightarrow> as \<noteq> [] \<and> distinct as \<and> set as \<subseteq> {''create'', ''validate'', ''revoke''}"
  by (auto simp: validateActions_def action_word_def)

lemma check_absent_None:
  "check_absent path vs seen names = None \<longleftrightarrow> distinct names \<and> set names \<inter> set seen = {} \<and>
    (\<forall>n \<in> set names. name_pattern n \<and> map_of vs n = None)"
  by (induction names arbitrary: seen) auto

section \<open>Variables and services\<close>

text \<open>What an accepted variable is.\<close>

definition variable_ok ::
  "'s go_std_scheme \<Rightarrow> (string \<times> manifest_record) list \<Rightarrow> string \<Rightarrow> variable \<Rightarrow> bool" where
  "variable_ok g records name v \<longleftrightarrow> name_pattern name \<and>
     (if va_Source v = ''constant'' then va_Record v = [] \<and> \<not> suspiciousSecretName name \<and>
        \<not> containsURLCredentials g (va_Value v)
      else if va_Source v = ''import'' then va_Value v = [] \<and> va_Record v = []
      else va_Source v = ''record'' \<and> va_Value v = [] \<and> va_Record v \<noteq> [] \<and>
        map_of records (va_Record v) \<noteq> None)"

lemma validateVariable_None:
  assumes "validateVariable g name v records = None" and "name_pattern name"
  shows "variable_ok g records name v"
  using assms by (auto simp: variable_ok_def validateVariable_def split: if_split_asm)

lemma check_variable_None:
  "check_variable g records path name v = None \<Longrightarrow> variable_ok g records name v"
  unfolding check_variable_def Let_def
  by (cases "name_pattern name"; cases "validateVariable g name v records")
    (simp_all add: validateVariable_None)

definition service_ok ::
  "'s go_std_scheme \<Rightarrow> (string \<times> manifest_record) list \<Rightarrow> string \<Rightarrow> service \<Rightarrow> bool" where
  "service_ok g records name s \<longleftrightarrow> name \<noteq> [] \<and> 1 \<le> sv_Order s \<and> distinct (sv_Absent s) \<and>
     (\<forall>n \<in> set (sv_Absent s). name_pattern n \<and> map_of (sv_Variables s) n = None) \<and>
     (\<forall>n v. map_of (sv_Variables s) n = Some v \<longrightarrow> variable_ok g records n v)"

definition variables_of :: "(string \<times> service) list \<Rightarrow> string \<Rightarrow> nat" where
  "variables_of services name =
     (case map_of services name of None \<Rightarrow> 0 | Some s \<Rightarrow> length (sv_Variables s))"

definition order_of :: "(string \<times> service) list \<Rightarrow> string \<Rightarrow> int" where
  "order_of services name = (case map_of services name of None \<Rightarrow> 0 | Some s \<Rightarrow> sv_Order s)"

lemma check_services_step:
  assumes "check_services g records path services orders count (name # names) = Inr n"
    and "map_of services name = Some s"
  shows "service_ok g records name s" "map_of orders (sv_Order s) = None"
    "check_services g records path services ((sv_Order s, name) # orders)
       (count + length (sv_Variables s)) names = Inr n"
    "count + length (sv_Variables s) \<le> maxVariables"
proof -
  have named: "\<not> (name = [] \<or> sv_Order s < 1)"
    using assms by (auto simp: Let_def split: if_split_asm)
  then have order: "map_of orders (sv_Order s) = None"
    using assms by (auto simp: Let_def split: option.split_asm)
  then have count: "\<not> maxVariables < count + length (sv_Variables s)"
    using named assms by (auto simp: Let_def split: if_split_asm)
  obtain sp where sp: "sp = path @ ''.services.'' @ name" by simp
  have absent: "check_absent sp (sv_Variables s) [] (sv_Absent s) = None"
    using named order count assms by (auto simp: Let_def sp split: option.split_asm)
  have vars: "each_key (sv_Variables s) (check_variable g records sp) = None"
    using named order count absent assms by (auto simp: Let_def sp split: option.split_asm)
  show "check_services g records path services ((sv_Order s, name) # orders)
       (count + length (sv_Variables s)) names = Inr n"
    using named order count absent vars assms by (simp add: Let_def sp)
  show "map_of orders (sv_Order s) = None" by (rule order)
  show "count + length (sv_Variables s) \<le> maxVariables" using count by simp
  show "service_ok g records name s"
    using named absent vars
    by (auto simp: service_ok_def check_absent_None each_key_None intro: check_variable_None)
qed

lemma check_services_Inr:
  assumes "check_services g records path services orders count names = Inr n"
    and "distinct names" and "set names \<subseteq> fst ` set services" and "count \<le> maxVariables"
  shows "(\<forall>name \<in> set names. \<forall>s. map_of services name = Some s \<longrightarrow> service_ok g records name s) \<and>
    n = count + (\<Sum>name \<leftarrow> names. variables_of services name) \<and> n \<le> maxVariables \<and>
    distinct (map (order_of services) names) \<and>
    order_of services ` set names \<inter> fst ` set orders = {}"
  using assms
proof (induction names arbitrary: orders count)
  case Nil
  then show ?case by simp
next
  case (Cons name names)
  then obtain s where s: "map_of services name = Some s"
    by (auto simp: map_of_eq_None_iff dest: weak_map_of_SomeI)
  note step = check_services_step [OF Cons.prems(1) s]
  have ih: "(\<forall>name \<in> set names. \<forall>s. map_of services name = Some s \<longrightarrow> service_ok g records name s) \<and>
    n = count + length (sv_Variables s) + (\<Sum>name \<leftarrow> names. variables_of services name) \<and> n \<le> maxVariables \<and>
    distinct (map (order_of services) names) \<and>
    order_of services ` set names \<inter> fst ` set ((sv_Order s, name) # orders) = {}"
    by (rule Cons.IH [OF step(3)]) (use Cons.prems step(4) in auto)
  have "order_of services name = sv_Order s" "variables_of services name = length (sv_Variables s)"
    by (simp_all add: order_of_def variables_of_def s)
  with ih step(1,2) s show ?case by (auto simp: map_of_eq_None_iff)
qed

section \<open>Targets\<close>

definition target_ok :: "'s go_std_scheme \<Rightarrow> manifest \<Rightarrow> manifest_target \<Rightarrow> bool" where
  "target_ok g m t \<longleftrightarrow>
     (\<forall>name s. map_of (mt_Services t) name = Some s \<longrightarrow> service_ok g (mf_Records m) name s) \<and>
     inj_on (order_of (mt_Services t)) (fst ` set (mt_Services t))"

definition target_variables :: "manifest \<Rightarrow> string \<Rightarrow> nat" where
  "target_variables m name = (case map_of (mf_Targets m) name of None \<Rightarrow> 0
     | Some t \<Rightarrow> (\<Sum>s \<leftarrow> sortedMapKeys (mt_Services t). variables_of (mt_Services t) s))"

lemma check_targets_None:
  assumes "check_targets g m count names = None" and "count \<le> maxVariables"
    and "\<And>name t. map_of (mf_Targets m) name = Some t \<Longrightarrow> distinct (map fst (mt_Services t))"
  shows "(\<forall>name \<in> set names. \<forall>t. map_of (mf_Targets m) name = Some t \<longrightarrow> target_ok g m t) \<and>
    count + (\<Sum>name \<leftarrow> names. target_variables m name) \<le> maxVariables"
  using assms(1,2)
proof (induction names arbitrary: count)
  case Nil
  then show ?case by simp
next
  case (Cons name names)
  show ?case
  proof (cases "map_of (mf_Targets m) name")
    case None
    then have "target_variables m name = 0" by (simp add: target_variables_def)
    with None Cons show ?thesis by simp
  next
    case (Some t)
    let ?path = "''targets.'' @ name" and ?keys = "sortedMapKeys (mt_Services t)"
    obtain n where n: "check_services g (mf_Records m) ?path (mt_Services t) [] count ?keys = Inr n"
      "check_targets g m n names = None"
      using Cons.prems(1) Some by (auto simp: Let_def split: if_split_asm sum.split_asm)
    have keys: "distinct ?keys" "set ?keys = fst ` set (mt_Services t)"
      using assms(3) [OF Some] by (simp_all add: sortedMapKeys_def)
    note s = check_services_Inr [OF n(1) keys(1) _ Cons.prems(2)]
    have "service_ok g (mf_Records m) k v" if k: "map_of (mt_Services t) k = Some v" for k v
    proof -
      have "k \<in> set ?keys" using k keys(2) by (force dest: map_of_SomeD)
      with s k show ?thesis using keys(2) by blast
    qed
    moreover have "inj_on (order_of (mt_Services t)) (fst ` set (mt_Services t))"
      using s keys by (simp add: distinct_map)
    ultimately have "target_ok g m t" by (simp add: target_ok_def)
    moreover have "n = count + target_variables m name" "n \<le> maxVariables"
      using s keys by (simp_all add: target_variables_def Some)
    ultimately show ?thesis using Cons.IH [OF n(2)] Some by auto
  qed
qed

section \<open>Records\<close>

lemma check_record_derive:
  assumes "check_record policies name r = None" and "mr_Source r = ''derive''"
  shows "\<exists>p. ParseTemplate (mr_Template r) = Inr p \<and> length (References p) \<le> maxDependencies"
proof -
  have "check_template (''records.'' @ name) (mr_Template r) = None"
    using assms by (simp add: check_record_def Let_def split: if_split_asm)
  then show ?thesis by (auto simp: check_template_def split: if_split_asm sum.split_asm)
qed

lemma check_references_None:
  "check_references records name refs = None \<longleftrightarrow> set refs \<subseteq> fst ` set records"
  by (auto simp: check_references_def first_of_None map_of_eq_None_iff split: if_splits)

lemma map_of_dependencies:
  assumes "distinct (map fst records)"
  shows "map_of (manifest_dependencies records) name =
    (case map_of records name of
       Some r \<Rightarrow> if mr_Source r = ''derive'' then Some (template_refs r) else None
     | None \<Rightarrow> None)"
  using assms
proof (induction records)
  case (Cons x xs)
  obtain k r where x: "x = (k, r)" by force
  have "map_of xs k = None" using Cons.prems x by (simp add: map_of_eq_None_iff)
  with Cons x show ?case by (auto simp: manifest_dependencies_def split: option.splits)
qed (simp add: manifest_dependencies_def)

section \<open>Rotation policies\<close>

text \<open>The activation order is an order of exactly the selected targets.\<close>

lemma activation_order_exact:
  assumes "check_policy_targets m path p = None"
  shows "distinct (ActivationOrder p) \<and> distinct (rp_Targets p) \<and>
    set (ActivationOrder p) = set (rp_Targets p) \<and>
    set (rp_Targets p) \<subseteq> fst ` set (mf_Targets m)"
proof -
  have known: "set (rp_Targets p) \<subseteq> fst ` set (mf_Targets m)"
    using assms by (auto simp: check_policy_targets_def first_of_None map_of_eq_None_iff split: option.splits if_splits)
  have sel: "set (ActivationOrder p) \<subseteq> set (rp_Targets p)"
    using assms by (auto simp: check_policy_targets_def first_of_None split: option.splits if_splits)
  have len: "length (ActivationOrder p) = length (rp_Targets p)" and dist: "distinct (ActivationOrder p)"
    using assms by (auto simp: check_policy_targets_def split: option.splits if_splits)
  have "card (set (rp_Targets p)) \<le> length (rp_Targets p)" by (rule card_length)
  then have "card (set (rp_Targets p)) \<le> card (set (ActivationOrder p))"
    using len dist by (simp add: distinct_card)
  then have same: "set (ActivationOrder p) = set (rp_Targets p)"
    using sel by (intro card_seteq) simp_all
  then have "distinct (rp_Targets p)" using len dist by (metis card_distinct distinct_card)
  then show ?thesis using same dist known by blast
qed

section \<open>The derivations of a validated manifest\<close>

lemma validate_Inr:
  assumes "validate g m = Some (Inr derived)"
  shows "check_records m = None" "check_deployment g m = None"
    "topologicalDerivations (manifest_dependencies (mf_Records m)) = Some (Inr derived)"
proof -
  have head: "check_manifest_head m = None"
    using assms by (cases "check_manifest_head m") (simp_all add: validate_def)
  show rec: "check_records m = None"
    using assms head by (cases "check_records m") (simp_all add: validate_def)
  obtain r where r: "topologicalDerivations (manifest_dependencies (mf_Records m)) = Some r"
    using topologicalDerivations_returns by blast
  obtain order where order: "r = Inr order"
    using assms head rec r by (cases r) (simp_all add: validate_def)
  show dep: "check_deployment g m = None"
    using assms head rec r order by (cases "check_deployment g m") (simp_all add: validate_def)
  show "topologicalDerivations (manifest_dependencies (mf_Records m)) = Some (Inr derived)"
    using assms head rec r order dep by (simp add: validate_def)
qed

lemma validated_derivations:
  assumes "validate g m = Some (Inr derived)" and "distinct (map fst (mf_Records m))"
  shows "mf_Records m \<noteq> []"
    and "distinct derived"
    and "\<And>name. name \<in> set derived \<longleftrightarrow> (\<exists>r. map_of (mf_Records m) name = Some r \<and> mr_Source r = ''derive'')"
    and "dependency_order (manifest_dependencies (mf_Records m)) derived"
    and "\<And>name r. map_of (mf_Records m) name = Some r \<Longrightarrow> mr_Source r = ''derive'' \<Longrightarrow>
      \<exists>p. ParseTemplate (mr_Template r) = Inr p \<and> set (References p) \<subseteq> fst ` set (mf_Records m)"
proof -
  note v = validate_Inr [OF assms(1)]
  note deps = map_of_dependencies [OF assms(2)]
  have "check_manifest_head m = None"
    using assms(1) by (cases "check_manifest_head m") (simp_all add: validate_def)
  then show "mf_Records m \<noteq> []" by (auto simp: check_manifest_head_def split: if_splits)
  have keys: "name \<in> fst ` set (manifest_dependencies (mf_Records m)) \<longleftrightarrow>
      (\<exists>r. map_of (mf_Records m) name = Some r \<and> mr_Source r = ''derive'')" for name
  proof -
    have "name \<in> fst ` set (manifest_dependencies (mf_Records m)) \<longleftrightarrow>
        map_of (manifest_dependencies (mf_Records m)) name \<noteq> None"
      by (simp add: map_of_eq_None_iff)
    then show ?thesis using deps [of name] by (cases "map_of (mf_Records m) name") simp_all
  qed
  have order: "distinct derived \<and> set derived = fst ` set (manifest_dependencies (mf_Records m)) \<and>
      dependency_order (manifest_dependencies (mf_Records m)) derived"
    using topologicalDerivations_returns [of "manifest_dependencies (mf_Records m)"] v(3) by simp
  then show "distinct derived" "dependency_order (manifest_dependencies (mf_Records m)) derived" by simp_all
  show "name \<in> set derived \<longleftrightarrow> (\<exists>r. map_of (mf_Records m) name = Some r \<and> mr_Source r = ''derive'')" for name
    using order keys by simp
  have records: "each_key (mf_Records m) (check_record (mf_Policies m)) = None"
    "each_key (manifest_dependencies (mf_Records m)) (check_references (mf_Records m)) = None"
    using v(1) by (auto simp: check_records_def split: option.split_asm)
  show "\<exists>p. ParseTemplate (mr_Template r) = Inr p \<and> set (References p) \<subseteq> fst ` set (mf_Records m)"
    if r: "map_of (mf_Records m) name = Some r" "mr_Source r = ''derive''" for name r
  proof -
    have "check_record (mf_Policies m) name r = None" using records(1) r(1) by (simp add: each_key_None)
    then obtain p where p: "ParseTemplate (mr_Template r) = Inr p" using check_record_derive r(2) by blast
    have "check_references (mf_Records m) name (template_refs r) = None"
      using records(2) deps [of name] r by (simp add: each_key_None)
    then show ?thesis using p by (simp add: check_references_None template_refs_def)
  qed
qed

end
