(* ===== verification/Contract_Theorems.thy ===== *)
theory Contract_Theorems
  imports Contract_Checks
begin

text \<open>
  The properties of bundle manifests: the inspection of the YAML tree, templates, the order of
  derivations and what a validated manifest guarantees.
\<close>

section \<open>The YAML tree\<close>

fun subnodes :: "yaml_node \<Rightarrow> yaml_node list" where
  "subnodes (Yaml_Node kind tag val anchor alias line column content) =
     Yaml_Node kind tag val anchor alias line column content # concat (map subnodes content)"

fun height :: "yaml_node \<Rightarrow> nat" where
  "height (Yaml_Node kind tag val anchor alias line column content) =
     Suc (foldr (\<lambda>x n. max (height x) n) content 0)"

definition plain_node :: "yaml_node \<Rightarrow> bool" where
  "plain_node n \<longleftrightarrow> yn_kind n \<noteq> AliasNode \<and> \<not> yn_alias n \<and> yn_anchor n = [] \<and> allowedTag (yn_tag n) \<and>
     (yn_kind n = MappingNode \<longrightarrow> distinct (map yn_value (keys_of (yn_content n))) \<and>
       list_all (\<lambda>k. yn_kind k = ScalarNode \<and> yn_tag k = ''!!str'' \<and> yn_value k \<noteq> ''<<'')
         (keys_of (yn_content n)))"

lemma inspect_keys_None:
  "inspect_keys g seen keys = None \<Longrightarrow> distinct (map yn_value keys) \<and>
    set (map yn_value keys) \<inter> set seen = {} \<and>
    list_all (\<lambda>k. yn_kind k = ScalarNode \<and> yn_tag k = ''!!str'' \<and> yn_value k \<noteq> ''<<'') keys"
  by (induction g seen keys rule: inspect_keys.induct) (auto split: if_split_asm)

lemma inspectNode_Inr:
  shows "inspectNode g node depth count = Inr n \<Longrightarrow>
      n = count + length (subnodes node) \<and> n \<le> maxYAMLNodes \<and> depth + height node \<le> Suc maxYAMLDepth \<and>
      list_all plain_node (subnodes node)"
    and "inspect_children g children depth count = Inr n \<Longrightarrow> depth \<le> Suc maxYAMLDepth \<Longrightarrow> count \<le> maxYAMLNodes \<Longrightarrow>
      n = count + length (concat (map subnodes children)) \<and> n \<le> maxYAMLNodes \<and>
      depth + foldr (\<lambda>x n. max (height x) n) children 0 \<le> Suc maxYAMLDepth \<and>
      list_all plain_node (concat (map subnodes children))"
proof (induction g node depth count and g children depth count arbitrary: n and n
    rule: inspectNode_inspect_children.induct)
  case (1 g kind tag val anchor aliased line column content depth count)
  let ?keys = "if kind = MappingNode then inspect_keys g [] (keys_of content) else None"
  have c: "\<not> maxYAMLNodes < count + 1" "\<not> maxYAMLDepth < depth"
    "\<not> (kind = AliasNode \<or> aliased \<or> anchor \<noteq> [])" "\<not> \<not> allowedTag tag"
    using "1.prems" by (simp_all add: Let_def split: if_split_asm)
  have k: "?keys = None"
  proof (cases ?keys)
    case (Some err)
    then show ?thesis using "1.prems" c by (simp add: Let_def)
  qed
  have keys: "kind = MappingNode \<longrightarrow> inspect_keys g [] (keys_of content) = None"
    using k by (cases "kind = MappingNode") simp_all
  have "inspect_children g content (depth + 1) (count + 1) = Inr n"
    using "1.prems" c k by (simp add: Let_def)
  then have ih: "n = count + 1 + length (concat (map subnodes content))" "n \<le> maxYAMLNodes"
    "depth + 1 + foldr (\<lambda>x n. max (height x) n) content 0 \<le> Suc maxYAMLDepth"
    "list_all plain_node (concat (map subnodes content))"
    using "1.IH" [OF refl refl c k] c keys by simp_all
  have "plain_node (Yaml_Node kind tag val anchor aliased line column content)"
    using c k inspect_keys_None [of g "[]" "keys_of content"] by (auto simp: plain_node_def split: if_split_asm)
  with ih show ?case by simp
next
  case (2 g depth count)
  then show ?case by simp
next
  case (3 g child children depth count)
  obtain k where k: "inspectNode g child depth count = Inr k" "inspect_children g children depth k = Inr n"
    using "3.prems"(1) by (auto split: sum.split_asm)
  have h: "0 < height child" by (cases child) simp
  from "3.IH"(1) [OF k(1)] have a: "k = count + length (subnodes child)" "k \<le> maxYAMLNodes"
    "depth + height child \<le> Suc maxYAMLDepth" "list_all plain_node (subnodes child)" by simp_all
  from "3.IH"(2) [OF k "3.prems"(2) a(2)] a show ?case by (simp add: max_def)
qed

text \<open>C34. A YAML tree that passes the inspection has at most 10,000 nodes and 20 levels, no
  alias, anchor or foreign tag, and every mapping of it has distinct keys that are plain
  strings and no merge key; the count is the number of nodes.\<close>

theorem inspected_tree_plain:
  assumes "inspectNode g node 1 0 = Inr n"
  shows "n = length (subnodes node) \<and> length (subnodes node) \<le> 10000 \<and> height node \<le> 20 \<and>
    list_all plain_node (subnodes node)"
  using inspectNode_Inr(1) [OF assms] by (simp add: contract_limits)

definition trial_std :: go_std where
  "trial_std = \<lparr>url_parse = (\<lambda>s. None), parse_duration = (\<lambda>s. if s = ''24h'' then Some 86400000000000 else None),
     to_upper = ascii_upper, quoted = (\<lambda>s. s)\<rparr>"

definition trial_scalar :: "string \<Rightarrow> yaml_node" where
  "trial_scalar s = Yaml_Node ScalarNode ''!!str'' s [] False 1 1 []"

definition trial_tree :: yaml_node where
  "trial_tree = Yaml_Node MappingNode ''!!map'' [] [] False 1 1
     [trial_scalar ''bundle'', trial_scalar ''a/b'', trial_scalar ''version'', trial_scalar ''1'']"

theorem inspected_tree_plain_witness:
  "height trial_tree \<le> 20 \<and> list_all plain_node (subnodes trial_tree)"
proof -
  have "inspectNode trial_std trial_tree 1 0 = Inr 5" by code_simp
  from inspected_tree_plain [OF this] show ?thesis by blast
qed

section \<open>Templates\<close>

text \<open>C35. \<^verbatim>\<open>ParseTemplate\<close> is the inverse of writing a template: it accepts exactly the texts of
  sequences of literals without an opening \<open>${\<close>, no two in a row, and of placeholders of valid
  names; the nodes are that sequence and the references are its names in order.\<close>

theorem template_parse_exact:
  "ParseTemplate t = Inr p \<longleftrightarrow>
    nodes_ok (Nodes p) \<and> template_text (Nodes p) = t \<and> References p = references (Nodes p)"
  by (rule ParseTemplate_iff)

section \<open>The order of derivations\<close>

text \<open>C36. The traversal always returns: either an order of exactly the derived records, each
  once and after the derived records it refers to, and then no record depends on itself; or an
  error that names a record on a cycle of dependencies.\<close>

theorem derivation_order_exact:
  "case topologicalDerivations deps of
     None \<Rightarrow> False
   | Some (Inr order) \<Rightarrow> distinct order \<and> set order = fst ` set deps \<and>
       dependency_order deps order \<and> acyclic (derives deps)
   | Some (Inl err) \<Rightarrow> \<exists>n. err = cycle_error n \<and> (n, n) \<in> (derives deps)\<^sup>+"
proof -
  obtain r where r: "topologicalDerivations deps = Some r" and
    res: "case r of Inl err \<Rightarrow> \<exists>n. err = cycle_error n \<and> (n, n) \<in> (derives deps)\<^sup>+
      | Inr order \<Rightarrow> distinct order \<and> set order = fst ` set deps \<and> dependency_order deps order"
    using topologicalDerivations_returns [of deps] by blast
  show ?thesis
  proof (cases r)
    case (Inl err)
    with res show ?thesis unfolding r by simp
  next
    case (Inr order)
    with res have "acyclic (derives deps)" by (intro dependency_order_acyclic) auto
    with res Inr show ?thesis unfolding r by simp
  qed
qed


section \<open>Validated manifests\<close>

text \<open>C38. What a validated manifest guarantees: the derived names are exactly the records of source
  \<open>derive\<close>, each after its derived references; every template parses and refers to records of
  the manifest; in every target the services have different orders, no name is both set and
  absent, every variable read from a record names one that exists, and no public constant has
  a secret-shaped name or is a URL with credentials; there are at most 512 variables in all.\<close>

theorem valid_manifest_contents:
  assumes "validate g m = Some (Inr derived)" and "distinct (map fst (mf_Records m))"
    and "\<And>name t. map_of (mf_Targets m) name = Some t \<Longrightarrow> distinct (map fst (mt_Services t))"
  shows "distinct derived \<and>
    (\<forall>name. name \<in> set derived \<longleftrightarrow> (\<exists>r. map_of (mf_Records m) name = Some r \<and> mr_Source r = ''derive'')) \<and>
    dependency_order (manifest_dependencies (mf_Records m)) derived \<and>
    (\<forall>name r. map_of (mf_Records m) name = Some r \<longrightarrow> mr_Source r = ''derive'' \<longrightarrow>
       (\<exists>p. ParseTemplate (mr_Template r) = Inr p \<and> set (References p) \<subseteq> fst ` set (mf_Records m))) \<and>
    (\<forall>name t. map_of (mf_Targets m) name = Some t \<longrightarrow> target_ok g m t) \<and>
    (\<Sum>name \<leftarrow> sortedMapKeys (mf_Targets m). target_variables m name) \<le> 512"
proof -
  note v = validate_Inr [OF assms(1)]
  note derivations = validated_derivations [OF assms(1,2)]
  have targets: "check_targets g m 0 (sortedMapKeys (mf_Targets m)) = None"
    using v(2) by (simp add: check_deployment_def split: option.split_asm)
  have t: "(\<forall>name \<in> set (sortedMapKeys (mf_Targets m)). \<forall>t. map_of (mf_Targets m) name = Some t \<longrightarrow> target_ok g m t) \<and>
      0 + (\<Sum>name \<leftarrow> sortedMapKeys (mf_Targets m). target_variables m name) \<le> maxVariables"
    by (rule check_targets_None [OF targets _ assms(3)]) simp_all
  have target: "target_ok g m t" if "map_of (mf_Targets m) name = Some t" for name t
  proof -
    have "name \<in> set (sortedMapKeys (mf_Targets m))"
      using that by (force simp: sortedMapKeys_def dest: map_of_SomeD)
    with t that show ?thesis by blast
  qed
  show ?thesis
    using derivations(2-) target t by (simp add: contract_limits)
qed

definition trial_manifest :: manifest where
  "trial_manifest = \<lparr>mf_Version = 1, mf_Bundle = ''acme/web'', mf_Environment = [],
     mf_Policies = [(''strong'', \<lparr>pp_Type = ''password'', pp_Length = 32, pp_Lowercase = True,
        pp_Uppercase = True, pp_Digits = True, pp_Symbols = False\<rparr>)],
     mf_Records =
       [(''DB_URL'', \<lparr>mr_Source = ''derive'', mr_Policy = [], mr_Template = ''pg://u:${secret:DB_PASS}@h'', mr_Sensitivity = []\<rparr>),
        (''DB_PASS'', \<lparr>mr_Source = ''generate'', mr_Policy = ''strong'', mr_Template = [], mr_Sensitivity = []\<rparr>)],
     mf_Targets = [(''vercel'', \<lparr>mt_Provider = [], mt_Project = ''p'', mt_ProjectID = [], mt_Environment = ''prod'',
        mt_EnvironmentID = [], mt_Services = [(''web'', \<lparr>sv_ID = [], sv_Order = 1,
          sv_Variables = [(''DATABASE_URL'', \<lparr>va_Source = ''record'', va_Value = [], va_Record = ''DB_URL'', va_Sensitivity = []\<rparr>),
            (''MODE'', \<lparr>va_Source = ''constant'', va_Value = ''live'', va_Record = [], va_Sensitivity = []\<rparr>)],
          sv_Absent = [''DEBUG'']\<rparr>)],
        mt_Stage = [], mt_Activation = [], mt_HealthChecks = [], mt_Promotion = [], mt_Rollback = []\<rparr>)],
     mf_Credentials = [], mf_RotationPolicies = [], mf_Configurations = [], mf_BrowserRecipes = []\<rparr>"

lemma trial_manifest_valid: "validate trial_std trial_manifest = Some (Inr [''DB_URL''])"
  by code_simp

theorem valid_manifest_contents_witness:
  "dependency_order (manifest_dependencies (mf_Records trial_manifest)) [''DB_URL'']"
proof -
  have "distinct (map fst (mf_Records trial_manifest))" by (simp add: trial_manifest_def)
  moreover have "distinct (map fst (mt_Services t))" if "map_of (mf_Targets trial_manifest) name = Some t" for name t
    using that by (auto simp: trial_manifest_def split: if_split_asm)
  ultimately show ?thesis using valid_manifest_contents [OF trial_manifest_valid] by blast
qed

section \<open>Rotation policies\<close>

lemma validateLifecycle_None:
  assumes "validateLifecycle g m = None"
  shows "each_key (mf_RotationPolicies m) (check_rotation_policy g m) = None"
    "each_key (mf_Credentials m) (check_credential m) = None"
  using assms by (auto simp: validateLifecycle_def split: option.split_asm if_split_asm)

lemma check_rotation_policy_None:
  assumes "check_rotation_policy g m name p = None"
  shows "1 \<le> RetryLimit p \<and> RetryLimit p \<le> 3" "check_grace g (mf_Environment m) (''rotation_policies.'' @ name) (GracePeriod p) = None"
    "first_of (check_policy_credential m (''rotation_policies.'' @ name) p) (rp_Credentials p) = None"
    "check_policy_targets m (''rotation_policies.'' @ name) p = None"
    "validateActions (''rotation_policies.'' @ name @ ''.allowed_actions'') (AllowedActions p) = None"
  using assms by (auto simp: check_rotation_policy_def Let_def split: option.split_asm if_split_asm)

lemma check_grace_None:
  "check_grace g environment path period = None \<Longrightarrow> \<exists>d. parse_duration g period = Some d \<and>
    (if environment = ''production'' then 24 * 3600 else 15 * 60) * 1000000000 \<le> d"
  by (auto simp: check_grace_def second_ns_def split: option.split_asm if_split_asm)

lemma check_policy_credential_None:
  "check_policy_credential m path p name = None \<Longrightarrow>
    \<exists>cr. map_of (mf_Credentials m) name = Some cr \<and> (cr_Mode cr = ''automatic'' \<or> ''create'' \<notin> set (AllowedActions p))"
  by (auto simp: check_policy_credential_def split: option.split_asm if_split_asm)

lemma check_credential_mode:
  "check_credential m name cr = None \<Longrightarrow> lookup2 capabilityMode (cr_Provider cr) (cr_Type cr) = Some (cr_Mode cr) \<and>
    map_of (mf_Records m) (cr_Record cr) \<noteq> None"
  by (auto simp: check_credential_def Let_def split: option.split_asm if_split_asm)

text \<open>C13. What a validated manifest of version 2 guarantees for every rotation policy: one to
  three attempts, a grace period of at least 24 hours in production and 15 minutes elsewhere, an
  activation order that is an order of exactly the selected targets, all of the manifest; every
  credential is declared in the mode its provider really supports and writes to a record of
  the manifest, and one that needs a person is never created unattended.\<close>

theorem valid_rotation_policy:
  assumes "validate g m = Some (Inr derived)" and "mf_Version m = 2"
    and "map_of (mf_RotationPolicies m) name = Some p"
  shows "1 \<le> RetryLimit p \<and> RetryLimit p \<le> 3 \<and>
    (\<exists>d. parse_duration g (GracePeriod p) = Some d \<and>
       (if mf_Environment m = ''production'' then 24 * 3600 else 15 * 60) * 1000000000 \<le> d) \<and>
    distinct (ActivationOrder p) \<and> distinct (rp_Targets p) \<and> set (ActivationOrder p) = set (rp_Targets p) \<and>
    set (rp_Targets p) \<subseteq> fst ` set (mf_Targets m) \<and>
    (\<forall>c \<in> set (rp_Credentials p). \<exists>cr. map_of (mf_Credentials m) c = Some cr \<and>
       lookup2 capabilityMode (cr_Provider cr) (cr_Type cr) = Some (cr_Mode cr) \<and>
       map_of (mf_Records m) (cr_Record cr) \<noteq> None \<and>
       (cr_Mode cr = ''automatic'' \<or> ''create'' \<notin> set (AllowedActions p)))"
proof -
  have "validateLifecycle g m = None"
    using validate_Inr(2) [OF assms(1)] assms(2) by (simp add: check_deployment_def split: option.split_asm)
  note l = validateLifecycle_None [OF this]
  have "check_rotation_policy g m name p = None" using l(1) assms(3) by (simp add: each_key_None)
  note p = check_rotation_policy_None [OF this]
  have cred: "\<exists>cr. map_of (mf_Credentials m) c = Some cr \<and>
       lookup2 capabilityMode (cr_Provider cr) (cr_Type cr) = Some (cr_Mode cr) \<and>
       map_of (mf_Records m) (cr_Record cr) \<noteq> None \<and>
       (cr_Mode cr = ''automatic'' \<or> ''create'' \<notin> set (AllowedActions p))" if c: "c \<in> set (rp_Credentials p)" for c
  proof -
    obtain cr where cr: "map_of (mf_Credentials m) c = Some cr" "cr_Mode cr = ''automatic'' \<or> ''create'' \<notin> set (AllowedActions p)"
      using check_policy_credential_None p(3) c unfolding first_of_None by blast
    then have "check_credential m c cr = None" using l(2) by (simp add: each_key_None)
    with cr show ?thesis using check_credential_mode by blast
  qed
  show ?thesis
    using p(1) check_grace_None [OF p(2)] activation_order_exact [OF p(4)] cred by blast
qed

definition trial_lifecycle :: manifest where
  "trial_lifecycle = \<lparr>mf_Version = 2, mf_Bundle = ''acme/web'', mf_Environment = ''sandbox'', mf_Policies = [],
     mf_Records = [(''HOOK'', \<lparr>mr_Source = ''import'', mr_Policy = [], mr_Template = [], mr_Sensitivity = ''secret''\<rparr>)],
     mf_Targets = [(''vercel'', \<lparr>mt_Provider = [], mt_Project = ''p'', mt_ProjectID = ''p1'', mt_Environment = ''prod'',
        mt_EnvironmentID = ''e1'', mt_Services = [(''web'', \<lparr>sv_ID = [], sv_Order = 1, sv_Variables = [], sv_Absent = []\<rparr>)],
        mt_Stage = ''deploy'', mt_Activation = ''promote'', mt_HealthChecks = [], mt_Promotion = [], mt_Rollback = ''revert''\<rparr>)],
     mf_Credentials = [(''hook'', \<lparr>cr_Provider = ''stripe'', cr_Type = ''webhook-signing-secret'', cr_Mode = ''automatic'',
        cr_Record = ''HOOK'', cr_Validation = ''webhook-delivery'', cr_Revoke = ''delete-endpoint'', cr_Actions = [''create'', ''revoke'']\<rparr>)],
     mf_RotationPolicies = [(''weekly'', \<lparr>rp_Credentials = [''hook''], rp_Targets = [''vercel''], Schedule = ''weekly'',
        GracePeriod = ''24h'', RetryLimit = 2, ActivationOrder = [''vercel''], AllowedActions = [''create''], rp_Rollback = ''revert''\<rparr>)],
     mf_Configurations = [], mf_BrowserRecipes = []\<rparr>"

lemma trial_lifecycle_valid: "validate trial_std trial_lifecycle = Some (Inr [])"
  by code_simp

theorem valid_rotation_policy_witness:
  "\<exists>p. map_of (mf_RotationPolicies trial_lifecycle) ''weekly'' = Some p \<and> RetryLimit p \<le> 3 \<and>
    set (ActivationOrder p) = set (rp_Targets p)"
proof -
  obtain p where p: "map_of (mf_RotationPolicies trial_lifecycle) ''weekly'' = Some p"
    by (simp add: trial_lifecycle_def)
  have "mf_Version trial_lifecycle = 2" by (simp add: trial_lifecycle_def)
  from valid_rotation_policy [OF trial_lifecycle_valid this p] p show ?thesis by blast
qed

end
