(* ===== verification/Vault_Object.thy ===== *)
theory Vault_Object
  imports Go_Json Protocol
begin

text \<open>
  Encrypted bookkeeping objects: \<^verbatim>\<open>internal/vaultobject/object.go\<close> over the sealing of
  \<^verbatim>\<open>internal/secure/secure.go\<close>. AES-GCM, HMAC and the JSON decoder are fields of
  \<open>client_crypto\<close>; the text that is sealed is written out.
\<close>

record client_crypto = crypto +
  hmac_sha256 :: "bytes \<Rightarrow> bytes \<Rightarrow> bytes"
  gcm_seal :: "bytes \<Rightarrow> bytes \<Rightarrow> bytes \<Rightarrow> bytes \<Rightarrow> bytes"
  gcm_open :: "bytes \<Rightarrow> bytes \<Rightarrow> bytes \<Rightarrow> bytes \<Rightarrow> bytes option"
  json_valid :: "bytes \<Rightarrow> bool"

section \<open>Sealing\<close>

definition formatVersion :: int where "formatVersion = 1"
definition nonce_size :: nat where "nonce_size = 12"

text \<open>\<^verbatim>\<open>aes.NewCipher\<close> accepts these key lengths.\<close>

definition aes_key :: "bytes \<Rightarrow> bool" where
  "aes_key key \<longleftrightarrow> length key \<in> {16, 24, 32}"

text \<open>\<open>nonce\<close> is what the random source gave, if it did.\<close>

definition Seal :: "'c client_crypto_scheme \<Rightarrow> bytes option \<Rightarrow> bytes \<Rightarrow> bytes \<Rightarrow> bytes \<Rightarrow> blob option" where
  "Seal c nonce key plaintext aad =
     (if \<not> aes_key key then None
      else case nonce of
          None \<Rightarrow> None
        | Some n \<Rightarrow> Some \<lparr>blob_Version = formatVersion, blob_Nonce = b64_encode n,
            blob_Ciphertext = b64_encode (gcm_seal c key n plaintext aad)\<rparr>)"

definition Open :: "'c client_crypto_scheme \<Rightarrow> bytes \<Rightarrow> blob \<Rightarrow> bytes \<Rightarrow> bytes option" where
  "Open c key blob aad =
     (if blob_Version blob \<noteq> formatVersion then None
      else case b64_decode (blob_Nonce blob) of
          None \<Rightarrow> None
        | Some n \<Rightarrow>
            (case b64_decode (blob_Ciphertext blob) of
               None \<Rightarrow> None
             | Some ciphertext \<Rightarrow>
                 if \<not> aes_key key \<or> length n \<noteq> nonce_size then None
                 else gcm_open c key n ciphertext aad))"

section \<open>The plaintext envelope\<close>

record plain_object =
  ob_Kind :: string
  ob_Key :: string
  ob_Revision :: int
  ob_ModifiedAt :: string
  ob_Payload :: bytes

definition MaxKindBytes :: nat where "MaxKindBytes = 64"
definition MaxObjectKeyBytes :: nat where "MaxObjectKeyBytes = 512"
definition MaxPayloadBytes :: nat where "MaxPayloadBytes = 1048576"

definition object_ID :: "'c client_crypto_scheme \<Rightarrow> bytes \<Rightarrow> string \<Rightarrow> string \<Rightarrow> string" where
  "object_ID c vaultKey kind key =
     b64_encode (hmac_sha256 c vaultKey (''envbank.object.id.v1'' @ nul @ kind @ nul @ key))"

definition object_aad :: "string \<Rightarrow> string \<Rightarrow> bytes" where
  "object_aad vaultID ident = ''envbank.object.v1'' @ nul @ vaultID @ nul @ ident"

definition object_Validate :: "'c client_crypto_scheme \<Rightarrow> plain_object \<Rightarrow> string option" where
  "object_Validate c ob =
     (if ob_Kind ob = [] \<or> MaxKindBytes < length (ob_Kind ob)
      then Some (''vault object kind must contain at most '' @ show_nat MaxKindBytes @ '' bytes'')
      else if \<not> list_all (\<lambda>ch. ch = CHR ''-'' \<or> is_lower ch) (ob_Kind ob)
      then Some ''vault object kind must contain lowercase letters and hyphens''
      else if ob_Key ob = [] \<or> MaxObjectKeyBytes < length (ob_Key ob)
      then Some (''vault object key must contain at most '' @ show_nat MaxObjectKeyBytes @ '' bytes'')
      else if ob_Revision ob < 1 then Some ''vault object revision must be positive''
      else if parse_canonical (ob_ModifiedAt ob) = None
      then Some ''vault object modified_at must be a canonical UTC timestamp''
      else if ob_Payload ob = [] \<or> MaxPayloadBytes < length (ob_Payload ob) \<or> \<not> json_valid c (ob_Payload ob)
      then Some ''vault object payload must be valid bounded JSON''
      else None)"

text \<open>\<^verbatim>\<open>json.Marshal\<close> of the envelope; the payload is JSON already, in the form Marshal writes.\<close>

definition json_field :: "string \<Rightarrow> bytes \<Rightarrow> bytes" where
  "json_field name v = json_string name @ '':'' @ v"

definition object_text :: "plain_object \<Rightarrow> bytes" where
  "object_text ob = ''{'' @ join_with '',''
     [json_field ''kind'' (json_string (ob_Kind ob)), json_field ''key'' (json_string (ob_Key ob)),
      json_field ''revision'' (show_int (ob_Revision ob)),
      json_field ''modified_at'' (json_string (ob_ModifiedAt ob)),
      json_field ''payload'' (ob_Payload ob)] @ ''}''"

section \<open>Encryption and decryption\<close>

definition Encrypt ::
  "'c client_crypto_scheme \<Rightarrow> bytes option \<Rightarrow> string \<Rightarrow> bytes \<Rightarrow> plain_object \<Rightarrow> string + string \<times> blob" where
  "Encrypt c nonce vaultID vaultKey ob =
     (case object_Validate c ob of
        Some err \<Rightarrow> Inl err
      | None \<Rightarrow>
          (let ident = object_ID c vaultKey (ob_Kind ob) (ob_Key ob) in
           case Seal c nonce vaultKey (object_text ob) (object_aad vaultID ident) of
             None \<Rightarrow> Inl ''vault object could not be encrypted''
           | Some b \<Rightarrow> Inr (ident, b)))"

text \<open>\<open>decode\<close> is \<^verbatim>\<open>decodeStrict\<close>: the object of a text without unknown fields and rest.\<close>

definition Decrypt ::
  "'c client_crypto_scheme \<Rightarrow> (bytes \<Rightarrow> plain_object option) \<Rightarrow> string \<Rightarrow> bytes \<Rightarrow> vault_object \<Rightarrow>
    string + plain_object" where
  "Decrypt c decode vaultID vaultKey encrypted =
     (case Open c vaultKey (vo_Blob encrypted) (object_aad vaultID (vo_ID encrypted)) of
        None \<Rightarrow> Inl ''vault object could not be decrypted''
      | Some plaintext \<Rightarrow>
          (case decode plaintext of
             None \<Rightarrow> Inl ''decrypted vault object is invalid''
           | Some ob \<Rightarrow>
               if object_Validate c ob \<noteq> None then Inl ''decrypted vault object is invalid''
               else if object_ID c vaultKey (ob_Kind ob) (ob_Key ob) \<noteq> vo_ID encrypted \<or>
                       ob_Revision ob \<noteq> vo_Revision encrypted \<or> ob_ModifiedAt ob \<noteq> vo_ModifiedAt encrypted
               then Inl ''vault object integrity metadata does not match''
               else Inr ob))"

definition object_identity :: "plain_object \<Rightarrow> string" where
  "object_identity ob = ob_Kind ob @ nul @ ob_Key ob"

fun decrypt_each ::
  "'c client_crypto_scheme \<Rightarrow> (bytes \<Rightarrow> plain_object option) \<Rightarrow> string \<Rightarrow> bytes \<Rightarrow> string list \<Rightarrow> string list \<Rightarrow>
    plain_object list \<Rightarrow> vault_object list \<Rightarrow> string + plain_object list" where
  "decrypt_each c decode vaultID vaultKey ids identities objects [] = Inr objects"
| "decrypt_each c decode vaultID vaultKey ids identities objects (item # items) =
     (if vo_ID item \<in> set ids then Inl ''duplicate encrypted vault object''
      else case Decrypt c decode vaultID vaultKey item of
          Inl _ \<Rightarrow> Inl ''one or more vault objects could not be decrypted''
        | Inr ob \<Rightarrow>
            if object_identity ob \<in> set identities then Inl ''duplicate decrypted vault object''
            else decrypt_each c decode vaultID vaultKey (vo_ID item # ids) (object_identity ob # identities)
                   (objects @ [ob]) items)"

text \<open>\<^verbatim>\<open>sort.Slice\<close> by kind, then key; no two of the objects compare equal.\<close>

definition object_less :: "plain_object \<Rightarrow> plain_object \<Rightarrow> bool" where
  "object_less a b =
     (if ob_Kind a = ob_Kind b then less_string (ob_Key a) (ob_Key b)
      else less_string (ob_Kind a) (ob_Kind b))"

fun insert_object_by :: "plain_object \<Rightarrow> plain_object list \<Rightarrow> plain_object list" where
  "insert_object_by x [] = [x]"
| "insert_object_by x (y # ys) = (if object_less y x then y # insert_object_by x ys else x # y # ys)"

definition DecryptAll ::
  "'c client_crypto_scheme \<Rightarrow> (bytes \<Rightarrow> plain_object option) \<Rightarrow> string \<Rightarrow> bytes \<Rightarrow> vault_object list \<Rightarrow>
    string + plain_object list" where
  "DecryptAll c decode vaultID vaultKey encrypted =
     (case decrypt_each c decode vaultID vaultKey [] [] [] encrypted of
        Inl err \<Rightarrow> Inl err
      | Inr objects \<Rightarrow> Inr (foldr insert_object_by objects []))"

section \<open>Round trips and integrity\<close>

text \<open>AES-GCM opens what it has sealed; ciphertexts carry the 16 bytes of the tag.\<close>

definition sealing_ok :: "'c client_crypto_scheme \<Rightarrow> bool" where
  "sealing_ok c \<longleftrightarrow> (\<forall>key n p a. gcm_open c key n (gcm_seal c key n p a) a = Some p \<and>
     16 \<le> length (gcm_seal c key n p a))"

lemma Open_Seal:
  assumes "sealing_ok c" and "Seal c nonce key p a = Some b" and "\<And>n. nonce = Some n \<Longrightarrow> length n = 12"
  shows "Open c key b a = Some p"
  using assms by (auto simp: Seal_def Open_def nonce_size_def sealing_ok_def split: if_splits option.splits)

lemma Encrypt_Inr:
  "Encrypt c nonce vaultID vaultKey ob = Inr (ident, b) \<longleftrightarrow>
    object_Validate c ob = None \<and> ident = object_ID c vaultKey (ob_Kind ob) (ob_Key ob) \<and>
    Seal c nonce vaultKey (object_text ob) (object_aad vaultID ident) = Some b"
  by (auto simp: Encrypt_def Let_def split: option.splits)

lemma Decrypt_Inr:
  "Decrypt c decode vaultID vaultKey x = Inr ob \<longleftrightarrow>
    (\<exists>p. Open c vaultKey (vo_Blob x) (object_aad vaultID (vo_ID x)) = Some p \<and> decode p = Some ob) \<and>
    object_Validate c ob = None \<and> vo_ID x = object_ID c vaultKey (ob_Kind ob) (ob_Key ob) \<and>
    vo_Revision x = ob_Revision ob \<and> vo_ModifiedAt x = ob_ModifiedAt ob"
  by (auto simp: Decrypt_def split: option.splits)

lemma Decrypt_Encrypt:
  assumes "sealing_ok c" and "\<And>n. nonce = Some n \<Longrightarrow> length n = 12" and "decode (object_text ob) = Some ob"
    and "Encrypt c nonce vaultID vaultKey ob = Inr (ident, b)"
  shows "Decrypt c decode vaultID vaultKey
    \<lparr>vo_ID = ident, vo_Revision = ob_Revision ob, vo_Blob = b, vo_ModifiedAt = ob_ModifiedAt ob\<rparr> = Inr ob"
proof -
  note e = assms(4) [unfolded Encrypt_Inr]
  have "Open c vaultKey b (object_aad vaultID ident) = Some (object_text ob)"
    by (rule Open_Seal [OF assms(1)]) (use e assms(2) in auto)
  then show ?thesis unfolding Decrypt_Inr using e assms(3) by simp
qed

lemma Encrypt_accepted:
  assumes "Encrypt c nonce vaultID vaultKey ob = Inr (ident, b)" and "sealing_ok c"
    and "\<And>n. nonce = Some n \<Longrightarrow> length n = 12"
  shows "blob_Version b = 1 \<and> (\<exists>n. length n = 12 \<and> blob_Nonce b = b64_encode n) \<and>
    (\<exists>ct. 16 \<le> length ct \<and> blob_Ciphertext b = b64_encode ct)"
  using assms by (auto simp: Encrypt_Inr Seal_def formatVersion_def sealing_ok_def split: if_splits option.splits) blast

end
