(* ===== verification/Vault_Store.thy ===== *)
theory Vault_Store
  imports Vault_Object Server_Handlers Rollout_Store
begin

text \<open>
  The client's typed objects, \<^verbatim>\<open>internal/client/objects.go\<close>, over the object service. The
  service is a locale: what one request can do to the stored objects. It is interpreted by the
  statements of the server's transaction on its table. The client refines the optimistic store
  of plain payloads that the rollout engine is modelled on.
\<close>

section \<open>The client\<close>

definition GetObject ::
  "'c client_crypto_scheme \<Rightarrow> (bytes \<Rightarrow> plain_object option) \<Rightarrow> (string \<Rightarrow> vault_object option) \<Rightarrow>
    string \<Rightarrow> bytes \<Rightarrow> string \<Rightarrow> string \<Rightarrow> string + plain_object" where
  "GetObject c decode get vaultID vaultKey kind key =
     (case get (object_ID c vaultKey kind key) of
        None \<Rightarrow> Inl ''server request failed''
      | Some encrypted \<Rightarrow> Decrypt c decode vaultID vaultKey encrypted)"

text \<open>
  \<open>raw\<close> is the marshalled payload, \<open>put\<close> the request to the service: the reply, if one arrives,
  and the new state of the service.
\<close>

definition new_object :: "string \<Rightarrow> string \<Rightarrow> bytes \<Rightarrow> int \<Rightarrow> string \<Rightarrow> plain_object" where
  "new_object kind key raw expected now =
     \<lparr>ob_Kind = kind, ob_Key = key, ob_Revision = i64 (expected + 1), ob_ModifiedAt = now, ob_Payload = raw\<rparr>"

definition PutObject ::
  "'c client_crypto_scheme \<Rightarrow> (bytes \<Rightarrow> plain_object option) \<Rightarrow>
    (string \<Rightarrow> put_object_request \<Rightarrow> 's \<Rightarrow> vault_object option \<times> 's) \<Rightarrow> bytes option \<Rightarrow> string \<Rightarrow>
    string \<Rightarrow> bytes \<Rightarrow> string \<Rightarrow> string \<Rightarrow> bytes option \<Rightarrow> int \<Rightarrow> 's \<Rightarrow> (string + plain_object) \<times> 's" where
  "PutObject c decode put nonce now vaultID vaultKey kind key payload expected s =
     (case payload of
        None \<Rightarrow> (Inl ''payload cannot be marshalled'', s)
      | Some raw \<Rightarrow>
          (let ob = new_object kind key raw expected now in
           case Encrypt c nonce vaultID vaultKey ob of
             Inl err \<Rightarrow> (Inl err, s)
           | Inr (ident, b) \<Rightarrow>
               (case put ident \<lparr>po_ExpectedRevision = expected, po_ModifiedAt = now, po_Blob = b\<rparr> s of
                  (None, s') \<Rightarrow> (Inl ''server request failed'', s')
                | (Some stored, s') \<Rightarrow> (Decrypt c decode vaultID vaultKey stored, s'))))"

section \<open>The object service\<close>

definition object_revision :: "vault_object option \<Rightarrow> int" where
  "object_revision x = (case x of None \<Rightarrow> 0 | Some o' \<Rightarrow> vo_Revision o')"

definition stored_object :: "string \<Rightarrow> put_object_request \<Rightarrow> vault_object" where
  "stored_object ident r = \<lparr>vo_ID = ident, vo_Revision = i64 (po_ExpectedRevision r + 1),
     vo_Blob = po_Blob r, vo_ModifiedAt = po_ModifiedAt r\<rparr>"

text \<open>
  A request leaves everything as it was and is not answered with an object, or it met the current
  revision and stored exactly its object; then the answer may still be lost.
\<close>

definition put_effect ::
  "(string \<Rightarrow> vault_object option) \<Rightarrow> string \<Rightarrow> put_object_request \<Rightarrow> vault_object option \<Rightarrow>
    (string \<Rightarrow> vault_object option) \<Rightarrow> bool" where
  "put_effect m ident r reply m' \<longleftrightarrow>
     reply = None \<and> m' = m \<or>
     object_revision (m ident) = po_ExpectedRevision r \<and> m' = m(ident \<mapsto> stored_object ident r) \<and>
     (reply = None \<or> reply = Some (stored_object ident r))"

locale object_service =
  fixes good :: "'s \<Rightarrow> bool"
    and get :: "'s \<Rightarrow> string \<Rightarrow> vault_object option"
    and put :: "string \<Rightarrow> put_object_request \<Rightarrow> 's \<Rightarrow> vault_object option \<times> 's"
  assumes put_outcome: "good s \<Longrightarrow> put ident r s = (reply, s') \<Longrightarrow>
      good s' \<and> put_effect (get s) ident r reply (get s')"

section \<open>The optimistic store of payloads\<close>

type_synonym payload_store = "string \<times> string \<Rightarrow> (bytes \<times> int) option"

definition optimistic_put ::
  "('k \<Rightarrow> ('v \<times> int) option) \<Rightarrow> 'k \<Rightarrow> 'v \<Rightarrow> int \<Rightarrow> int option \<Rightarrow> ('k \<Rightarrow> ('v \<times> int) option) \<Rightarrow> bool" where
  "optimistic_put m name x expected reply m' \<longleftrightarrow>
     reply = None \<and> m' = m \<or>
     revision_of (m name) = expected \<and> m' = m(name \<mapsto> (x, expected + 1)) \<and>
     (reply = None \<or> reply = Some (expected + 1))"

text \<open>The vault of the rollout engine's model is such a store, of plans and of operations.\<close>

definition granted :: "'e + int \<Rightarrow> int option" where
  "granted r = (case r of Inl _ \<Rightarrow> None | Inr n \<Rightarrow> Some n)"

lemma put_operation_optimistic:
  assumes "run_state (put_operation e op expected) s = (r, s')"
  shows "optimistic_put (saved_operations s) (op_ID op) op expected (granted r) (saved_operations s') \<and>
    saved_plans s' = saved_plans s"
  using assms by (auto simp: put_operation_def optimistic_put_def granted_def Let_def split: if_split_asm)

lemma put_plan_optimistic:
  assumes "run_state (put_plan e plan expected) s = (r, s')"
  shows "optimistic_put (saved_plans s) (plan_ID plan) plan expected (granted r) (saved_plans s') \<and>
    saved_operations s' = saved_operations s"
  using assms by (auto simp: put_plan_def optimistic_put_def granted_def Let_def split: if_split_asm)

definition payload_of :: "string + plain_object \<Rightarrow> (bytes \<times> int) option" where
  "payload_of r = (case r of Inl _ \<Rightarrow> None | Inr ob \<Rightarrow> Some (ob_Payload ob, ob_Revision ob))"

definition answer_of :: "string + plain_object \<Rightarrow> int option" where
  "answer_of r = (case r of Inl _ \<Rightarrow> None | Inr ob \<Rightarrow> Some (ob_Revision ob))"

text \<open>The payloads a client with the key reads, of the objects with names in \<open>N\<close>.\<close>

definition plain_view ::
  "'c client_crypto_scheme \<Rightarrow> (bytes \<Rightarrow> plain_object option) \<Rightarrow> string \<Rightarrow> bytes \<Rightarrow> (string \<times> string) set \<Rightarrow>
    (string \<Rightarrow> vault_object option) \<Rightarrow> payload_store" where
  "plain_view c decode vaultID vaultKey N m = (\<lambda>(kind, key).
     if (kind, key) \<in> N then payload_of (GetObject c decode m vaultID vaultKey kind key) else None)"

text \<open>Every object under one of the names is one a client stored there.\<close>

definition readable ::
  "'c client_crypto_scheme \<Rightarrow> (bytes \<Rightarrow> plain_object option) \<Rightarrow> string \<Rightarrow> bytes \<Rightarrow> (string \<times> string) set \<Rightarrow>
    (string \<Rightarrow> vault_object option) \<Rightarrow> bool" where
  "readable c decode vaultID vaultKey N m \<longleftrightarrow> (\<forall>(kind, key) \<in> N. \<forall>x.
     m (object_ID c vaultKey kind key) = Some x \<longrightarrow>
     (\<exists>ob. Decrypt c decode vaultID vaultKey x = Inr ob \<and> ob_Kind ob = kind \<and> ob_Key ob = key))"

definition separated :: "'c client_crypto_scheme \<Rightarrow> bytes \<Rightarrow> (string \<times> string) set \<Rightarrow> bool" where
  "separated c vaultKey N \<longleftrightarrow> inj_on (\<lambda>(kind, key). object_ID c vaultKey kind key) N"

lemma readable_revision:
  assumes "readable c decode vaultID vaultKey N m" and "(kind, key) \<in> N"
  shows "revision_of (plain_view c decode vaultID vaultKey N m (kind, key)) =
    object_revision (m (object_ID c vaultKey kind key))"
proof (cases "m (object_ID c vaultKey kind key)")
  case None
  then show ?thesis
    by (simp add: plain_view_def assms(2) GetObject_def payload_of_def revision_of_def object_revision_def)
next
  case (Some x)
  then obtain ob where dec: "Decrypt c decode vaultID vaultKey x = Inr ob"
    using assms by (fastforce simp: readable_def)
  then have "vo_Revision x = ob_Revision ob" by (simp add: Decrypt_Inr)
  then show ?thesis
    by (simp add: plain_view_def assms(2) GetObject_def Some dec payload_of_def revision_of_def object_revision_def)
qed

text \<open>Storing an encrypted object is storing its payload.\<close>

lemma plain_view_update:
  assumes "separated c vaultKey N" and "(kind, key) \<in> N"
    and "Decrypt c decode vaultID vaultKey x = Inr ob" and "ob_Kind ob = kind" "ob_Key ob = key"
    and "readable c decode vaultID vaultKey N m"
  defines "m' \<equiv> m(object_ID c vaultKey kind key \<mapsto> x)"
  shows "plain_view c decode vaultID vaultKey N m' =
      (plain_view c decode vaultID vaultKey N m)((kind, key) \<mapsto> (ob_Payload ob, ob_Revision ob))"
    and "readable c decode vaultID vaultKey N m'"
proof -
  have other: "object_ID c vaultKey k y \<noteq> object_ID c vaultKey kind key"
    if "(k, y) \<in> N" "(k, y) \<noteq> (kind, key)" for k y
    using assms(1,2) that by (auto simp: separated_def inj_on_def)
  show "plain_view c decode vaultID vaultKey N m' =
      (plain_view c decode vaultID vaultKey N m)((kind, key) \<mapsto> (ob_Payload ob, ob_Revision ob))"
  proof (rule ext, safe)
    fix k y
    show "plain_view c decode vaultID vaultKey N m' (k, y) =
        ((plain_view c decode vaultID vaultKey N m)((kind, key) \<mapsto> (ob_Payload ob, ob_Revision ob))) (k, y)"
      using other [of k y] assms(2,3)
      by (cases "(k, y) = (kind, key)") (simp_all add: plain_view_def GetObject_def m'_def payload_of_def)
  qed
  show "readable c decode vaultID vaultKey N m'"
    using other assms(3-6) by (fastforce simp: readable_def m'_def)
qed

lemma i64_successor:
  assumes "min_i64 \<le> n \<and> n \<le> max_i64" and "1 \<le> i64 (n + 1)"
  shows "i64 (n + 1) = n + 1"
proof (cases "n = max_i64")
  case True
  then show ?thesis using assms(2) i64_max_wraps by (simp add: min_i64_def)
next
  case False
  with assms(1) show ?thesis by (intro i64_id) auto
qed

context object_service
begin

lemma PutObject_refines:
  assumes "good s" and "readable c decode vaultID vaultKey N (get s)" and "separated c vaultKey N"
    and "(kind, key) \<in> N" and "sealing_ok c" and "\<And>n. nonce = Some n \<Longrightarrow> length n = 12"
    and "decode (object_text (new_object kind key raw expected now)) = Some (new_object kind key raw expected now)"
    and "PutObject c decode put nonce now vaultID vaultKey kind key (Some raw) expected s = (r, s')"
    and "min_i64 \<le> expected \<and> expected \<le> max_i64"
  shows "good s' \<and> readable c decode vaultID vaultKey N (get s') \<and>
    optimistic_put (plain_view c decode vaultID vaultKey N (get s)) (kind, key) raw expected (answer_of r)
      (plain_view c decode vaultID vaultKey N (get s'))"
proof (cases "Encrypt c nonce vaultID vaultKey (new_object kind key raw expected now)")
  case (Inl err)
  then show ?thesis
    using assms(1,2,8) by (auto simp: PutObject_def optimistic_put_def answer_of_def)
next
  case (Inr enc)
  let ?ob = "new_object kind key raw expected now"
  obtain ident b where enc: "Encrypt c nonce vaultID vaultKey ?ob = Inr (ident, b)"
    using Inr by (cases enc) auto
  let ?req = "\<lparr>po_ExpectedRevision = expected, po_ModifiedAt = now, po_Blob = b\<rparr>"
  have ident: "ident = object_ID c vaultKey kind key"
    using enc by (simp add: Encrypt_Inr new_object_def)
  have dec: "Decrypt c decode vaultID vaultKey (stored_object ident ?req) = Inr ?ob"
    using Decrypt_Encrypt [where decode = decode, OF assms(5) _ assms(7) enc] assms(6)
    by (simp add: stored_object_def new_object_def)
  obtain reply where put: "put ident ?req s = (reply, s')"
    "r = (case reply of None \<Rightarrow> Inl ''server request failed'' | Some x \<Rightarrow> Decrypt c decode vaultID vaultKey x)"
    using assms(8) by (auto simp: PutObject_def enc split: prod.splits option.splits)
  have out: "good s'" "put_effect (get s) ident ?req reply (get s')"
    using put_outcome [OF assms(1) put(1)] by simp_all
  show ?thesis
  proof (cases "reply = None \<and> get s' = get s")
    case True
    then show ?thesis using out(1) assms(2) put(2) by (simp add: optimistic_put_def answer_of_def)
  next
    case False
    then have eff: "object_revision (get s ident) = expected" "get s' = (get s)(ident \<mapsto> stored_object ident ?req)"
      "reply = None \<or> reply = Some (stored_object ident ?req)"
      using out(2) by (auto simp: put_effect_def)
    have "object_Validate c ?ob = None" using enc by (simp add: Encrypt_Inr)
    then have "1 \<le> i64 (expected + 1)"
      by (auto simp: object_Validate_def new_object_def split: if_split_asm)
    then have ob: "ob_Kind ?ob = kind" "ob_Key ?ob = key" "ob_Payload ?ob = raw" "ob_Revision ?ob = expected + 1"
      using i64_successor [OF assms(9)] by (simp_all add: new_object_def)
    note up = plain_view_update [OF assms(3,4) dec ob(1,2) assms(2), folded ident]
    have "revision_of (plain_view c decode vaultID vaultKey N (get s) (kind, key)) = expected"
      using readable_revision [OF assms(2,4)] eff(1) ident by simp
    moreover have "answer_of r = None \<or> answer_of r = Some (expected + 1)"
      using eff(3) put(2) dec ob by (auto simp: answer_of_def)
    ultimately show ?thesis
      using up out(1) eff(2) ob by (simp add: optimistic_put_def)
  qed
qed

end

section \<open>The server's table\<close>

text \<open>
  The transaction of \<^verbatim>\<open>putVaultObject\<close> on the database, after authentication: \<open>fails\<close> when it
  cannot be run or committed, \<open>lost\<close> when the answer does not arrive.
\<close>

definition valid_put :: "string \<Rightarrow> put_object_request \<Rightarrow> bool" where
  "valid_put ident r \<longleftrightarrow> validOpaqueObjectID ident \<and> 0 \<le> po_ExpectedRevision r \<and>
     validObjectTimestamp (po_ModifiedAt r) \<and> validEncryptedVaultObject (po_Blob r)"

definition put_statement :: "string \<Rightarrow> string \<Rightarrow> put_object_request \<Rightarrow> int \<Rightarrow> db \<Rightarrow> (nat \<times> db) option" where
  "put_statement vaultID ident r current d =
     (if current = 0 then insert_object \<lparr>o_vault_id = vaultID, o_id = ident, o_revision = i64 (current + 1),
        o_blob = po_Blob r, o_modified_at = po_ModifiedAt r\<rparr> d
      else update_object vaultID ident current (i64 (current + 1)) (po_Blob r) (po_ModifiedAt r) d)"

definition serve_put ::
  "bool \<Rightarrow> bool \<Rightarrow> string \<Rightarrow> string \<Rightarrow> put_object_request \<Rightarrow> db \<Rightarrow> vault_object option \<times> db" where
  "serve_put fails lost vaultID ident r d =
     (let current = (case current_object_revision vaultID ident d of None \<Rightarrow> 0 | Some n \<Rightarrow> n) in
      if fails \<or> \<not> valid_put ident r \<or> current \<noteq> po_ExpectedRevision r then (None, d)
      else case put_statement vaultID ident r current d of
          None \<Rightarrow> (None, d)
        | Some (n, d') \<Rightarrow>
            if current \<noteq> 0 \<and> n \<noteq> 1 then (None, d)
            else ((if lost then None else Some (stored_object ident r)), d'))"

definition table_good :: "db \<Rightarrow> bool" where
  "table_good d \<longleftrightarrow> distinct (map object_key (vault_objects d)) \<and>
     (\<forall>r \<in> set (vault_objects d). 0 < o_revision r)"

definition objects_of :: "string \<Rightarrow> db \<Rightarrow> string \<Rightarrow> vault_object option" where
  "objects_of vaultID d ident = find_object vaultID ident d"

lemma find_append: "find P (xs @ ys) = (case find P xs of None \<Rightarrow> find P ys | Some x \<Rightarrow> Some x)"
  by (induction xs) auto

lemma find_update_where:
  assumes "\<And>r. P (f r) = P r"
  shows "find P (update_where Q f rows) = map_option (\<lambda>r. if Q r then f r else r) (find P rows)"
proof (induction rows)
  case (Cons r rows)
  have "P (if Q r then f r else r) = P r" using assms by simp
  with Cons show ?case by (simp add: update_where_def)
qed (simp add: update_where_def)

lemma current_object: "(case current_object_revision vaultID ident d of None \<Rightarrow> 0 | Some n \<Rightarrow> n) =
    object_revision (objects_of vaultID d ident)"
  by (simp add: current_object_revision_def objects_of_def find_object_def object_revision_def
      object_of_row_def split: option.split)

lemma insert_effect:
  assumes "insert_object row d = Some (n, d')" and "o_vault_id row = vaultID" and "table_good d"
  shows "table_good d' \<and> objects_of vaultID d' = (objects_of vaultID d)(o_id row \<mapsto> object_of_row row)"
proof -
  have d': "vault_objects d' = vault_objects d @ [row]" and new: "object_key row \<notin> set (map object_key (vault_objects d))"
    and pos: "0 < o_revision row"
    using assms(1) by (auto simp: insert_object_def split: if_split_asm)
  have "find (\<lambda>r. object_key r = (vaultID, j)) (vault_objects d') =
      (if j = o_id row then Some row else find (\<lambda>r. object_key r = (vaultID, j)) (vault_objects d))" for j
  proof (cases "j = o_id row")
    case True
    then have "find (\<lambda>r. object_key r = (vaultID, j)) (vault_objects d) = None"
      unfolding find_None_iff using new assms(2) by (metis (mono_tags) image_eqI object_key_def set_map)
    with True show ?thesis using assms(2) by (simp add: d' find_append object_key_def)
  next
    case False
    then show ?thesis by (simp add: d' find_append object_key_def split: option.split)
  qed
  then have "objects_of vaultID d' = (objects_of vaultID d)(o_id row \<mapsto> object_of_row row)"
    by (auto simp: objects_of_def find_object_def fun_eq_iff)
  moreover have "table_good d'" using assms(3) new pos by (auto simp: table_good_def d')
  ultimately show ?thesis by blast
qed

lemma update_effect:
  assumes "update_object vaultID ident current revision b modified d = Some (1, d')"
    and "object_revision (objects_of vaultID d ident) = current" and "table_good d"
  shows "table_good d' \<and> objects_of vaultID d' = (objects_of vaultID d)
    (ident \<mapsto> \<lparr>vo_ID = ident, vo_Revision = revision, vo_Blob = b, vo_ModifiedAt = modified\<rparr>)"
proof -
  let ?f = "\<lambda>r. r\<lparr>o_revision := revision, o_blob := b, o_modified_at := modified\<rparr>"
  let ?q = "object_at vaultID ident current"
  have d': "vault_objects d' = update_where ?q ?f (vault_objects d)" and "count_where ?q (vault_objects d) = 1"
    and pos: "0 < revision"
    using assms(1) by (auto simp: update_object_def Let_def split: if_split_asm)
  then obtain r where r: "r \<in> set (vault_objects d)" "?q r"
    using count_where_pos [of ?q "vault_objects d"] by auto
  have key: "object_key (?f r) = object_key r" for r by (simp add: object_key_def)
  have find: "find (\<lambda>r. object_key r = (vaultID, j)) (vault_objects d') =
      map_option (\<lambda>r. if ?q r then ?f r else r) (find (\<lambda>r. object_key r = (vaultID, j)) (vault_objects d))" for j
    unfolding d' by (rule find_update_where) (simp add: key)
  obtain x where x: "find (\<lambda>r. object_key r = (vaultID, ident)) (vault_objects d) = Some x"
    using r by (cases "find (\<lambda>r. object_key r = (vaultID, ident)) (vault_objects d)")
      (auto simp: find_None_iff object_at_def)
  then have xk: "object_key x = (vaultID, ident)" "o_revision x = current"
    using assms(2) by (auto simp: objects_of_def find_object_def object_revision_def object_of_row_def
        dest: find_SomeD)
  have "objects_of vaultID d' j = ((objects_of vaultID d)
    (ident \<mapsto> \<lparr>vo_ID = ident, vo_Revision = revision, vo_Blob = b, vo_ModifiedAt = modified\<rparr>)) j" for j
  proof (cases "j = ident")
    case True
    have "find (\<lambda>r. object_key r = (vaultID, j)) (vault_objects d') = Some (?f x)"
      unfolding find using x xk True by (simp add: object_at_def)
    with True xk show ?thesis
      by (simp add: objects_of_def find_object_def object_of_row_def object_key_def)
  next
    case False
    have "map_option (\<lambda>r. if ?q r then ?f r else r) (find (\<lambda>r. object_key r = (vaultID, j)) (vault_objects d)) =
        find (\<lambda>r. object_key r = (vaultID, j)) (vault_objects d)"
      using False by (cases "find (\<lambda>r. object_key r = (vaultID, j)) (vault_objects d)")
        (auto simp: object_at_def dest: find_SomeD)
    with False show ?thesis by (simp add: objects_of_def find_object_def find)
  qed
  moreover have "map object_key (vault_objects d') = map object_key (vault_objects d)"
    unfolding d' by (rule map_update_where) (simp add: key)
  moreover have "0 < o_revision r" if "r \<in> set (vault_objects d')" for r
    using that assms(3) pos by (auto simp: d' update_where_def table_good_def)
  ultimately show ?thesis using assms(3) by (auto simp: table_good_def)
qed

lemma serve_put_effect:
  assumes "table_good d" and "serve_put fails lost vaultID ident r d = (reply, d')"
  shows "table_good d' \<and> put_effect (objects_of vaultID d) ident r reply (objects_of vaultID d')"
proof (cases "reply = None \<and> d' = d")
  case True
  with assms(1) show ?thesis by (simp add: put_effect_def)
next
  case False
  let ?current = "object_revision (objects_of vaultID d ident)"
  have cur: "?current = po_ExpectedRevision r"
    using False assms(2) by (auto simp: serve_put_def current_object Let_def split: if_split_asm)
  obtain n where st: "put_statement vaultID ident r ?current d = Some (n, d')"
    "?current \<noteq> 0 \<Longrightarrow> n = 1" "reply = None \<or> reply = Some (stored_object ident r)"
    using False assms(2) unfolding serve_put_def current_object Let_def
    by (auto split: if_split_asm option.split_asm)
  have "table_good d' \<and> objects_of vaultID d' = (objects_of vaultID d)(ident \<mapsto> stored_object ident r)"
  proof (cases "?current = 0")
    case True
    then show ?thesis
      using insert_effect [OF _ _ assms(1)] st(1) cur
      by (auto simp: put_statement_def stored_object_def object_of_row_def)
  next
    case False
    then have "update_object vaultID ident ?current (i64 (?current + 1)) (po_Blob r) (po_ModifiedAt r) d = Some (1, d')"
      using st by (simp add: put_statement_def)
    from update_effect [OF this refl assms(1)] show ?thesis by (simp add: cur stored_object_def)
  qed
  with cur st(3) show ?thesis by (simp add: put_effect_def)
qed

text \<open>A valid request at the current revision of an existing vault is granted.\<close>

lemma serve_put_granted:
  assumes "table_good d" and "vault_exists vaultID d" and "valid_put ident r"
    and "object_revision (objects_of vaultID d ident) = po_ExpectedRevision r"
    and "0 < i64 (po_ExpectedRevision r + 1)"
  shows "\<exists>d'. serve_put False False vaultID ident r d = (Some (stored_object ident r), d')"
proof -
  let ?current = "object_revision (objects_of vaultID d ident)"
  have "\<exists>n d'. put_statement vaultID ident r ?current d = Some (n, d') \<and> (?current = 0 \<or> n = 1)"
  proof (cases "find (\<lambda>x. object_key x = (vaultID, ident)) (vault_objects d)")
    case None
    then have zero: "?current = 0" by (simp add: objects_of_def find_object_def object_revision_def)
    have "(vaultID, ident) \<notin> object_key ` set (vault_objects d)"
      using None by (auto simp: find_None_iff)
    then show ?thesis
      using zero assms(2,5) by (simp add: put_statement_def insert_object_def object_key_def assms(4) [symmetric])
  next
    case (Some x)
    then have x: "x \<in> set (vault_objects d)" "object_key x = (vaultID, ident)" by (auto dest: find_SomeD)
    have cur: "?current = o_revision x"
      using Some by (simp add: objects_of_def find_object_def object_revision_def object_of_row_def)
    let ?q = "object_at vaultID ident ?current"
    have "0 < count_where ?q (vault_objects d)"
    proof -
      have "?q x" unfolding object_at_def using x(2) cur by (rule conjI [OF _ sym])
      with x(1) show ?thesis unfolding count_where_pos by (rule rev_bexI)
    qed
    moreover have "count_where ?q (vault_objects d) \<le> 1"
    proof (rule count_where_unique_key)
      show "distinct (map object_key (vault_objects d))" using assms(1) by (simp add: table_good_def)
      show "?q x \<Longrightarrow> object_key x = (vaultID, ident)" for x by (simp add: object_at_def)
    qed
    ultimately have "count_where ?q (vault_objects d) = 1" by simp
    moreover have "?current \<noteq> 0" using assms(1) x(1) cur by (auto simp: table_good_def)
    ultimately show ?thesis using assms(5) by (simp add: put_statement_def update_object_def assms(4) [symmetric])
  qed
  then obtain n d' where st: "put_statement vaultID ident r ?current d = Some (n, d')" "?current = 0 \<or> n = 1"
    by blast
  have "\<not> (False \<or> \<not> valid_put ident r \<or> ?current \<noteq> po_ExpectedRevision r)" using assms(3,4) by simp
  moreover have "\<not> (?current \<noteq> 0 \<and> n \<noteq> 1)" using st(2) by blast
  ultimately have "serve_put False False vaultID ident r d = (Some (stored_object ident r), d')"
    by (simp only: serve_put_def current_object Let_def st(1) option.case prod.case if_False)
  then show ?thesis by blast
qed

interpretation table: object_service table_good "objects_of vaultID" "serve_put fails lost vaultID"
  for fails lost vaultID
  by unfold_locales (rule serve_put_effect)

end
