(* ===== verification/Go_Rfc3339.thy ===== *)
theory Go_Rfc3339
  imports Go_Time
begin

text \<open>
  \<^verbatim>\<open>time.Parse(time.RFC3339, s)\<close> on every text, where the sources use its result without asking for
  the canonical form: Go also reads an hour of one digit, a fraction of a second after a full stop
  or a comma (digits after the ninth are dropped), and an offset from UTC of up to 24:60. The result
  is the instant in nanoseconds. \<open>parse_rfc3339_canonical\<close> relates it to \<open>parse_canonical\<close>.
\<close>

text \<open>\<^verbatim>\<open>getnum\<close>: two digits, or one where \<open>fixed\<close> is false.\<close>

fun getnum :: "bool \<Rightarrow> string \<Rightarrow> (int \<times> string) option" where
  "getnum fixed [] = None"
| "getnum fixed (a # s) =
     (case digit_val a of
        None \<Rightarrow> None
      | Some m \<Rightarrow>
          (case s of
             [] \<Rightarrow> if fixed then None else Some (int m, [])
           | b # t \<Rightarrow>
               (case digit_val b of
                  None \<Rightarrow> if fixed then None else Some (int m, s)
                | Some n \<Rightarrow> Some (int (10 * m + n), t))))"

definition in_range :: "int \<Rightarrow> int \<Rightarrow> (int \<times> string) option \<Rightarrow> (int \<times> string) option" where
  "in_range lo hi r = (case r of None \<Rightarrow> None | Some (n, s) \<Rightarrow> if lo \<le> n \<and> n \<le> hi then r else None)"

fun skip_char :: "char \<Rightarrow> string \<Rightarrow> string option" where
  "skip_char c [] = None"
| "skip_char c (a # s) = (if a = c then Some s else None)"

definition get_year :: "string \<Rightarrow> (int \<times> string) option" where
  "get_year s =
     (if length s < 4 then None
      else case digits_val 0 (take 4 s) of None \<Rightarrow> None | Some y \<Rightarrow> Some (int y, drop 4 s))"

text \<open>The fraction of a second in nanoseconds, if there is one.\<close>

definition get_fraction :: "string \<Rightarrow> int \<times> string" where
  "get_fraction s =
     (case s of
        c # d # _ \<Rightarrow>
          if (c = CHR ''.'' \<or> c = CHR '','') \<and> digit_val d \<noteq> None then
            (let ds = takeWhile (\<lambda>x. digit_val x \<noteq> None) (tl s); used = take 9 ds in
             ((case digits_val 0 used of None \<Rightarrow> 0 | Some n \<Rightarrow> int n) * 10 ^ (9 - length used),
              drop (length ds) (tl s)))
          else (0, s)
      | _ \<Rightarrow> (0, s))"

text \<open>The offset from UTC in seconds.\<close>

definition get_zone :: "string \<Rightarrow> (int \<times> string) option" where
  "get_zone s =
     (case s of
        [] \<Rightarrow> None
      | z # t \<Rightarrow>
          if z = CHR ''Z'' then Some (0, t)
          else if length s < 6 \<or> s ! 3 \<noteq> CHR '':'' then None
          else (case (in_range 0 24 (getnum True (take 2 t)), in_range 0 60 (getnum True (take 2 (drop 3 t)))) of
              (Some (h, _), Some (m, _)) \<Rightarrow>
                if z = CHR ''+'' then Some ((h * 60 + m) * 60, drop 6 s)
                else if z = CHR ''-'' then Some (- ((h * 60 + m) * 60), drop 6 s)
                else None
            | _ \<Rightarrow> None))"

definition parse_rfc3339 :: "string \<Rightarrow> int option" where
  "parse_rfc3339 v =
     Option.bind (get_year v) (\<lambda>(y, s).
     Option.bind (skip_char (CHR ''-'') s) (\<lambda>s.
     Option.bind (in_range 1 12 (getnum True s)) (\<lambda>(mo, s).
     Option.bind (skip_char (CHR ''-'') s) (\<lambda>s.
     Option.bind (getnum True s) (\<lambda>(d, s).
     Option.bind (skip_char (CHR ''T'') s) (\<lambda>s.
     Option.bind (in_range 0 23 (getnum False s)) (\<lambda>(h, s).
     Option.bind (skip_char (CHR '':'') s) (\<lambda>s.
     Option.bind (in_range 0 59 (getnum True s)) (\<lambda>(mi, s).
     Option.bind (skip_char (CHR '':'') s) (\<lambda>s.
     Option.bind (in_range 0 59 (getnum True s)) (\<lambda>(sec, s).
     (let (ns, s) = get_fraction s in
     Option.bind (get_zone s) (\<lambda>(zone, s).
       if s \<noteq> [] \<or> d < 1 \<or> days_in_month y mo < d then None
       else Some ((civil_secs y mo d h mi sec - zone) * second + ns))))))))))))))"

lemma getnum_two: "digits_val 0 [a, b] = Some n \<Longrightarrow> getnum fixed (a # b # s) = Some (int n, s)"
  by (auto split: option.splits)

lemma list_20:
  assumes "length v = 20"
  shows "\<exists>a b c d e f g h i j k l m n o' p q r s t. v = [a, b, c, d, e, f, g, h, i, j, k, l, m, n, o', p, q, r, s, t]"
  using assms by (simp add: eval_nat_numeral length_Suc_conv) blast

text \<open>On canonical texts both parsers give the same instant.\<close>

lemma parse_rfc3339_canonical:
  assumes "parse_canonical v = Some t"
  shows "parse_rfc3339 v = Some (t * second)"
proof -
  have "length v = 20" using assms by (auto simp: parse_canonical_def split: if_splits)
  note list_20 [OF this]
  then obtain a b c d e f g h i j k l m n o' p q r s u where
    v: "v = [a, b, c, d, e, f, g, h, i, j, k, l, m, n, o', p, q, r, s, u]"
    by (elim exE) (rule that)
  obtain y mo d' h' mi se where c: "e = CHR ''-''" "h = CHR ''-''" "k = CHR ''T''" "n = CHR '':''" "q = CHR '':''"
      "u = CHR ''Z''" and y: "digits_val 0 [a, b, c, d] = Some y" and
      ds: "digits_val 0 [f, g] = Some mo" "digits_val 0 [i, j] = Some d'" "digits_val 0 [l, m] = Some h'"
        "digits_val 0 [o', p] = Some mi" "digits_val 0 [r, s] = Some se" and
      b: "1 \<le> int mo" "int mo \<le> 12" "1 \<le> int d'" "int d' \<le> days_in_month (int y) (int mo)"
        "int h' < 24" "int mi < 60" "int se < 60" and
      t: "t = civil_secs (int y) (int mo) (int d') (int h') (int mi) (int se)"
    using assms unfolding v
    by (auto simp: parse_canonical_def num2_def num4_def simp del: digits_val.simps split: if_splits option.splits)
  show ?thesis
    unfolding v c t parse_rfc3339_def get_year_def
    using b by (simp add: y getnum_two [OF ds(1)] getnum_two [OF ds(2)] getnum_two [OF ds(3)]
        getnum_two [OF ds(4)] getnum_two [OF ds(5)] in_range_def get_fraction_def get_zone_def
        del: getnum.simps digits_val.simps)
qed

lemma parse_rfc3339_offset:
  "parse_rfc3339 ''2023-11-14T22:13:20.5+01:00'' = Some ((1700000000 - 3600) * second + 500000000)"
  by code_simp

end
