(* ===== verification/Lifecycle_State.thy ===== *)
theory Lifecycle_State
  imports Go_Rfc3339
begin

text \<open>
  The states of a credential rotation and its operation record: \<^verbatim>\<open>internal/lifecycle/state.go\<close> and
  the validation and moves of \<^verbatim>\<open>internal/lifecycle/operation.go\<close>. Instants are nanoseconds.
\<close>

datatype lifecycle_state =
    StatePlanned | StateAcquiring | StateStored | StateStaging | StateStaged | StateActivating
  | StateHealthy | StateGracePeriod | StateRevoking | StateComplete | StateRetryable
  | StateReconciliationRequired | StateRollingBack | StateRolledBack | StateQuarantined
  | StateTerminalFailure | State_Other string

fun transitions :: "lifecycle_state \<Rightarrow> lifecycle_state list" where
  "transitions StatePlanned = [StateAcquiring, StateTerminalFailure]"
| "transitions StateAcquiring = [StateStored, StateRetryable, StateReconciliationRequired, StateTerminalFailure]"
| "transitions StateStored = [StateStaging, StateRollingBack]"
| "transitions StateStaging = [StateStaged, StateRetryable, StateRollingBack]"
| "transitions StateStaged = [StateActivating, StateRollingBack]"
| "transitions StateActivating = [StateHealthy, StateRetryable, StateRollingBack]"
| "transitions StateHealthy = [StateGracePeriod, StateRollingBack]"
| "transitions StateGracePeriod = [StateRevoking, StateRollingBack]"
| "transitions StateRevoking = [StateComplete, StateRetryable, StateReconciliationRequired]"
| "transitions StateRetryable =
     [StateAcquiring, StateStaging, StateActivating, StateRevoking, StateTerminalFailure]"
| "transitions StateReconciliationRequired =
     [StateAcquiring, StateRevoking, StateRollingBack, StateTerminalFailure]"
| "transitions StateRollingBack = [StateRolledBack, StateTerminalFailure]"
| "transitions StateRolledBack = [StateQuarantined]"
| "transitions _ = []"

definition CanTransition :: "lifecycle_state \<Rightarrow> lifecycle_state \<Rightarrow> bool" where
  "CanTransition from_state to_state \<longleftrightarrow> to_state \<in> set (transitions from_state)"

fun state_text :: "lifecycle_state \<Rightarrow> string" where
  "state_text StatePlanned = ''planned''"
| "state_text StateAcquiring = ''acquiring''"
| "state_text StateStored = ''stored''"
| "state_text StateStaging = ''staging''"
| "state_text StateStaged = ''staged''"
| "state_text StateActivating = ''activating''"
| "state_text StateHealthy = ''healthy''"
| "state_text StateGracePeriod = ''grace-period''"
| "state_text StateRevoking = ''revoking''"
| "state_text StateComplete = ''complete''"
| "state_text StateRetryable = ''retryable''"
| "state_text StateReconciliationRequired = ''reconciliation-required''"
| "state_text StateRollingBack = ''rolling-back''"
| "state_text StateRolledBack = ''rolled-back''"
| "state_text StateQuarantined = ''quarantined-new-credential''"
| "state_text StateTerminalFailure = ''terminal-failure''"
| "state_text (State_Other s) = s"

definition Transition :: "lifecycle_state \<Rightarrow> lifecycle_state \<Rightarrow> string option" where
  "Transition from_state to_state =
     (if CanTransition from_state to_state then None
      else Some (''invalid lifecycle transition '' @ state_text from_state @ '' -> '' @ state_text to_state))"

section \<open>Leases\<close>

record lease =
  ls_Bundle :: string
  ls_Owner :: string
  ls_AcquiredAt :: string
  ls_ExpiresAt :: string

text \<open>The current time is not used.\<close>

definition lease_Validate :: "lease \<Rightarrow> string option" where
  "lease_Validate l =
     (if ls_Bundle l = [] \<or> ls_Owner l = [] then Some ''lifecycle lease binding is invalid''
      else case parse_canonical (ls_AcquiredAt l) of
        None \<Rightarrow> Some ''lifecycle lease acquisition time is invalid''
      | Some acquired \<Rightarrow>
          (case parse_canonical (ls_ExpiresAt l) of
             None \<Rightarrow> Some ''lifecycle lease expiry is invalid''
           | Some expires \<Rightarrow>
               if \<not> acquired < expires \<or> acquired + 15 * 60 < expires
               then Some ''lifecycle lease expiry is invalid'' else None))"

section \<open>The operation\<close>

record target_policy =
  tp_Provider :: string
  tp_ProjectID :: string
  tp_EnvironmentID :: string

record lifecycle_operation =
  lo_Version :: int
  lo_ID :: string
  lo_PolicyID :: string
  lo_PolicyDigest :: string
  lo_VaultID :: string
  lo_Bundle :: string
  lo_ManifestDigest :: string
  lo_Provider :: string
  lo_ProviderIdentity :: string
  lo_Target :: target_policy
  lo_CredentialClass :: string
  lo_DestinationRecord :: string
  lo_PreviousRecordRevision :: int
  lo_NewRecordRevision :: int
  lo_PreviousCredentialID :: string
  lo_NewCredentialID :: string
  lo_HealthEvidenceDigest :: string
  lo_State :: lifecycle_state
  lo_Attempts :: int
  lo_GraceEndsAt :: string
  lo_CreatedAt :: string
  lo_UpdatedAt :: string

definition lo_binding :: "lifecycle_operation \<Rightarrow> bool" where
  "lo_binding op \<longleftrightarrow> lo_Version op = 1 \<and> lo_ID op \<noteq> [] \<and> lo_PolicyID op \<noteq> [] \<and>
     digest_pattern (lo_PolicyDigest op) \<and> lo_VaultID op \<noteq> [] \<and> lo_Bundle op \<noteq> [] \<and>
     digest_pattern (lo_ManifestDigest op) \<and> lo_Provider op \<noteq> [] \<and> lo_ProviderIdentity op \<noteq> [] \<and>
     lo_CredentialClass op \<noteq> [] \<and> lo_DestinationRecord op \<noteq> [] \<and>
     1 \<le> lo_PreviousRecordRevision op \<and> lo_PreviousCredentialID op \<noteq> [] \<and>
     tp_Provider (lo_Target op) \<noteq> [] \<and> tp_ProjectID (lo_Target op) \<noteq> [] \<and>
     tp_EnvironmentID (lo_Target op) \<noteq> [] \<and> 0 \<le> lo_Attempts op \<and> lo_Attempts op \<le> 3"

text \<open>The states in which the health of the new credential has been seen.\<close>

definition after_health :: "lifecycle_state \<Rightarrow> bool" where
  "after_health st \<longleftrightarrow> st = StateHealthy \<or> st = StateGracePeriod \<or> st = StateRevoking \<or> st = StateComplete"

definition before_record :: "lifecycle_state \<Rightarrow> bool" where
  "before_record st \<longleftrightarrow> st = StatePlanned \<or> st = StateAcquiring \<or> st = StateRetryable \<or> st = StateTerminalFailure"

definition lo_progress :: "lifecycle_operation \<Rightarrow> int \<Rightarrow> string option" where
  "lo_progress op created =
     (if lo_NewRecordRevision op \<noteq> 0 \<and> lo_NewRecordRevision op \<le> lo_PreviousRecordRevision op
      then Some ''new record revision must advance the previous revision''
      else if \<not> before_record (lo_State op) \<and> lo_NewRecordRevision op = 0
      then Some ''lifecycle operation lost the new record revision''
      else if after_health (lo_State op) \<and> \<not> digest_pattern (lo_HealthEvidenceDigest op)
      then Some ''lifecycle operation health evidence is invalid''
      else if lo_GraceEndsAt op \<noteq> [] then
        (case parse_rfc3339 (lo_GraceEndsAt op) of
           None \<Rightarrow> Some ''lifecycle operation grace time is invalid''
         | Some grace \<Rightarrow>
             if grace < created * second then Some ''lifecycle operation grace time is invalid'' else None)
      else None)"

definition lo_Validate :: "lifecycle_operation \<Rightarrow> string option" where
  "lo_Validate op =
     (if \<not> lo_binding op then Some ''lifecycle operation binding is invalid''
      else case parse_canonical (lo_CreatedAt op) of
        None \<Rightarrow> Some ''lifecycle operation creation time is invalid''
      | Some created \<Rightarrow>
          (case parse_canonical (lo_UpdatedAt op) of
             None \<Rightarrow> Some ''lifecycle operation update time is invalid''
           | Some updated \<Rightarrow>
               if updated < created then Some ''lifecycle operation update time is invalid''
               else lo_progress op created))"

text \<open>The state and the time stay changed when the validation fails.\<close>

definition Move :: "lifecycle_operation \<Rightarrow> lifecycle_state \<Rightarrow> int \<Rightarrow> lifecycle_operation \<times> string option" where
  "Move op to_state now =
     (case Transition (lo_State op) to_state of
        Some err \<Rightarrow> (op, Some err)
      | None \<Rightarrow>
          (let op = op\<lparr>lo_State := to_state, lo_UpdatedAt := format_rfc3339 (to_secs now)\<rparr>
           in (op, lo_Validate op)))"

section \<open>What validation establishes\<close>

lemma lo_ValidateD:
  assumes "lo_Validate op = None"
  shows "lo_binding op"
    "\<exists>c. parse_canonical (lo_CreatedAt op) = Some c \<and> lo_progress op c = None"
  using assms by (auto simp: lo_Validate_def split: if_splits option.splits)

lemma lo_progressD:
  assumes "lo_progress op created = None"
  shows "lo_NewRecordRevision op \<noteq> 0 \<Longrightarrow> lo_PreviousRecordRevision op < lo_NewRecordRevision op"
    "\<not> before_record (lo_State op) \<Longrightarrow> lo_NewRecordRevision op \<noteq> 0"
    "after_health (lo_State op) \<Longrightarrow> digest_pattern (lo_HealthEvidenceDigest op)"
    "lo_GraceEndsAt op \<noteq> [] \<Longrightarrow> \<exists>g. parse_rfc3339 (lo_GraceEndsAt op) = Some g \<and> created * second \<le> g"
  using assms by (auto simp: lo_progress_def split: if_splits option.splits)

end
