(* ===== verification/Lifecycle_Policy.thy ===== *)
theory Lifecycle_Policy
  imports Lifecycle_State Rollout_Plan Contract_Types
begin

text \<open>
  Automation policies and the signed chain of evidence, \<^verbatim>\<open>internal/lifecycle/policy.go\<close>, and the last
  check before a revocation, \<^verbatim>\<open>RevocationAllowed\<close> of \<^verbatim>\<open>operation.go\<close>. SHA-256, Ed25519 and
  \<^verbatim>\<open>time.ParseDuration\<close> are parameters. A private key is the pair of what \<^verbatim>\<open>crypto/ed25519\<close> does
  with it: its public key and its signatures.
\<close>

section \<open>Standard base64\<close>

text \<open>\<^verbatim>\<open>encoding/json\<close> writes a \<^verbatim>\<open>[]byte\<close> in the padded standard alphabet, nil as \<^verbatim>\<open>null\<close>.\<close>

definition std_char :: "char \<Rightarrow> char" where
  "std_char c = (if c = CHR ''-'' then CHR ''+'' else if c = CHR ''_'' then CHR ''/'' else c)"

definition b64_std :: "bytes \<Rightarrow> string" where
  "b64_std bs = map std_char (b64_encode bs) @
     (if length bs mod 3 = 1 then ''=='' else if length bs mod 3 = 2 then ''='' else '''')"

definition bytes_json :: "bytes option \<Rightarrow> json" where
  "bytes_json b = (case b of None \<Rightarrow> J_Null | Some bs \<Rightarrow> J_String (b64_std bs))"

definition byte_slice :: "bytes option \<Rightarrow> bytes" where
  "byte_slice b = (case b of None \<Rightarrow> [] | Some bs \<Rightarrow> bs)"

section \<open>Policies\<close>

record automation_policy =
  ap_Version :: int
  ap_ID :: string
  ap_VaultID :: string
  ap_Bundle :: string
  ap_ManifestDigest :: string
  ap_Environment :: string
  ProviderIdentities :: "(string \<times> string) list"
  CredentialClasses :: "string list"
  ap_Operations :: "string list"
  ap_Targets :: "target_policy list"
  ap_Schedule :: string
  ap_HealthChecks :: "string list"
  ap_GracePeriod :: string
  ap_Rollback :: string
  RetryBudget :: int
  ap_ExpiresAt :: string
  ApprovingDevice :: string
  PublicKey :: "bytes option"
  Signature :: "bytes option"

definition strings_json :: "string list \<Rightarrow> json" where
  "strings_json ss = slice_json (map J_String ss)"

text \<open>A map is written with its keys in order; the empty one is the nil map.\<close>

definition string_map_json :: "(string \<times> string) list \<Rightarrow> json" where
  "string_map_json m =
     (if m = [] then J_Null
      else J_Object (map (\<lambda>k. (k, J_String (case map_of m k of None \<Rightarrow> [] | Some v \<Rightarrow> v)))
        (sort_strings (map fst m))))"

definition target_policy_json :: "target_policy \<Rightarrow> json" where
  "target_policy_json t = J_Object [(''provider'', J_String (tp_Provider t)),
     (''project_id'', J_String (tp_ProjectID t)), (''environment_id'', J_String (tp_EnvironmentID t))]"

definition policy_json :: "automation_policy \<Rightarrow> json" where
  "policy_json p = J_Object [(''version'', J_Int (ap_Version p)), (''id'', J_String (ap_ID p)),
     (''vault_id'', J_String (ap_VaultID p)), (''bundle'', J_String (ap_Bundle p)),
     (''manifest_digest'', J_String (ap_ManifestDigest p)), (''environment'', J_String (ap_Environment p)),
     (''provider_identities'', string_map_json (ProviderIdentities p)),
     (''credential_classes'', strings_json (CredentialClasses p)),
     (''operations'', strings_json (ap_Operations p)),
     (''targets'', slice_json (map target_policy_json (ap_Targets p))),
     (''schedule'', J_String (ap_Schedule p)), (''health_checks'', strings_json (ap_HealthChecks p)),
     (''grace_period'', J_String (ap_GracePeriod p)), (''rollback'', J_String (ap_Rollback p)),
     (''retry_budget'', J_Int (RetryBudget p)), (''expires_at'', J_String (ap_ExpiresAt p)),
     (''approving_device'', J_String (ApprovingDevice p)), (''public_key'', bytes_json (PublicKey p)),
     (''signature'', bytes_json (Signature p))]"

definition policy_signingBytes :: "automation_policy \<Rightarrow> bytes" where
  "policy_signingBytes p = print_json (policy_json (p\<lparr>Signature := None\<rparr>))"

definition policy_Digest :: "'c crypto_scheme \<Rightarrow> automation_policy \<Rightarrow> string" where
  "policy_Digest c p = hex_encode (sha256 c (print_json (policy_json p)))"

record private_key =
  pk_Length :: nat
  pk_Public :: bytes
  pk_Sign :: "bytes \<Rightarrow> bytes"

definition policy_Sign :: "private_key \<Rightarrow> automation_policy \<Rightarrow> automation_policy \<times> string option" where
  "policy_Sign private p =
     (if pk_Length private \<noteq> 64 then (p, Some ''policy signing key is invalid'')
      else (let p = p\<lparr>PublicKey := Some (pk_Public private)\<rparr>
            in (p\<lparr>Signature := Some (pk_Sign private (policy_signingBytes p))\<rparr>, None)))"

definition policy_binding :: "automation_policy \<Rightarrow> bool" where
  "policy_binding p \<longleftrightarrow> ap_Version p = 1 \<and> ap_ID p \<noteq> [] \<and> ap_VaultID p \<noteq> [] \<and> ap_Bundle p \<noteq> [] \<and>
     digest_pattern (ap_ManifestDigest p) \<and> ap_Environment p \<noteq> [] \<and> ProviderIdentities p \<noteq> [] \<and>
     CredentialClasses p \<noteq> [] \<and> ap_Operations p \<noteq> [] \<and> ap_Targets p \<noteq> [] \<and> ap_Schedule p \<noteq> [] \<and>
     ap_HealthChecks p \<noteq> [] \<and> ap_Rollback p \<noteq> [] \<and> 1 \<le> RetryBudget p \<and> RetryBudget p \<le> 3 \<and>
     ApprovingDevice p \<noteq> []"

text \<open>Times in nanoseconds; the expiry is at most ninety days away.\<close>

definition policy_expiry_ok :: "automation_policy \<Rightarrow> int \<Rightarrow> bool" where
  "policy_expiry_ok p now =
     (case parse_canonical (ap_ExpiresAt p) of
        None \<Rightarrow> False
      | Some expires \<Rightarrow> now < expires * second \<and> expires * second \<le> now + 90 * 24 * hour)"

definition policy_grace_ok :: "'g go_std_scheme \<Rightarrow> automation_policy \<Rightarrow> bool" where
  "policy_grace_ok g p =
     (case parse_duration g (ap_GracePeriod p) of
        None \<Rightarrow> False
      | Some grace \<Rightarrow> 0 < grace \<and> (ap_Environment p = ''production'' \<longrightarrow> 24 * hour \<le> grace) \<and>
          (ap_Environment p \<noteq> ''production'' \<longrightarrow> 15 * minute \<le> grace))"

definition policy_signature_ok :: "'c crypto_scheme \<Rightarrow> automation_policy \<Rightarrow> bool" where
  "policy_signature_ok c p \<longleftrightarrow>
     length (byte_slice (PublicKey p)) = 32 \<and> length (byte_slice (Signature p)) = 64 \<and>
     ed25519_verify c (byte_slice (PublicKey p)) (policy_signingBytes p) (byte_slice (Signature p))"

definition operation_word :: "string \<Rightarrow> bool" where
  "operation_word w \<longleftrightarrow> w \<in> set [''create'', ''stage'', ''activate'', ''verify'', ''rollback'', ''revoke'']"

text \<open>The empty string counts as a duplicate.\<close>

fun duplicate_values :: "string list \<Rightarrow> string list \<Rightarrow> bool" where
  "duplicate_values seen [] = False"
| "duplicate_values seen (v # vs) = (v = [] \<or> v \<in> set seen \<or> duplicate_values (v # seen) vs)"

definition target_text :: "target_policy \<Rightarrow> string" where
  "target_text t = tp_Provider t @ nul @ tp_ProjectID t @ nul @ tp_EnvironmentID t"

fun policy_targets_ok :: "string list \<Rightarrow> target_policy list \<Rightarrow> bool" where
  "policy_targets_ok seen [] = True"
| "policy_targets_ok seen (t # ts) =
     (tp_Provider t \<noteq> [] \<and> tp_ProjectID t \<noteq> [] \<and> tp_EnvironmentID t \<noteq> [] \<and>
      target_text t \<notin> set seen \<and> policy_targets_ok (target_text t # seen) ts)"

definition policy_Validate ::
  "'g go_std_scheme \<Rightarrow> 'c crypto_scheme \<Rightarrow> automation_policy \<Rightarrow> int \<Rightarrow> string option" where
  "policy_Validate g c p now =
     (if \<not> policy_binding p then Some ''automation policy binding is incomplete''
      else if \<not> policy_expiry_ok p now then Some ''automation policy expiry is invalid''
      else if \<not> policy_grace_ok g p then Some ''automation policy grace period is invalid''
      else if \<not> policy_signature_ok c p then Some ''automation policy signature is invalid''
      else case find (\<lambda>w. \<not> operation_word w) (ap_Operations p) of
        Some w \<Rightarrow> Some (''automation policy operation '' @ quoted g w @ '' is invalid'')
      | None \<Rightarrow>
          if duplicate_values [] (ap_Operations p) \<or> duplicate_values [] (CredentialClasses p)
          then Some ''automation policy contains duplicate capabilities''
          else if \<not> policy_targets_ok [] (ap_Targets p)
          then Some ''automation policy target binding is invalid'' else None)"

text \<open>\<^verbatim>\<open>sort.SearchStrings\<close> on a sorted slice: the first index whose element is not smaller.\<close>

definition SearchStrings :: "string list \<Rightarrow> string \<Rightarrow> nat" where
  "SearchStrings xs w = length (takeWhile (\<lambda>x. less_string x w) xs)"

definition stringContains :: "string list \<Rightarrow> string \<Rightarrow> bool" where
  "stringContains values wanted =
     (let ordered = sort_strings values; index = SearchStrings ordered wanted
      in index < length ordered \<and> ordered ! index = wanted)"

record authorization_binding =
  ab_VaultID :: string
  ab_Bundle :: string
  ab_ManifestDigest :: string
  ab_Environment :: string
  ab_Provider :: string
  ab_ProviderIdentity :: string
  ab_CredentialClass :: string
  ab_Operation :: string
  ab_Target :: target_policy

definition authorization_matches :: "automation_policy \<Rightarrow> authorization_binding \<Rightarrow> bool" where
  "authorization_matches p b \<longleftrightarrow> ap_VaultID p = ab_VaultID b \<and> ap_Bundle p = ab_Bundle b \<and>
     ap_ManifestDigest p = ab_ManifestDigest b \<and> ap_Environment p = ab_Environment b \<and>
     (case map_of (ProviderIdentities p) (ab_Provider b) of None \<Rightarrow> [] | Some v \<Rightarrow> v) = ab_ProviderIdentity b \<and>
     stringContains (CredentialClasses p) (ab_CredentialClass b) \<and>
     stringContains (ap_Operations p) (ab_Operation b)"

definition Authorizes ::
  "'g go_std_scheme \<Rightarrow> 'c crypto_scheme \<Rightarrow> automation_policy \<Rightarrow> authorization_binding \<Rightarrow> int \<Rightarrow> string option" where
  "Authorizes g c p b now =
     (case policy_Validate g c p now of
        Some err \<Rightarrow> Some err
      | None \<Rightarrow>
          if \<not> authorization_matches p b then Some ''automation policy does not authorize this operation''
          else if list_ex (\<lambda>t. t = ab_Target b) (ap_Targets p) then None
          else Some ''automation policy target binding changed'')"

definition revocation_bound ::
  "'c crypto_scheme \<Rightarrow> lifecycle_operation \<Rightarrow> authorization_binding \<Rightarrow> int \<Rightarrow> string \<Rightarrow> automation_policy \<Rightarrow> bool" where
  "revocation_bound c op b recordRevision healthDigest p \<longleftrightarrow>
     lo_Validate op = None \<and> lo_State op = StateRevoking \<and> lo_NewRecordRevision op = recordRevision \<and>
     lo_HealthEvidenceDigest op = healthDigest \<and> lo_PolicyDigest op = policy_Digest c p \<and>
     lo_VaultID op = ab_VaultID b \<and> lo_Bundle op = ab_Bundle b \<and>
     lo_ManifestDigest op = ab_ManifestDigest b \<and> lo_Provider op = ab_Provider b \<and>
     lo_ProviderIdentity op = ab_ProviderIdentity b \<and> lo_CredentialClass op = ab_CredentialClass b \<and>
     lo_Target op = ab_Target b"

definition RevocationAllowed ::
  "'g go_std_scheme \<Rightarrow> 'c crypto_scheme \<Rightarrow> lifecycle_operation \<Rightarrow> authorization_binding \<Rightarrow> int \<Rightarrow> string \<Rightarrow> int \<Rightarrow>
    automation_policy \<Rightarrow> string option" where
  "RevocationAllowed g c op b recordRevision healthDigest now p =
     (if \<not> revocation_bound c op b recordRevision healthDigest p
      then Some ''revocation safety evidence changed''
      else if lo_GraceEndsAt op = [] then Some ''revocation grace period is missing''
      else case parse_rfc3339 (lo_GraceEndsAt op) of
        None \<Rightarrow> Some ''revocation grace period has not elapsed''
      | Some grace \<Rightarrow>
          if now < grace then Some ''revocation grace period has not elapsed'' else Authorizes g c p b now)"

end
