(* ===== verification/Lifecycle_Evidence.thy ===== *)
theory Lifecycle_Evidence
  imports Lifecycle_Policy
begin

text \<open>
  The evidence of a rotation, \<^verbatim>\<open>Evidence\<close>, \<^verbatim>\<open>NewEvidence\<close> and \<^verbatim>\<open>VerifyEvidenceChain\<close> of
  \<^verbatim>\<open>internal/lifecycle/policy.go\<close>: every entry is signed and carries the digest of the one before.
  \<^verbatim>\<open>ed25519.Verify\<close> panics on a public key of the wrong size, which is a verdict of its own.
\<close>

record chain_entry =
  ce_Sequence :: int
  ce_OperationID :: string
  ce_Stage :: string
  ce_Code :: string
  ce_At :: string
  ce_PreviousDigest :: string
  ce_Digest :: string
  ce_Device :: string
  ce_Signature :: "bytes option"

definition entry_json :: "chain_entry \<Rightarrow> json" where
  "entry_json e = J_Object [(''sequence'', J_Int (ce_Sequence e)),
     (''operation_id'', J_String (ce_OperationID e)), (''stage'', J_String (ce_Stage e)),
     (''code'', J_String (ce_Code e)), (''at'', J_String (ce_At e)),
     (''previous_digest'', J_String (ce_PreviousDigest e)), (''digest'', J_String (ce_Digest e)),
     (''device'', J_String (ce_Device e)), (''signature'', bytes_json (ce_Signature e))]"

definition entry_signingBytes :: "chain_entry \<Rightarrow> bytes" where
  "entry_signingBytes e = print_json (entry_json (e\<lparr>ce_Signature := None\<rparr>))"

text \<open>The text whose hash is the digest of an entry.\<close>

definition entry_text :: "chain_entry \<Rightarrow> bytes" where
  "entry_text e = print_json (entry_json (e\<lparr>ce_Digest := [], ce_Signature := None\<rparr>))"

definition NewEvidence ::
  "'c crypto_scheme \<Rightarrow> chain_entry option \<Rightarrow> string \<Rightarrow> string \<Rightarrow> string \<Rightarrow> string \<Rightarrow> int \<Rightarrow> private_key \<Rightarrow>
    string + chain_entry" where
  "NewEvidence c previous operationID stage code device now private =
     (let e = \<lparr>ce_Sequence = (case previous of None \<Rightarrow> 1 | Some p \<Rightarrow> i64 (ce_Sequence p + 1)),
        ce_OperationID = operationID, ce_Stage = stage, ce_Code = code,
        ce_At = format_rfc3339 (to_secs now),
        ce_PreviousDigest = (case previous of None \<Rightarrow> [] | Some p \<Rightarrow> ce_Digest p),
        ce_Digest = [], ce_Device = device, ce_Signature = None\<rparr>
      in if operationID = [] \<or> stage = [] \<or> device = [] \<or> pk_Length private \<noteq> 64
         then Inl ''evidence binding is invalid''
         else (let e = e\<lparr>ce_Digest := hex_encode (sha256 c (entry_text e))\<rparr>
               in Inr (e\<lparr>ce_Signature := Some (pk_Sign private (entry_signingBytes e))\<rparr>)))"

datatype verdict = Accepted | Refused string | Panics

fun verify_chain :: "'c crypto_scheme \<Rightarrow> bytes \<Rightarrow> nat \<Rightarrow> string \<Rightarrow> chain_entry list \<Rightarrow> verdict" where
  "verify_chain c public i previous [] = Accepted"
| "verify_chain c public i previous (e # es) =
     (if ce_Sequence e \<noteq> int i + 1 \<or> ce_PreviousDigest e \<noteq> previous \<or> \<not> digest_pattern (ce_Digest e)
      then Refused ''evidence chain is invalid''
      else if ce_Digest e \<noteq> hex_encode (sha256 c (entry_text e)) then Refused ''evidence digest is invalid''
      else if length public \<noteq> 32 then Panics
      else if \<not> ed25519_verify c public (entry_signingBytes e) (byte_slice (ce_Signature e))
      then Refused ''evidence signature is invalid''
      else verify_chain c public (Suc i) (ce_Digest e) es)"

definition VerifyEvidenceChain :: "'c crypto_scheme \<Rightarrow> chain_entry list \<Rightarrow> bytes \<Rightarrow> verdict" where
  "VerifyEvidenceChain c chain public = verify_chain c public 0 [] chain"

section \<open>Chains and their last entry\<close>

definition last_digest :: "string \<Rightarrow> chain_entry list \<Rightarrow> string" where
  "last_digest d es = (if es = [] then d else ce_Digest (last es))"

text \<open>What the verification asks of one entry.\<close>

definition entry_ok :: "'c crypto_scheme \<Rightarrow> bytes \<Rightarrow> nat \<Rightarrow> string \<Rightarrow> chain_entry \<Rightarrow> bool" where
  "entry_ok c public i previous e \<longleftrightarrow> ce_Sequence e = int i + 1 \<and> ce_PreviousDigest e = previous \<and>
     digest_pattern (ce_Digest e) \<and> ce_Digest e = hex_encode (sha256 c (entry_text e)) \<and>
     length public = 32 \<and> ed25519_verify c public (entry_signingBytes e) (byte_slice (ce_Signature e))"

lemma verify_chain_Cons:
  "verify_chain c public i previous (e # es) = Accepted \<longleftrightarrow>
     entry_ok c public i previous e \<and> verify_chain c public (Suc i) (ce_Digest e) es = Accepted"
  by (auto simp: entry_ok_def)

lemma verify_chain_snoc:
  "verify_chain c public i previous (es @ [e]) = Accepted \<longleftrightarrow>
     verify_chain c public i previous es = Accepted \<and>
     entry_ok c public (i + length es) (last_digest previous es) e"
proof (induction es arbitrary: i previous)
  case Nil
  then show ?case by (simp add: verify_chain_Cons last_digest_def del: verify_chain.simps(2))
next
  case (Cons x es)
  have "last_digest (ce_Digest x) es = last_digest previous (x # es)" by (simp add: last_digest_def)
  then show ?case
    by (simp add: verify_chain_Cons Cons.IH del: verify_chain.simps(2))
qed

definition entry_utf8 :: "chain_entry \<Rightarrow> bool" where
  "entry_utf8 e \<longleftrightarrow> list_all valid_utf8 [ce_OperationID e, ce_Stage e, ce_Code e, ce_At e,
     ce_PreviousDigest e, ce_Device e]"

text \<open>An entry without its digest and its signature.\<close>

definition content :: "chain_entry \<Rightarrow> chain_entry" where
  "content e = e\<lparr>ce_Digest := [], ce_Signature := None\<rparr>"

lemma entry_json_inject: "entry_json (content a) = entry_json (content b) \<Longrightarrow> content a = content b"
  by (cases a; cases b) (simp add: entry_json_def content_def)

lemma entry_keys: "list_all valid_utf8 [''sequence'', ''operation_id'', ''stage'', ''code'', ''at'',
    ''previous_digest'', ''digest'', ''device'', ''signature'', []]"
  by code_simp

lemma entry_text_inject:
  assumes "entry_utf8 a" "entry_utf8 b" "entry_text a = entry_text b"
  shows "content a = content b"
proof -
  have "json_utf8 (entry_json (content e))" if "entry_utf8 e" for e
    using that entry_keys by (simp add: entry_utf8_def entry_json_def content_def bytes_json_def)
  then have "entry_json (content a) = entry_json (content b)"
    using print_json_inject assms by (auto simp: entry_text_def content_def)
  then show ?thesis by (rule entry_json_inject)
qed

text \<open>Two entries of the chains that show a collision of the hash function.\<close>

definition collides :: "'c crypto_scheme \<Rightarrow> chain_entry list \<Rightarrow> chain_entry list \<Rightarrow> bool" where
  "collides c xs ys \<longleftrightarrow> (\<exists>x \<in> set xs. \<exists>y \<in> set ys.
     entry_text x \<noteq> entry_text y \<and> sha256 c (entry_text x) = sha256 c (entry_text y))"

lemma chain_contents:
  assumes "verify_chain c p 0 [] xs = Accepted" "verify_chain c q 0 [] ys = Accepted"
    and "list_all entry_utf8 xs" "list_all entry_utf8 ys"
    and "length xs = length ys" "last_digest [] xs = last_digest [] ys" "\<not> collides c xs ys"
  shows "map content xs = map content ys"
  using assms
proof (induction xs arbitrary: ys rule: rev_induct)
  case Nil
  then show ?case by simp
next
  case (snoc x xs)
  then obtain ys' y where ys: "ys = ys' @ [y]" by (cases ys rule: rev_cases) auto
  note x = snoc.prems(1) [unfolded verify_chain_snoc]
  note y = snoc.prems(2) [unfolded ys verify_chain_snoc]
  have "ce_Digest x = ce_Digest y" using snoc.prems(6) by (simp add: last_digest_def ys)
  moreover have "ce_Digest x = hex_encode (sha256 c (entry_text x))"
      "ce_Digest y = hex_encode (sha256 c (entry_text y))"
    using x y unfolding entry_ok_def by blast+
  ultimately have "sha256 c (entry_text x) = sha256 c (entry_text y)"
    by (metis hex_encode_inject)
  then have "entry_text x = entry_text y"
    using snoc.prems(7) by (auto simp: collides_def ys)
  then have same: "content x = content y"
    using snoc.prems(3,4) by (intro entry_text_inject) (simp_all add: ys)
  then have "ce_PreviousDigest x = ce_PreviousDigest y" by (cases x; cases y) (simp add: content_def)
  then have "last_digest [] xs = last_digest [] ys'" using x y by (simp add: entry_ok_def)
  moreover have "\<not> collides c xs ys'" using snoc.prems(7) by (auto simp: collides_def ys)
  ultimately have "map content xs = map content ys'"
    using snoc.IH [OF conjunct1 [OF x] conjunct1 [OF y]] snoc.prems(3-5) by (simp add: ys)
  with same show ?case by (simp add: ys)
qed

end
