(* ===== verification/Lifecycle_Store.thy ===== *)
theory Lifecycle_Store
  imports Lifecycle_Evidence Rollout_Store
begin

text \<open>
  \<^verbatim>\<open>VaultStore\<close> of \<^verbatim>\<open>internal/lifecycle/store.go\<close>. The vault is shared with other devices: before
  each request of this one, \<open>other_devices\<close> may have changed it. Like the store of rollouts it
  keeps the values it was given, \<open>None\<close> standing for a payload that does not decode; a request
  can fail, and the reply to one that was performed can be lost. Instants are nanoseconds.
\<close>

section \<open>The vault\<close>

record lifecycle_vault =
  v_policies :: "string \<Rightarrow> (automation_policy option \<times> int) option"
  v_operations :: "string \<Rightarrow> (lifecycle_operation option \<times> int) option"
  v_leases :: "string \<Rightarrow> (lease option \<times> int) option"
  v_chains :: "string \<Rightarrow> (chain_entry list option \<times> int) option"

record vault_env = crypto +
  vault_open :: bool
  reply_lost :: "nat \<Rightarrow> bool"
  other_devices :: "nat \<Rightarrow> lifecycle_vault \<Rightarrow> lifecycle_vault"

record lifecycle_world =
  the_vault :: lifecycle_vault
  vtick :: nat

type_synonym 'a lifecycle = "(lifecycle_world, 'a) state"

datatype lifecycle_error =
    Lifecycle_Message string
  | Vault_Error
  | ErrLeaseHeld
  | Crashed

text \<open>One request: what it does to the vault the other devices have left.\<close>

definition vault_request ::
  "'e vault_env_scheme \<Rightarrow> (nat \<Rightarrow> lifecycle_vault \<Rightarrow> 'a \<times> lifecycle_vault) \<Rightarrow> 'a lifecycle" where
  "vault_request e f = State (\<lambda>w.
     let (r, v) = f (vtick w) (other_devices e (vtick w) (the_vault w))
     in (r, \<lparr>the_vault = v, vtick = Suc (vtick w)\<rparr>))"

definition store_now :: "'e vault_env_scheme \<Rightarrow> int lifecycle" where
  "store_now e = State (\<lambda>w. (clock e (vtick w), w\<lparr>vtick := Suc (vtick w)\<rparr>))"

text \<open>The three requests on one kind of object: read, optimistic write, delete.\<close>

definition read_object :: "bool \<Rightarrow> string \<Rightarrow> (string \<Rightarrow> ('v \<times> int) option) \<Rightarrow> ('v \<times> int) option" where
  "read_object fails key m = (if fails then None else m key)"

definition write_object ::
  "bool \<Rightarrow> bool \<Rightarrow> string \<Rightarrow> 'v \<Rightarrow> int \<Rightarrow> (string \<Rightarrow> ('v \<times> int) option) \<Rightarrow>
    int option \<times> (string \<Rightarrow> ('v \<times> int) option)" where
  "write_object fails lost key x expected m =
     (if fails \<or> \<not> key_ok key \<or> revision_of (m key) \<noteq> expected then (None, m)
      else (if lost then None else Some (expected + 1), m(key \<mapsto> (x, expected + 1))))"

definition remove_object ::
  "bool \<Rightarrow> bool \<Rightarrow> string \<Rightarrow> int \<Rightarrow> (string \<Rightarrow> ('v \<times> int) option) \<Rightarrow>
    bool \<times> (string \<Rightarrow> ('v \<times> int) option)" where
  "remove_object fails lost key expected m =
     (if fails \<or> revision_of (m key) \<noteq> expected \<or> expected < 1 then (False, m)
      else (\<not> lost, m(key := None)))"

section \<open>Policies and operations\<close>

definition lifecycle_ready :: "'e vault_env_scheme \<Rightarrow> lifecycle_error option" where
  "lifecycle_ready e =
     (if vault_open e then None else Some (Lifecycle_Message ''lifecycle store is not unlocked''))"

definition SavePolicy ::
  "'g go_std_scheme \<Rightarrow> 'e vault_env_scheme \<Rightarrow> automation_policy \<Rightarrow> int \<Rightarrow> (lifecycle_error + int) lifecycle" where
  "SavePolicy g e p expected =
     (case lifecycle_ready e of Some err \<Rightarrow> State_Monad.return (Inl err) | None \<Rightarrow> do {
        now \<leftarrow> store_now e;
        case policy_Validate g e p now of
          Some err \<Rightarrow> State_Monad.return (Inl (Lifecycle_Message err))
        | None \<Rightarrow> do {
            r \<leftarrow> vault_request e (\<lambda>t v.
              let (r, m) = write_object (fault e t) (reply_lost e t) (ap_ID p) (Some p) expected (v_policies v)
              in (r, v\<lparr>v_policies := m\<rparr>));
            State_Monad.return (case r of None \<Rightarrow> Inl Vault_Error | Some n \<Rightarrow> Inr n) } })"

definition load_object ::
  "'e vault_env_scheme \<Rightarrow> (lifecycle_vault \<Rightarrow> string \<Rightarrow> ('v option \<times> int) option) \<Rightarrow> string \<Rightarrow>
    (lifecycle_error + 'v \<times> int) lifecycle" where
  "load_object e table key =
     (case lifecycle_ready e of Some err \<Rightarrow> State_Monad.return (Inl err) | None \<Rightarrow> do {
        r \<leftarrow> vault_request e (\<lambda>t v. (read_object (fault e t) key (table v), v));
        State_Monad.return (case r of
          None \<Rightarrow> Inl Vault_Error
        | Some (None, _) \<Rightarrow> Inl (Lifecycle_Message ''encrypted lifecycle object is invalid'')
        | Some (Some x, n) \<Rightarrow> Inr (x, n)) })"

definition LoadPolicy ::
  "'g go_std_scheme \<Rightarrow> 'e vault_env_scheme \<Rightarrow> string \<Rightarrow> (lifecycle_error + automation_policy \<times> int) lifecycle" where
  "LoadPolicy g e ident = do {
     r \<leftarrow> load_object e v_policies ident;
     case r of
       Inl err \<Rightarrow> State_Monad.return (Inl err)
     | Inr (p, n) \<Rightarrow>
         if ap_ID p \<noteq> ident
         then State_Monad.return (Inl (Lifecycle_Message ''encrypted automation policy is invalid''))
         else do {
           now \<leftarrow> store_now e;
           State_Monad.return (if policy_Validate g e p now \<noteq> None
             then Inl (Lifecycle_Message ''encrypted automation policy is invalid'') else Inr (p, n)) } }"

definition SaveLifecycleOperation ::
  "'e vault_env_scheme \<Rightarrow> lifecycle_operation \<Rightarrow> int \<Rightarrow> (lifecycle_error + int) lifecycle" where
  "SaveLifecycleOperation e op expected =
     (case lifecycle_ready e of Some err \<Rightarrow> State_Monad.return (Inl err) | None \<Rightarrow>
      case lo_Validate op of
        Some err \<Rightarrow> State_Monad.return (Inl (Lifecycle_Message err))
      | None \<Rightarrow> do {
          r \<leftarrow> vault_request e (\<lambda>t v.
            let (r, m) = write_object (fault e t) (reply_lost e t) (lo_ID op) (Some op) expected (v_operations v)
            in (r, v\<lparr>v_operations := m\<rparr>));
          State_Monad.return (case r of None \<Rightarrow> Inl Vault_Error | Some n \<Rightarrow> Inr n) })"

definition LoadLifecycleOperation ::
  "'e vault_env_scheme \<Rightarrow> string \<Rightarrow> (lifecycle_error + lifecycle_operation \<times> int) lifecycle" where
  "LoadLifecycleOperation e ident = do {
     r \<leftarrow> load_object e v_operations ident;
     State_Monad.return (case r of
       Inl err \<Rightarrow> Inl err
     | Inr (op, n) \<Rightarrow>
         if lo_ID op \<noteq> ident \<or> lo_Validate op \<noteq> None
         then Inl (Lifecycle_Message ''encrypted lifecycle operation is invalid'') else Inr (op, n)) }"

section \<open>Leases\<close>

definition new_lease :: "string \<Rightarrow> string \<Rightarrow> int \<Rightarrow> int \<Rightarrow> lease" where
  "new_lease bundle owner now ttl =
     \<lparr>ls_Bundle = bundle, ls_Owner = owner, ls_AcquiredAt = format_rfc3339 (to_secs now),
      ls_ExpiresAt = format_rfc3339 (to_secs (now + ttl))\<rparr>"

text \<open>The revision to replace, unless the lease that was read is invalid or has not expired.\<close>

definition lease_expected ::
  "int \<Rightarrow> lifecycle_error + lease \<times> int \<Rightarrow> lifecycle_error + int" where
  "lease_expected now current =
     (case current of
        Inl _ \<Rightarrow> Inr 0
      | Inr (l, revision) \<Rightarrow>
          (case parse_rfc3339 (ls_ExpiresAt l) of
             None \<Rightarrow> Inl (Lifecycle_Message ''encrypted lifecycle lease is invalid'')
           | Some expires \<Rightarrow> if now < expires then Inl ErrLeaseHeld else Inr revision))"

definition AcquireLease ::
  "'e vault_env_scheme \<Rightarrow> string \<Rightarrow> string \<Rightarrow> int \<Rightarrow> (lifecycle_error + lease \<times> int) lifecycle" where
  "AcquireLease e bundle owner ttl =
     (case lifecycle_ready e of Some err \<Rightarrow> State_Monad.return (Inl err) | None \<Rightarrow>
      if ttl \<le> 0 \<or> 15 * minute < ttl
      then State_Monad.return (Inl (Lifecycle_Message ''lifecycle lease duration is invalid''))
      else do {
        now \<leftarrow> store_now e;
        let l = new_lease bundle owner now ttl;
        case lease_Validate l of
          Some err \<Rightarrow> State_Monad.return (Inl (Lifecycle_Message err))
        | None \<Rightarrow> do {
            current \<leftarrow> load_object e v_leases bundle;
            case lease_expected now current of
              Inl err \<Rightarrow> State_Monad.return (Inl err)
            | Inr expected \<Rightarrow> do {
                r \<leftarrow> vault_request e (\<lambda>t v.
                  let (r, m) = write_object (fault e t) (reply_lost e t) bundle (Some l) expected (v_leases v)
                  in (r, v\<lparr>v_leases := m\<rparr>));
                State_Monad.return (case r of None \<Rightarrow> Inl ErrLeaseHeld | Some n \<Rightarrow> Inr (l, n)) } } })"

definition ReleaseLease ::
  "'e vault_env_scheme \<Rightarrow> lease \<Rightarrow> int \<Rightarrow> lifecycle_error option lifecycle" where
  "ReleaseLease e l revision =
     (case lifecycle_ready e of Some err \<Rightarrow> State_Monad.return (Some err) | None \<Rightarrow>
      if revision < 1 \<or> ls_Bundle l = []
      then State_Monad.return (Some (Lifecycle_Message ''lifecycle lease release is invalid''))
      else do {
        r \<leftarrow> load_object e v_leases (ls_Bundle l);
        case r of
          Inl err \<Rightarrow> State_Monad.return (Some err)
        | Inr (current, n) \<Rightarrow>
            if n \<noteq> revision \<or> ls_Owner current \<noteq> ls_Owner l then State_Monad.return (Some ErrLeaseHeld)
            else do {
              ok \<leftarrow> vault_request e (\<lambda>t v.
                let (ok, m) = remove_object (fault e t) (reply_lost e t) (ls_Bundle l) revision (v_leases v)
                in (ok, v\<lparr>v_leases := m\<rparr>));
              State_Monad.return (if ok then None else Some Vault_Error) } })"

section \<open>Evidence\<close>

definition AppendEvidence ::
  "'e vault_env_scheme \<Rightarrow> string \<Rightarrow> chain_entry \<Rightarrow> bytes \<Rightarrow> (lifecycle_error + int) lifecycle" where
  "AppendEvidence e operationID entry public =
     (case lifecycle_ready e of Some err \<Rightarrow> State_Monad.return (Inl err) | None \<Rightarrow> do {
        current \<leftarrow> vault_request e (\<lambda>t v. (read_object (fault e t) operationID (v_chains v), v));
        (case (case current of None \<Rightarrow> Some ([], 0) | Some (None, _) \<Rightarrow> None | Some (Some es, n) \<Rightarrow> Some (es, n)) of
           None \<Rightarrow> State_Monad.return (Inl (Lifecycle_Message ''encrypted evidence chain is invalid''))
         | Some (chain, revision) \<Rightarrow>
             (case VerifyEvidenceChain e (chain @ [entry]) public of
                Refused err \<Rightarrow> State_Monad.return (Inl (Lifecycle_Message err))
              | Panics \<Rightarrow> State_Monad.return (Inl Crashed)
              | Accepted \<Rightarrow> do {
                  r \<leftarrow> vault_request e (\<lambda>t v.
                    let (r, m) = write_object (fault e t) (reply_lost e t) operationID (Some (chain @ [entry]))
                      revision (v_chains v)
                    in (r, v\<lparr>v_chains := m\<rparr>));
                  State_Monad.return (case r of None \<Rightarrow> Inl Vault_Error | Some n \<Rightarrow> Inr n) })) })"

section \<open>Rules\<close>

lemma run_vault_request:
  "run_state (vault_request e f) w =
    (let (r, v) = f (vtick w) (other_devices e (vtick w) (the_vault w)) in (r, \<lparr>the_vault = v, vtick = Suc (vtick w)\<rparr>))"
  by (simp add: vault_request_def)

lemma run_store_now: "run_state (store_now e) w = (clock e (vtick w), w\<lparr>vtick := Suc (vtick w)\<rparr>)"
  by (simp add: store_now_def)

definition loaded :: "('v option \<times> int) option \<Rightarrow> lifecycle_error + 'v \<times> int" where
  "loaded r = (case r of
     None \<Rightarrow> Inl Vault_Error
   | Some (None, _) \<Rightarrow> Inl (Lifecycle_Message ''encrypted lifecycle object is invalid'')
   | Some (Some x, n) \<Rightarrow> Inr (x, n))"

lemma run_load_object:
  "vault_open e \<Longrightarrow> run_state (load_object e table key) w =
    (loaded (read_object (fault e (vtick w)) key (table (other_devices e (vtick w) (the_vault w)))),
     \<lparr>the_vault = other_devices e (vtick w) (the_vault w), vtick = Suc (vtick w)\<rparr>)"
  by (simp add: load_object_def lifecycle_ready_def run_vault_request loaded_def)

text \<open>\<^verbatim>\<open>AcquireLease\<close> as one expression: the clock, the vault it reads, the vault it writes.\<close>

lemma run_AcquireLease:
  assumes "vault_open e" "0 < ttl" "ttl \<le> 15 * minute"
  shows "run_state (AcquireLease e bundle owner ttl) w =
    (let now = clock e (vtick w); l = new_lease bundle owner now ttl;
         v1 = other_devices e (Suc (vtick w)) (the_vault w);
         v2 = other_devices e (Suc (Suc (vtick w))) v1 in
     case lease_Validate l of
       Some err \<Rightarrow> (Inl (Lifecycle_Message err), w\<lparr>vtick := Suc (vtick w)\<rparr>)
     | None \<Rightarrow>
         (case lease_expected now (loaded (read_object (fault e (Suc (vtick w))) bundle (v_leases v1))) of
            Inl err \<Rightarrow> (Inl err, \<lparr>the_vault = v1, vtick = Suc (Suc (vtick w))\<rparr>)
          | Inr expected \<Rightarrow>
              (let (r, m) = write_object (fault e (Suc (Suc (vtick w)))) (reply_lost e (Suc (Suc (vtick w))))
                 bundle (Some l) expected (v_leases v2)
               in (case r of None \<Rightarrow> Inl ErrLeaseHeld | Some n \<Rightarrow> Inr (l, n),
                   \<lparr>the_vault = v2\<lparr>v_leases := m\<rparr>, vtick = Suc (Suc (Suc (vtick w)))\<rparr>))))"
  using assms
  by (simp add: AcquireLease_def lifecycle_ready_def run_store_now run_load_object run_vault_request Let_def
      split: option.split sum.split prod.split)

lemma AcquireLease_granted:
  "run_state (AcquireLease e bundle owner ttl) w = (Inr x, w') \<Longrightarrow> vault_open e \<and> 0 < ttl \<and> ttl \<le> 15 * minute"
  by (auto simp: AcquireLease_def lifecycle_ready_def split: if_splits)

end
