(* ===== verification/Lifecycle_Deploy.thy ===== *)
theory Lifecycle_Deploy
  imports Go_Rfc3339 Rollout_Store
begin

text \<open>
  The deployment of new secrets to several targets, \<^verbatim>\<open>DeployInOrder\<close> of
  \<^verbatim>\<open>internal/lifecycle/deployment.go\<close>, with the health evidence of \<^verbatim>\<open>secret.go\<close>. The adapters are
  the outside: what a call answers depends on the number of calls made before. The world records the
  calls in the order they are made.
\<close>

record deployment_request =
  dq_OperationID :: string
  dq_Target :: target
  dq_RecordRevisions :: "(string \<times> int) list"
  dq_PreviousRecordRevisions :: "(string \<times> int) list"

record deployed =
  dp_DeploymentID :: string
  dp_Status :: string
  dp_At :: string

record health =
  SuccessfulChecks :: int
  FirstSuccessAt :: string
  LastSuccessAt :: string
  Healthy :: bool

text \<open>Three successful checks over at least thirty seconds.\<close>

definition health_Validate :: "health \<Rightarrow> string option" where
  "health_Validate h =
     (if \<not> Healthy h \<or> SuccessfulChecks h < 3 then Some ''deployment health evidence is insufficient''
      else case parse_rfc3339 (FirstSuccessAt h) of
        None \<Rightarrow> Some ''deployment health evidence time is invalid''
      | Some from_time \<Rightarrow>
          (case parse_rfc3339 (LastSuccessAt h) of
             None \<Rightarrow> Some ''deployment health evidence window is insufficient''
           | Some to_time \<Rightarrow>
               if time_sub to_time from_time < 30 * second
               then Some ''deployment health evidence window is insufficient'' else None))"

record deployer =
  da_Stage :: "nat \<Rightarrow> deployment_request \<Rightarrow> deployed option"
  da_Activate :: "nat \<Rightarrow> deployed \<Rightarrow> deployed option"
  da_Verify :: "nat \<Rightarrow> deployed \<Rightarrow> health option"
  da_Rollback :: "nat \<Rightarrow> deployed \<Rightarrow> deployed option"

record named_deployment =
  nd_Name :: string
  nd_Adapter :: "deployer option"

record deployment_result =
  dr_Name :: string
  dr_Evidence :: deployed
  dr_Health :: health

datatype deployment_error =
    Workflow_Invalid
  | DeploymentFailure (df_Stage: string) (df_Target: string) (RolledBack: "string list")

section \<open>Calls\<close>

datatype deploy_call =
    Stage_Call string deployment_request
  | Activate_Call string deployed
  | Verify_Call string deployed
  | Rollback_Call string deployed

type_synonym 'a deploy = "(deploy_call list, 'a) state"

definition adapter_call :: "deploy_call \<Rightarrow> (nat \<Rightarrow> 'a) \<Rightarrow> 'a deploy" where
  "adapter_call x f = State (\<lambda>calls. (f (length calls), calls @ [x]))"

section \<open>The workflow\<close>

text \<open>A target that has been staged, with its latest evidence.\<close>

type_synonym staged = "string \<times> deployer \<times> deployed"

fun rollback_each :: "staged list \<Rightarrow> string list deploy" where
  "rollback_each [] = State_Monad.return []"
| "rollback_each ((name, a, x) # rest) = do {
     answer \<leftarrow> adapter_call (Rollback_Call name x) (\<lambda>n. da_Rollback a n x);
     rolled \<leftarrow> rollback_each rest;
     State_Monad.return (if answer \<noteq> None then name # rolled else rolled) }"

text \<open>From the last target to the first.\<close>

definition rollback :: "staged list \<Rightarrow> string list deploy" where
  "rollback targets = rollback_each (rev targets)"

fun stage_all ::
  "(string \<times> deployment_request) list \<Rightarrow> staged list \<Rightarrow> named_deployment list \<Rightarrow>
    (deployment_error + staged list) deploy" where
  "stage_all requests targets [] = State_Monad.return (Inr targets)"
| "stage_all requests targets (t # ts) =
     (case (map_of requests (nd_Name t), nd_Adapter t) of
        (Some request, Some a) \<Rightarrow>
          if nd_Name t = [] then State_Monad.return (Inl Workflow_Invalid)
          else do {
            answer \<leftarrow> adapter_call (Stage_Call (nd_Name t) request) (\<lambda>n. da_Stage a n request);
            case answer of
              None \<Rightarrow> do {
                rolled \<leftarrow> rollback targets;
                State_Monad.return (Inl (DeploymentFailure ''staging'' (nd_Name t) rolled)) }
            | Some x \<Rightarrow> stage_all requests (targets @ [(nd_Name t, a, x)]) ts }
      | _ \<Rightarrow> State_Monad.return (Inl Workflow_Invalid))"

fun activate_all ::
  "staged list \<Rightarrow> deployment_result list \<Rightarrow> staged list \<Rightarrow> (deployment_error + deployment_result list) deploy" where
  "activate_all targets results [] = State_Monad.return (Inr results)"
| "activate_all targets results ((name, a, x) # rest) = do {
     answer \<leftarrow> adapter_call (Activate_Call name x) (\<lambda>n. da_Activate a n x);
     case answer of
       None \<Rightarrow> do {
         rolled \<leftarrow> rollback (targets @ (name, a, x) # rest);
         State_Monad.return (Inl (DeploymentFailure ''activating'' name rolled)) }
     | Some y \<Rightarrow> do {
         health \<leftarrow> adapter_call (Verify_Call name y) (\<lambda>n. da_Verify a n y);
         (case health of
            Some h \<Rightarrow>
              if health_Validate h = None
              then activate_all (targets @ [(name, a, y)])
                (results @ [\<lparr>dr_Name = name, dr_Evidence = y, dr_Health = h\<rparr>]) rest
              else do {
                rolled \<leftarrow> rollback (targets @ (name, a, y) # rest);
                State_Monad.return (Inl (DeploymentFailure ''verifying'' name rolled)) }
          | None \<Rightarrow> do {
              rolled \<leftarrow> rollback (targets @ (name, a, y) # rest);
              State_Monad.return (Inl (DeploymentFailure ''verifying'' name rolled)) }) } }"

definition DeployInOrder ::
  "named_deployment list \<Rightarrow> (string \<times> deployment_request) list \<Rightarrow>
    (deployment_error + deployment_result list) deploy" where
  "DeployInOrder targets requests =
     (if targets = [] then State_Monad.return (Inl Workflow_Invalid)
      else do {
        r \<leftarrow> stage_all requests [] targets;
        case r of
          Inl err \<Rightarrow> State_Monad.return (Inl err)
        | Inr staged \<Rightarrow> activate_all [] [] staged })"

section \<open>The calls of a run\<close>

datatype step = Stages string | Activates string | Verifies string | Rolls_Back string

fun step_of :: "deploy_call \<Rightarrow> step" where
  "step_of (Stage_Call n _) = Stages n"
| "step_of (Activate_Call n _) = Activates n"
| "step_of (Verify_Call n _) = Verifies n"
| "step_of (Rollback_Call n _) = Rolls_Back n"

definition activated :: "string list \<Rightarrow> step list" where
  "activated names = concat (map (\<lambda>n. [Activates n, Verifies n]) names)"

lemma activated_simps [simp]: "activated [] = []" "activated (n # ns) = [Activates n, Verifies n] @ activated ns"
  "activated (ms @ ns) = activated ms @ activated ns"
  by (simp_all add: activated_def)

definition health_ok :: "deployment_result \<Rightarrow> bool" where
  "health_ok r \<longleftrightarrow> health_Validate (dr_Health r) = None"

text \<open>What the calls of a run are, given its outcome; \<open>names\<close> are those of the targets.\<close>

fun deploy_trace :: "string list \<Rightarrow> deployment_error + deployment_result list \<Rightarrow> step list \<Rightarrow> bool" where
  "deploy_trace names (Inr results) steps \<longleftrightarrow> steps = map Stages names @ activated names \<and>
     map dr_Name results = names \<and> list_all health_ok results"
| "deploy_trace names (Inl Workflow_Invalid) steps \<longleftrightarrow>
     (\<exists>k. (k < length names \<or> names = []) \<and> steps = map Stages (take k names))"
| "deploy_trace names (Inl (DeploymentFailure stage target rolled)) steps \<longleftrightarrow>
     (\<exists>k < length names. target = names ! k \<and> (
        stage = ''staging'' \<and> set rolled \<subseteq> set (take k names) \<and>
          steps = map Stages (take (Suc k) names) @ map Rolls_Back (rev (take k names)) \<or>
        stage \<in> {''activating'', ''verifying''} \<and> set rolled \<subseteq> set names \<and>
          steps = map Stages names @ activated (take k names) @
            Activates target # (if stage = ''verifying'' then [Verifies target] else []) @
            map Rolls_Back (rev names)))"

lemma wp_adapter_call: "Q (f (length s)) (s @ [x]) \<Longrightarrow> wp (adapter_call x f) Q s"
  by (simp add: wp_def adapter_call_def)

lemma wp_rollback_each:
  "(\<And>rolled new. map step_of new = map (Rolls_Back \<circ> fst) xs \<Longrightarrow> set rolled \<subseteq> fst ` set xs \<Longrightarrow>
     Q rolled (s @ new)) \<Longrightarrow> wp (rollback_each xs) Q s"
proof (induction xs arbitrary: s Q)
  case Nil
  then show ?case using Nil [of "[]" "[]"] by (simp add: wp_return)
next
  case (Cons x xs)
  obtain name a y where x: "x = (name, a, y)" by (cases x)
  show ?case
    unfolding x rollback_each.simps
  proof (rule wp_bind, rule wp_adapter_call, rule wp_bind, rule Cons.IH)
    fix rolled new
    assume "map step_of new = map (Rolls_Back \<circ> fst) xs" "set rolled \<subseteq> fst ` set xs"
    then have "Q r (s @ Rollback_Call name y # new)" if "r = rolled \<or> r = name # rolled" for r
      using that by (intro Cons.prems) (auto simp: x)
    then show "wp (State_Monad.return (if da_Rollback a (length s) y \<noteq> None then name # rolled else rolled)) Q
        ((s @ [Rollback_Call name y]) @ new)"
      by (simp add: wp_return)
  qed
qed

lemma wp_rollback:
  assumes "\<And>rolled new. map step_of new = map Rolls_Back (rev (map fst xs)) \<Longrightarrow>
     set rolled \<subseteq> set (map fst xs) \<Longrightarrow> Q rolled (s @ new)"
  shows "wp (rollback xs) Q s"
  unfolding rollback_def
  by (rule wp_rollback_each) (rule assms, simp_all add: rev_map comp_def)

text \<open>The same for one phase, \<open>before\<close> being the targets already dealt with.\<close>

fun stage_trace :: "string list \<Rightarrow> string list \<Rightarrow> deployment_error + staged list \<Rightarrow> step list \<Rightarrow> bool" where
  "stage_trace before names (Inr staged) steps \<longleftrightarrow> map fst staged = before @ names \<and> steps = map Stages names"
| "stage_trace before names (Inl Workflow_Invalid) steps \<longleftrightarrow>
     (\<exists>k < length names. steps = map Stages (take k names))"
| "stage_trace before names (Inl (DeploymentFailure stage target rolled)) steps \<longleftrightarrow> stage = ''staging'' \<and>
     (\<exists>k < length names. target = names ! k \<and> set rolled \<subseteq> set (before @ take k names) \<and>
        steps = map Stages (take (Suc k) names) @ map Rolls_Back (rev (before @ take k names)))"

lemma stage_trace_Cons:
  assumes "stage_trace (before @ [n]) names r steps"
  shows "stage_trace before (n # names) r (Stages n # steps)"
proof (cases r)
  case (Inl err)
  show ?thesis
  proof (cases err)
    case Workflow_Invalid
    then obtain k where "k < length names" "steps = map Stages (take k names)" using assms Inl by auto
    then show ?thesis using Inl Workflow_Invalid by (auto intro!: exI [of _ "Suc k"])
  next
    case (DeploymentFailure stage target rolled)
    then obtain k where "k < length names" "target = names ! k" "set rolled \<subseteq> set ((before @ [n]) @ take k names)"
        "stage = ''staging''" "steps = map Stages (take (Suc k) names) @ map Rolls_Back (rev ((before @ [n]) @ take k names))"
      using assms Inl by auto
    then show ?thesis using Inl DeploymentFailure by (auto intro!: exI [of _ "Suc k"])
  qed
qed (use assms in simp)

lemma wp_stage_all:
  assumes "\<And>r new. stage_trace (map fst xs) (map nd_Name ts) r (map step_of new) \<Longrightarrow> Q r (s @ new)"
  shows "wp (stage_all requests xs ts) Q s"
  using assms
proof (induction ts arbitrary: xs s Q)
  case Nil
  then show ?case using Nil [of "Inr xs" "[]"] by (simp add: wp_return)
next
  case (Cons t ts)
  have invalid: "Q (Inl Workflow_Invalid) s"
    using Cons.prems [of "Inl Workflow_Invalid" "[]"] by force
  show ?case
  proof (cases "\<exists>request a. map_of requests (nd_Name t) = Some request \<and> nd_Adapter t = Some a \<and> nd_Name t \<noteq> []")
    case False
    then show ?thesis using invalid by (auto intro!: wp_return split: option.splits)
  next
    case True
    then obtain request a where t: "map_of requests (nd_Name t) = Some request" "nd_Adapter t = Some a"
        "nd_Name t \<noteq> []" by blast
    let ?c = "Stage_Call (nd_Name t) request"
    have failed: "wp (rollback xs) (\<lambda>rolled. wp (State_Monad.return
          (Inl (DeploymentFailure ''staging'' (nd_Name t) rolled))) Q) (s @ [?c])"
    proof (rule wp_rollback, rule wp_return)
      fix rolled new
      assume "map step_of new = map Rolls_Back (rev (map fst xs))" "set rolled \<subseteq> set (map fst xs)"
      then show "Q (Inl (DeploymentFailure ''staging'' (nd_Name t) rolled)) ((s @ [?c]) @ new)"
        using Cons.prems [of "Inl (DeploymentFailure ''staging'' (nd_Name t) rolled)" "?c # new"] by force
    qed
    have staged: "wp (stage_all requests (xs @ [(nd_Name t, a, y)]) ts) Q (s @ [?c])" for y
    proof (rule Cons.IH)
      fix r new
      assume "stage_trace (map fst (xs @ [(nd_Name t, a, y)])) (map nd_Name ts) r (map step_of new)"
      then have "Q r (s @ ?c # new)"
        using stage_trace_Cons [of "map fst xs" "nd_Name t"] by (intro Cons.prems) simp
      then show "Q r ((s @ [?c]) @ new)" by simp
    qed
    show ?thesis
      by (simp add: t, rule wp_bind, rule wp_adapter_call, rule wp_case_option)
        (simp_all add: staged wp_bind failed)
  qed
qed

fun activate_trace ::
  "string list \<Rightarrow> string list \<Rightarrow> deployment_result list \<Rightarrow> deployment_error + deployment_result list \<Rightarrow> step list \<Rightarrow> bool" where
  "activate_trace before names results (Inr rs) steps \<longleftrightarrow> (\<exists>new. rs = results @ new \<and>
     map dr_Name new = names \<and> list_all health_ok new) \<and> steps = activated names"
| "activate_trace before names results (Inl Workflow_Invalid) steps \<longleftrightarrow> False"
| "activate_trace before names results (Inl (DeploymentFailure stage target rolled)) steps \<longleftrightarrow>
     stage \<in> {''activating'', ''verifying''} \<and> set rolled \<subseteq> set (before @ names) \<and>
     (\<exists>k < length names. target = names ! k \<and>
        steps = activated (take k names) @ Activates target #
          (if stage = ''verifying'' then [Verifies target] else []) @ map Rolls_Back (rev (before @ names)))"

lemma activate_trace_Cons:
  assumes "activate_trace (before @ [n]) names (results @ [x]) r steps" "dr_Name x = n" "health_ok x"
  shows "activate_trace before (n # names) results r (Activates n # Verifies n # steps)"
proof (cases r)
  case (Inl err)
  show ?thesis
  proof (cases err)
    case (DeploymentFailure stage target rolled)
    then obtain k where "k < length names" "target = names ! k" "set rolled \<subseteq> set ((before @ [n]) @ names)"
        "stage \<in> {''activating'', ''verifying''}" "steps = activated (take k names) @ Activates target #
          (if stage = ''verifying'' then [Verifies target] else []) @ map Rolls_Back (rev ((before @ [n]) @ names))"
      using assms(1) Inl by auto
    then show ?thesis using Inl DeploymentFailure by (auto intro!: exI [of _ "Suc k"])
  qed (use assms(1) Inl in simp)
qed (use assms in auto)

lemma wp_activate_all:
  assumes "\<And>r new. activate_trace (map fst xs) (map fst ys) results r (map step_of new) \<Longrightarrow> Q r (s @ new)"
  shows "wp (activate_all xs results ys) Q s"
  using assms
proof (induction ys arbitrary: xs results s Q)
  case Nil
  then show ?case using Nil [of "Inr results" "[]"] by (simp add: wp_return)
next
  case (Cons t ys)
  obtain name a x where t: "t = (name, a, x)" by (cases t)
  have failed: "wp (rollback (xs @ (name, a, y) # ys)) (\<lambda>rolled. wp (State_Monad.return
        (Inl (DeploymentFailure stage name rolled))) Q) (s @ calls)"
    if c: "stage = ''activating'' \<and> calls = [Activate_Call name x] \<or>
        stage = ''verifying'' \<and> calls = [Activate_Call name x, Verify_Call name z]" for y z stage calls
  proof (rule wp_rollback, rule wp_return)
    fix rolled new
    assume "map step_of new = map Rolls_Back (rev (map fst (xs @ (name, a, y) # ys)))"
      "set rolled \<subseteq> set (map fst (xs @ (name, a, y) # ys))"
    then have "activate_trace (map fst xs) (map fst (t # ys)) results (Inl (DeploymentFailure stage name rolled))
        (map step_of (calls @ new))"
      using c by (auto simp: t intro!: exI [of _ 0])
    then have "Q (Inl (DeploymentFailure stage name rolled)) (s @ calls @ new)" by (rule Cons.prems)
    then show "Q (Inl (DeploymentFailure stage name rolled)) ((s @ calls) @ new)" by simp
  qed
  have next_one: "wp (activate_all (xs @ [(name, a, y)]) (results @ [\<lparr>dr_Name = name, dr_Evidence = y, dr_Health = h\<rparr>]) ys)
      Q (s @ [Activate_Call name x, Verify_Call name y])" if "health_Validate h = None" for y h
  proof (rule Cons.IH)
    fix r new
    assume a: "activate_trace (map fst (xs @ [(name, a, y)])) (map fst ys)
      (results @ [\<lparr>dr_Name = name, dr_Evidence = y, dr_Health = h\<rparr>]) r (map step_of new)"
    have "Q r (s @ [Activate_Call name x, Verify_Call name y] @ new)"
      using a that by (intro Cons.prems) (simp add: t activate_trace_Cons health_ok_def)
    then show "Q r ((s @ [Activate_Call name x, Verify_Call name y]) @ new)" by simp
  qed
  show ?case
    unfolding t activate_all.simps
    apply (rule wp_bind, rule wp_adapter_call, rule wp_case_option)
    subgoal using failed [of "''activating''" "[Activate_Call name x]" _ x] by (simp add: wp_bind)
    subgoal for y
      apply (rule wp_bind, rule wp_adapter_call, rule wp_case_option)
      subgoal using failed [of "''verifying''" "[Activate_Call name x, Verify_Call name y]" y y] by (simp add: wp_bind)
      subgoal for h
        using failed [of "''verifying''" "[Activate_Call name x, Verify_Call name y]" y y] next_one [of h y]
        by (auto simp: wp_bind)
      done
    done
qed

lemma deploy_trace_activate:
  assumes "activate_trace [] names [] r steps"
  shows "deploy_trace names r (map Stages names @ steps)"
proof (cases r)
  case (Inl err)
  then show ?thesis using assms by (cases err) auto
next
  case (Inr rs)
  then show ?thesis using assms by (simp add: health_ok_def)
qed

lemma wp_DeployInOrder:
  assumes "\<And>r new. deploy_trace (map nd_Name targets) r (map step_of new) \<Longrightarrow> Q r (s @ new)"
  shows "wp (DeployInOrder targets requests) Q s"
proof (cases "targets = []")
  case True
  then show ?thesis using assms [of "Inl Workflow_Invalid" "[]"] by (simp add: DeployInOrder_def wp_return)
next
  case False
  show ?thesis
    unfolding DeployInOrder_def if_not_P [OF False]
  proof (rule wp_bind, rule wp_stage_all, rule wp_case_sum)
    fix r new err
    assume "stage_trace (map fst []) (map nd_Name targets) r (map step_of new)" "r = Inl err"
    then have "deploy_trace (map nd_Name targets) (Inl err) (map step_of new)"
      by (cases err) auto
    then show "wp (State_Monad.return (Inl err)) Q (s @ new)" by (intro wp_return assms)
  next
    fix r new staged
    assume st: "stage_trace (map fst []) (map nd_Name targets) r (map step_of new)" "r = Inr staged"
    show "wp (activate_all [] [] staged) Q (s @ new)"
    proof (rule wp_activate_all)
      fix r' new'
      assume a: "activate_trace (map fst []) (map fst staged) [] r' (map step_of new')"
      have "deploy_trace (map nd_Name targets) r' (map step_of (new @ new'))"
        using deploy_trace_activate [of "map nd_Name targets"] a st by simp
      then show "Q r' ((s @ new) @ new')" using assms [of r' "new @ new'"] by simp
    qed
  qed
qed

end
