(* ===== verification/Lifecycle_Demo.thy ===== *)
theory Lifecycle_Demo
  imports Lifecycle_Store Lifecycle_Deploy Rollout_Demo
begin

text \<open>
  Concrete life cycles, for the witnesses and for what can go wrong: a vault in which three workers
  take a lease, a deployment to two targets, a revocation.
\<close>

section \<open>Leases\<close>

definition vault_at :: "int \<Rightarrow> (nat \<Rightarrow> lifecycle_vault \<Rightarrow> lifecycle_vault) \<Rightarrow> vault_env" where
  "vault_at t others = \<lparr>fault = (\<lambda>_. False), clock = (\<lambda>_. t * second), rand = (\<lambda>_. None),
     sha256 = (\<lambda>_. replicate 32 (CHR ''h'')), ed25519_verify = (\<lambda>_ _ _. True), x25519_nonzero = (\<lambda>_. True),
     vault_open = True, reply_lost = (\<lambda>_. False), other_devices = others\<rparr>"

lemma vault_at_sel [simp]:
  "fault (vault_at t others) n = False" "clock (vault_at t others) n = t * second"
  "sha256 (vault_at t others) = (\<lambda>_. replicate 32 (CHR ''h''))" "vault_open (vault_at t others)"
  "ed25519_verify (vault_at t others) p m s"
  "reply_lost (vault_at t others) n = False" "other_devices (vault_at t others) = others"
  by (simp_all add: vault_at_def)

definition alone :: "nat \<Rightarrow> lifecycle_vault \<Rightarrow> lifecycle_vault" where
  "alone t v = v"

definition leases_world :: "(lease option \<times> int) option \<Rightarrow> lifecycle_world" where
  "leases_world entry = \<lparr>the_vault = \<lparr>v_policies = (\<lambda>_. None), v_operations = (\<lambda>_. None),
     v_leases = (\<lambda>_. None)(''app'' := entry), v_chains = (\<lambda>_. None)\<rparr>, vtick = 0\<rparr>"

definition lease_of :: "string \<Rightarrow> int \<Rightarrow> lease" where
  "lease_of owner t = \<lparr>ls_Bundle = ''app'', ls_Owner = owner, ls_AcquiredAt = format_rfc3339 t,
     ls_ExpiresAt = format_rfc3339 (t + 600)\<rparr>"

lemma new_lease_of: "new_lease ''app'' owner (t * second) (10 * minute) = lease_of owner t"
proof -
  have "t * second + 10 * minute = (t + 600) * second" by (simp add: minute_def second_def)
  moreover have "to_secs (x * second) = x" for x by (simp add: to_secs_def second_def)
  ultimately show ?thesis by (simp only: new_lease_def lease_of_def)
qed

lemma lease_times:
  "parse_canonical (format_rfc3339 trial_time) = Some trial_time"
  "parse_canonical (format_rfc3339 (trial_time + 600)) = Some (trial_time + 600)"
  "parse_canonical (format_rfc3339 (trial_time - 3600)) = Some (trial_time - 3600)"
  "parse_canonical (format_rfc3339 (trial_time - 3000)) = Some (trial_time - 3000)"
proof -
  have "four_digit_year trial_time" "four_digit_year (trial_time + 600)"
    "four_digit_year (trial_time - 3600)" "four_digit_year (trial_time - 3000)"
    by code_simp+
  then show "parse_canonical (format_rfc3339 trial_time) = Some trial_time"
    "parse_canonical (format_rfc3339 (trial_time + 600)) = Some (trial_time + 600)"
    "parse_canonical (format_rfc3339 (trial_time - 3600)) = Some (trial_time - 3600)"
    "parse_canonical (format_rfc3339 (trial_time - 3000)) = Some (trial_time - 3000)"
    by (simp_all add: parse_format_rfc3339 trial_created)
qed

lemma lease_of_valid:
  "owner \<noteq> [] \<Longrightarrow> lease_Validate (lease_of owner trial_time) = None"
  "owner \<noteq> [] \<Longrightarrow> lease_Validate (lease_of owner (trial_time - 3600)) = None"
  using lease_times by (simp_all add: lease_Validate_def lease_of_def)

lemma lease_of_expiry:
  "parse_rfc3339 (ls_ExpiresAt (lease_of owner trial_time)) = Some ((trial_time + 600) * second)"
  "parse_rfc3339 (ls_ExpiresAt (lease_of owner (trial_time - 3600))) = Some ((trial_time - 3000) * second)"
  using lease_times by (auto simp: lease_of_def intro: parse_rfc3339_canonical)

lemma app_key: "key_ok ''app''"
  by code_simp

lemma ten_minutes: "0 < 10 * minute" "10 * minute \<le> 15 * minute"
  by (simp_all add: minute_def second_def)

text \<open>A worker takes the lease when there is none, and when the one there is has expired.\<close>

lemma acquire_free:
  assumes "owner \<noteq> []" "the_vault w = the_vault (leases_world None)" "t = trial_time \<or> t = trial_time - 3600"
  shows "run_state (AcquireLease (vault_at t alone) ''app'' owner (10 * minute)) w =
    (Inr (lease_of owner t, 1), \<lparr>the_vault = the_vault (leases_world (Some (Some (lease_of owner t), 1))),
       vtick = Suc (Suc (Suc (vtick w)))\<rparr>)"
proof -
  have "lease_Validate (lease_of owner t) = None" using assms(1,3) by (elim disjE) (simp_all add: lease_of_valid)
  then show ?thesis
    using assms(2)
    apply (subst run_AcquireLease)
    apply (simp_all only: vault_at_sel ten_minutes Let_def new_lease_of alone_def)
    apply (simp add: loaded_def read_object_def lease_expected_def leases_world_def)
    apply (simp add: write_object_def app_key revision_of_def)
    done
qed

lemma release_held:
  "run_state (ReleaseLease (vault_at t alone) (lease_of ''b'' u) 1)
      (leases_world (Some (Some (lease_of ''b'' u), 1))) =
    (None, \<lparr>the_vault = the_vault (leases_world None), vtick = 2\<rparr>)"
  by (simp add: ReleaseLease_def lifecycle_ready_def lease_of_def run_load_object loaded_def read_object_def
      leases_world_def alone_def run_vault_request remove_object_def revision_of_def fun_upd_idem_iff
      numeral_2_eq_2)

definition meanwhile :: "nat \<Rightarrow> lifecycle_vault \<Rightarrow> lifecycle_vault" where
  "meanwhile t v = (if t = 2 then the_vault (leases_world (Some (Some (lease_of ''c'' trial_time), 1))) else v)"

lemma acquire_meanwhile:
  "run_state (AcquireLease (vault_at trial_time meanwhile) ''app'' ''a'' (10 * minute))
      (leases_world (Some (Some (lease_of ''b'' (trial_time - 3600)), 1))) =
    (Inr (lease_of ''a'' trial_time, 2), \<lparr>the_vault = the_vault (leases_world (Some (Some (lease_of ''a'' trial_time), 2))),
       vtick = 3\<rparr>)"
proof -
  have "\<not> trial_time * second < (trial_time - 3000) * second" by (simp add: second_def trial_time_def)
  then show ?thesis
    by (subst run_AcquireLease)
      (simp_all add: ten_minutes Let_def new_lease_of lease_of_valid meanwhile_def loaded_def read_object_def
        lease_expected_def leases_world_def write_object_def app_key revision_of_def lease_of_expiry
        eval_nat_numeral)
qed

section \<open>A deployment\<close>

definition good_deployed :: deployed where
  "good_deployed = \<lparr>dp_DeploymentID = ''d1'', dp_Status = ''ok'', dp_At = trial_now\<rparr>"

definition broken_deployer :: deployer where
  "broken_deployer = \<lparr>da_Stage = (\<lambda>_ _. Some good_deployed), da_Activate = (\<lambda>_ _. None),
     da_Verify = (\<lambda>_ _. None), da_Rollback = (\<lambda>_ _. Some good_deployed)\<rparr>"

definition empty_request :: deployment_request where
  "empty_request = \<lparr>dq_OperationID = ''op'', dq_Target = providerTarget trial_target,
     dq_RecordRevisions = [], dq_PreviousRecordRevisions = []\<rparr>"

definition deploy_targets :: "named_deployment list" where
  "deploy_targets = [\<lparr>nd_Name = ''web'', nd_Adapter = Some broken_deployer\<rparr>,
     \<lparr>nd_Name = ''api'', nd_Adapter = Some broken_deployer\<rparr>]"

lemma broken_deployment:
  "run_state (DeployInOrder deploy_targets [(''web'', empty_request), (''api'', empty_request)]) [] =
    (Inl (DeploymentFailure ''activating'' ''web'' [''api'', ''web'']),
     [Stage_Call ''web'' empty_request, Stage_Call ''api'' empty_request, Activate_Call ''web'' good_deployed,
      Rollback_Call ''api'' good_deployed, Rollback_Call ''web'' good_deployed])"
  by (simp add: DeployInOrder_def deploy_targets_def adapter_call_def broken_deployer_def rollback_def)

text \<open>A target without a request stops the workflow; what has been staged is not rolled back.\<close>

lemma missing_request_leaves_staged:
  "run_state (DeployInOrder deploy_targets [(''web'', empty_request)]) [] =
    (Inl Workflow_Invalid, [Stage_Call ''web'' empty_request])"
  by (simp add: DeployInOrder_def deploy_targets_def adapter_call_def broken_deployer_def)

section \<open>A revocation\<close>

definition trial_policy_target :: target_policy where
  "trial_policy_target = \<lparr>tp_Provider = ''acme'', tp_ProjectID = ''proj'', tp_EnvironmentID = ''prod''\<rparr>"

definition trial_policy :: "string \<Rightarrow> automation_policy" where
  "trial_policy word = \<lparr>ap_Version = 1, ap_ID = ''pol'', ap_VaultID = ''vault'', ap_Bundle = ''app'',
     ap_ManifestDigest = trial_digest, ap_Environment = ''staging'', ProviderIdentities = [(''acme'', ''acct'')],
     CredentialClasses = [''key''], ap_Operations = [word], ap_Targets = [trial_policy_target],
     ap_Schedule = ''weekly'', ap_HealthChecks = [''http''], ap_GracePeriod = ''1h'', ap_Rollback = ''auto'',
     RetryBudget = 3, ap_ExpiresAt = ''2023-11-15T22:13:20Z'', ApprovingDevice = ''dev'',
     PublicKey = Some (replicate 32 (CHR ''k'')), Signature = Some (replicate 64 (CHR ''s''))\<rparr>"

definition trial_go :: go_std where
  "trial_go = \<lparr>url_parse = (\<lambda>_. None), parse_duration = (\<lambda>_. Some hour), to_upper = id, quoted = id\<rparr>"

definition trial_authorization :: "string \<Rightarrow> authorization_binding" where
  "trial_authorization word = \<lparr>ab_VaultID = ''vault'', ab_Bundle = ''app'', ab_ManifestDigest = trial_digest,
     ab_Environment = ''staging'', ab_Provider = ''acme'', ab_ProviderIdentity = ''acct'',
     ab_CredentialClass = ''key'', ab_Operation = word, ab_Target = trial_policy_target\<rparr>"

definition trial_rotation :: lifecycle_operation where
  "trial_rotation = \<lparr>lo_Version = 1, lo_ID = ''op'', lo_PolicyID = ''pol'', lo_PolicyDigest = trial_digest,
     lo_VaultID = ''vault'', lo_Bundle = ''app'', lo_ManifestDigest = trial_digest, lo_Provider = ''acme'',
     lo_ProviderIdentity = ''acct'', lo_Target = trial_policy_target, lo_CredentialClass = ''key'',
     lo_DestinationRecord = ''API_KEY'', lo_PreviousRecordRevision = 1, lo_NewRecordRevision = 2,
     lo_PreviousCredentialID = ''old'', lo_NewCredentialID = ''new'', lo_HealthEvidenceDigest = trial_digest,
     lo_State = StateRevoking, lo_Attempts = 0, lo_GraceEndsAt = trial_now, lo_CreatedAt = trial_now,
     lo_UpdatedAt = trial_now\<rparr>"

lemma trial_rotation_valid: "lo_Validate trial_rotation = None"
  by code_simp

lemma trial_policy_digest: "policy_Digest (vault_at t others) p = trial_digest"
  by (simp add: policy_Digest_def trial_hash)

lemma trial_policy_valid:
  assumes "word = ''create'' \<or> word = ''revoke''"
  shows "policy_Validate trial_go (vault_at trial_time alone) (trial_policy word) (trial_time * second) = None"
proof -
  have b: "policy_binding (trial_policy word)"
  proof -
    have "digest_pattern trial_digest" by code_simp
    then show ?thesis by (simp add: policy_binding_def trial_policy_def)
  qed
  have "parse_canonical ''2023-11-15T22:13:20Z'' = Some (trial_time + 86400)" by code_simp
  then have x: "policy_expiry_ok (trial_policy word) (trial_time * second)"
    by (simp add: policy_expiry_ok_def trial_policy_def trial_time_def duration_defs)
  have g: "policy_grace_ok trial_go (trial_policy word)"
    by (simp add: policy_grace_ok_def trial_policy_def trial_go_def duration_defs)
  have s: "policy_signature_ok (vault_at trial_time alone) (trial_policy word)"
    by (simp add: policy_signature_ok_def trial_policy_def byte_slice_def)
  have w: "operation_word word" using assms by (auto simp: operation_word_def)
  show ?thesis
    using assms w b x g s by (auto simp: policy_Validate_def)
      (simp_all add: trial_policy_def trial_policy_target_def)
qed

lemma less_string_irrefl: "\<not> less_string s s"
  by (induction s) auto

lemma trial_revocation:
  assumes "word = ''create'' \<or> word = ''revoke''"
  shows "RevocationAllowed trial_go (vault_at trial_time alone) trial_rotation (trial_authorization word) 2
    trial_digest (trial_time * second) (trial_policy word) = None"
proof -
  have t: "parse_rfc3339 trial_now = Some (trial_time * second)" by (rule parse_rfc3339_canonical [OF trial_created])
  have n: "trial_now \<noteq> []" by (simp add: trial_now_def)
  have c: "stringContains [x] x" for x by (simp add: stringContains_def SearchStrings_def sort_strings_def Let_def less_string_irrefl)
  have "authorization_matches (trial_policy word) (trial_authorization word)"
    by (simp add: authorization_matches_def trial_policy_def trial_authorization_def c)
  then have "Authorizes trial_go (vault_at trial_time alone) (trial_policy word) (trial_authorization word)
      (trial_time * second) = None"
    using trial_policy_valid [OF assms]
    by (simp add: Authorizes_def) (simp add: trial_policy_def trial_authorization_def)
  moreover have "revocation_bound (vault_at trial_time alone) trial_rotation (trial_authorization word) 2
      trial_digest (trial_policy word)"
    using trial_rotation_valid
    by (simp add: revocation_bound_def trial_policy_digest) (simp add: trial_rotation_def trial_authorization_def)
  ultimately show ?thesis
    by (simp add: RevocationAllowed_def) (simp add: trial_rotation_def t n)
qed

end
