(* ===== verification/Lifecycle_Theorems.thy ===== *)
theory Lifecycle_Theorems
  imports Lifecycle_Demo Vault_Store Plan_Theorems
begin

text \<open>
  The properties of the rotation life cycle: the chain of evidence, deployments, the last check before
  a revocation, and the lease that workers compete for.
\<close>

section \<open>Evidence\<close>

text \<open>C28. The chain of evidence is bound by its last digest: two chains that the verification
  accepts, for whatever keys, and that end in the same digest, agree in length and in everything
  but the signatures, or two of their entries are different preimages of one SHA-256 value.\<close>

theorem evidence_chain_binding:
  assumes "VerifyEvidenceChain c xs p = Accepted" and "VerifyEvidenceChain c ys q = Accepted"
    and "list_all entry_utf8 xs" and "list_all entry_utf8 ys" and "xs \<noteq> []" and "ys \<noteq> []"
    and "ce_Digest (last xs) = ce_Digest (last ys)"
  shows "map content xs = map content ys \<or> collides c xs ys"
proof (cases "collides c xs ys")
  case False
  obtain xs' x where xs: "xs = xs' @ [x]" using assms(5) by (cases xs rule: rev_cases) auto
  obtain ys' y where ys: "ys = ys' @ [y]" using assms(6) by (cases ys rule: rev_cases) auto
  note vx = assms(1) [unfolded VerifyEvidenceChain_def xs verify_chain_snoc]
  note vy = assms(2) [unfolded VerifyEvidenceChain_def ys verify_chain_snoc]
  have "hex_encode (sha256 c (entry_text x)) = hex_encode (sha256 c (entry_text y))"
    using vx vy assms(7) unfolding entry_ok_def xs ys by (metis last_snoc)
  then have "sha256 c (entry_text x) = sha256 c (entry_text y)" by (rule hex_encode_inject)
  then have "entry_text x = entry_text y" using False by (auto simp: collides_def xs ys)
  then have "content x = content y" using assms(3,4) by (intro entry_text_inject) (simp_all add: xs ys)
  then have "ce_Sequence x = ce_Sequence y" by (cases x; cases y) (simp add: content_def)
  then have "length xs = length ys" using vx vy by (simp add: entry_ok_def xs ys)
  moreover have "last_digest [] xs = last_digest [] ys" using assms(5-7) by (simp add: last_digest_def)
  ultimately show ?thesis
    using chain_contents [of c p xs q ys] assms(1-4) False by (simp add: VerifyEvidenceChain_def)
qed simp

definition sound_key :: "'c crypto_scheme \<Rightarrow> private_key \<Rightarrow> bool" where
  "sound_key c k \<longleftrightarrow> pk_Length k = 64 \<and> length (pk_Public k) = 32 \<and>
     (\<forall>m. ed25519_verify c (pk_Public k) m (pk_Sign k m)) \<and> (\<forall>m. length (sha256 c m) = 32)"

text \<open>C15. Evidence that is made is evidence that verifies: appending what \<^verbatim>\<open>NewEvidence\<close> returns after the
  last entry of an accepted chain gives an accepted chain, for a key whose signatures verify, a
  hash of 32 bytes, and fewer than \<open>2 ^ 63\<close> entries.\<close>

theorem new_evidence_accepted:
  assumes "VerifyEvidenceChain c es (pk_Public k) = Accepted" and "sound_key c k"
    and "operationID \<noteq> []" and "stage \<noteq> []" and "device \<noteq> []" and "int (length es) < max_i64"
  shows "\<exists>e. NewEvidence c (if es = [] then None else Some (last es)) operationID stage code device now k = Inr e \<and>
    VerifyEvidenceChain c (es @ [e]) (pk_Public k) = Accepted"
proof -
  let ?prev = "if es = [] then None else Some (last es)"
  let ?seq = "case ?prev of None \<Rightarrow> 1 | Some p \<Rightarrow> i64 (ce_Sequence p + 1)"
  have seq: "?seq = int (length es) + 1"
  proof (cases es rule: rev_cases)
    case (snoc es' x)
    have "ce_Sequence x = int (length es)"
      using assms(1) [unfolded VerifyEvidenceChain_def snoc verify_chain_snoc] by (simp add: entry_ok_def snoc)
    moreover have "i64 (int (length es) + 1) = int (length es) + 1"
      using assms(6) by (intro i64_id) (auto simp: min_i64_def max_i64_def)
    ultimately show ?thesis by (simp add: snoc)
  qed simp
  define e0 where "e0 = \<lparr>ce_Sequence = ?seq, ce_OperationID = operationID, ce_Stage = stage, ce_Code = code,
    ce_At = format_rfc3339 (to_secs now),
    ce_PreviousDigest = (case ?prev of None \<Rightarrow> [] | Some p \<Rightarrow> ce_Digest p), ce_Digest = [],
    ce_Device = device, ce_Signature = None\<rparr>"
  define e1 where "e1 = e0\<lparr>ce_Digest := hex_encode (sha256 c (entry_text e0))\<rparr>"
  define e2 where "e2 = e1\<lparr>ce_Signature := Some (pk_Sign k (entry_signingBytes e1))\<rparr>"
  have new: "NewEvidence c ?prev operationID stage code device now k = Inr e2"
    using assms(2-5) unfolding NewEvidence_def Let_def e2_def e1_def e0_def by (simp add: sound_key_def)
  have texts: "entry_text e2 = entry_text e0" "entry_signingBytes e2 = entry_signingBytes e1"
    by (simp_all add: entry_text_def entry_signingBytes_def e2_def e1_def e0_def)
  have "entry_ok c (pk_Public k) (0 + length es) (last_digest [] es) e2"
    using assms(2) unfolding entry_ok_def texts
    by (auto simp: e2_def e1_def sound_key_def byte_slice_def digest_pattern_hex)
      (simp_all add: e0_def seq last_digest_def)
  then show ?thesis
    using new assms(1) by (simp add: VerifyEvidenceChain_def verify_chain_snoc)
qed

definition trial_private :: private_key where
  "trial_private = \<lparr>pk_Length = 64, pk_Public = replicate 32 (CHR ''k''), pk_Sign = (\<lambda>_. replicate 64 (CHR ''s''))\<rparr>"

lemma trial_sound_key: "sound_key (vault_at t others) trial_private"
  by (simp add: sound_key_def trial_private_def)

theorem new_evidence_accepted_witness:
  "\<exists>e. NewEvidence (vault_at trial_time alone) None ''op'' ''stored'' ''ok'' ''dev'' trial_time trial_private = Inr e \<and>
    VerifyEvidenceChain (vault_at trial_time alone) [e] (pk_Public trial_private) = Accepted"
  using new_evidence_accepted [of "vault_at trial_time alone" "[]" trial_private "''op''" "''stored''" "''dev''"
      "''ok''" trial_time] trial_sound_key
  by (simp add: VerifyEvidenceChain_def max_i64_def)

definition first_entry :: "bytes \<Rightarrow> chain_entry" where
  "first_entry sig = \<lparr>ce_Sequence = 1, ce_OperationID = ''op'', ce_Stage = ''stored'', ce_Code = ''ok'',
     ce_At = trial_now, ce_PreviousDigest = [], ce_Digest = trial_digest, ce_Device = ''dev'',
     ce_Signature = Some sig\<rparr>"

theorem evidence_chain_binding_witness:
  "map content [first_entry ''a''] = map content [first_entry ''b''] \<or>
    collides (vault_at trial_time alone) [first_entry ''a''] [first_entry ''b'']"
proof (rule evidence_chain_binding)
  have d: "digest_pattern trial_digest" by code_simp
  have v: "VerifyEvidenceChain (vault_at trial_time alone) [first_entry sig] (replicate 32 (CHR ''k'')) = Accepted" for sig
    using d by (simp add: VerifyEvidenceChain_def first_entry_def trial_hash)
  show "VerifyEvidenceChain (vault_at trial_time alone) [first_entry ''a''] (replicate 32 (CHR ''k'')) = Accepted"
    "VerifyEvidenceChain (vault_at trial_time alone) [first_entry ''b''] (replicate 32 (CHR ''k'')) = Accepted"
    by (rule v)+
  show "list_all entry_utf8 [first_entry ''a'']" "list_all entry_utf8 [first_entry ''b'']" by code_simp+
qed (simp_all add: first_entry_def)

section \<open>Deployments\<close>

text \<open>C29. The calls of a deployment. Every target is staged before any is activated; the targets are
  then activated and verified in their order; when a step fails, exactly the staged targets are
  rolled back, each once, from the last to the first, and nothing follows. Success means that
  every target was verified with three successful checks over thirty seconds. Only a target that
  is incomplete ends the workflow without a rollback.\<close>

theorem deployment_calls:
  assumes "run_state (DeployInOrder targets requests) s = (r, s')"
  shows "\<exists>new. s' = s @ new \<and> deploy_trace (map nd_Name targets) r (map step_of new)"
  using wpD [OF wp_DeployInOrder [where Q = "\<lambda>r s'. \<exists>new. s' = s @ new \<and>
    deploy_trace (map nd_Name targets) r (map step_of new)"] assms] by blast

theorem deployment_calls_witness:
  "deploy_trace [''web'', ''api''] (Inl (DeploymentFailure ''activating'' ''web'' [''api'', ''web'']))
    [Stages ''web'', Stages ''api'', Activates ''web'', Rolls_Back ''api'', Rolls_Back ''web'']"
  using deployment_calls [OF broken_deployment] by (simp add: deploy_targets_def)

section \<open>Revocation\<close>

lemma stringContains_member: "stringContains values w \<Longrightarrow> w \<in> set values"
  unfolding stringContains_def Let_def by (metis nth_mem set_sort_strings)

text \<open>C30. What must hold before the old credential is revoked: the operation is in its revoking state
  with a new record revision above the old one and the digest of its health evidence; its grace
  period lies after its creation and is over; the policy is the one the operation was planned
  under, signed and not expired, and it names the target, the credential class, the provider's
  identity and the operation of the request.\<close>

theorem revocation_safe:
  assumes "RevocationAllowed g c op b recordRevision healthDigest now p = None"
  shows "lo_State op = StateRevoking \<and>
    1 \<le> lo_PreviousRecordRevision op \<and> lo_PreviousRecordRevision op < recordRevision \<and>
    lo_NewRecordRevision op = recordRevision \<and>
    lo_HealthEvidenceDigest op = healthDigest \<and> digest_pattern healthDigest \<and>
    (\<exists>created grace. parse_canonical (lo_CreatedAt op) = Some created \<and>
      parse_rfc3339 (lo_GraceEndsAt op) = Some grace \<and> created * second \<le> grace \<and> grace \<le> now) \<and>
    lo_PolicyDigest op = policy_Digest c p \<and> policy_signature_ok c p \<and> policy_expiry_ok p now \<and>
    lo_VaultID op = ap_VaultID p \<and> lo_Bundle op = ap_Bundle p \<and> lo_ManifestDigest op = ap_ManifestDigest p \<and>
    lo_Target op \<in> set (ap_Targets p) \<and> lo_CredentialClass op \<in> set (CredentialClasses p) \<and>
    map_of (ProviderIdentities p) (lo_Provider op) = Some (lo_ProviderIdentity op) \<and>
    ab_Operation b \<in> set (ap_Operations p)"
proof -
  have bound: "revocation_bound c op b recordRevision healthDigest p"
    and auth: "Authorizes g c p b now = None"
    using assms by (auto simp: RevocationAllowed_def split: if_splits option.splits)
  obtain grace where grace: "parse_rfc3339 (lo_GraceEndsAt op) = Some grace" "grace \<le> now" "lo_GraceEndsAt op \<noteq> []"
    using assms by (auto simp: RevocationAllowed_def split: if_splits option.splits)
  have op: "lo_Validate op = None" "lo_State op = StateRevoking"
    using bound by (auto simp: revocation_bound_def)
  obtain created where created: "parse_canonical (lo_CreatedAt op) = Some created" "lo_progress op created = None"
    using lo_ValidateD(2) [OF op(1)] by blast
  note prog = lo_progressD [OF created(2)]
  have valid: "policy_Validate g c p now = None" and matches: "authorization_matches p b"
    and target: "ab_Target b \<in> set (ap_Targets p)"
    using auth by (auto simp: Authorizes_def list_ex_iff split: option.splits if_splits)
  have "policy_signature_ok c p" "policy_expiry_ok p now"
    using valid by (auto simp: policy_Validate_def split: if_splits)
  moreover have "lo_PreviousRecordRevision op < lo_NewRecordRevision op"
    using prog(1,2) op(2) by (simp add: before_record_def)
  moreover have "digest_pattern (lo_HealthEvidenceDigest op)" using prog(3) op(2) by (simp add: after_health_def)
  moreover have "created * second \<le> grace" using prog(4) grace by auto
  moreover have binding: "lo_binding op" by (rule lo_ValidateD(1) [OF op(1)])
  moreover have "map_of (ProviderIdentities p) (lo_Provider op) = Some (lo_ProviderIdentity op)"
    using matches bound binding
    by (auto simp: authorization_matches_def revocation_bound_def lo_binding_def split: option.splits)
  ultimately show ?thesis
    using bound matches target grace created stringContains_member
    by (auto simp: revocation_bound_def authorization_matches_def lo_binding_def)
qed

theorem revocation_safe_witness:
  "lo_State trial_rotation = StateRevoking \<and> lo_PreviousRecordRevision trial_rotation < 2 \<and>
    ''revoke'' \<in> set (ap_Operations (trial_policy ''revoke''))"
proof -
  have "''revoke'' = ab_Operation (trial_authorization ''revoke'')" by (simp add: trial_authorization_def)
  then show ?thesis using revocation_safe [OF trial_revocation [of "''revoke''"]] by simp
qed

text \<open>
  The word of the request is only looked up in the policy: a policy for nothing but the creation of
  credentials lets one be revoked when the request says \<open>create\<close>.
\<close>

lemma revocation_word_unchecked:
  "\<exists>(g :: go_std) (c :: vault_env) op b n dig now p.
     ap_Operations p = [''create''] \<and> RevocationAllowed g c op b n dig now p = None"
  using trial_revocation [of "''create''"] by (intro exI conjI) (auto simp: trial_policy_def)

section \<open>Leases\<close>

text \<open>
  What is asked of the other devices: they may replace the lease of the bundle, under a larger
  revision, and do not remove it.
\<close>

definition revisions_ok :: "string \<Rightarrow> lifecycle_vault \<Rightarrow> bool" where
  "revisions_ok b v \<longleftrightarrow> (case v_leases v b of None \<Rightarrow> True | Some (_, n) \<Rightarrow> 1 \<le> n)"

definition lease_kept :: "string \<Rightarrow> lifecycle_vault \<Rightarrow> lifecycle_vault \<Rightarrow> bool" where
  "lease_kept b v v' \<longleftrightarrow> (case v_leases v b of
     None \<Rightarrow> True
   | Some (l, n) \<Rightarrow> (\<exists>l' n'. v_leases v' b = Some (l', n') \<and> n \<le> n' \<and> (n' = n \<longrightarrow> l' = l)))"

definition keep_leases :: "'e vault_env_scheme \<Rightarrow> string \<Rightarrow> bool" where
  "keep_leases e b \<longleftrightarrow> (\<forall>t v. revisions_ok b v \<longrightarrow>
     revisions_ok b (other_devices e t v) \<and> lease_kept b v (other_devices e t v))"

text \<open>No lease, or one whose time is over.\<close>

definition lease_over :: "int \<Rightarrow> (lease option \<times> int) option \<Rightarrow> bool" where
  "lease_over now entry = (case entry of
     None \<Rightarrow> True
   | Some (None, _) \<Rightarrow> False
   | Some (Some l, _) \<Rightarrow> (case parse_rfc3339 (ls_ExpiresAt l) of None \<Rightarrow> False | Some t \<Rightarrow> t \<le> now))"

text \<open>C32. The lease is exclusive as long as leases are only replaced: if no other device removes the
  lease while \<^verbatim>\<open>AcquireLease\<close> runs, then at the moment of its write the vault held no lease of the
  bundle, or one that had expired when the clock was read; and the new one stands in its place,
  under the next revision.\<close>

theorem lease_exclusive:
  assumes "run_state (AcquireLease e bundle owner ttl) w = (Inr (l, n), w')"
    and "keep_leases e bundle" and "revisions_ok bundle (the_vault w)"
  shows "\<exists>v now. now = clock e (vtick w) \<and> l = new_lease bundle owner now ttl \<and> lease_Validate l = None \<and>
    lease_over now (v_leases v bundle) \<and> revision_of (v_leases v bundle) = n - 1 \<and>
    the_vault w' = v\<lparr>v_leases := (v_leases v)(bundle \<mapsto> (Some l, n))\<rparr>"
proof -
  let ?now = "clock e (vtick w)" and ?l = "new_lease bundle owner (clock e (vtick w)) ttl"
  let ?v1 = "other_devices e (Suc (vtick w)) (the_vault w)"
  let ?v2 = "other_devices e (Suc (Suc (vtick w))) ?v1"
  note ok = AcquireLease_granted [OF assms(1)]
  have v1: "revisions_ok bundle ?v1" using assms(2,3) by (simp add: keep_leases_def)
  then have v2: "revisions_ok bundle ?v2" "lease_kept bundle ?v1 ?v2" using assms(2) by (simp_all add: keep_leases_def)
  obtain expected where x: "lease_Validate ?l = None" "l = ?l"
      "lease_expected ?now (loaded (read_object (fault e (Suc (vtick w))) bundle (v_leases ?v1))) = Inr expected"
      "revision_of (v_leases ?v2 bundle) = expected" "n = expected + 1"
      "the_vault w' = ?v2\<lparr>v_leases := (v_leases ?v2)(bundle \<mapsto> (Some l, n))\<rparr>"
    using assms(1) ok
    by (auto simp: run_AcquireLease Let_def write_object_def split: option.splits sum.splits if_splits)
  have "lease_over ?now (v_leases ?v2 bundle)"
  proof (cases "loaded (read_object (fault e (Suc (vtick w))) bundle (v_leases ?v1))")
    case (Inl err)
    then have "revision_of (v_leases ?v2 bundle) = 0" using x(3,4) by (simp add: lease_expected_def)
    then have "v_leases ?v2 bundle = None" using v2(1) by (auto simp: revisions_ok_def revision_of_def split: option.splits)
    then show ?thesis by (simp add: lease_over_def)
  next
    case (Inr cur)
    obtain k m where cur: "cur = (k, m)" by (cases cur)
    then have read: "v_leases ?v1 bundle = Some (Some k, m)"
      using Inr by (auto simp: loaded_def read_object_def split: if_splits option.splits)
    then obtain l' m' where "v_leases ?v2 bundle = Some (l', m')" "m' = m \<longrightarrow> l' = Some k"
      using v2(2) by (auto simp: lease_kept_def)
    moreover have over: "lease_over ?now (Some (Some k, m))" and "expected = m"
      using x(3) by (auto simp: Inr cur lease_expected_def lease_over_def split: option.splits if_splits)
    ultimately have "v_leases ?v2 bundle = Some (Some k, m)" using x(4) by (simp add: revision_of_def)
    with over show ?thesis by simp
  qed
  with x show ?thesis by (intro exI [of _ ?v2] exI [of _ ?now]) auto
qed

lemma alone_keeps: "keep_leases (vault_at t alone) b"
  by (auto simp: keep_leases_def alone_def lease_kept_def split: option.splits)

theorem lease_exclusive_witness:
  "\<exists>v :: lifecycle_vault. lease_over (trial_time * second) (v_leases v ''app'') \<and> revision_of (v_leases v ''app'') = 0"
proof -
  have w: "revisions_ok ''app'' (the_vault (leases_world None))" by (simp add: revisions_ok_def leases_world_def)
  have run: "run_state (AcquireLease (vault_at trial_time alone) ''app'' ''c'' (10 * minute)) (leases_world None) =
      (Inr (lease_of ''c'' trial_time, 1), \<lparr>the_vault = the_vault (leases_world (Some (Some (lease_of ''c'' trial_time), 1))),
       vtick = Suc (Suc (Suc (vtick (leases_world None))))\<rparr>)"
    by (rule acquire_free) simp_all
  show ?thesis using lease_exclusive [OF run alone_keeps w] by auto
qed

text \<open>A lease whose time is not over.\<close>

definition lease_live :: "int \<Rightarrow> lease \<Rightarrow> bool" where
  "lease_live now l \<longleftrightarrow> (case parse_rfc3339 (ls_ExpiresAt l) of None \<Rightarrow> False | Some t \<Rightarrow> now < t)"

text \<open>C17. With a release in between it is not exclusive: revisions start again at 1 when an object has
  been deleted. Worker \<open>b\<close> takes the lease of an empty vault and lets it expire; worker \<open>a\<close> reads that
  lease; \<open>b\<close> releases it and \<open>c\<close> takes a new one; then the write of \<open>a\<close>, which expects revision 1,
  is accepted. Both \<open>a\<close> and \<open>c\<close> have been granted a lease of the bundle that is still running.\<close>

theorem lease_exclusion_broken:
  "\<exists>(eb :: vault_env) (ec :: vault_env) (ea :: vault_env) w0 wb wb' wc wa lb la lc now.
     run_state (AcquireLease eb ''app'' ''b'' (10 * minute)) w0 = (Inr (lb, 1), wb) \<and>
     wb' = wb\<lparr>vtick := 0\<rparr> \<and>
     run_state (do { r \<leftarrow> ReleaseLease ec lb 1; AcquireLease ec ''app'' ''c'' (10 * minute) }) wb' = (Inr (lc, 1), wc) \<and>
     other_devices ea = (\<lambda>t v. if t = 2 then the_vault wc else v) \<and>
     run_state (AcquireLease ea ''app'' ''a'' (10 * minute)) wb' = (Inr (la, 2), wa) \<and>
     clock ea 0 = now \<and> (\<forall>t. clock ec t = now) \<and> lease_live now la \<and> lease_live now lc"
proof -
  let ?b = "lease_of ''b'' (trial_time - 3600)"
  let ?wb = "leases_world (Some (Some ?b, 1))"
  have b: "run_state (AcquireLease (vault_at (trial_time - 3600) alone) ''app'' ''b'' (10 * minute)) (leases_world None) =
      (Inr (?b, 1), ?wb\<lparr>vtick := 3\<rparr>)"
    by (subst acquire_free) (simp_all add: leases_world_def numeral_3_eq_3)
  have c: "run_state (do { r \<leftarrow> ReleaseLease (vault_at trial_time alone) ?b 1;
        AcquireLease (vault_at trial_time alone) ''app'' ''c'' (10 * minute) }) ?wb =
      (Inr (lease_of ''c'' trial_time, 1), \<lparr>the_vault = the_vault (leases_world (Some (Some (lease_of ''c'' trial_time), 1))), vtick = 5\<rparr>)"
    by (simp add: release_held acquire_free)
  have live: "lease_live (trial_time * second) (lease_of owner trial_time)" for owner
    by (simp add: lease_live_def lease_of_expiry second_def)
  have reset: "?wb = ?wb\<lparr>vtick := 3\<rparr>\<lparr>vtick := 0\<rparr>" by (simp add: leases_world_def)
  show ?thesis
    by (rule exI [of _ "vault_at (trial_time - 3600) alone"], rule exI [of _ "vault_at trial_time alone"],
        rule exI [of _ "vault_at trial_time meanwhile"], intro exI conjI, rule b, rule reset, rule c, simp add: meanwhile_def fun_eq_iff,
        rule acquire_meanwhile)
      (simp, simp, rule live, rule live)
qed

section \<open>The store\<close>

text \<open>A write to the vault is a put of the optimistic store.\<close>

lemma write_object_optimistic:
  assumes "write_object fails lost key x expected m = (r, m')"
  shows "optimistic_put m key x expected r m'"
  using assms by (auto simp: write_object_def optimistic_put_def split: if_splits)

end
