(* ===== verification/Fill_Gate.thy ===== *)
theory Fill_Gate
  imports Go_Text "HOL-Library.Word"
begin

text \<open>
  The gate between observations of the screen and protected filling, \<^verbatim>\<open>pkg/protectedfill/gate.go\<close>.
  Each definition is one critical section of the gate's mutex, a function of the gate, the latch
  file and the system calls that fail. \<^verbatim>\<open>context.Context\<close> values are numbers; a function that
  cancels contexts returns them.
\<close>

section \<open>The latch file\<close>

text \<open>\<open>latch\<close> is what processes see, \<open>synced\<close> that it is on stable storage.\<close>

record latch_disk =
  latch :: bool
  synced :: bool

datatype io_call =
    Make_Directory | Stat_Directory | Open_Lock | Take_Lock | Stat_Latch
  | Open_Latch | Write_Latch | Sync_Latch | Close_Latch | Sync_Directory | Remove_Latch | Restore_Latch
  | Close_Lock

section \<open>The gate\<close>

record gate =
  blocked :: bool
  closed :: bool
  epoch :: "64 word"
  next_id :: "64 word"
  pending :: "(64 word \<times> nat) list"
  activeCancel :: "nat option"
  lock_held :: bool

definition new_gate :: "bool \<Rightarrow> gate" where
  "new_gate b = \<lparr>blocked = b, closed = False, epoch = 0, next_id = 0, pending = [], activeCancel = None,
     lock_held = True\<rparr>"

text \<open>\<open>taken\<close> says that another process holds the lock of the directory.\<close>

definition OpenGate :: "(io_call \<Rightarrow> bool) \<Rightarrow> bool \<Rightarrow> bool \<Rightarrow> bool \<Rightarrow> latch_disk \<Rightarrow> string + gate" where
  "OpenGate fails absolute private taken d =
     (if \<not> absolute then Inl ''GATE_DIRECTORY_REQUIRED''
      else if fails Make_Directory then Inl ''GATE_STORAGE_UNAVAILABLE''
      else if fails Stat_Directory \<or> \<not> private then Inl ''GATE_PRIVATE_DIRECTORY_REQUIRED''
      else if fails Open_Lock then Inl ''GATE_STORAGE_UNAVAILABLE''
      else if taken \<or> fails Take_Lock then Inl ''GATE_AUTHORITY_ALREADY_RUNNING''
      else if fails Stat_Latch then Inl ''GATE_STORAGE_UNAVAILABLE''
      else Inr (new_gate (latch d)))"

definition Blocked :: "gate \<Rightarrow> bool" where
  "Blocked g \<longleftrightarrow> blocked g \<or> closed g"

definition wipe :: "bytes \<Rightarrow> bytes" where
  "wipe value = map (\<lambda>_. CHR 0x00) value"

section \<open>Observations\<close>

text \<open>The part of \<^verbatim>\<open>Observe\<close> before the capture: the epoch and the number of the capture.\<close>

definition Observe_begin :: "gate \<Rightarrow> nat \<Rightarrow> (64 word \<times> 64 word \<times> gate) option" where
  "Observe_begin g ctx =
     (if blocked g \<or> closed g then None
      else (let i = next_id g + 1 in
        Some (epoch g, i, g\<lparr>next_id := i, pending := (i, ctx) # filter (\<lambda>(j, _). j \<noteq> i) (pending g)\<rparr>)))"

datatype observed = Observed bytes | ErrBlocked | CAPTURE_FAILED

text \<open>
  The part after it: \<open>value\<close> is what the capture returned, \<open>failed\<close> that it returned an error or
  panicked, \<open>cancelled\<close> that its context is done. The last component is the captured buffer.
\<close>

definition Observe_end ::
  "gate \<Rightarrow> 64 word \<Rightarrow> 64 word \<Rightarrow> bytes \<Rightarrow> bool \<Rightarrow> bool \<Rightarrow> gate \<times> observed \<times> bytes" where
  "Observe_end g started i value failed cancelled =
     (let g = g\<lparr>pending := filter (\<lambda>(j, _). j \<noteq> i) (pending g)\<rparr> in
      if blocked g \<or> closed g \<or> started \<noteq> epoch g then (g, ErrBlocked, wipe value)
      else if failed \<or> cancelled then (g, CAPTURE_FAILED, wipe value)
      else (g, Observed value, value))"

section \<open>Blocking and resuming\<close>

text \<open>The directory is synchronised only when the file was written, synchronised and closed.\<close>

definition latch_written :: "(io_call \<Rightarrow> bool) \<Rightarrow> bool" where
  "latch_written fails \<longleftrightarrow> \<not> fails Write_Latch \<and> \<not> fails Sync_Latch \<and> \<not> fails Close_Latch \<and> \<not> fails Sync_Directory"

text \<open>The file is created exclusively. The gate stays blocked when that fails.\<close>

definition gate_begin ::
  "(io_call \<Rightarrow> bool) \<Rightarrow> gate \<Rightarrow> latch_disk \<Rightarrow> (gate \<times> latch_disk \<times> nat list) \<times> bool" where
  "gate_begin fails g d =
     (if blocked g \<or> closed g then ((g, d, []), False)
      else (let g = g\<lparr>blocked := True, epoch := epoch g + 1\<rparr>; cancels = map snd (pending g) in
        if fails Open_Latch \<or> latch d then ((g, d, cancels), False)
        else ((g, \<lparr>latch = True, synced = latch_written fails\<rparr>, cancels), latch_written fails)))"

definition gate_resume :: "(io_call \<Rightarrow> bool) \<Rightarrow> gate \<Rightarrow> latch_disk \<Rightarrow> (gate \<times> latch_disk) \<times> bool" where
  "gate_resume fails g d =
     (if closed g \<or> \<not> blocked g then ((g, d), False)
      else if fails Remove_Latch \<or> \<not> latch d then ((g, d), False)
      else if fails Sync_Directory then ((g, \<lparr>latch = (\<not> fails Restore_Latch), synced = False\<rparr>), False)
      else ((g\<lparr>epoch := epoch g + 1, blocked := False\<rparr>, \<lparr>latch = False, synced = True\<rparr>), True))"

section \<open>Closing\<close>

text \<open>The two critical sections of \<^verbatim>\<open>Close\<close>; \<open>busy\<close> says that an operation holds its mutex.\<close>

definition Close_begin :: "gate \<Rightarrow> gate \<times> nat list" where
  "Close_begin g =
     (if \<not> lock_held g then (g, [])
      else (g\<lparr>closed := True, epoch := epoch g + 1\<rparr>,
        map snd (pending g) @ (case activeCancel g of None \<Rightarrow> [] | Some c \<Rightarrow> [c])))"

definition Close_end :: "(io_call \<Rightarrow> bool) \<Rightarrow> bool \<Rightarrow> gate \<Rightarrow> gate \<times> string option" where
  "Close_end fails busy g =
     (if busy then (g, Some ''OPERATION_STILL_RUNNING'')
      else if \<not> lock_held g then (g, None)
      else (g\<lparr>lock_held := False\<rparr>, if fails Close_Lock then Some ''close'' else None))"

definition bindOperation :: "nat \<Rightarrow> gate \<Rightarrow> gate \<times> nat list" where
  "bindOperation ctx g = (g\<lparr>activeCancel := Some ctx\<rparr>, if closed g then [ctx] else [])"

definition unbindOperation :: "gate \<Rightarrow> gate" where
  "unbindOperation g = g\<lparr>activeCancel := None\<rparr>"

section \<open>Facts of the operations\<close>

lemma OpenGate_Inr: "OpenGate fails absolute private taken d = Inr g \<Longrightarrow> \<not> taken \<and> g = new_gate (latch d)"
  by (auto simp: OpenGate_def split: if_splits)

text \<open>
  Captures and the binding of an operation keep what the gate stands for.
\<close>

definition gate_step :: "gate \<Rightarrow> gate \<Rightarrow> bool" where
  "gate_step g g' \<longleftrightarrow> blocked g' = blocked g \<and> closed g' = closed g \<and> epoch g' = epoch g \<and>
     lock_held g' = lock_held g"

lemma gate_step_simps [simp]:
  "Observe_begin g ctx = Some (e, i, g') \<Longrightarrow> gate_step g g'"
  "gate_step g (fst (Observe_end g e i v f c))"
  "gate_step g (fst (bindOperation ctx g))"
  "gate_step g (unbindOperation g)"
  by (auto simp: gate_step_def Observe_begin_def Observe_end_def bindOperation_def
      unbindOperation_def Let_def split: if_splits)

lemma Observe_end_Observed:
  "fst (snd (Observe_end g started i value failed cancelled)) = Observed v \<Longrightarrow>
     \<not> Blocked g \<and> started = epoch g \<and> v = value"
  by (auto simp: Observe_end_def Blocked_def Let_def split: if_splits)

text \<open>A capture that is not published is erased.\<close>

lemma Observe_end_wiped:
  assumes "Observe_end g started i value failed cancelled = (g', r, buffer)"
  shows "r = Observed value \<and> buffer = value \<or> (\<forall>v. r \<noteq> Observed v) \<and> set buffer \<subseteq> {CHR 0x00}"
  using assms by (auto simp: Observe_end_def wipe_def Let_def split: if_splits)

end
