(* ===== verification/Browser_Origin.thy ===== *)
theory Browser_Origin
  imports Rollout_Plan Contract_Types
begin

text \<open>
  Origins a secret may be filled into, \<^verbatim>\<open>internal/browser/origin.go\<close>. The parsed URL of \<^verbatim>\<open>url.Parse\<close>,
  \<^verbatim>\<open>strings.ToLower\<close>, \<^verbatim>\<open>strings.EqualFold\<close> and \<^verbatim>\<open>net.ParseIP\<close> with \<^verbatim>\<open>IsLoopback\<close> are the record
  \<open>browser_std\<close>, a parameter. Host and port of a URL are taken apart as \<^verbatim>\<open>net/url\<close> does.
\<close>

record origin_url = url +
  url_Opaque :: string

record browser_std =
  parse_url :: "string \<Rightarrow> origin_url option"
  to_lower :: "string \<Rightarrow> string"
  equal_fold :: "string \<Rightarrow> string \<Rightarrow> bool"
  loopback_ip :: "string \<Rightarrow> bool"

section \<open>Host and port\<close>

text \<open>The text before the last colon and the text from it on.\<close>

definition last_colon :: "string \<Rightarrow> (string \<times> string) option" where
  "last_colon s =
     (let tail = takeWhile (\<lambda>c. c \<noteq> CHR '':'') (rev s); rest = drop (length tail) (rev s)
      in if rest = [] then None else Some (rev (tl rest), CHR '':'' # rev tail))"

definition strip_brackets :: "string \<Rightarrow> string" where
  "strip_brackets h = (if has_prefix ''['' h \<and> has_suffix '']'' h then butlast (tl h) else h)"

text \<open>A port is a colon and digits, possibly none.\<close>

definition split_host_port :: "string \<Rightarrow> string \<times> string" where
  "split_host_port s =
     (case last_colon s of
        None \<Rightarrow> (strip_brackets s, [])
      | Some (h, p) \<Rightarrow> if list_all is_digit (tl p) then (strip_brackets h, tl p) else (strip_brackets s, []))"

definition url_hostname :: "'u url_scheme \<Rightarrow> string" where
  "url_hostname u = fst (split_host_port (url_Host u))"

definition url_port :: "'u url_scheme \<Rightarrow> string" where
  "url_port u = snd (split_host_port (url_Host u))"

definition join_host_port :: "string \<Rightarrow> string \<Rightarrow> string" where
  "join_host_port h p = (if CHR '':'' \<in> set h then ''['' @ h @ '']:'' @ p else h @ '':'' @ p)"

section \<open>Normal forms\<close>

definition isLoopbackHost :: "'b browser_std_scheme \<Rightarrow> string \<Rightarrow> bool" where
  "isLoopbackHost b host \<longleftrightarrow> host = ''localhost'' \<or> has_suffix ''.localhost'' host \<or> loopback_ip b host"

definition asciiHost :: "string \<Rightarrow> bool" where
  "asciiHost host \<longleftrightarrow> list_all (\<lambda>c. c = CHR ''.'' \<or> c = CHR ''-'' \<or> c = CHR '':'' \<or> is_digit c \<or> is_lower c) host"

definition not_plain_origin :: "origin_url \<Rightarrow> bool" where
  "not_plain_origin u \<longleftrightarrow> url_Opaque u \<noteq> [] \<or> url_has_user u \<or> url_RawQuery u \<noteq> [] \<or> url_Fragment u \<noteq> [] \<or>
     url_Path u \<noteq> []"

definition default_port :: "string \<Rightarrow> string \<Rightarrow> bool" where
  "default_port scheme port \<longleftrightarrow> scheme = ''https'' \<and> port = ''443'' \<or> scheme = ''http'' \<and> port = ''80''"

definition origin_host :: "string \<Rightarrow> string \<Rightarrow> string" where
  "origin_host hostname port =
     (if port \<noteq> [] then join_host_port hostname port
      else if CHR '':'' \<in> set hostname then ''['' @ hostname @ '']'' else hostname)"

definition NormalizeOrigin :: "'b browser_std_scheme \<Rightarrow> string \<Rightarrow> string + string" where
  "NormalizeOrigin b raw =
     (if raw = [] \<or> trim_space raw \<noteq> raw
      then Inl ''origin must be an exact HTTPS origin or loopback HTTP origin''
      else case parse_url b raw of
        None \<Rightarrow> Inl ''origin must not contain credentials, a path, query, or fragment''
      | Some u \<Rightarrow>
          if not_plain_origin u then Inl ''origin must not contain credentials, a path, query, or fragment''
          else (let scheme = to_lower b (url_Scheme u); hostname = to_lower b (url_hostname u); port = url_port u in
            if hostname = [] \<or> CHR ''*'' \<in> set hostname \<or> CHR ''%'' \<in> set hostname
            then Inl ''origin must contain an exact host without wildcards or zones''
            else if \<not> asciiHost hostname then Inl ''origin host must be ASCII''
            else if url_Host u \<noteq> hostname \<and> \<not> has_prefix ''['' (url_Host u) \<and> port = [] \<and>
              \<not> equal_fold b (url_Host u) hostname
            then Inl ''origin has an invalid port''
            else if scheme = ''http'' \<and> \<not> isLoopbackHost b hostname
            then Inl ''HTTP browser origins are limited to loopback hosts''
            else if scheme \<noteq> ''http'' \<and> scheme \<noteq> ''https''
            then Inl ''origin must use HTTPS, or HTTP on a loopback host''
            else Inr (scheme @ ''://'' @ origin_host hostname (if default_port scheme port then [] else port))))"

section \<open>Allowlists\<close>

definition ContainsOrigin :: "string list \<Rightarrow> string \<Rightarrow> bool" where
  "ContainsOrigin origins x = list_ex (\<lambda>allowed. allowed = x) origins"

definition AddOrigin :: "string list \<Rightarrow> string \<Rightarrow> string list \<times> bool" where
  "AddOrigin origins x =
     (if ContainsOrigin origins x then (origins, False) else (sort_strings (origins @ [x]), True))"

definition RemoveOrigin :: "string list \<Rightarrow> string \<Rightarrow> string list \<times> bool" where
  "RemoveOrigin origins x = (filter (\<lambda>allowed. allowed \<noteq> x) origins, ContainsOrigin origins x)"

section \<open>What is accepted\<close>

text \<open>An origin is HTTPS, or HTTP of a loopback host, and its host has only plain characters.\<close>

lemma NormalizeOrigin_secure:
  assumes "NormalizeOrigin b raw = Inr x"
  shows "\<exists>u. parse_url b raw = Some u \<and> asciiHost (to_lower b (url_hostname u)) \<and>
    (to_lower b (url_Scheme u) = ''https'' \<or>
      to_lower b (url_Scheme u) = ''http'' \<and> isLoopbackHost b (to_lower b (url_hostname u))) \<and>
    has_prefix (to_lower b (url_Scheme u) @ ''://'') x"
  using assms by (auto simp: NormalizeOrigin_def Let_def has_prefix_iff split: if_splits option.splits)

lemma ContainsOrigin_member: "ContainsOrigin origins x \<longleftrightarrow> x \<in> set origins"
  by (auto simp: ContainsOrigin_def list_ex_iff)

lemma AddOrigin_contains: "ContainsOrigin (fst (AddOrigin origins x)) y \<longleftrightarrow> y = x \<or> ContainsOrigin origins y"
  by (auto simp: AddOrigin_def ContainsOrigin_member)

lemma RemoveOrigin_contains:
  "ContainsOrigin (fst (RemoveOrigin origins x)) y \<longleftrightarrow> y \<noteq> x \<and> ContainsOrigin origins y"
  by (auto simp: RemoveOrigin_def ContainsOrigin_member)

end
