(* ===== verification/Fill_Operation.thy ===== *)
theory Fill_Operation
  imports Fill_Gate Browser_Origin
begin

text \<open>
  The protected operation, \<^verbatim>\<open>pkg/protectedfill/operation.go\<close>: \<^verbatim>\<open>Coordinator.Run\<close> and \<^verbatim>\<open>Recover\<close> as
  programs of steps, one step for each critical section of the gate and each call of the driver
  or the reader. Between two steps anything else may happen.
\<close>

section \<open>Targets\<close>

record fill_target =
  ft_Record :: string
  ft_Context :: string
  ft_Document :: string
  ft_Field :: string
  ft_Submit :: string
  ft_Origin :: string

definition handle_char :: "char \<Rightarrow> bool" where
  "handle_char c \<longleftrightarrow> is_lower c \<or> is_upper c \<or> is_digit c \<or> c = CHR ''-'' \<or> c = CHR ''_''"

definition valid_handle :: "string \<Rightarrow> bool" where
  "valid_handle s \<longleftrightarrow> s \<noteq> [] \<and> length s \<le> 128 \<and> list_all handle_char s"

definition validTarget :: "'b browser_std_scheme \<Rightarrow> fill_target \<Rightarrow> bool" where
  "validTarget b t \<longleftrightarrow>
     (case NormalizeOrigin b (ft_Origin t) of
        Inl _ \<Rightarrow> False
      | Inr x \<Rightarrow> x = ft_Origin t \<and> has_prefix ''https://'' x \<and>
          list_all valid_handle [ft_Record t, ft_Context t, ft_Document t, ft_Field t, ft_Submit t])"

section \<open>Steps\<close>

text \<open>The calls and sections still to come; a string is the status of the receipt so far.\<close>

datatype fill_pc =
    Run_Bind fill_target
  | Run_Begin fill_target
  | Run_Validate fill_target
  | Run_Read fill_target
  | Run_Fill fill_target bytes
  | Run_Destroy fill_target string
  | Run_Resume string
  | Run_Unbind string
  | Recover_Check
  | Recover_Destroy
  | Recover_Resume

text \<open>How a call of the driver or the reader ends.\<close>

datatype outcome = Returns | Fails | Panics_Out

text \<open>
  What a step meets: the failing system calls, how the call ends, what it returns, and whether the
  bounded context is done when the call has returned.
\<close>

record step_env =
  fails :: "io_call \<Rightarrow> bool"
  ends :: outcome
  read_value :: bytes
  attempted :: bool
  expired :: bool

text \<open>What is recorded of the steps of authority number \<open>a\<close>.\<close>

datatype fill_event =
    Began nat
  | Reading nat
  | Filling nat
  | Destroyed nat
  | Resumed nat
  | Closing nat
  | Receipt nat string
  | Recovered nat bool
  | Capture_Started nat nat
  | Capture_Ended nat nat observed

definition failed_closed :: string where "failed_closed = ''FAILED_CONTEXT_CLOSED''"
definition recovery_required :: string where "recovery_required = ''RECOVERY_REQUIRED''"
definition submission_attempted :: string where "submission_attempted = ''SUBMISSION_ATTEMPTED_CONTEXT_CLOSED''"

text \<open>What the reader returned is used only within its bounds.\<close>

definition usable_value :: "step_env \<Rightarrow> bool" where
  "usable_value e \<longleftrightarrow> ends e = Returns \<and> read_value e \<noteq> [] \<and> length (read_value e) \<le> 65536 \<and> \<not> expired e"

type_synonym fill_effect = "(gate \<times> latch_disk \<times> nat list) \<times> fill_event list \<times> fill_pc option"

text \<open>
  One step of the operation of authority \<open>a\<close> with the bounded context \<open>ctx\<close>. \<open>None\<close> ends it and frees the
  operation mutex.
\<close>

fun fill_step :: "step_env \<Rightarrow> nat \<Rightarrow> nat \<Rightarrow> gate \<Rightarrow> latch_disk \<Rightarrow> fill_pc \<Rightarrow> fill_effect" where
  "fill_step e a ctx g d (Run_Bind t) =
     (let (g, cancels) = bindOperation ctx g in ((g, d, cancels), [], Some (Run_Begin t)))"
| "fill_step e a ctx g d (Run_Begin t) =
     (let (x, begun) = gate_begin (fails e) g d; changed = (if Blocked g then [] else [Began a])
      in (x, changed, Some (if begun then Run_Validate t else Run_Unbind recovery_required)))"
| "fill_step e a ctx g d (Run_Validate t) =
     (case ends e of
        Fails \<Rightarrow> ((g, d, []), [], Some (Run_Resume ''TARGET_REJECTED''))
      | Panics_Out \<Rightarrow> ((g, d, []), [], Some (Run_Resume failed_closed))
      | Returns \<Rightarrow> if expired e then ((g, d, []), [], Some (Run_Destroy t failed_closed))
          else ((g, d, []), [Reading a], Some (Run_Read t)))"
| "fill_step e a ctx g d (Run_Read t) =
     (if usable_value e then ((g, d, []), [Filling a], Some (Run_Fill t (read_value e)))
      else ((g, d, []), [], Some (Run_Destroy t failed_closed)))"
| "fill_step e a ctx g d (Run_Fill t value) =
     ((g, d, []), [], Some (Run_Destroy t
        (if ends e = Returns \<and> \<not> expired e \<and> attempted e then submission_attempted else failed_closed)))"
| "fill_step e a ctx g d (Run_Destroy t status) =
     (if ends e = Returns then ((g, d, []), [Destroyed a], Some (Run_Resume status))
      else ((g, d, []), [], Some (Run_Unbind recovery_required)))"
| "fill_step e a ctx g d (Run_Resume status) =
     (let ((g, d), resumed) = gate_resume (fails e) g d
      in ((g, d, []), if resumed then [Resumed a] else [],
        Some (Run_Unbind (if resumed then status else recovery_required))))"
| "fill_step e a ctx g d (Run_Unbind status) = ((unbindOperation g, d, [ctx]), [Receipt a status], None)"
| "fill_step e a ctx g d Recover_Check =
     (if Blocked g then ((g, d, []), [], Some Recover_Destroy) else ((g, d, []), [Recovered a True], None))"
| "fill_step e a ctx g d Recover_Destroy =
     (if ends e = Returns \<and> \<not> expired e then ((g, d, []), [Destroyed a], Some Recover_Resume)
      else ((g, d, [ctx]), [Recovered a False], None))"
| "fill_step e a ctx g d Recover_Resume =
     (let ((g, d), resumed) = gate_resume (fails e) g d
      in ((g, d, [ctx]), (if resumed then [Resumed a] else []) @ [Recovered a resumed], None))"

text \<open>
  The value is decrypted or in a context: from the call of the reader or of the filling until the
  destruction of the contexts. The last such event decides.
\<close>

fun exposure :: "fill_event \<Rightarrow> bool option" where
  "exposure (Reading _) = Some True"
| "exposure (Filling _) = Some True"
| "exposure (Destroyed _) = Some False"
| "exposure _ = None"

definition exposed :: "fill_event list \<Rightarrow> bool" where
  "exposed events = fold (\<lambda>x b. case exposure x of None \<Rightarrow> b | Some c \<Rightarrow> c) events False"

lemma exposed_simps [simp]:
  "exposed [] = False"
  "exposed (events @ [x]) = (case exposure x of None \<Rightarrow> exposed events | Some c \<Rightarrow> c)"
  by (simp_all add: exposed_def split: option.split)

section \<open>The entries\<close>

text \<open>
  \<^verbatim>\<open>Run\<close> up to the operation mutex: a status, or the first step. \<open>busy\<close> says that the mutex is held.
\<close>

definition Run :: "'b browser_std_scheme \<Rightarrow> bool \<Rightarrow> bool \<Rightarrow> bool \<Rightarrow> fill_target \<Rightarrow> string + fill_pc" where
  "Run b configured readable busy t =
     (if \<not> configured then Inl ''HOST_PROTECTION_UNAVAILABLE''
      else if \<not> validTarget b t \<or> \<not> readable then Inl ''TARGET_REJECTED''
      else if busy then Inl ''PROTECTED_OPERATION_BUSY''
      else Inr (Run_Bind t))"

definition Recover :: "bool \<Rightarrow> bool \<Rightarrow> fill_pc option" where
  "Recover configured busy = (if \<not> configured \<or> busy then None else Some Recover_Check)"

definition Available :: "bool \<Rightarrow> gate \<Rightarrow> bool" where
  "Available configured g \<longleftrightarrow> configured \<and> \<not> Blocked g"

end
