(* ===== verification/Fill_System.thy ===== *)
theory Fill_System
  imports Fill_Operation
begin

text \<open>
  The processes that share one gate directory: each has opened the gate, runs captures and at most one
  protected operation at a time, may be closed, or dies; the machine may lose power. A process is an
  \<open>authority\<close> with a number; the steps of all of them are interleaved in every way.
\<close>

section \<open>The system\<close>

text \<open>A capture is known by its context; it keeps the epoch and the number it was given.\<close>

record authority =
  au_gate :: gate
  au_operation :: "(nat \<times> fill_pc) option"
  au_captures :: "(nat \<times> 64 word \<times> 64 word) list"

record fill_system =
  the_disk :: latch_disk
  authorities :: "authority option list"
  next_ctx :: nat
  cancelled :: "nat list"
  events :: "fill_event list"

definition init_system :: fill_system where
  "init_system = \<lparr>the_disk = \<lparr>latch = False, synced = True\<rparr>, authorities = [], next_ctx = 0, cancelled = [],
     events = []\<rparr>"

definition authority_of :: "fill_system \<Rightarrow> nat \<Rightarrow> authority option" where
  "authority_of s a = (if a < length (authorities s) then authorities s ! a else None)"

definition set_authority :: "nat \<Rightarrow> authority \<Rightarrow> fill_system \<Rightarrow> fill_system" where
  "set_authority a au s = s\<lparr>authorities := (authorities s)[a := Some au]\<rparr>"

text \<open>The lock of the directory is held by some process.\<close>

definition lock_taken :: "fill_system \<Rightarrow> bool" where
  "lock_taken s \<longleftrightarrow> list_ex (\<lambda>x. case x of None \<Rightarrow> False | Some au \<Rightarrow> lock_held (au_gate au)) (authorities s)"

definition new_authority :: "gate \<Rightarrow> authority" where
  "new_authority g = \<lparr>au_gate = g, au_operation = None, au_captures = []\<rparr>"

text \<open>The next step of the operation of an authority.\<close>

definition operate :: "step_env \<Rightarrow> nat \<Rightarrow> authority \<Rightarrow> nat \<Rightarrow> fill_pc \<Rightarrow> fill_system \<Rightarrow> fill_system" where
  "operate e a au ctx pc s =
     (let e = e\<lparr>expired := (expired e \<or> ctx \<in> set (cancelled s))\<rparr>;
          ((g, d, cancels), evs, pc') = fill_step e a ctx (au_gate au) (the_disk s) pc
      in set_authority a (au\<lparr>au_gate := g, au_operation := map_option (Pair ctx) pc'\<rparr>)
        (s\<lparr>the_disk := d, cancelled := cancels @ cancelled s, events := events s @ evs\<rparr>))"

text \<open>After a loss of power the file is there as it was synchronised, or anyhow.\<close>

definition survives :: "latch_disk \<Rightarrow> bool \<Rightarrow> latch_disk" where
  "survives d b = (if synced d then d else \<lparr>latch = b, synced = True\<rparr>)"

inductive fill_next :: "browser_std \<Rightarrow> fill_system \<Rightarrow> fill_system \<Rightarrow> bool" for b where
  open_gate: "OpenGate fs absolute private (lock_taken s) (the_disk s) = Inr g \<Longrightarrow>
     fill_next b s (s\<lparr>authorities := authorities s @ [Some (new_authority g)]\<rparr>)"
| capture: "authority_of s a = Some au \<Longrightarrow>
     Observe_begin (au_gate au) (next_ctx s) = Some (started, i, g) \<Longrightarrow>
     fill_next b s (set_authority a
       (au\<lparr>au_gate := g, au_captures := (next_ctx s, started, i) # au_captures au\<rparr>)
       (s\<lparr>next_ctx := Suc (next_ctx s), events := events s @ [Capture_Started a (next_ctx s)]\<rparr>))"
| captured: "authority_of s a = Some au \<Longrightarrow> (h, started, i) \<in> set (au_captures au) \<Longrightarrow>
     Observe_end (au_gate au) started i v failed (done_ctx \<or> h \<in> set (cancelled s)) = (g, r, buffer) \<Longrightarrow>
     fill_next b s (set_authority a
       (au\<lparr>au_gate := g, au_captures := filter (\<lambda>c. fst c \<noteq> h) (au_captures au)\<rparr>)
       (s\<lparr>cancelled := h # cancelled s, events := events s @ [Capture_Ended a h r]\<rparr>))"
| run: "authority_of s a = Some au \<Longrightarrow> Run b configured readable (au_operation au \<noteq> None) t = Inr pc \<Longrightarrow>
     fill_next b s (set_authority a (au\<lparr>au_operation := Some (next_ctx s, pc)\<rparr>)
       (s\<lparr>next_ctx := Suc (next_ctx s)\<rparr>))"
| recover: "authority_of s a = Some au \<Longrightarrow> Recover configured (au_operation au \<noteq> None) = Some pc \<Longrightarrow>
     fill_next b s (set_authority a (au\<lparr>au_operation := Some (next_ctx s, pc)\<rparr>)
       (s\<lparr>next_ctx := Suc (next_ctx s)\<rparr>))"
| operates: "authority_of s a = Some au \<Longrightarrow> au_operation au = Some (ctx, pc) \<Longrightarrow>
     fill_next b s (operate e a au ctx pc s)"
| close_begin: "authority_of s a = Some au \<Longrightarrow> Close_begin (au_gate au) = (g, cancels) \<Longrightarrow>
     lock_held (au_gate au) \<Longrightarrow>
     fill_next b s (set_authority a (au\<lparr>au_gate := g\<rparr>)
       (s\<lparr>cancelled := cancels @ cancelled s, events := events s @ [Closing a]\<rparr>))"
| close_end: "authority_of s a = Some au \<Longrightarrow> closed (au_gate au) \<Longrightarrow>
     Close_end fs (au_operation au \<noteq> None) (au_gate au) = (g, r) \<Longrightarrow>
     fill_next b s (set_authority a (au\<lparr>au_gate := g\<rparr>) s)"
| crash: "fill_next b s (s\<lparr>authorities := (authorities s)[a := None]\<rparr>)"
| power_loss: "fill_next b s (s\<lparr>authorities := map (\<lambda>_. None) (authorities s), the_disk := survives (the_disk s) x\<rparr>)"

inductive fill_reachable :: "browser_std \<Rightarrow> fill_system \<Rightarrow> bool" for b where
  initial: "fill_reachable b init_system"
| reached: "fill_reachable b s \<Longrightarrow> fill_next b s s' \<Longrightarrow> fill_reachable b s'"

section \<open>What is invariant\<close>

text \<open>The operation has blocked the gate and not yet tried to open it.\<close>

fun begun :: "fill_pc \<Rightarrow> bool" where
  "begun (Run_Validate _) = True"
| "begun (Run_Read _) = True"
| "begun (Run_Fill _ _) = True"
| "begun (Run_Destroy _ _) = True"
| "begun (Run_Resume _) = True"
| "begun _ = False"

text \<open>No value is out at these steps, if the authority has the lock.\<close>

fun cleared :: "fill_pc \<Rightarrow> bool" where
  "cleared (Run_Validate _) = True"
| "cleared (Run_Resume _) = True"
| "cleared Recover_Resume = True"
| "cleared _ = False"

fun changed_epoch :: "nat \<Rightarrow> fill_event \<Rightarrow> bool" where
  "changed_epoch a (Began x) = (x = a)"
| "changed_epoch a (Resumed x) = (x = a)"
| "changed_epoch a (Closing x) = (x = a)"
| "changed_epoch a _ = False"

definition changes :: "nat \<Rightarrow> fill_event list \<Rightarrow> nat" where
  "changes a evs = length (filter (changed_epoch a) evs)"

definition latch_durable :: "latch_disk \<Rightarrow> bool" where
  "latch_durable d \<longleftrightarrow> latch d \<and> synced d"

definition operation_ok :: "latch_disk \<Rightarrow> fill_event list \<Rightarrow> authority \<Rightarrow> bool" where
  "operation_ok d evs au \<longleftrightarrow> (case au_operation au of None \<Rightarrow> True | Some (_, pc) \<Rightarrow>
     (begun pc \<longrightarrow> lock_held (au_gate au) \<and> blocked (au_gate au) \<and> latch_durable d) \<and>
     (cleared pc \<longrightarrow> lock_held (au_gate au) \<longrightarrow> \<not> exposed evs))"

definition authority_ok :: "fill_system \<Rightarrow> nat \<Rightarrow> authority \<Rightarrow> bool" where
  "authority_ok s a au \<longleftrightarrow> (\<not> lock_held (au_gate au) \<longrightarrow> closed (au_gate au)) \<and>
     (exposed (events s) \<longrightarrow> Blocked (au_gate au)) \<and>
     operation_ok (the_disk s) (events s) au \<and>
     epoch (au_gate au) = of_nat (changes a (events s))"

definition one_lock :: "fill_system \<Rightarrow> bool" where
  "one_lock s \<longleftrightarrow> (\<forall>a b x y. authority_of s a = Some x \<longrightarrow> authority_of s b = Some y \<longrightarrow>
     lock_held (au_gate x) \<longrightarrow> lock_held (au_gate y) \<longrightarrow> a = b)"

definition fill_ok :: "fill_system \<Rightarrow> bool" where
  "fill_ok s \<longleftrightarrow> one_lock s \<and> (exposed (events s) \<longrightarrow> latch_durable (the_disk s)) \<and>
     (\<forall>a au. authority_of s a = Some au \<longrightarrow> authority_ok s a au) \<and>
     (\<forall>a \<ge> length (authorities s). changes a (events s) = 0)"


section \<open>Every step keeps it\<close>

lemma changes_simps [simp]: "changes a [] = 0" "changes a (x # evs) = (if changed_epoch a x then 1 else 0) + changes a evs"
  "changes a (evs @ evs') = changes a evs + changes a evs'"
  by (simp_all add: changes_def)

lemma authority_of_set [simp]:
  "authority_of s a = Some au \<Longrightarrow> authority_of (set_authority a au' s) b = (if b = a then Some au' else authority_of s b)"
  by (auto simp: authority_of_def set_authority_def split: if_splits)

lemma set_authority_simps [simp]:
  "the_disk (set_authority a au s) = the_disk s" "events (set_authority a au s) = events s"
  "next_ctx (set_authority a au s) = next_ctx s" "cancelled (set_authority a au s) = cancelled s"
  "length (authorities (set_authority a au s)) = length (authorities s)"
  by (simp_all add: set_authority_def)

lemma authority_of_more [simp]:
  "authority_of (s\<lparr>the_disk := d\<rparr>) = authority_of s" "authority_of (s\<lparr>events := evs\<rparr>) = authority_of s"
  "authority_of (s\<lparr>cancelled := c\<rparr>) = authority_of s" "authority_of (s\<lparr>next_ctx := n\<rparr>) = authority_of s"
  by (simp_all add: authority_of_def fun_eq_iff)

text \<open>A step of one authority: only the holder of the lock exposes a value or changes the latch.\<close>

lemma fill_ok_update:
  assumes ok: "fill_ok s" and au: "authority_of s a = Some au" "authority_of s' = (authority_of s)(a \<mapsto> au')"
    and s': "events s' = events s @ new" "length (authorities s') = length (authorities s)"
    and lock: "lock_held (au_gate au') \<Longrightarrow> lock_held (au_gate au)"
    and exposes: "exposed (events s') \<Longrightarrow> exposed (events s) \<or> lock_held (au_gate au)"
    and latches: "the_disk s' = the_disk s \<or> lock_held (au_gate au)"
    and own: "\<And>b. b \<noteq> a \<Longrightarrow> changes b new = 0"
    and a_ok: "exposed (events s') \<longrightarrow> latch_durable (the_disk s')" "authority_ok s' a au'"
  shows "fill_ok s'"
proof -
  note ok = ok [unfolded fill_ok_def]
  have others: "authority_ok s' b x" if b: "b \<noteq> a" "authority_of s b = Some x" for b x
  proof -
    have x: "authority_ok s b x" using ok b by blast
    have alone: "lock_held (au_gate x) \<Longrightarrow> \<not> lock_held (au_gate au)"
      using ok b au(1) unfolding one_lock_def by blast
    have "Blocked (au_gate x)" if "exposed (events s')"
      using exposes [OF that] x alone by (auto simp: authority_ok_def Blocked_def)
    moreover have "operation_ok (the_disk s') (events s') x"
    proof (cases "au_operation x")
      case (Some op)
      obtain c pc where op: "op = (c, pc)" by (cases op)
      have "operation_ok (the_disk s) (events s) x" using x by (simp add: authority_ok_def)
      then show ?thesis
        using alone latches exposes by (auto simp: operation_ok_def Some op)
    qed (simp add: operation_ok_def)
    ultimately show ?thesis
      using x own [OF b(1)] by (simp add: authority_ok_def s'(1))
  qed
  have "one_lock s'"
    using ok au lock unfolding one_lock_def by (auto split: if_splits)
  moreover have "authority_ok s' b x" if "authority_of s' b = Some x" for b x
    using that others a_ok(2) by (auto simp: au(2) split: if_splits)
  moreover have "changes b (events s') = 0" if "length (authorities s') \<le> b" for b
  proof -
    have "b \<noteq> a" using au(1) that s'(2) by (auto simp: authority_of_def split: if_splits)
    then show ?thesis using ok own that s' by simp
  qed
  ultimately show ?thesis using a_ok(1) by (auto simp: fill_ok_def)
qed

lemma exposed_event [simp]: "exposure x = None \<Longrightarrow> exposed (evs @ [x]) = exposed evs"
  by simp

lemma gate_begin_facts:
  assumes "gate_begin fs g d = ((g', d', c), ok)"
  shows "lock_held g' = lock_held g" "closed g' = closed g" "d' = d \<or> \<not> Blocked g" "Blocked g'"
    "epoch g' = epoch g + (if Blocked g then 0 else 1)" "ok \<Longrightarrow> \<not> Blocked g \<and> blocked g' \<and> latch_durable d'"
  using assms by (auto simp: gate_begin_def Blocked_def latch_durable_def Let_def split: if_splits)

lemma gate_resume_facts:
  assumes "gate_resume fs g d = ((g', d'), ok)"
  shows "lock_held g' = lock_held g" "closed g' = closed g" "d' = d \<or> \<not> closed g"
    "epoch g' = epoch g + (if ok then 1 else 0)" "\<not> ok \<Longrightarrow> g' = g" "ok \<Longrightarrow> \<not> closed g"
  using assms by (auto simp: gate_resume_def split: if_splits)

text \<open>One step of an operation, whatever it is.\<close>

definition step_ok :: "nat \<Rightarrow> gate \<Rightarrow> latch_disk \<Rightarrow> fill_event list \<Rightarrow> nat \<Rightarrow> fill_effect \<Rightarrow> bool" where
  "step_ok a g d evs ctx effect = (case effect of ((g', d', _), new, pc') \<Rightarrow>
     lock_held g' = lock_held g \<and> closed g' = closed g \<and> (d' = d \<or> lock_held g) \<and>
     (exposed (evs @ new) \<longrightarrow> (exposed evs \<or> lock_held g) \<and> latch_durable d' \<and> Blocked g') \<and>
     (\<forall>b. b \<noteq> a \<longrightarrow> changes b new = 0) \<and> epoch g' = epoch g + of_nat (changes a new) \<and>
     (\<forall>pc. pc' = Some pc \<longrightarrow> (begun pc \<longrightarrow> lock_held g' \<and> blocked g' \<and> latch_durable d') \<and>
       (cleared pc \<longrightarrow> lock_held g' \<longrightarrow> \<not> exposed (evs @ new))))"

lemma fill_step_ok:
  assumes "\<not> lock_held g \<longrightarrow> closed g" "exposed evs \<longrightarrow> latch_durable d \<and> Blocked g"
    and "begun pc \<longrightarrow> lock_held g \<and> blocked g \<and> latch_durable d" "cleared pc \<longrightarrow> lock_held g \<longrightarrow> \<not> exposed evs"
  shows "step_ok a g d evs ctx (fill_step e a ctx g d pc)"
proof (cases pc)
  case (Run_Begin t)
  obtain g' d' c ok where r: "gate_begin (fails e) g d = ((g', d', c), ok)" by (metis prod.exhaust)
  note f = gate_begin_facts [OF r]
  show ?thesis
    using assms f by (auto simp: Run_Begin step_ok_def r Blocked_def split: if_splits)
next
  case (Run_Resume status)
  obtain g' d' ok where r: "gate_resume (fails e) g d = ((g', d'), ok)" by (metis prod.exhaust)
  note f = gate_resume_facts [OF r]
  show ?thesis
    using assms f by (cases ok) (auto simp: Run_Resume step_ok_def r)
next
  case Recover_Resume
  obtain g' d' ok where r: "gate_resume (fails e) g d = ((g', d'), ok)" by (metis prod.exhaust)
  note f = gate_resume_facts [OF r]
  have "exposed (evs @ [Resumed a, Recovered a True]) = exposed evs" "exposed (evs @ [Recovered a b]) = exposed evs" for b
    by (simp_all add: exposed_def)
  then show ?thesis
    using assms f by (cases ok) (auto simp: Recover_Resume step_ok_def r)
qed (use assms in \<open>auto simp: step_ok_def bindOperation_def unbindOperation_def Blocked_def split: outcome.splits\<close>)


lemma authority_okD:
  assumes "fill_ok s" "authority_of s a = Some au"
  shows "\<not> lock_held (au_gate au) \<longrightarrow> closed (au_gate au)"
    "exposed (events s) \<longrightarrow> latch_durable (the_disk s) \<and> Blocked (au_gate au)"
    "operation_ok (the_disk s) (events s) au" "epoch (au_gate au) = of_nat (changes a (events s))"
  using assms by (auto simp: fill_ok_def authority_ok_def)

lemma authority_ok_same:
  assumes "fill_ok s" "authority_of s a = Some au" and "gate_step (au_gate au) (au_gate au')"
    and "au_operation au' = au_operation au" "the_disk s' = the_disk s"
    and "exposed (events s') = exposed (events s)" "changes a (events s') = changes a (events s)"
  shows "authority_ok s' a au'"
  using authority_okD [OF assms(1,2)] assms(3-)
  by (auto simp: gate_step_def authority_ok_def operation_ok_def Blocked_def split: option.splits)

lemma operate_ok:
  assumes ok: "fill_ok s" and au: "authority_of s a = Some au" "au_operation au = Some (ctx, pc)"
  shows "fill_ok (operate e a au ctx pc s)"
proof -
  let ?e = "e\<lparr>expired := (expired e \<or> ctx \<in> set (cancelled s))\<rparr>"
  obtain g d c new pc' where r: "fill_step ?e a ctx (au_gate au) (the_disk s) pc = ((g, d, c), new, pc')"
    by (metis prod.exhaust)
  note a = authority_okD [OF ok au(1)]
  have step: "step_ok a (au_gate au) (the_disk s) (events s) ctx ((g, d, c), new, pc')"
    unfolding r [symmetric] by (rule fill_step_ok) (use a au(2) in \<open>auto simp: operation_ok_def\<close>)
  show ?thesis
    by (rule fill_ok_update [OF ok au(1), where au' = "au\<lparr>au_gate := g, au_operation := map_option (Pair ctx) pc'\<rparr>" and new = new])
      (use step a au in \<open>auto simp: operate_def r step_ok_def authority_ok_def operation_ok_def fun_eq_iff
        split: option.splits\<close>)
qed

lemma fill_next_ok:
  assumes "fill_next b s s'" and ok: "fill_ok s"
  shows "fill_ok s'"
  using assms(1)
proof cases
  case (open_gate fs absolute priv g)
  have g: "g = new_gate (latch (the_disk s))" and free: "\<not> lock_taken s"
    using OpenGate_Inr [OF open_gate(2)] by auto
  have old: "authority_of s' a = (if a = length (authorities s) then Some (new_authority g) else authority_of s a)" for a
    by (auto simp: open_gate(1) authority_of_def nth_append)
  have "\<not> lock_held (au_gate x)" if "authority_of s a = Some x" for a x
    using free that by (force simp: lock_taken_def authority_of_def list_ex_iff split: if_splits dest: nth_mem)
  then have "one_lock s'" using ok by (auto simp: one_lock_def old)
  moreover have "authority_ok s' a x" if x: "authority_of s' a = Some x" for a x
  proof (cases "a = length (authorities s)")
    case True
    then have "x = new_authority g" using x old by simp
    then show ?thesis
      using ok True by (auto simp: authority_ok_def fill_ok_def open_gate(1) new_authority_def g new_gate_def
          operation_ok_def Blocked_def latch_durable_def)
  next
    case False
    then show ?thesis using x old ok by (simp add: authority_ok_def fill_ok_def open_gate(1))
  qed
  ultimately show ?thesis using ok by (simp add: fill_ok_def open_gate(1))
next
  case (capture a au started i g)
  show ?thesis
    by (rule fill_ok_update [OF ok capture(2), where au' = "au\<lparr>au_gate := g, au_captures := (next_ctx s, started, i) # au_captures au\<rparr>"
          and new = "[Capture_Started a (next_ctx s)]"])
      (use gate_step_simps(1) [OF capture(3)] capture authority_okD [OF ok capture(2)] in
        \<open>auto simp: gate_step_def fun_eq_iff intro!: authority_ok_same [OF ok capture(2)]\<close>)
next
  case (captured a au h started i v failed done_ctx g r buffer)
  have g: "gate_step (au_gate au) g" using gate_step_simps(2) captured(4) by (metis fst_conv)
  show ?thesis
    by (rule fill_ok_update [OF ok captured(2), where au' = "au\<lparr>au_gate := g, au_captures := filter (\<lambda>c. fst c \<noteq> h) (au_captures au)\<rparr>"
          and new = "[Capture_Ended a h r]"])
      (use g captured authority_okD [OF ok captured(2)] in
        \<open>auto simp: gate_step_def fun_eq_iff intro!: authority_ok_same [OF ok captured(2)]\<close>)
next
  case (run a au configured readable t pc)
  have pc: "pc = Run_Bind t" using run(3) by (auto simp: Run_def split: if_splits)
  show ?thesis
    by (rule fill_ok_update [OF ok run(2), where au' = "au\<lparr>au_operation := Some (next_ctx s, pc)\<rparr>" and new = "[]"])
      (use authority_okD [OF ok run(2)] run
        in \<open>auto simp: pc authority_ok_def operation_ok_def fun_eq_iff\<close>)
next
  case (recover a au configured pc)
  have pc: "pc = Recover_Check" using recover(3) by (auto simp: Recover_def split: if_splits)
  show ?thesis
    by (rule fill_ok_update [OF ok recover(2), where au' = "au\<lparr>au_operation := Some (next_ctx s, pc)\<rparr>" and new = "[]"])
      (use authority_okD [OF ok recover(2)] recover
        in \<open>auto simp: pc authority_ok_def operation_ok_def fun_eq_iff\<close>)
next
  case (operates a au ctx pc e)
  show ?thesis unfolding operates(1) by (rule operate_ok [OF ok operates(2,3)])
next
  case (close_begin a au g cancels)
  have g: "lock_held g" "blocked g = blocked (au_gate au)" "closed g" "epoch g = epoch (au_gate au) + 1"
    using close_begin(3,4) by (auto simp: Close_begin_def)
  show ?thesis
    by (rule fill_ok_update [OF ok close_begin(2), where au' = "au\<lparr>au_gate := g\<rparr>" and new = "[Closing a]"])
      (use g authority_okD [OF ok close_begin(2)] close_begin
        in \<open>auto simp: authority_ok_def operation_ok_def fun_eq_iff Blocked_def split: option.splits\<close>)
next
  case (close_end a au fs g r)
  have g: "g = au_gate au \<or> au_operation au = None \<and> g = (au_gate au)\<lparr>lock_held := False\<rparr>"
    using close_end(4) by (auto simp: Close_end_def split: if_splits)
  show ?thesis
    by (rule fill_ok_update [OF ok close_end(2), where au' = "au\<lparr>au_gate := g\<rparr>" and new = "[]"])
      (use g authority_okD [OF ok close_end(2)] close_end(1-3)
        in \<open>auto simp: authority_ok_def operation_ok_def fun_eq_iff Blocked_def split: option.splits\<close>)
next
  case (crash a)
  have x: "authority_of s' c = Some y \<Longrightarrow> authority_of s c = Some y" for c y
    by (cases "c = a") (auto simp: crash authority_of_def split: if_splits)
  have len: "length (authorities s') = length (authorities s)" "events s' = events s" "the_disk s' = the_disk s"
    by (simp_all add: crash)
  have "authority_ok s' c y = authority_ok s c y" for c y by (simp add: authority_ok_def len)
  moreover have "one_lock s'" using ok x unfolding one_lock_def fill_ok_def by blast
  ultimately show ?thesis using ok x by (simp add: fill_ok_def len)
next
  case (power_loss x)
  have "authority_of s' c = None" for c by (simp add: power_loss authority_of_def)
  then show ?thesis
    using ok by (auto simp: fill_ok_def one_lock_def power_loss survives_def latch_durable_def)
qed

lemma fill_reachable_ok: "fill_reachable b s \<Longrightarrow> fill_ok s"
proof (induction rule: fill_reachable.induct)
  case initial
  show ?case by (simp add: fill_ok_def init_system_def one_lock_def authority_of_def)
next
  case (reached s s')
  then show ?case using fill_next_ok by blast
qed

end
