(* ===== verification/Fill_Captures.thy ===== *)
theory Fill_Captures
  imports Fill_System
begin

text \<open>
  What captures have seen: the invariant that a capture whose epoch is still that of the gate has not
  overlapped the time in which a value was out.
\<close>

section \<open>Steps and captures\<close>

definition capture_event :: "fill_event \<Rightarrow> bool" where
  "capture_event x \<longleftrightarrow> (case x of Capture_Started _ _ \<Rightarrow> True | Capture_Ended _ _ _ \<Rightarrow> True | _ \<Rightarrow> False)"

text \<open>Within one step the exposure is that before or that after it.\<close>

definition one_exposure :: "fill_event list \<Rightarrow> fill_event list \<Rightarrow> bool" where
  "one_exposure evs new \<longleftrightarrow> (\<forall>k. exposed (evs @ take k new) \<longrightarrow> exposed evs \<or> exposed (evs @ new))"

lemma one_exposure_short [simp]: "one_exposure evs []" "one_exposure evs [x]"
  by (auto simp: one_exposure_def take_Cons' split: if_splits option.splits)

lemma fill_step_events:
  assumes "fill_step e a ctx g d pc = ((g', d', c), new, pc')"
  shows "list_all (\<lambda>x. \<not> capture_event x) new" "one_exposure evs new"
    "Blocked g' \<Longrightarrow> Blocked g \<or> 0 < changes a new"
proof -
  have "one_exposure evs [Resumed a, Recovered a b]" for b
    by (auto simp: one_exposure_def exposed_def take_Cons')
  then show "one_exposure evs new"
    using assms by (cases pc) (auto split: prod.splits outcome.splits if_splits simp: Let_def)
  show "list_all (\<lambda>x. \<not> capture_event x) new" "Blocked g' \<Longrightarrow> Blocked g \<or> 0 < changes a new"
    using assms by (cases pc; auto simp: capture_event_def Let_def bindOperation_def unbindOperation_def Blocked_def
        dest: gate_begin_facts gate_resume_facts split: prod.splits outcome.splits if_splits)+
qed

text \<open>What a step of the system does to captures.\<close>

definition kept_capture :: "fill_system \<Rightarrow> fill_event list \<Rightarrow> nat \<Rightarrow> authority \<Rightarrow> nat \<times> 64 word \<times> 64 word \<Rightarrow> bool" where
  "kept_capture s new a au' c \<longleftrightarrow> (\<exists>au. authority_of s a = Some au \<and> c \<in> set (au_captures au) \<and>
     (Blocked (au_gate au') \<longrightarrow> Blocked (au_gate au) \<or> 0 < changes a new))"

definition new_capture :: "fill_system \<Rightarrow> fill_event list \<Rightarrow> nat \<Rightarrow> authority \<Rightarrow> nat \<times> 64 word \<times> 64 word \<Rightarrow> bool" where
  "new_capture s new a au' c \<longleftrightarrow> (\<exists>au. authority_of s a = Some au \<and> fst (snd c) = epoch (au_gate au)) \<and>
     new = [Capture_Started a (fst c)] \<and> fst c = next_ctx s \<and> \<not> Blocked (au_gate au')"

definition capture_ends :: "fill_system \<Rightarrow> fill_event list \<Rightarrow> nat \<Rightarrow> nat \<Rightarrow> bool" where
  "capture_ends s new a h \<longleftrightarrow> (\<exists>au started i r. authority_of s a = Some au \<and> (h, started, i) \<in> set (au_captures au) \<and>
     new = [Capture_Ended a h r] \<and> (\<forall>v. r = Observed v \<longrightarrow> \<not> Blocked (au_gate au) \<and> started = epoch (au_gate au)))"

definition step_shape :: "fill_system \<Rightarrow> fill_system \<Rightarrow> fill_event list \<Rightarrow> bool" where
  "step_shape s s' new \<longleftrightarrow> events s' = events s @ new \<and> next_ctx s \<le> next_ctx s' \<and> one_exposure (events s) new \<and>
     (\<forall>a h. Capture_Started a h \<in> set new \<longrightarrow> h = next_ctx s \<and> next_ctx s < next_ctx s') \<and>
     (\<forall>a h r. Capture_Ended a h r \<in> set new \<longrightarrow> capture_ends s new a h) \<and>
     (\<forall>a au' c. authority_of s' a = Some au' \<longrightarrow> c \<in> set (au_captures au') \<longrightarrow>
        kept_capture s new a au' c \<or> new_capture s new a au' c)"

lemma step_shapeI:
  assumes au: "authority_of s a = Some au" "authority_of s' = (authority_of s)(a \<mapsto> au')"
    and "events s' = events s @ new" "next_ctx s \<le> next_ctx s'" "one_exposure (events s) new"
    and "\<And>x h. Capture_Started x h \<in> set new \<Longrightarrow> h = next_ctx s \<and> next_ctx s < next_ctx s'"
    and "\<And>x h r. Capture_Ended x h r \<in> set new \<Longrightarrow> capture_ends s new x h"
    and "\<And>c. c \<in> set (au_captures au') \<Longrightarrow> kept_capture s new a au' c \<or> new_capture s new a au' c"
  shows "step_shape s s' new"
  using assms(3-) by (auto simp: step_shape_def au(2) kept_capture_def split: if_splits)

lemma fill_next_shape:
  assumes "fill_next b s s'"
  shows "\<exists>new. step_shape s s' new"
  using assms
proof cases
  case (open_gate fs absolute priv g)
  have "authority_of s' a = (if a = length (authorities s) then Some (new_authority g) else authority_of s a)" for a
    by (auto simp: open_gate(1) authority_of_def nth_append)
  then have "step_shape s s' []"
    by (auto simp: step_shape_def open_gate(1) kept_capture_def new_authority_def split: if_splits)
  then show ?thesis ..
next
  case (capture a au started i g)
  have "step_shape s s' [Capture_Started a (next_ctx s)]"
    by (rule step_shapeI [OF capture(2), where au' = "au\<lparr>au_gate := g, au_captures := (next_ctx s, started, i) # au_captures au\<rparr>"])
      (use capture in \<open>auto simp: fun_eq_iff kept_capture_def new_capture_def Observe_begin_def Blocked_def Let_def
        split: if_splits\<close>)
  then show ?thesis ..
next
  case (captured a au h started i v failed done_ctx g r buffer)
  have r: "r = Observed x \<Longrightarrow> \<not> Blocked (au_gate au) \<and> started = epoch (au_gate au)" for x
    using Observe_end_Observed captured(4) by (metis fst_conv snd_conv)
  have g: "Blocked g = Blocked (au_gate au)"
    using gate_step_simps(2) [of "au_gate au"] captured(4) by (metis fst_conv gate_step_def Blocked_def)
  have "capture_ends s [Capture_Ended a h r] a h"
    using captured(2,3) r unfolding capture_ends_def by blast
  then have "step_shape s s' [Capture_Ended a h r]"
    by (intro step_shapeI [OF captured(2), where au' = "au\<lparr>au_gate := g, au_captures := filter (\<lambda>c. fst c \<noteq> h) (au_captures au)\<rparr>"])
      (use captured(1,2) g in \<open>auto simp: fun_eq_iff kept_capture_def\<close>)
  then show ?thesis ..
next
  case (run a au configured readable t pc)
  have "step_shape s s' []"
    by (rule step_shapeI [OF run(2), where au' = "au\<lparr>au_operation := Some (next_ctx s, pc)\<rparr>"])
      (use run in \<open>auto simp: fun_eq_iff kept_capture_def\<close>)
  then show ?thesis ..
next
  case (recover a au configured pc)
  have "step_shape s s' []"
    by (rule step_shapeI [OF recover(2), where au' = "au\<lparr>au_operation := Some (next_ctx s, pc)\<rparr>"])
      (use recover in \<open>auto simp: fun_eq_iff kept_capture_def\<close>)
  then show ?thesis ..
next
  case (operates a au ctx pc e)
  let ?e = "e\<lparr>expired := (expired e \<or> ctx \<in> set (cancelled s))\<rparr>"
  obtain g d c new pc' where r: "fill_step ?e a ctx (au_gate au) (the_disk s) pc = ((g, d, c), new, pc')"
    by (metis prod.exhaust)
  note f = fill_step_events [OF r]
  have "step_shape s s' new"
    by (rule step_shapeI [OF operates(2), where au' = "au\<lparr>au_gate := g, au_operation := map_option (Pair ctx) pc'\<rparr>"])
      (use f operates in \<open>auto simp: operate_def r fun_eq_iff kept_capture_def capture_event_def list_all_iff\<close>)
  then show ?thesis ..
next
  case (close_begin a au g cancels)
  have "step_shape s s' [Closing a]"
    by (rule step_shapeI [OF close_begin(2), where au' = "au\<lparr>au_gate := g\<rparr>"])
      (use close_begin in \<open>auto simp: fun_eq_iff kept_capture_def\<close>)
  then show ?thesis ..
next
  case (close_end a au fs g r)
  have "Blocked g = Blocked (au_gate au)" using close_end(4) by (auto simp: Close_end_def Blocked_def split: if_splits)
  then have "step_shape s s' []"
    by (intro step_shapeI [OF close_end(2), where au' = "au\<lparr>au_gate := g\<rparr>"])
      (use close_end(1,2) in \<open>auto simp: fun_eq_iff kept_capture_def\<close>)
  then show ?thesis ..
next
  case (crash a)
  have "authority_of s' c = Some y \<Longrightarrow> authority_of s c = Some y" for c y
    by (cases "c = a") (auto simp: crash authority_of_def split: if_splits)
  then have "step_shape s s' []" by (auto simp: step_shape_def crash kept_capture_def)
  then show ?thesis ..
next
  case (power_loss x)
  have "authority_of s' c = None" for c by (simp add: power_loss authority_of_def)
  then have "step_shape s s' []" by (auto simp: step_shape_def power_loss)
  then show ?thesis ..
qed


section \<open>What captures have seen\<close>

text \<open>The value was not out at the start of the capture nor at any time \<open>during\<close> it.\<close>

definition quiet :: "fill_event list \<Rightarrow> nat \<Rightarrow> nat \<Rightarrow> fill_event list \<Rightarrow> bool" where
  "quiet before a h during \<longleftrightarrow>
     (\<forall>k \<le> length during. \<not> exposed (before @ Capture_Started a h # take k during))"

definition capture_ok :: "fill_system \<Rightarrow> nat \<Rightarrow> authority \<Rightarrow> nat \<times> 64 word \<times> 64 word \<Rightarrow> bool" where
  "capture_ok s a au c \<longleftrightarrow> fst c < next_ctx s \<and>
     (\<forall>before during. events s = before @ Capture_Started a (fst c) # during \<longrightarrow>
        fst (snd c) = of_nat (changes a before) \<and>
        (changes a during = 0 \<longrightarrow> \<not> Blocked (au_gate au) \<and> quiet before a (fst c) during))"

definition captures_ok :: "fill_system \<Rightarrow> bool" where
  "captures_ok s \<longleftrightarrow> (\<forall>a h. Capture_Started a h \<in> set (events s) \<longrightarrow> h < next_ctx s) \<and>
     (\<forall>a au. authority_of s a = Some au \<longrightarrow> (\<forall>c \<in> set (au_captures au). capture_ok s a au c))"

definition published_ok :: "fill_system \<Rightarrow> bool" where
  "published_ok s \<longleftrightarrow> (\<forall>before a h during v later. length (events s) < 2 ^ 64 \<longrightarrow>
     events s = before @ Capture_Started a h # during @ Capture_Ended a h (Observed v) # later \<longrightarrow>
     quiet before a h during)"

lemma not_exposed_open: "fill_ok s \<Longrightarrow> authority_of s a = Some au \<Longrightarrow> \<not> Blocked (au_gate au) \<Longrightarrow> \<not> exposed (events s)"
  using authority_okD(2) by blast

text \<open>An element of a list with a suffix stands in the list or in the suffix.\<close>

lemma append_eq_mid:
  assumes "xs @ ys = as @ z # bs" "z \<notin> set ys"
  shows "\<exists>cs. xs = as @ z # cs \<and> bs = cs @ ys"
  using assms by (auto simp: append_eq_append_conv2 append_eq_Cons_conv Cons_eq_append_conv)

lemma capture_ok_kept:
  assumes ok: "fill_ok s" "fill_ok s'" and shape: "step_shape s s' new" and cap: "captures_ok s"
    and au': "authority_of s' a = Some au'" and c: "kept_capture s new a au' c"
  shows "capture_ok s' a au' c"
proof -
  obtain au where au: "authority_of s a = Some au" "c \<in> set (au_captures au)"
      "Blocked (au_gate au') \<Longrightarrow> Blocked (au_gate au) \<or> 0 < changes a new"
    using c by (auto simp: kept_capture_def)
  have old: "capture_ok s a au c" using cap au by (auto simp: captures_ok_def)
  have evs: "events s' = events s @ new" "next_ctx s \<le> next_ctx s'" "one_exposure (events s) new"
    using shape by (auto simp: step_shape_def)
  have "Capture_Started a (fst c) \<notin> set new"
    using old shape by (auto simp: capture_ok_def step_shape_def)
  then have split: "events s' = before @ Capture_Started a (fst c) # during \<Longrightarrow>
      \<exists>mid. events s = before @ Capture_Started a (fst c) # mid \<and> during = mid @ new" for before during
    using append_eq_mid [of "events s" new before "Capture_Started a (fst c)" during] evs by simp
  have "fst (snd c) = of_nat (changes a before) \<and>
      (changes a during = 0 \<longrightarrow> \<not> Blocked (au_gate au') \<and> quiet before a (fst c) during)"
    if e: "events s' = before @ Capture_Started a (fst c) # during" for before during
  proof -
    obtain mid where mid: "events s = before @ Capture_Started a (fst c) # mid" "during = mid @ new"
      using split [OF e] by blast
    note o = old [unfolded capture_ok_def, THEN conjunct2, rule_format, OF mid(1)]
    have "\<not> Blocked (au_gate au') \<and> quiet before a (fst c) during" if z: "changes a during = 0"
    proof
      have oo: "\<not> Blocked (au_gate au)" "quiet before a (fst c) mid" using o z mid(2) by auto
      show "\<not> Blocked (au_gate au')" using au(3) oo z mid(2) by auto
      then have clean: "\<not> exposed (events s)" "\<not> exposed (events s @ new)"
        using not_exposed_open ok oo(1) au(1) au' evs(1) by metis+
      show "quiet before a (fst c) during"
        unfolding quiet_def
      proof (intro allI impI)
        fix k
        show "\<not> exposed (before @ Capture_Started a (fst c) # take k during)"
        proof (cases "k \<le> length mid")
          case True
          then show ?thesis using oo(2) by (simp add: quiet_def mid(2))
        next
          case False
          then have "before @ Capture_Started a (fst c) # take k during = events s @ take (k - length mid) new"
            by (simp add: mid)
          then show ?thesis using clean evs(3) by (auto simp: one_exposure_def)
        qed
      qed
    qed
    then show ?thesis using o by blast
  qed
  moreover have "fst c < next_ctx s'" using old evs(2) by (simp add: capture_ok_def)
  ultimately show ?thesis by (auto simp: capture_ok_def)
qed

lemma capture_ok_new:
  assumes ok: "fill_ok s" "fill_ok s'" and shape: "step_shape s s' new" and cap: "captures_ok s"
    and au': "authority_of s' a = Some au'" and c: "new_capture s new a au' c"
  shows "capture_ok s' a au' c"
proof -
  have n: "new = [Capture_Started a (fst c)]" "fst c = next_ctx s" "\<not> Blocked (au_gate au')"
      "fst (snd c) = of_nat (changes a (events s))"
    using c authority_okD(4) [OF ok(1)] by (auto simp: new_capture_def)
  have evs: "events s' = events s @ new" and lt: "fst c < next_ctx s'"
    using shape n by (auto simp: step_shape_def)
  have fresh: "Capture_Started a (fst c) \<notin> set (events s)" using cap n(2) by (auto simp: captures_ok_def)
  have "before = events s \<and> during = []"
    if "events s' = before @ Capture_Started a (fst c) # during" for before during
  proof -
    have "events s @ [Capture_Started a (fst c)] = before @ Capture_Started a (fst c) # during"
      using that by (simp add: evs n(1))
    then show ?thesis using fresh by (auto simp: append_eq_append_conv2 append_eq_Cons_conv Cons_eq_append_conv)
  qed
  moreover have "quiet (events s) a (fst c) []"
    using not_exposed_open [OF ok(2) au' n(3)] by (simp add: quiet_def evs n(1))
  ultimately show ?thesis
    unfolding capture_ok_def using n(3,4) lt by auto
qed

lemma published_step:
  assumes ok: "fill_ok s" and shape: "step_shape s s' new" and cap: "captures_ok s" and pub: "published_ok s"
  shows "published_ok s'"
  unfolding published_ok_def
proof (intro allI impI)
  fix before a h during v later
  assume len: "length (events s') < 2 ^ 64"
    and e: "events s' = before @ Capture_Started a h # during @ Capture_Ended a h (Observed v) # later"
  have evs: "events s' = events s @ new" using shape by (simp add: step_shape_def)
  show "quiet before a h during"
  proof (cases "Capture_Ended a h (Observed v) \<in> set new")
    case True
    then obtain au started i r where au: "authority_of s a = Some au" "(h, started, i) \<in> set (au_captures au)"
        and new: "new = [Capture_Ended a h r]" and r: "r = Observed v \<Longrightarrow> \<not> Blocked (au_gate au) \<and> started = epoch (au_gate au)"
      using shape unfolding step_shape_def capture_ends_def by blast
    have rv: "r = Observed v" using True new by simp
    have c: "capture_ok s a au (h, started, i)" using cap au by (auto simp: captures_ok_def)
    show ?thesis
    proof (cases "later = []")
      case True
      then have es: "events s = before @ Capture_Started a h # during" using e by (simp add: evs new)
      note o = c [unfolded capture_ok_def, THEN conjunct2, rule_format, of before during, simplified, OF es]
      have "of_nat (changes a before) = (of_nat (changes a before + changes a during) :: 64 word)"
        using o r [OF rv] authority_okD(4) [OF ok au(1)] by (simp add: es)
      moreover have "changes a before + changes a during \<le> length (events s)"
        by (simp add: es changes_def) (metis add_mono le_SucI length_filter_le)
      ultimately have "2 ^ 64 dvd changes a during" and "changes a during < 2 ^ 64"
        using len by (simp_all add: evs word_of_nat_eq_0_iff)
      then have "changes a during = 0" by (metis nat_dvd_not_less neq0_conv)
      then show ?thesis using o by blast
    next
      case False
      then obtain l x where "later = l @ [x]" by (metis rev_exhaust)
      then have "events s = before @ Capture_Started a h # during @ Capture_Ended a h (Observed v) # l"
        using e by (simp add: evs new)
      then show ?thesis using pub len by (auto simp: published_ok_def evs)
    qed
  next
    case False
    have "events s @ new = (before @ Capture_Started a h # during) @ Capture_Ended a h (Observed v) # later"
      using e by (simp add: evs)
    from append_eq_mid [OF this False] obtain cs where
      "events s = (before @ Capture_Started a h # during) @ Capture_Ended a h (Observed v) # cs" by blast
    then show ?thesis using pub len by (auto simp: published_ok_def evs)
  qed
qed

lemma fill_reachable_captures: "fill_reachable b s \<Longrightarrow> captures_ok s \<and> published_ok s"
proof (induction rule: fill_reachable.induct)
  case initial
  show ?case by (simp add: captures_ok_def published_ok_def init_system_def authority_of_def)
next
  case (reached s s')
  obtain new where shape: "step_shape s s' new" using fill_next_shape [OF reached(2)] by blast
  have ok: "fill_ok s" "fill_ok s'" using fill_reachable_ok fill_reachable.reached reached by blast+
  have cap: "captures_ok s" using reached by blast
  have "capture_ok s' a au c" if "authority_of s' a = Some au" "c \<in> set (au_captures au)" for a au c
    using that shape capture_ok_kept [OF ok shape cap] capture_ok_new [OF ok shape cap]
    unfolding step_shape_def by blast
  moreover have "h < next_ctx s'" if "Capture_Started a h \<in> set (events s')" for a h
    using that shape cap by (auto simp: step_shape_def captures_ok_def intro: less_le_trans)
  ultimately show ?case
    using published_step [OF ok(1) shape cap] reached by (auto simp: captures_ok_def)
qed

end
