(* ===== verification/Fill_Theorems.thy ===== *)
theory Fill_Theorems
  imports Fill_Captures
begin

text \<open>
  The properties of protected filling, and a concrete run of the system for their witnesses.
\<close>

section \<open>A run\<close>

definition trial_origin :: origin_url where
  "trial_origin = \<lparr>url_Scheme = ''https'', url_Host = ''a'', url_Path = [], url_RawQuery = [], url_Fragment = [],
     url_has_user = False, url_Opaque = []\<rparr>"

definition trial_browser :: browser_std where
  "trial_browser = \<lparr>parse_url = (\<lambda>_. Some trial_origin), to_lower = id, equal_fold = (=), loopback_ip = (\<lambda>_. False)\<rparr>"

definition trial_fill :: fill_target where
  "trial_fill = \<lparr>ft_Record = ''r'', ft_Context = ''c'', ft_Document = ''d'', ft_Field = ''f'', ft_Submit = ''s'',
     ft_Origin = ''https://a''\<rparr>"

lemma trial_fill_valid: "validTarget trial_browser trial_fill"
  by (simp add: validTarget_def NormalizeOrigin_def trial_browser_def trial_origin_def trial_fill_def)
    code_simp

text \<open>All system calls succeed; the driver and the reader end as given.\<close>

definition trial_step :: "outcome \<Rightarrow> bytes \<Rightarrow> step_env" where
  "trial_step r v = \<lparr>fails = (\<lambda>_. False), ends = r, read_value = v, attempted = True, expired = False\<rparr>"


text \<open>One process, its gate, its operation and its captures.\<close>

definition alone_at :: "(nat \<times> fill_pc) option \<Rightarrow> gate \<Rightarrow> latch_disk \<Rightarrow> (nat \<times> 64 word \<times> 64 word) list \<Rightarrow> nat \<Rightarrow> nat list \<Rightarrow>
    fill_event list \<Rightarrow> fill_system" where
  "alone_at op g d caps n cs evs =
     \<lparr>the_disk = d, authorities = [Some \<lparr>au_gate = g, au_operation = op, au_captures = caps\<rparr>], next_ctx = n,
      cancelled = cs, events = evs\<rparr>"

lemma alone_authority: "authority_of (alone_at op g d caps n cs evs) 0 =
    Some \<lparr>au_gate = g, au_operation = op, au_captures = caps\<rparr>"
  by (simp add: alone_at_def authority_of_def)

lemma alone_open: "fill_reachable trial_browser (alone_at None (new_gate False) \<lparr>latch = False, synced = True\<rparr> [] 0 [] [])"
proof -
  have "OpenGate (\<lambda>_. False) True True (lock_taken init_system) (the_disk init_system) = Inr (new_gate False)"
    by (simp add: OpenGate_def lock_taken_def init_system_def)
  from fill_reachable.reached [OF fill_reachable.initial fill_next.open_gate [OF this]]
  show ?thesis by (simp add: alone_at_def init_system_def new_authority_def)
qed

lemma alone_run:
  assumes "fill_reachable trial_browser (alone_at None g d caps n cs evs)"
  shows "fill_reachable trial_browser (alone_at (Some (n, Run_Bind trial_fill)) g d caps (Suc n) cs evs)"
proof -
  have "Run trial_browser True True (au_operation \<lparr>au_gate = g, au_operation = None, au_captures = caps\<rparr> \<noteq> None) trial_fill =
      Inr (Run_Bind trial_fill)"
    by (simp add: Run_def trial_fill_valid)
  from fill_reachable.reached [OF assms fill_next.run [OF alone_authority this]]
  show ?thesis by (simp add: alone_at_def set_authority_def)
qed

lemma alone_step:
  assumes "fill_reachable trial_browser (alone_at (Some (n, pc)) g d caps m cs evs)"
    and "n \<notin> set cs" and "fill_step (trial_step r v) 0 n g d pc = ((g', d', c), new, pc')"
    and "evs' = evs @ new" and "cs' = c @ cs"
  shows "fill_reachable trial_browser (alone_at (map_option (Pair n) pc') g' d' caps m cs' evs')"
proof -
  have "(trial_step r v)\<lparr>expired := (expired (trial_step r v) \<or> n \<in> set cs)\<rparr> = trial_step r v"
    using assms(2) by (simp add: trial_step_def)
  then have "operate (trial_step r v) 0 \<lparr>au_gate = g, au_operation = Some (n, pc), au_captures = caps\<rparr> n pc
      (alone_at (Some (n, pc)) g d caps m cs evs) = alone_at (map_option (Pair n) pc') g' d' caps m cs' evs'"
    using assms(3-5) by (simp add: operate_def alone_at_def set_authority_def)
  moreover have "fill_next trial_browser (alone_at (Some (n, pc)) g d caps m cs evs)
      (operate (trial_step r v) 0 \<lparr>au_gate = g, au_operation = Some (n, pc), au_captures = caps\<rparr> n pc
        (alone_at (Some (n, pc)) g d caps m cs evs))"
    by (rule fill_next.operates [OF alone_authority]) simp
  ultimately show ?thesis using fill_reachable.reached [OF assms(1)] by simp
qed

definition filling_gate :: "bool \<Rightarrow> 64 word \<Rightarrow> nat option \<Rightarrow> gate" where
  "filling_gate b x c = \<lparr>blocked = b, closed = False, epoch = x, next_id = 0, pending = [], activeCancel = c, lock_held = True\<rparr>"

text \<open>The value has been asked for.\<close>

lemma trial_reading:
  "fill_reachable trial_browser (alone_at (Some (0, Run_Read trial_fill)) (filling_gate True 1 (Some 0))
    \<lparr>latch = True, synced = True\<rparr> [] 1 [] [Began 0, Reading 0])"
proof -
  let ?d = "\<lparr>latch = False, synced = True\<rparr>" and ?d1 = "\<lparr>latch = True, synced = True\<rparr>"
  have "fill_reachable trial_browser (alone_at (Some (0, Run_Begin trial_fill)) (filling_gate False 0 (Some 0)) ?d [] 1 [] [])"
    using alone_step [OF alone_run [OF alone_open]] by (simp add: bindOperation_def new_gate_def filling_gate_def)
  from alone_step [OF this, of Returns "[]"]
  have "fill_reachable trial_browser (alone_at (Some (0, Run_Validate trial_fill)) (filling_gate True 1 (Some 0)) ?d1 [] 1 [] [Began 0])"
    by (simp add: gate_begin_def filling_gate_def trial_step_def latch_written_def Blocked_def)
  from alone_step [OF this, of Returns "[]"] show ?thesis by (simp add: trial_step_def)
qed

definition trial_events :: "fill_event list" where
  "trial_events = [Began 0, Reading 0, Filling 0, Destroyed 0, Resumed 0, Receipt 0 submission_attempted]"

text \<open>The operation is over.\<close>

lemma trial_filled:
  "fill_reachable trial_browser (alone_at None (filling_gate False 2 None) \<lparr>latch = False, synced = True\<rparr> [] 1 [0] trial_events)"
proof -
  let ?g = "filling_gate True 1 (Some 0)" and ?d = "\<lparr>latch = True, synced = True\<rparr>"
  have "usable_value (trial_step Returns ''x'')" by (simp add: usable_value_def trial_step_def)
  with alone_step [OF trial_reading, of Returns "''x''"]
  have "fill_reachable trial_browser (alone_at (Some (0, Run_Fill trial_fill ''x'')) ?g ?d [] 1 [] [Began 0, Reading 0, Filling 0])"
    by (simp add: trial_step_def)
  from alone_step [OF this, of Returns "[]"]
  have "fill_reachable trial_browser (alone_at (Some (0, Run_Destroy trial_fill submission_attempted)) ?g ?d [] 1 [] [Began 0, Reading 0, Filling 0])"
    by (simp add: trial_step_def)
  from alone_step [OF this, of Returns "[]"]
  have "fill_reachable trial_browser (alone_at (Some (0, Run_Resume submission_attempted)) ?g ?d [] 1 [] [Began 0, Reading 0, Filling 0, Destroyed 0])"
    by (simp add: trial_step_def)
  from alone_step [OF this, of Returns "[]"]
  have "fill_reachable trial_browser (alone_at (Some (0, Run_Unbind submission_attempted)) (filling_gate False 2 (Some 0))
      \<lparr>latch = False, synced = True\<rparr> [] 1 [] [Began 0, Reading 0, Filling 0, Destroyed 0, Resumed 0])"
    by (simp add: trial_step_def gate_resume_def filling_gate_def)
  from alone_step [OF this, of Returns "[]"]
  show ?thesis by (simp add: unbindOperation_def filling_gate_def trial_events_def)
qed

text \<open>A later capture is published.\<close>

lemma trial_published:
  "\<exists>s. fill_reachable trial_browser s \<and>
    events s = trial_events @ Capture_Started 0 1 # [] @ Capture_Ended 0 1 (Observed ''y'') # []"
proof -
  let ?d = "\<lparr>latch = False, synced = True\<rparr>" and ?g = "filling_gate False 2 None"
  let ?g1 = "?g\<lparr>next_id := 1, pending := [(1, 1)]\<rparr>"
  have "Observe_begin (au_gate \<lparr>au_gate = ?g, au_operation = None, au_captures = []\<rparr>)
      (next_ctx (alone_at None ?g ?d [] 1 [0] trial_events)) = Some (2, 1, ?g1)"
    by (simp add: Observe_begin_def filling_gate_def alone_at_def)
  from fill_reachable.reached [OF trial_filled fill_next.capture [OF alone_authority this]]
  have start: "fill_reachable trial_browser (alone_at None ?g1 ?d [(1, 2, 1)] 2 [0] (trial_events @ [Capture_Started 0 1]))"
    by (simp add: alone_at_def set_authority_def numeral_2_eq_2)
  have "Observe_end (au_gate \<lparr>au_gate = ?g1, au_operation = None, au_captures = [(1, 2, 1)]\<rparr>) 2 1 ''y'' False
      (False \<or> 1 \<in> set (cancelled (alone_at None ?g1 ?d [(1, 2, 1)] 2 [0] (trial_events @ [Capture_Started 0 1])))) =
      (?g\<lparr>next_id := 1, pending := []\<rparr>, Observed ''y'', ''y'')"
    by (simp add: Observe_end_def filling_gate_def alone_at_def)
  from fill_reachable.reached [OF start fill_next.captured [OF alone_authority _ this]]
  show ?thesis by (intro exI conjI) (auto simp: alone_at_def set_authority_def)
qed

section \<open>Observations and values\<close>

text \<open>C31. What is published has not seen the value. In every interleaving of captures, protected
  operations, closing, crashes, losses of power and restarts, while a capture that is published in
  the end was running, the value was at no time decrypted or in a browser context: neither at its
  start nor after any later step. (The epoch is a 64-bit counter; the system has made fewer than
  \<open>2 ^ 64\<close> recorded steps.)\<close>

theorem published_capture_clean:
  assumes "fill_reachable b s" and "length (events s) < 2 ^ 64"
    and "events s = before @ Capture_Started a h # during @ Capture_Ended a h (Observed v) # later"
  shows "\<forall>k \<le> length during. \<not> exposed (before @ Capture_Started a h # take k during)"
  using fill_reachable_captures [OF assms(1)] assms(2,3) unfolding published_ok_def quiet_def by blast

theorem published_capture_clean_witness:
  "\<exists>s. fill_reachable trial_browser s \<and> Reading 0 \<in> set (events s) \<and> Capture_Ended 0 1 (Observed ''y'') \<in> set (events s) \<and>
    \<not> exposed (trial_events @ [Capture_Started 0 1])"
proof -
  obtain s where s: "fill_reachable trial_browser s"
      "events s = trial_events @ Capture_Started 0 1 # [] @ Capture_Ended 0 1 (Observed ''y'') # []"
    using trial_published by blast
  then have "length (events s) < 2 ^ 64" by (simp add: trial_events_def)
  from published_capture_clean [OF s(1) this s(2)] show ?thesis
    using s by (intro exI [of _ s]) (auto simp: trial_events_def)
qed

text \<open>C33. A value is out only behind a latch that survives. While a value is decrypted or in a browser
  context the latch file is there and on stable storage, no process can begin a capture, a gate
  opened later is blocked even after a loss of power, and at most one process is in a protected
  operation.\<close>

theorem secret_behind_latch:
  assumes "fill_reachable b s" and "exposed (events s)"
  shows "latch (the_disk s) \<and> synced (the_disk s) \<and>
    (\<forall>a au ctx. authority_of s a = Some au \<longrightarrow> Observe_begin (au_gate au) ctx = None) \<and>
    (\<forall>fs absolute owned taken x g. OpenGate fs absolute owned taken (survives (the_disk s) x) = Inr g \<longrightarrow> Blocked g) \<and>
    (\<forall>a1 a2 u1 u2 c1 c2 p1 p2. authority_of s a1 = Some u1 \<longrightarrow> authority_of s a2 = Some u2 \<longrightarrow>
       au_operation u1 = Some (c1, p1) \<longrightarrow> au_operation u2 = Some (c2, p2) \<longrightarrow> begun p1 \<longrightarrow> begun p2 \<longrightarrow> a1 = a2)"
proof -
  have ok: "fill_ok s" by (rule fill_reachable_ok [OF assms(1)])
  have d: "latch (the_disk s)" "synced (the_disk s)"
    using ok assms(2) by (auto simp: fill_ok_def latch_durable_def)
  have "Observe_begin (au_gate au) ctx = None" if "authority_of s a = Some au" for a au ctx
    using authority_okD(2) [OF ok that] assms(2) by (auto simp: Observe_begin_def Blocked_def)
  moreover have "Blocked g" if "OpenGate fs absolute owned taken (survives (the_disk s) x) = Inr g"
    for fs absolute owned taken x g
    using OpenGate_Inr [OF that] d by (simp add: survives_def new_gate_def Blocked_def)
  moreover have held: "lock_held (au_gate u)" if "authority_of s a = Some u" "au_operation u = Some (c, p)" "begun p" for a u c p
    using authority_okD(3) [OF ok that(1)] that(2,3) by (simp add: operation_ok_def)
  have one: "one_lock s" using ok by (simp add: fill_ok_def)
  have "a1 = a2" if "authority_of s a1 = Some u1" "authority_of s a2 = Some u2"
      "au_operation u1 = Some (c1, p1)" "au_operation u2 = Some (c2, p2)" "begun p1" "begun p2" for a1 a2 u1 u2 c1 c2 p1 p2
    using one [unfolded one_lock_def, rule_format, OF that(1,2)] held [OF that(1,3,5)] held [OF that(2,4,6)] by simp
  ultimately show ?thesis using d by metis
qed

theorem secret_behind_latch_witness:
  "\<exists>s au. fill_reachable trial_browser s \<and> exposed (events s) \<and> authority_of s 0 = Some au \<and> Observe_begin (au_gate au) 7 = None"
proof -
  let ?s = "alone_at (Some (0, Run_Read trial_fill)) (filling_gate True 1 (Some 0)) \<lparr>latch = True, synced = True\<rparr>
    [] 1 [] [Began 0, Reading 0]"
  have out: "exposed (events ?s)" by (simp add: alone_at_def exposed_def)
  note shut = secret_behind_latch [OF trial_reading out, THEN conjunct2, THEN conjunct2, THEN conjunct1, rule_format]
  show ?thesis
    by (intro exI conjI) (rule trial_reading, rule out, rule alone_authority, rule shut, rule alone_authority)
qed

section \<open>A gate that stays shut\<close>

text \<open>
  When the latch file could not be created, the gate of the process is blocked without it, and no
  recovery opens it again: \<^verbatim>\<open>resume\<close> wants to remove the file.
\<close>

lemma shut_without_latch:
  assumes "gate_begin fs g d = ((g', d', cs), ok)" and "fs Open_Latch" and "\<not> Blocked g" and "\<not> latch d"
  shows "\<not> ok \<and> blocked g' \<and> \<not> latch d' \<and> (\<forall>fs'. gate_resume fs' g' d' = ((g', d'), False))"
  using assms by (auto simp: gate_begin_def gate_resume_def Blocked_def)

end
