(* ===== verification/Spec2Isabelle.thy ===== *)
theory Spec2Isabelle
  imports Server_Theorems Wire_Theorems Rollout_Theorems Rollout_Liveness Plan_Theorems Contract_Theorems Vault_Theorems Lifecycle_Theorems Fill_Theorems
begin

text \<open>
  \<^bold>\<open>EnvBank: a verification development.\<close>

  EnvBank keeps the environment secrets of a project in an end-to-end encrypted vault. Devices
  talk to a small synchronisation service over signed requests; a rollout engine on a device
  reads secrets from the vault and writes them to a hosting provider, after a human has
  confirmed a plan. The development models the Go code of these parts.

  \<^bold>\<open>Parts of the program and how they interact.\<close>

  \<^item> The \<^emph>\<open>wire protocol\<close> (\<^verbatim>\<open>internal/protocol\<close>) fixes what a device signs and which timestamps
    and nonces are acceptable; \<^verbatim>\<open>internal/secure\<close> holds encodings, keys and sealing.
  \<^item> The \<^emph>\<open>sync service\<close> (\<^verbatim>\<open>internal/server\<close>) authenticates requests against its SQLite
    database and stores opaque records and objects under optimistic revisions; it pairs new
    devices by enrollments and invitations and keeps a bounded log of access events.
  \<^item> The \<^emph>\<open>client's objects\<close> (\<^verbatim>\<open>internal/client/objects.go\<close>, \<^verbatim>\<open>internal/vaultobject\<close>) encrypt typed
    payloads under opaque identifiers and put them into the service.
  \<^item> A \<^emph>\<open>bundle contract\<close> (\<^verbatim>\<open>internal/contract\<close>) is the public manifest that says which records a
    project has, how some are derived from others, and where they go; a \<^emph>\<open>bundle snapshot\<close>
    (\<^verbatim>\<open>internal/bundle\<close>) fixes the revisions of the records of one manifest.
  \<^item> The \<^emph>\<open>rollout engine\<close> (\<^verbatim>\<open>internal/rollout\<close>) turns a snapshot into a plan of provider writes,
    asks for confirmations, and applies or resumes it step by step over an adapter
    (\<^verbatim>\<open>internal/provider\<close>), saving its operation in the vault before and after every write.
  \<^item> The \<^emph>\<open>life cycle\<close> (\<^verbatim>\<open>internal/lifecycle\<close>) rotates a credential: an operation moves through
    states under a signed automation policy, deploys the new value to several targets, records
    signed evidence, and may revoke the old credential at the end; workers compete for a
    lease. Policies, operations, evidence and leases are encrypted objects of the vault.

  \<^bold>\<open>Theories and the code they model.\<close>

  \<^item> \<open>Envbank_Prelude\<close>: Go's 64-bit integers, tables as lists of rows, the collections
    \<open>table_simps\<close>, \<open>wp_rules\<close>, \<open>wp_iota\<close> and \<open>run_rules\<close>. \<open>Go_Text\<close>, \<open>Go_Strings\<close>, \<open>Go_Base64\<close>,
    \<open>Go_Time\<close>, \<open>Go_Json\<close>: the functions of Go's standard library the sources call, on byte
    lists and integers.
  \<^item> \<open>Protocol\<close>, \<open>Secure_Keys\<close>: \<^verbatim>\<open>protocol.go\<close> and the part of \<^verbatim>\<open>secure.go\<close> the service runs.
  \<^item> \<open>Sql_Tx\<close>: a handler as a program of a state monad over a durable database, the view of the
    open transaction and a step counter; its weakest preconditions. \<open>Server_Db\<close>: the tables and one
    function per SQL statement. \<open>Server_Http\<close>: requests and responses. \<open>Server_Auth\<close>,
    \<open>Server_Events\<close>, \<open>Server_Handlers\<close>, \<open>Server_Invitations\<close>: the handlers of \<^verbatim>\<open>server.go\<close>,
    \<^verbatim>\<open>events.go\<close> and \<^verbatim>\<open>invitations.go\<close>, and \<^verbatim>\<open>ServeHTTP\<close>, which dispatches to them.
  \<^item> \<open>Server_Effects\<close>: the locales \<open>service_effects\<close> and \<open>service_run\<close>, the interface between the
    handlers and every statement about what the database can become. \<open>Server_Runs\<close> proves once
    that a run of any handler is made of these effects; \<open>Server_Invariant\<close>, \<open>Server_History\<close> and
    \<open>Server_Replay\<close> interpret the locale on the model with the invariant, the order of
    histories and the persistence of nonces. \<open>Server_Steps\<close> is the step relation of the service.
  \<^item> \<open>Provider\<close>, \<open>Rollout_Plan\<close>, \<open>Rollout_State\<close>, \<open>Bundle_Snapshot\<close>: \<^verbatim>\<open>provider.go\<close>, \<^verbatim>\<open>plan.go\<close>,
    \<^verbatim>\<open>state.go\<close>, \<^verbatim>\<open>snapshot.go\<close> with \<^verbatim>\<open>PhysicalName\<close>. \<open>Rollout_Store\<close>: \<^verbatim>\<open>store.go\<close> and the world
    of a rollout. \<open>Rollout_Engine\<close>, \<open>Rollout_Advance\<close>: \<^verbatim>\<open>engine.go\<close>.
  \<^item> \<open>Rollout_Effects\<close>: the locale \<open>rollout_effects\<close>, what a run of the engine can do to the vault
    and the provider and what is established before; \<open>Rollout_Runs\<close> proves that every run
    consists of it; \<open>Rollout_Invariant\<close> interprets it with the invariant of vault and history.
  \<^item> \<open>Contract_Types\<close>, \<open>Contract_Template\<close>, \<open>Contract_Derive\<close>, \<open>Contract_Manifest\<close>:
    \<^verbatim>\<open>manifest.go\<close>, \<^verbatim>\<open>lifecycle.go\<close>, \<^verbatim>\<open>template.go\<close>; \<open>Contract_Checks\<close>: what their checks establish.
  \<^item> \<open>Vault_Object\<close>, \<open>Vault_Store\<close>: \<^verbatim>\<open>object.go\<close> and \<^verbatim>\<open>objects.go\<close>, and the locale
    \<open>object_service\<close>, interpreted on the server's table.
  \<^item> \<open>Rollout_Reliable\<close>, \<open>Rollout_Liveness\<close>: what holds from the moment requests are answered again.
  \<^item> \<open>Go_Rfc3339\<close>: \<^verbatim>\<open>time.Parse\<close> with the layout \<^verbatim>\<open>RFC3339\<close> on every input. \<open>Lifecycle_State\<close>,
    \<open>Lifecycle_Policy\<close>, \<open>Lifecycle_Evidence\<close>, \<open>Lifecycle_Deploy\<close>, \<open>Lifecycle_Store\<close>: \<^verbatim>\<open>state.go\<close> and
    \<^verbatim>\<open>operation.go\<close>, \<^verbatim>\<open>policy.go\<close>, \<^verbatim>\<open>deployment.go\<close> with the deployment part of \<^verbatim>\<open>secret.go\<close>,
    and \<^verbatim>\<open>store.go\<close> of the life cycle.
  \<^item> \<open>Server_Demo\<close>, \<open>Rollout_Demo\<close> and \<open>Lifecycle_Demo\<close> hold concrete runs for the witnesses.
\<close>

text \<open>
  \<^bold>\<open>The outside of the program.\<close>

  Handlers and engine runs are functions of an environment that is indexed by a step counter.
  For the service it says which SQL statement, commit or body read fails (\<open>fault\<close>), what the
  clock and the random source give, and how the JSON decoder reads a body; for the engine, which
  request to the vault fails, which reply is lost although the write happened, what the
  confirmation callback and the adapter answer. Theorems hold for every environment unless they
  name a hypothesis, so they cover every placement of failures. The stores of the life cycle have
  other devices that change the vault between any two requests (\<open>other_devices\<close>). Cryptographic primitives, the
  SHA-256 function and the pieces of Go's library in \<open>go_std\<close> (\<^verbatim>\<open>url.Parse\<close>,
  \<^verbatim>\<open>time.ParseDuration\<close>, \<^verbatim>\<open>strings.ToUpper\<close> and \<^verbatim>\<open>%q\<close>) are parameters of the same kind.

  A handler's transaction is atomic because the source opens it with \<^verbatim>\<open>_txlock=immediate\<close> and
  defers its rollback; requests are therefore taken one after the other. The engine holds the
  lock of its vault during a run, so its runs are taken one after the other, too.

  \<^bold>\<open>What the groups of theorems show.\<close>

  \<^item> \<open>Server_Theorems\<close> (C1--C9): the invariant of every reachable database; a request answered
    with 500 changed nothing; what is stored is kept; what authentication means, that a
    request is not accepted twice, and that revocation is final; what success means for a
    record update and for an invitation, and that no update is lost.
  \<^item> \<open>Wire_Theorems\<close> (C10--C12, C14, C16): the signed message, the timestamp window and where it
    fails open, paging, and the bounds of the event log.
  \<^item> \<open>Contract_Theorems\<close> (C13, C34--C38): rotation policies, the inspected YAML tree, templates,
    the order of derivations, termination of the validation, and what it guarantees.
  \<^item> \<open>Rollout_Theorems\<close> (C18--C24): the vault of a rollout, the checkpoint before every write, that
    committed work is not written again and nothing unconfirmed is written, what a run without
    an error has proven, and how unproven outcomes stop it or, for batches, do not.
  \<^item> \<open>Rollout_Liveness\<close> (C40): an interrupted rollout is finished by one \<^verbatim>\<open>Resume\<close> against a reliable
    vault and provider.
  \<^item> \<open>Plan_Theorems\<close> (C25--C27, C31, C33): digests, valid plans, new operations, sanitised errors,
    snapshots; and, as lemmas, the comparison and order of actions and final operations.
  \<^item> \<open>Lifecycle_Theorems\<close> (C15, C17, C28--C30, C32): evidence that is made verifies, and a chain is
    bound by its last digest; the calls of a deployment; what holds before a revocation; when
    the lease excludes other workers, and how a release in between breaks it.
  \<^item> \<open>Vault_Theorems\<close> (C39): \<^verbatim>\<open>PutObject\<close> over the server's table refines the optimistic store of
    plain payloads. The puts of \<open>Rollout_Store\<close> are instances of that store
    (\<open>put_operation_optimistic\<close>, \<open>put_plan_optimistic\<close>).

  \<^bold>\<open>Recursion, bounds, and representation.\<close>

  Loops over slices are structural recursions. \<open>parse_from\<close> descends on the rest of the text.
  The depth-first search \<open>visit\<close> is a \<^verbatim>\<open>partial_function\<close>; C36 and C37 show that it always
  returns. There is no fuel. Revisions are \<open>int\<close> with the wrap-around of \<^verbatim>\<open>int64\<close> written out
  (\<open>i64\<close>), durations saturate as \<^verbatim>\<open>time.Duration\<close> does. Strings and byte slices are lists of
  8-bit characters. A Go map is the list of its entries in the order of one iteration; where an
  order matters the source sorts, and so does the model. Times the program only accepts in
  canonical RFC 3339 form are parsed in that form only: both \<^verbatim>\<open>ValidateTimestamp\<close> and
  \<^verbatim>\<open>Plan.Validate\<close> refuse every other.

  In \<open>Rollout_Advance\<close>, \<open>verify_request_of\<close> has a branch for an action without evidence, where
  the source would dereference nil: an action that is committed always has evidence, which the
  validation before every save and after every load enforces.

  \<^bold>\<open>Not modelled.\<close>

  Decoding of JSON bodies and of YAML text, the canonical JSON of a parsed manifest, the rendering
  of \<^verbatim>\<open>%q\<close>, and the formatting and wiping of secret bytes: they belong to Go's library or have no
  counterpart in a functional model. Key generation, HPKE wrapping and AES-GCM: Go's crypto
  packages. The adapters of Railway, Cloudflare and Stripe: HTTP clients, seen by the engine
  through the interface modelled here. The callbacks that hand
  secret bytes of a rotation over and wipe them. Preparation of bundles, recovery artifacts, the
  agent broker, the native-messaging host, owner input, key chain, MCP server,
  command line and test laboratories: no definitions yet. Opening the
  database file and upgrading an older schema: the model starts from the current schema. The
  Cloudflare worker, the browser extension and the web site are not Go code.
\<close>

end
